(* ===== verification/Go_Base.thy ===== *)
theory Go_Base
  imports Main "HOL-Library.Word" "HOL-Library.Sublist"
begin

text \<open>
  The shared prelude: the pieces of Go and of its standard library that the tracker backend is
  written in.  A \<^verbatim>\<open>byte\<close> is an \<^verbatim>\<open>8 word\<close>, a byte slice a list of bytes, and a Go string (a
  sequence of bytes, not of code points) an Isabelle \<^verbatim>\<open>string\<close>, whose characters are bytes too.
  The theory defines the functions of \<^verbatim>\<open>strings\<close>, \<^verbatim>\<open>strconv\<close>, \<^verbatim>\<open>encoding/binary\<close>, \<^verbatim>\<open>encoding/hex\<close>
  and \<^verbatim>\<open>fmt\<close> that the packages call, the regular expressions they compile, and the lemmas on
  them that every component shares.

  Two library functions depend on the Unicode tables.  \<open>trim_space\<close> is exact: it knows the
  UTF-8 encodings of all white space code points.  \<open>to_upper\<close> and \<open>to_lower\<close> map ASCII
  letters and the four non-ASCII letters whose mapping is an ASCII letter, and leave other bytes
  as they are; so a comparison of their result with an ASCII literal is exact.
\<close>

unbundle bit_operations_syntax

named_theorems go_str \<open>facts about the Go string functions on plain text\<close>
named_theorems bytes_simps \<open>big-endian encoding and decoding\<close>

section \<open>Results\<close>

text \<open>A Go function that returns a value and an error returns \<open>Inr\<close> of the value or \<open>Inl\<close> of
  the error; \<open>and_then\<close> is the early return on an error.\<close>

definition and_then :: "'e + 'a \<Rightarrow> ('a \<Rightarrow> 'e + 'b) \<Rightarrow> 'e + 'b" where
  "and_then r f = (case r of Inl e \<Rightarrow> Inl e | Inr x \<Rightarrow> f x)"

definition guard_err :: "bool \<Rightarrow> 'e \<Rightarrow> 'e + unit" where
  "guard_err bad e = (if bad then Inl e else Inr ())"

lemma and_then_simps [simp]: "and_then (Inl e) f = Inl e" "and_then (Inr x) f = f x"
  by (simp_all add: and_then_def)

lemma and_then_Inr: "and_then r f = Inr y \<longleftrightarrow> (\<exists>x. r = Inr x \<and> f x = Inr y)"
  by (cases r) auto

lemma if_Inl_Inr [simp]: "(if bad then Inl e else r) = Inr y \<longleftrightarrow> \<not> bad \<and> r = Inr y"
  by simp

lemma guard_err_Inr [simp]: "guard_err bad e = Inr u \<longleftrightarrow> \<not> bad"
  by (simp add: guard_err_def)

lemma guard_err_False [simp]: "guard_err False e = Inr ()"
  by (simp add: guard_err_def)

text \<open>Go's integer division truncates toward zero.\<close>

definition int_quot :: "int \<Rightarrow> int \<Rightarrow> int" where
  "int_quot a b = sgn a * sgn b * (\<bar>a\<bar> div \<bar>b\<bar>)"

lemma int_quot_nonneg [simp]: "0 \<le> a \<Longrightarrow> 0 < b \<Longrightarrow> int_quot a b = a div b"
  by (cases "a = 0") (simp_all add: int_quot_def)

section \<open>Bytes and strings\<close>

type_synonym byte = "8 word"
type_synonym bytes = "byte list"

text \<open>A \<^verbatim>\<open>uuid.UUID\<close>; the zero value is 0.\<close>

type_synonym uuid = nat

definition str_of_bytes :: "bytes \<Rightarrow> string" where
  "str_of_bytes bs = map (\<lambda>b. char_of (unat b)) bs"

definition bytes_of_str :: "string \<Rightarrow> bytes" where
  "bytes_of_str s = map (\<lambda>c. word_of_nat (of_char c)) s"

lemma length_str_of_bytes [simp]: "length (str_of_bytes bs) = length bs"
  by (simp add: str_of_bytes_def)

lemma length_bytes_of_str [simp]: "length (bytes_of_str s) = length s"
  by (simp add: bytes_of_str_def)

lemma str_of_bytes_append [simp]: "str_of_bytes (xs @ ys) = str_of_bytes xs @ str_of_bytes ys"
  by (simp add: str_of_bytes_def)

lemma bytes_of_str_append [simp]: "bytes_of_str (xs @ ys) = bytes_of_str xs @ bytes_of_str ys"
  by (simp add: bytes_of_str_def)

lemma of_char_less_256 [simp]: "(of_char c :: nat) < 256"
  by (metis of_char_mod_256 mod_less_divisor zero_less_numeral)

lemma unat_of_char [simp]: "unat (word_of_nat (of_char c) :: byte) = of_char c"
  by (simp add: unat_of_nat take_bit_eq_mod)

lemma str_of_bytes_of_str [simp]: "str_of_bytes (bytes_of_str s) = s"
  by (induction s) (simp_all add: str_of_bytes_def bytes_of_str_def)

lemma unat_byte_less [simp]: "unat (b :: byte) < 256"
  using unsigned_less[of b, where 'a = nat] by simp

lemma bytes_of_str_of_bytes [simp]: "bytes_of_str (str_of_bytes bs) = bs"
proof -
  have "word_of_nat (of_char (char_of (unat b) :: char)) = b" for b :: byte
    by (simp add: of_char_of del: of_char_mod_256)
  then show ?thesis
    by (simp add: str_of_bytes_def bytes_of_str_def map_idI)
qed

lemma byte_of_char_inject [simp]:
  "(word_of_nat (of_char c) :: byte) = word_of_nat (of_char d) \<longleftrightarrow> c = d"
  by (metis char_of_char unat_of_char)

lemma bytes_of_str_inject [simp]: "bytes_of_str s = bytes_of_str t \<longleftrightarrow> s = t"
  by (metis str_of_bytes_of_str)

lemma bytes_of_str_Nil [simp]: "bytes_of_str [] = []"
  by (simp add: bytes_of_str_def)

lemma bytes_of_str_eq_Nil [simp]: "bytes_of_str s = [] \<longleftrightarrow> s = []"
  by (simp add: bytes_of_str_def)

lemma str_of_bytes_Nil [simp]: "str_of_bytes [] = []"
  by (simp add: str_of_bytes_def)

text \<open>The position of the first element that satisfies a predicate; the Go code returns -1
  where the model returns \<open>None\<close>.\<close>

fun index_where :: "('a \<Rightarrow> bool) \<Rightarrow> 'a list \<Rightarrow> nat option" where
  "index_where P [] = None"
| "index_where P (x # xs) = (if P x then Some 0 else map_option Suc (index_where P xs))"

lemma index_where_None: "index_where P xs = None \<longleftrightarrow> (\<forall>x \<in> set xs. \<not> P x)"
  by (induction xs) auto

lemma index_where_Some:
  "index_where P xs = Some i \<longleftrightarrow> i < length xs \<and> P (xs ! i) \<and> (\<forall>j < i. \<not> P (xs ! j))"
proof (induction xs arbitrary: i)
  case Nil
  then show ?case by simp
next
  case (Cons x xs)
  then show ?case
    by (cases i) (auto simp: nth_Cons' less_Suc_eq_0_disj split: if_splits)
qed

lemma index_where_append_Some:
  "index_where P xs = Some i \<Longrightarrow> index_where P (xs @ ys) = Some i"
  by (induction xs arbitrary: i) (auto split: if_splits)

lemma index_where_less: "index_where P xs = Some i \<Longrightarrow> i < length xs"
  by (simp add: index_where_Some)

lemma index_where_append_None:
  "index_where P xs = None \<Longrightarrow>
   index_where P (xs @ ys) = map_option (\<lambda>i. length xs + i) (index_where P ys)"
  by (induction xs) (cases "index_where P ys"; auto split: if_splits)+

text \<open>Searching a byte in the bytes of a string.\<close>

lemma index_where_bytes:
  "index_where (\<lambda>b. b = word_of_nat (of_char c)) (bytes_of_str s) = index_where (\<lambda>x. x = c) s"
  by (induction s) (simp_all add: bytes_of_str_def)

lemma index_where_hit: "c \<notin> set s \<Longrightarrow> index_where (\<lambda>x. x = c) (s @ c # t) = Some (length s)"
  by (induction s) auto

section \<open>Big-endian integers\<close>

definition be16 :: "16 word \<Rightarrow> bytes" where
  "be16 w = [ucast (drop_bit 8 w), ucast w]"

definition be32 :: "32 word \<Rightarrow> bytes" where
  "be32 w = [ucast (drop_bit 24 w), ucast (drop_bit 16 w), ucast (drop_bit 8 w), ucast w]"

definition uint16_be :: "byte \<Rightarrow> byte \<Rightarrow> 16 word" where
  "uint16_be a b = push_bit 8 (ucast a) OR ucast b"

definition uint32_be :: "byte \<Rightarrow> byte \<Rightarrow> byte \<Rightarrow> byte \<Rightarrow> 32 word" where
  "uint32_be a b c d =
     push_bit 24 (ucast a) OR push_bit 16 (ucast b) OR push_bit 8 (ucast c) OR ucast d"

text \<open>The value \<^verbatim>\<open>binary.BigEndian.Uint64\<close> reads from eight bytes, as a number.\<close>

definition uint_be :: "bytes \<Rightarrow> nat" where
  "uint_be bs = foldl (\<lambda>n b. n * 256 + unat b) 0 bs"

lemma ucast_ucast_byte16 [simp]: "ucast (ucast (b :: byte) :: 16 word) = b"
  by (rule bit_word_eqI) (auto simp: bit_simps)

lemma length_be16 [simp]: "length (be16 w) = 2"
  by (simp add: be16_def)

lemma length_be32 [simp]: "length (be32 w) = 4"
  by (simp add: be32_def)

lemma uint16_be_be16 [bytes_simps]: "uint16_be (ucast (drop_bit 8 w)) (ucast w) = w"
  unfolding uint16_be_def
  by (rule bit_word_eqI) (auto simp: bit_simps not_less le_Suc_eq)

lemma uint16_be_inject: "uint16_be a b = uint16_be c d \<longleftrightarrow> a = c \<and> b = d"
proof
  assume e: "uint16_be a b = uint16_be c d"
  have hi: "ucast (drop_bit 8 (uint16_be x y)) = x" for x y :: byte
    unfolding uint16_be_def by (rule bit_word_eqI) (auto simp: bit_simps dest: bit_imp_le_length)
  have lo: "ucast (uint16_be x y) = y" for x y :: byte
    unfolding uint16_be_def by (rule bit_word_eqI) (auto simp: bit_simps)
  show "a = c \<and> b = d"
    using hi[of a b] hi[of c d] lo[of a b] lo[of c d] e by simp
qed simp

lemma uint32_be_be32 [bytes_simps]:
  "uint32_be (ucast (drop_bit 24 w)) (ucast (drop_bit 16 w)) (ucast (drop_bit 8 w)) (ucast w) = w"
proof (rule bit_word_eqI)
  fix n assume n: "n < LENGTH(32)"
  consider "n < 8" | "8 \<le> n" "n < 16" | "16 \<le> n" "n < 24" | "24 \<le> n" "n < 32"
    using n by fastforce
  then show "bit (uint32_be (ucast (drop_bit 24 w)) (ucast (drop_bit 16 w))
      (ucast (drop_bit 8 w)) (ucast w)) n = bit w n"
    unfolding uint32_be_def by cases (auto simp: bit_simps)
qed

section \<open>The strings package\<close>

text \<open>The UTF-8 encodings of the code points that \<^verbatim>\<open>unicode.IsSpace\<close> accepts.\<close>

definition space_seqs :: "string list" where
  "space_seqs = map (map char_of)
     [[9], [10], [11], [12], [13], [32::nat],
      [0xC2, 0x85], [0xC2, 0xA0], [0xE1, 0x9A, 0x80],
      [0xE2, 0x80, 0x80], [0xE2, 0x80, 0x81], [0xE2, 0x80, 0x82], [0xE2, 0x80, 0x83],
      [0xE2, 0x80, 0x84], [0xE2, 0x80, 0x85], [0xE2, 0x80, 0x86], [0xE2, 0x80, 0x87],
      [0xE2, 0x80, 0x88], [0xE2, 0x80, 0x89], [0xE2, 0x80, 0x8A],
      [0xE2, 0x80, 0xA8], [0xE2, 0x80, 0xA9], [0xE2, 0x80, 0xAF],
      [0xE2, 0x81, 0x9F], [0xE3, 0x80, 0x80]]"

text \<open>Printable ASCII other than the space.\<close>

definition plain :: "char \<Rightarrow> bool" where
  "plain c \<longleftrightarrow> 0x20 < (of_char c :: nat) \<and> (of_char c :: nat) < 0x7F"

lemma space_seqs_nonempty: "p \<in> set space_seqs \<Longrightarrow> 0 < length p"
  by (auto simp: space_seqs_def)

lemma space_seqs_not_plain: "p \<in> set space_seqs \<Longrightarrow> \<not> plain (hd p) \<and> \<not> plain (last p)"
  by (auto simp: space_seqs_def plain_def of_char_of)

definition space_prefix :: "string \<Rightarrow> string option" where
  "space_prefix s = find (\<lambda>p. take (length p) s = p) space_seqs"

definition space_suffix :: "string \<Rightarrow> string option" where
  "space_suffix s =
     find (\<lambda>p. length p \<le> length s \<and> drop (length s - length p) s = p) space_seqs"

lemma space_prefix_Some: "space_prefix s = Some p \<Longrightarrow> 0 < length p \<and> length p \<le> length s"
  by (auto simp: space_prefix_def find_Some_iff dest!: nth_mem dest: space_seqs_nonempty)
     (metis length_take min.absorb_iff2 min.commute)+

lemma space_suffix_Some: "space_suffix s = Some p \<Longrightarrow> 0 < length p \<and> length p \<le> length s"
  by (auto simp: space_suffix_def find_Some_iff dest!: nth_mem dest: space_seqs_nonempty)

lemma diff_length_less: "p \<noteq> [] \<Longrightarrow> length p \<le> length s \<Longrightarrow> length s - length p < length s"
  by (cases p) auto

function trim_left :: "string \<Rightarrow> string" where
  "trim_left s = (case space_prefix s of None \<Rightarrow> s | Some p \<Rightarrow> trim_left (drop (length p) s))"
  by pat_completeness auto
termination
  by (relation "measure length") (auto dest!: space_prefix_Some intro: diff_length_less)

function trim_right :: "string \<Rightarrow> string" where
  "trim_right s =
     (case space_suffix s of None \<Rightarrow> s | Some p \<Rightarrow> trim_right (take (length s - length p) s))"
  by pat_completeness auto
termination
  by (relation "measure length") (auto dest!: space_suffix_Some intro: diff_length_less)

declare trim_left.simps [simp del] trim_right.simps [simp del]

definition trim_space :: "string \<Rightarrow> string" where
  "trim_space s = trim_right (trim_left s)"

lemma trim_left_Nil [simp]: "trim_left [] = []"
  by (subst trim_left.simps) (auto split: option.splits dest: space_prefix_Some)

lemma trim_right_Nil [simp]: "trim_right [] = []"
  by (subst trim_right.simps) (auto split: option.splits dest: space_suffix_Some)

lemma trim_space_Nil [simp]: "trim_space [] = []"
  by (simp add: trim_space_def)

lemma trim_left_plain:
  assumes "s \<noteq> []" and "plain (hd s)"
  shows "trim_left s = s"
proof -
  have "space_prefix s = None"
    unfolding space_prefix_def find_None_iff
  proof (rule notI, elim exE conjE)
    fix p assume p: "p \<in> set space_seqs" and "take (length p) s = p"
    then have "hd p = hd s"
      using space_seqs_nonempty[OF p] by (metis hd_take)
    then show False using space_seqs_not_plain[OF p] assms(2) by simp
  qed
  then show ?thesis by (subst trim_left.simps) simp
qed

lemma trim_right_plain:
  assumes "s \<noteq> []" and "plain (last s)"
  shows "trim_right s = s"
proof -
  have "space_suffix s = None"
    unfolding space_suffix_def find_None_iff
  proof (rule notI, elim exE conjE)
    fix p assume p: "p \<in> set space_seqs" and le: "length p \<le> length s"
      and d: "drop (length s - length p) s = p"
    have "last p = last s"
      using last_drop[of "length s - length p" s] space_seqs_nonempty[OF p] le d
        diff_length_less[of p s] by simp
    then show False using space_seqs_not_plain[OF p] assms(2) by simp
  qed
  then show ?thesis by (subst trim_right.simps) simp
qed

lemma trim_space_plain [go_str]:
  "s \<noteq> [] \<Longrightarrow> plain (hd s) \<Longrightarrow> plain (last s) \<Longrightarrow> trim_space s = s"
  by (simp add: trim_space_def trim_left_plain trim_right_plain)

lemma trim_space_all_plain [go_str]: "list_all plain s \<Longrightarrow> trim_space s = s"
  by (cases "s = []") (auto intro!: trim_space_plain simp: list_all_iff)

lemma space_prefix_trim_left: "space_prefix (trim_left s) = None"
proof (induction s rule: trim_left.induct)
  case (1 s)
  then show ?case by (subst trim_left.simps) (auto split: option.splits)
qed

lemma space_suffix_trim_right: "space_suffix (trim_right s) = None"
proof (induction s rule: trim_right.induct)
  case (1 s)
  then show ?case by (subst trim_right.simps) (auto split: option.splits)
qed

lemma trim_right_take: "\<exists>k. trim_right s = take k s"
proof (induction s rule: trim_right.induct)
  case (1 s)
  show ?case
  proof (cases "space_suffix s")
    case None
    then show ?thesis by (subst trim_right.simps) (auto intro: exI[of _ "length s"])
  next
    case (Some p)
    then obtain k where "trim_right (take (length s - length p) s) = take k (take (length s - length p) s)"
      using 1 by blast
    with Some show ?thesis by (subst trim_right.simps) (auto simp: take_take)
  qed
qed

lemma space_prefix_take: "space_prefix s = None \<Longrightarrow> space_prefix (take k s) = None"
  unfolding space_prefix_def find_None_iff
  by (metis (no_types, lifting) length_take min.bounded_iff min_def order_refl take_all_iff take_take)

lemma trim_space_idem [simp]: "trim_space (trim_space s) = trim_space s"
proof -
  obtain k where k: "trim_right (trim_left s) = take k (trim_left s)"
    using trim_right_take by blast
  have "space_prefix (trim_right (trim_left s)) = None"
    unfolding k by (intro space_prefix_take space_prefix_trim_left)
  then have "trim_left (trim_right (trim_left s)) = trim_right (trim_left s)"
    by (subst trim_left.simps) simp
  moreover have "trim_right (trim_right (trim_left s)) = trim_right (trim_left s)"
    using space_suffix_trim_right[of "trim_left s"]
    by (subst trim_right.simps[of "trim_right (trim_left s)"]) simp
  ultimately show ?thesis by (simp add: trim_space_def)
qed

text \<open>\<^verbatim>\<open>strings.Split\<close> at a one-byte separator and \<^verbatim>\<open>strings.Join\<close>.\<close>

fun split_on :: "char \<Rightarrow> string \<Rightarrow> string list" where
  "split_on c [] = [[]]"
| "split_on c (x # xs) =
     (if x = c then [] # split_on c xs
      else (case split_on c xs of [] \<Rightarrow> [[x]] | y # ys \<Rightarrow> (x # y) # ys))"

fun join_with :: "string \<Rightarrow> string list \<Rightarrow> string" where
  "join_with sep [] = []"
| "join_with sep [x] = x"
| "join_with sep (x # y # ys) = x @ sep @ join_with sep (y # ys)"

lemma split_on_not_Nil [simp]: "split_on c s \<noteq> []"
  by (induction s) (auto split: list.splits)

lemma split_on_length_pos [simp]: "0 < length (split_on c s)"
  by simp

lemma join_split_on: "join_with [c] (split_on c s) = s"
proof (induction s)
  case Nil
  then show ?case by simp
next
  case (Cons x xs)
  then show ?case
    by (cases "split_on c xs"; cases "tl (split_on c xs)") auto
qed

lemma split_on_no_sep [go_str]: "c \<notin> set s \<Longrightarrow> split_on c s = [s]"
  by (induction s) auto

lemma split_on_append_sep [go_str]:
  "c \<notin> set s \<Longrightarrow> split_on c (s @ c # t) = s # split_on c t"
  by (induction s) auto

definition has_prefix :: "string \<Rightarrow> string \<Rightarrow> bool" where
  "has_prefix s p \<longleftrightarrow> take (length p) s = p"

definition has_suffix :: "string \<Rightarrow> string \<Rightarrow> bool" where
  "has_suffix s p \<longleftrightarrow> length p \<le> length s \<and> drop (length s - length p) s = p"

definition trim_prefix :: "string \<Rightarrow> string \<Rightarrow> string" where
  "trim_prefix s p = (if has_prefix s p then drop (length p) s else s)"

definition trim_suffix :: "string \<Rightarrow> string \<Rightarrow> string" where
  "trim_suffix s p = (if has_suffix s p then take (length s - length p) s else s)"

fun contains_str :: "string \<Rightarrow> string \<Rightarrow> bool" where
  "contains_str [] p \<longleftrightarrow> p = []"
| "contains_str (x # xs) p \<longleftrightarrow> has_prefix (x # xs) p \<or> contains_str xs p"

lemma trim_suffix_append [go_str]: "trim_suffix (s @ p) p = s"
  by (simp add: trim_suffix_def has_suffix_def)

lemma has_prefix_append [go_str]: "has_prefix (p @ s) p"
  by (simp add: has_prefix_def)

lemma trim_prefix_append [go_str]: "trim_prefix (p @ s) p = s"
  by (simp add: trim_prefix_def has_prefix_def)

lemma contains_str_iff: "contains_str s p \<longleftrightarrow> (\<exists>a b. s = a @ p @ b)"
proof (induction s)
  case Nil
  then show ?case by auto
next
  case (Cons x xs)
  have "has_prefix (x # xs) p \<longleftrightarrow> (\<exists>b. x # xs = p @ b)"
    unfolding has_prefix_def by (metis append_take_drop_id append_eq_conv_conj)
  then show ?case
    using Cons by (auto simp: Cons_eq_append_conv)
qed

text \<open>\<^verbatim>\<open>strings.TrimLeft\<close> with an ASCII cutset.\<close>

definition trim_left_set :: "string \<Rightarrow> string \<Rightarrow> string" where
  "trim_left_set s cs = dropWhile (\<lambda>c. c \<in> set cs) s"

definition upper_char :: "char \<Rightarrow> char" where
  "upper_char c =
     (let n = of_char c :: nat in if 97 \<le> n \<and> n \<le> 122 then char_of (n - 32) else c)"

definition lower_char :: "char \<Rightarrow> char" where
  "lower_char c =
     (let n = of_char c :: nat in if 65 \<le> n \<and> n \<le> 90 then char_of (n + 32) else c)"

text \<open>U+017F (long s) and U+0131 (dotless i) have the ASCII capitals S and I; U+212A (Kelvin
  sign) and U+0130 (I with dot) the ASCII small letters k and i.\<close>

fun to_upper :: "string \<Rightarrow> string" where
  "to_upper (a # b # s) =
     (if a = CHR 0xC5 \<and> b = CHR 0xBF then CHR ''S'' # to_upper s
      else if a = CHR 0xC4 \<and> b = CHR 0xB1 then CHR ''I'' # to_upper s
      else upper_char a # to_upper (b # s))"
| "to_upper [a] = [upper_char a]"
| "to_upper [] = []"

fun to_lower :: "string \<Rightarrow> string" where
  "to_lower (a # b # c # s) =
     (if a = CHR 0xE2 \<and> b = CHR 0x84 \<and> c = CHR 0xAA then CHR ''k'' # to_lower s
      else if a = CHR 0xC4 \<and> b = CHR 0xB0 then CHR ''i'' # to_lower (c # s)
      else lower_char a # to_lower (b # c # s))"
| "to_lower [a, b] =
     (if a = CHR 0xC4 \<and> b = CHR 0xB0 then ''i'' else [lower_char a, lower_char b])"
| "to_lower [a] = [lower_char a]"
| "to_lower [] = []"

section \<open>Numbers and text: strconv, fmt, encoding/hex\<close>

definition is_digit :: "char \<Rightarrow> bool" where
  "is_digit c \<longleftrightarrow> 48 \<le> (of_char c :: nat) \<and> (of_char c :: nat) \<le> 57"

definition is_letter :: "char \<Rightarrow> bool" where
  "is_letter c \<longleftrightarrow> (65 \<le> (of_char c :: nat) \<and> (of_char c :: nat) \<le> 90)
     \<or> (97 \<le> (of_char c :: nat) \<and> (of_char c :: nat) \<le> 122)"

definition digit_val :: "char \<Rightarrow> nat" where
  "digit_val c = of_char c - 48"

definition digit_char :: "nat \<Rightarrow> char" where
  "digit_char d = char_of (48 + d)"

definition nat_of_digits :: "string \<Rightarrow> nat" where
  "nat_of_digits s = foldl (\<lambda>n c. n * 10 + digit_val c) 0 s"

fun show_nat :: "nat \<Rightarrow> string" where
  "show_nat n = (if n < 10 then [digit_char n] else show_nat (n div 10) @ [digit_char (n mod 10)])"

declare show_nat.simps [simp del]

definition show_int :: "int \<Rightarrow> string" where
  "show_int i = (if i < 0 then CHR ''-'' # show_nat (nat (- i)) else show_nat (nat i))"

lemma is_digit_plain: "is_digit c \<Longrightarrow> plain c"
  by (simp add: is_digit_def plain_def)

lemma is_digit_digit_char [simp]: "d < 10 \<Longrightarrow> is_digit (digit_char d)"
  by (simp add: is_digit_def digit_char_def of_char_of)

lemma digit_val_digit_char [simp]: "d < 10 \<Longrightarrow> digit_val (digit_char d) = d"
  by (simp add: digit_val_def digit_char_def of_char_of)

lemma digit_char_digit_val [simp]: "is_digit c \<Longrightarrow> digit_char (digit_val c) = c"
  by (simp add: is_digit_def digit_val_def digit_char_def)

lemma digit_val_less: "is_digit c \<Longrightarrow> digit_val c < 10"
  by (auto simp: is_digit_def digit_val_def)

lemma show_nat_digits: "list_all is_digit (show_nat n)"
  by (induction n rule: show_nat.induct) (subst show_nat.simps, simp)

lemma show_nat_not_Nil [simp]: "show_nat n \<noteq> []"
  by (subst show_nat.simps) simp

lemma nat_of_digits_snoc [simp]: "nat_of_digits (s @ [c]) = nat_of_digits s * 10 + digit_val c"
  by (simp add: nat_of_digits_def)

lemma nat_of_digits_show_nat [simp]: "nat_of_digits (show_nat n) = n"
proof (induction n rule: show_nat.induct)
  case (1 n)
  show ?case
  proof (cases "n < 10")
    case True
    then show ?thesis by (subst show_nat.simps) (simp add: nat_of_digits_def)
  next
    case False
    with 1 have "nat_of_digits (show_nat (n div 10)) = n div 10" by simp
    with False show ?thesis
      by (subst show_nat.simps) simp
  qed
qed

lemma length_show_nat: "n < 10 ^ k \<Longrightarrow> 0 < k \<Longrightarrow> length (show_nat n) \<le> k"
proof (induction n arbitrary: k rule: show_nat.induct)
  case (1 n)
  show ?case
  proof (cases "n < 10")
    case True
    with 1(3) show ?thesis by (subst show_nat.simps) simp
  next
    case False
    then obtain j where j: "k = Suc j" "0 < j"
      using 1(2,3) by (cases k; cases "k - 1") auto
    then have "n div 10 < 10 ^ j"
      using 1(2) by (simp add: less_mult_imp_div_less mult.commute)
    then have "length (show_nat (n div 10)) \<le> j"
      using 1(1) False j(2) by blast
    with False j(1) show ?thesis by (subst show_nat.simps) simp
  qed
qed

text \<open>\<^verbatim>\<open>strconv.Atoi\<close>: an optional sign and decimal digits, within \<^verbatim>\<open>int64\<close>; \<open>None\<close> for
  both the syntax and the range error, which no caller tells apart.\<close>

definition atoi :: "string \<Rightarrow> int option" where
  "atoi s =
     (let neg = (s \<noteq> [] \<and> hd s = CHR ''-'');
          ds = (if s \<noteq> [] \<and> (hd s = CHR ''-'' \<or> hd s = CHR ''+'') then tl s else s)
      in if ds = [] \<or> \<not> list_all is_digit ds then None
         else let v = (if neg then - int (nat_of_digits ds) else int (nat_of_digits ds))
              in if - (2 ^ 63) \<le> v \<and> v < 2 ^ 63 then Some v else None)"

lemma atoi_show_nat:
  assumes "n < 2 ^ 63"
  shows "atoi (show_nat n) = Some (int n)"
proof -
  have "is_digit (hd (show_nat n))"
    using show_nat_digits[of n] by (metis list.pred_inject(2) list.exhaust_sel show_nat_not_Nil)
  then have "hd (show_nat n) \<noteq> CHR ''-''" "hd (show_nat n) \<noteq> CHR ''+''"
    by (auto simp: is_digit_def)
  with assms show ?thesis by (simp add: atoi_def show_nat_digits Let_def)
qed

definition hex_char :: "bool \<Rightarrow> nat \<Rightarrow> char" where
  "hex_char up d = (if d < 10 then char_of (48 + d) else char_of ((if up then 55 else 87) + d))"

text \<open>Two hexadecimal digits of a byte, in the case asked for, and
  \<^verbatim>\<open>hex.EncodeToString\<close>.\<close>

definition hex_byte :: "bool \<Rightarrow> byte \<Rightarrow> string" where
  "hex_byte up b = [hex_char up (unat b div 16), hex_char up (unat b mod 16)]"

definition hex_encode :: "bool \<Rightarrow> bytes \<Rightarrow> string" where
  "hex_encode up bs = concat (map (hex_byte up) bs)"

text \<open>\<^verbatim>\<open>%0<w>x\<close>: the low \<open>w\<close> hexadecimal digits of a number that has no more of them.\<close>

fun fmt_hex :: "bool \<Rightarrow> nat \<Rightarrow> nat \<Rightarrow> string" where
  "fmt_hex up 0 n = []"
| "fmt_hex up (Suc w) n = fmt_hex up w (n div 16) @ [hex_char up (n mod 16)]"

lemma length_fmt_hex [simp]: "length (fmt_hex up w n) = w"
  by (induction w arbitrary: n) auto

lemma length_hex_encode [simp]: "length (hex_encode up bs) = 2 * length bs"
  by (induction bs) (auto simp: hex_encode_def hex_byte_def)

lemma fmt_hex_uint_be: "fmt_hex up (2 * length bs) (uint_be bs) = hex_encode up bs"
proof (induction bs rule: rev_induct)
  case Nil
  then show ?case by (simp add: hex_encode_def)
next
  case (snoc b bs)
  have e: "uint_be (bs @ [b]) = uint_be bs * 256 + unat b"
    by (simp add: uint_be_def)
  have d: "(uint_be bs * 256 + unat b) div 16 div 16 = uint_be bs"
    by (simp add: div_mult2_eq[symmetric])
  have q: "(n * 256 + k) div 16 mod 16 = k div 16 \<and> (n * 256 + k) mod 16 = k mod 16"
    if "k < 256" for n k :: nat
  proof
    have "(n * 256 + k) div 16 = n * 16 + k div 16" by simp
    then show "(n * 256 + k) div 16 mod 16 = k div 16" using that by simp
    have "(n * 16 * 16 + k) mod 16 = k mod 16" by (rule mod_mult_self3)
    then show "(n * 256 + k) mod 16 = k mod 16" by (simp only: mult.assoc) simp
  qed
  note m = q[THEN conjunct1, OF unat_byte_less] and m' = q[THEN conjunct2, OF unat_byte_less]
  have l: "2 * length (bs @ [b]) = Suc (Suc (2 * length bs))"
    by simp
  show ?case
    unfolding l fmt_hex.simps e d m m' snoc by (simp add: hex_encode_def hex_byte_def)
qed

text \<open>The value of a hexadecimal digit and \<^verbatim>\<open>strconv.ParseUint(s, 16, 32)\<close>.\<close>

definition hex_val :: "char \<Rightarrow> nat option" where
  "hex_val c =
     (let n = of_char c :: nat in
      if 48 \<le> n \<and> n \<le> 57 then Some (n - 48)
      else if 97 \<le> n \<and> n \<le> 102 then Some (n - 87)
      else if 65 \<le> n \<and> n \<le> 70 then Some (n - 55) else None)"

fun hex_digits_val :: "nat \<Rightarrow> string \<Rightarrow> nat option" where
  "hex_digits_val acc [] = Some acc"
| "hex_digits_val acc (c # cs) =
     (case hex_val c of None \<Rightarrow> None | Some d \<Rightarrow> hex_digits_val (acc * 16 + d) cs)"

definition parse_uint_hex32 :: "string \<Rightarrow> 32 word option" where
  "parse_uint_hex32 s =
     (if s = [] then None
      else case hex_digits_val 0 s of
             None \<Rightarrow> None
           | Some n \<Rightarrow> if n < 2 ^ 32 then Some (word_of_nat n) else None)"

section \<open>The regular expressions of the encoders\<close>

text \<open>\<^verbatim>\<open>^[\x20-\x7E]{1,200}$\<close>\<close>

definition printable_char :: "char \<Rightarrow> bool" where
  "printable_char c \<longleftrightarrow> 0x20 \<le> (of_char c :: nat) \<and> (of_char c :: nat) \<le> 0x7E"

definition re_safe_text :: "string \<Rightarrow> bool" where
  "re_safe_text s \<longleftrightarrow> 1 \<le> length s \<and> length s \<le> 200 \<and> list_all printable_char s"

text \<open>\<^verbatim>\<open>^[A-Za-z0-9.\-]{1,64}$\<close>\<close>

definition re_safe_host :: "string \<Rightarrow> bool" where
  "re_safe_host s \<longleftrightarrow> 1 \<le> length s \<and> length s \<le> 64
     \<and> list_all (\<lambda>c. is_digit c \<or> is_letter c \<or> c = CHR ''.'' \<or> c = CHR ''-'') s"

text \<open>\<^verbatim>\<open>^[A-Za-z0-9]{1,16}$\<close>\<close>

definition re_safe_password :: "string \<Rightarrow> bool" where
  "re_safe_password s \<longleftrightarrow> 1 \<le> length s \<and> length s \<le> 16
     \<and> list_all (\<lambda>c. is_digit c \<or> is_letter c) s"

end
