(* ===== verification/Go_Float.thy ===== *)
theory Go_Float
  imports Complex_Main Go_Base
begin

text \<open>
  Go's \<^verbatim>\<open>float64\<close>.  A value is a NaN, an infinity (with its sign) or a finite number, which is
  kept as the rational it denotes; the operations compute the exact result and round it to the
  nearest representable number, ties to even, as IEEE 754 and the Go specification require.
  The sign of a zero is the only thing that is not represented: no comparison can see it.
  \<open>parse_float\<close> is \<^verbatim>\<open>strconv.ParseFloat(s, 64)\<close> with its whole grammar (decimal and
  hexadecimal mantissas, exponents, digit separators, infinities and NaN).

  The lemmas bound the rounding error (\<open>f64_round_error\<close>) and show which values are exact
  (\<open>f64_round_int\<close>), which is what the coordinate conversions need.
\<close>

section \<open>Rounding a rational\<close>

datatype f64 = NaN | Inf bool \<comment> \<open>True: negative\<close> | Fin rat

fun ilog2 :: "nat \<Rightarrow> nat" where
  "ilog2 n = (if n \<le> 1 then 0 else Suc (ilog2 (n div 2)))"

declare ilog2.simps [simp del]

definition rpow :: "rat \<Rightarrow> int \<Rightarrow> rat" where
  "rpow b e = (if 0 \<le> e then b ^ nat e else 1 / b ^ nat (- e))"

text \<open>The exponent of a positive rational: the largest \<open>e\<close> with \<open>2 ^ e \<le> x\<close>.\<close>

definition expo2 :: "rat \<Rightarrow> int" where
  "expo2 x =
     (let (p, q) = quotient_of x; e = int (ilog2 (nat p)) - int (ilog2 (nat q))
      in if x < rpow 2 e then e - 1 else e)"

definition round_even :: "rat \<Rightarrow> int" where
  "round_even x =
     (let f = \<lfloor>x\<rfloor>; d = x - of_int f
      in if d < 1 / 2 then f else if d > 1 / 2 then f + 1 else if even f then f else f + 1)"

definition f64_round :: "rat \<Rightarrow> f64" where
  "f64_round x =
     (if x = 0 then Fin 0
      else let u = rpow 2 (max (expo2 \<bar>x\<bar>) (- 1022) - 52);
               y = of_int (round_even (\<bar>x\<bar> / u)) * u
           in if y \<ge> 2 ^ 1024 then Inf (x < 0) else Fin (if x < 0 then - y else y))"

section \<open>Arithmetic and comparison\<close>

fun f64_neg :: "f64 \<Rightarrow> f64" where
  "f64_neg NaN = NaN"
| "f64_neg (Inf s) = Inf (\<not> s)"
| "f64_neg (Fin x) = Fin (- x)"

fun f64_add :: "f64 \<Rightarrow> f64 \<Rightarrow> f64" where
  "f64_add (Fin x) (Fin y) = f64_round (x + y)"
| "f64_add NaN _ = NaN"
| "f64_add _ NaN = NaN"
| "f64_add (Inf s) (Inf t) = (if s = t then Inf s else NaN)"
| "f64_add (Inf s) (Fin _) = Inf s"
| "f64_add (Fin _) (Inf s) = Inf s"

fun f64_mul :: "f64 \<Rightarrow> f64 \<Rightarrow> f64" where
  "f64_mul (Fin x) (Fin y) = f64_round (x * y)"
| "f64_mul NaN _ = NaN"
| "f64_mul _ NaN = NaN"
| "f64_mul (Inf s) (Inf t) = Inf (s \<noteq> t)"
| "f64_mul (Inf s) (Fin x) = (if x = 0 then NaN else Inf (s \<noteq> (x < 0)))"
| "f64_mul (Fin x) (Inf s) = (if x = 0 then NaN else Inf (s \<noteq> (x < 0)))"

fun f64_div :: "f64 \<Rightarrow> f64 \<Rightarrow> f64" where
  "f64_div (Fin x) (Fin y) =
     (if y = 0 then (if x = 0 then NaN else Inf (x < 0)) else f64_round (x / y))"
| "f64_div NaN _ = NaN"
| "f64_div _ NaN = NaN"
| "f64_div (Inf s) (Inf t) = NaN"
| "f64_div (Inf s) (Fin x) = Inf (s \<noteq> (x < 0))"
| "f64_div (Fin x) (Inf s) = Fin 0"

fun f64_less :: "f64 \<Rightarrow> f64 \<Rightarrow> bool" where
  "f64_less (Fin x) (Fin y) \<longleftrightarrow> x < y"
| "f64_less NaN _ \<longleftrightarrow> False"
| "f64_less _ NaN \<longleftrightarrow> False"
| "f64_less (Inf s) (Inf t) \<longleftrightarrow> s \<and> \<not> t"
| "f64_less (Inf s) (Fin _) \<longleftrightarrow> s"
| "f64_less (Fin _) (Inf s) \<longleftrightarrow> \<not> s"

text \<open>The operators of Go are the operators of the type classes, which have no axioms that a
  NaN would break.\<close>

instantiation f64 :: "{plus, minus, uminus, times, inverse, ord}"
begin

definition plus_f64 :: "f64 \<Rightarrow> f64 \<Rightarrow> f64" where "plus_f64 = f64_add"
definition uminus_f64 :: "f64 \<Rightarrow> f64" where "uminus_f64 = f64_neg"
definition minus_f64 :: "f64 \<Rightarrow> f64 \<Rightarrow> f64" where "minus_f64 x y = f64_add x (f64_neg y)"
definition times_f64 :: "f64 \<Rightarrow> f64 \<Rightarrow> f64" where "times_f64 = f64_mul"
definition divide_f64 :: "f64 \<Rightarrow> f64 \<Rightarrow> f64" where "divide_f64 = f64_div"
definition inverse_f64 :: "f64 \<Rightarrow> f64" where "inverse_f64 = f64_div (Fin 1)"
definition less_f64 :: "f64 \<Rightarrow> f64 \<Rightarrow> bool" where "less_f64 = f64_less"
definition less_eq_f64 :: "f64 \<Rightarrow> f64 \<Rightarrow> bool" where
  "less_eq_f64 x y \<longleftrightarrow> f64_less x y \<or> (x = y \<and> x \<noteq> NaN)"

instance ..

end

lemmas f64_ops = plus_f64_def minus_f64_def uminus_f64_def times_f64_def divide_f64_def
  less_f64_def less_eq_f64_def

text \<open>The conversion \<^verbatim>\<open>float64(n)\<close> of an integer, and a literal.\<close>

definition f64_of_int :: "int \<Rightarrow> f64" where
  "f64_of_int n = f64_round (of_int n)"

definition is_finite_f64 :: "f64 \<Rightarrow> bool" where
  "is_finite_f64 x \<longleftrightarrow> (case x of Fin _ \<Rightarrow> True | _ \<Rightarrow> False)"

definition is_nan :: "f64 \<Rightarrow> bool" where
  "is_nan x \<longleftrightarrow> x = NaN"

definition is_inf :: "f64 \<Rightarrow> bool" where
  "is_inf x \<longleftrightarrow> (case x of Inf _ \<Rightarrow> True | _ \<Rightarrow> False)"

section \<open>strconv.ParseFloat\<close>

text \<open>\<^verbatim>\<open>underscoreOK\<close>: an underscore only between digits or between a base prefix and a
  digit.  The state is the class of the last character.\<close>

datatype saw = SawStart | SawDigit | SawUnderscore | SawOther

fun underscores_ok :: "bool \<Rightarrow> saw \<Rightarrow> string \<Rightarrow> bool" where
  "underscores_ok hex saw [] \<longleftrightarrow> saw \<noteq> SawUnderscore"
| "underscores_ok hex saw (c # cs) \<longleftrightarrow>
     (if is_digit c \<or> (hex \<and> hex_val c \<noteq> None) then underscores_ok hex SawDigit cs
      else if c = CHR ''_'' then saw = SawDigit \<and> underscores_ok hex SawUnderscore cs
      else saw \<noteq> SawUnderscore \<and> underscores_ok hex SawOther cs)"

text \<open>The mantissa: (saw a digit, mantissa, digits after the point, rest).\<close>

fun scan_mantissa :: "bool \<Rightarrow> bool \<Rightarrow> bool \<Rightarrow> nat \<Rightarrow> nat \<Rightarrow> string \<Rightarrow> bool \<times> nat \<times> nat \<times> string" where
  "scan_mantissa hex dot dig m f [] = (dig, m, f, [])"
| "scan_mantissa hex dot dig m f (c # cs) =
     (if c = CHR ''_'' then scan_mantissa hex dot dig m f cs
      else if c = CHR ''.'' then
        (if dot then (dig, m, f, c # cs) else scan_mantissa hex True dig m f cs)
      else if is_digit c \<or> (hex \<and> hex_val c \<noteq> None) then
        scan_mantissa hex dot True (m * (if hex then 16 else 10) + the (hex_val c))
          (if dot then Suc f else f) cs
      else (dig, m, f, c # cs))"

text \<open>The digits of the exponent, which saturates as the Go loop does.\<close>

fun scan_exponent :: "nat \<Rightarrow> string \<Rightarrow> nat \<times> string" where
  "scan_exponent e [] = (e, [])"
| "scan_exponent e (c # cs) =
     (if c = CHR ''_'' then scan_exponent e cs
      else if is_digit c then scan_exponent (if e < 10000 then e * 10 + digit_val c else e) cs
      else (e, c # cs))"

definition parse_exponent :: "bool \<Rightarrow> string \<Rightarrow> int option" where
  "parse_exponent hex r =
     (case r of
        [] \<Rightarrow> if hex then None else Some 0
      | c # cs \<Rightarrow>
          if lower_char c \<noteq> (if hex then CHR ''p'' else CHR ''e'') then None
          else
            let neg = (cs \<noteq> [] \<and> hd cs = CHR ''-'');
                ds = (if cs \<noteq> [] \<and> (hd cs = CHR ''-'' \<or> hd cs = CHR ''+'') then tl cs else cs)
            in if ds = [] \<or> \<not> is_digit (hd ds) then None
               else (case scan_exponent 0 ds of
                       (e, []) \<Rightarrow> Some (if neg then - int e else int e)
                     | (e, _ # _) \<Rightarrow> None))"

definition parse_float :: "string \<Rightarrow> f64 option" where
  "parse_float s =
     (let signed = (s \<noteq> [] \<and> (hd s = CHR ''-'' \<or> hd s = CHR ''+''));
          neg = (s \<noteq> [] \<and> hd s = CHR ''-'');
          t = (if signed then tl s else s);
          low = map lower_char t
      in if low = ''inf'' \<or> low = ''infinity'' then Some (Inf neg)
         else if map lower_char s = ''nan'' then Some NaN
         else
           let hex = (2 < length t \<and> take 2 low = ''0x'');
               prefixed = (2 \<le> length t \<and> (take 2 low = ''0x'' \<or> take 2 low = ''0b'' \<or> take 2 low = ''0o''));
               body = (if hex then drop 2 t else t)
           in case scan_mantissa hex False False 0 0 body of
                (dig, m, f, r) \<Rightarrow>
                  if \<not> dig then None
                  else (case parse_exponent hex r of
                    None \<Rightarrow> None
                  | Some e \<Rightarrow>
                      if CHR ''_'' \<in> set t \<and>
                         \<not> (if prefixed then underscores_ok (take 2 low = ''0x'') SawDigit (drop 2 t)
                             else underscores_ok False SawStart t)
                      then None
                      else
                        let v = of_nat m * (if hex then rpow 2 (e - 4 * int f) else rpow 10 (e - int f))
                        in (case f64_round (if neg then - v else v) of
                              Inf _ \<Rightarrow> None
                            | y \<Rightarrow> Some y)))"

section \<open>Rounding error and exact values\<close>

lemma ilog2_bounds: "0 < n \<Longrightarrow> 2 ^ ilog2 n \<le> n \<and> n < 2 ^ Suc (ilog2 n)"
proof (induction n rule: ilog2.induct)
  case (1 n)
  show ?case
  proof (cases "n \<le> 1")
    case True
    with 1(2) show ?thesis by (simp add: ilog2.simps[of n])
  next
    case False
    with 1(1) have "2 ^ ilog2 (n div 2) \<le> n div 2 \<and> n div 2 < 2 ^ Suc (ilog2 (n div 2))"
      by simp
    with False show ?thesis by (simp add: ilog2.simps[of n]) linarith
  qed
qed

lemma rpow2_pos [simp]: "0 < rpow 2 e"
  by (simp add: rpow_def)

lemma rpow2_Suc: "rpow 2 (e + 1) = 2 * rpow 2 e"
proof (cases "0 \<le> e")
  case True
  then have "nat (e + 1) = Suc (nat e)" by simp
  with True show ?thesis by (simp add: rpow_def)
next
  case False
  then have "nat (- e) = Suc (nat (- (e + 1)))" by simp
  with False show ?thesis by (auto simp: rpow_def)
qed

lemma rpow2_add_nat: "rpow 2 (e + int n) = rpow 2 e * 2 ^ n"
proof (induction n)
  case 0
  then show ?case by simp
next
  case (Suc n)
  have "rpow 2 (e + int (Suc n)) = rpow 2 ((e + int n) + 1)" by (simp add: algebra_simps)
  also have "\<dots> = 2 * rpow 2 (e + int n)" by (rule rpow2_Suc)
  finally show ?case using Suc by simp
qed

lemma rpow2_mono: "a \<le> b \<Longrightarrow> rpow 2 a \<le> rpow 2 b"
proof -
  assume "a \<le> b"
  then have "rpow 2 b = rpow 2 a * 2 ^ nat (b - a)"
    using rpow2_add_nat[of a "nat (b - a)"] by simp
  moreover have "(1::rat) \<le> 2 ^ nat (b - a)" by simp
  ultimately show ?thesis by (metis mult.right_neutral mult_le_cancel_left_pos rpow2_pos)
qed

lemma rpow2_nat [simp]: "rpow 2 (int n) = 2 ^ n"
  by (simp add: rpow_def)

lemma rpow2_less_iff: "rpow 2 a < rpow 2 b \<longleftrightarrow> a < b"
proof
  show "rpow 2 a < rpow 2 b \<Longrightarrow> a < b" using rpow2_mono[of b a] by linarith
  assume "a < b"
  then have "rpow 2 (a + 1) \<le> rpow 2 b" by (intro rpow2_mono) simp
  then show "rpow 2 a < rpow 2 b" using rpow2_Suc[of a] rpow2_pos[of a] by linarith
qed

lemma expo2_bounds:
  assumes "0 < x"
  shows "rpow 2 (expo2 x) \<le> x" and "x < rpow 2 (expo2 x + 1)"
proof -
  obtain p q where pq: "quotient_of x = (p, q)" by (cases "quotient_of x")
  have q: "0 < q" using pq by (rule quotient_of_denom_pos)
  have x: "x = of_int p / of_int q" using pq by (rule quotient_of_div)
  have p: "0 < p" using assms x q by (simp add: zero_less_divide_iff)
  define a where "a = ilog2 (nat p)"
  define b where "b = ilog2 (nat q)"
  have "(2::nat) ^ a \<le> nat p \<and> nat p < 2 ^ Suc a" "(2::nat) ^ b \<le> nat q \<and> nat q < 2 ^ Suc b"
    unfolding a_def b_def using ilog2_bounds[of "nat p"] ilog2_bounds[of "nat q"] p q by linarith+
  then have "(2::int) ^ a \<le> p" "p < (2::int) ^ Suc a" "(2::int) ^ b \<le> q" "q < (2::int) ^ Suc b"
    using p q by (simp_all add: le_nat_iff nat_less_iff)
  then have "(of_int (2 ^ a) :: rat) \<le> of_int p" "(of_int p :: rat) < of_int (2 ^ Suc a)"
    "(of_int (2 ^ b) :: rat) \<le> of_int q" "(of_int q :: rat) < of_int (2 ^ Suc b)"
    by (simp_all only: of_int_le_iff of_int_less_iff)
  then have pb: "(2::rat) ^ a \<le> of_int p" "of_int p < (2::rat) ^ Suc a"
    and qb: "(2::rat) ^ b \<le> of_int q" "of_int q < (2::rat) ^ Suc b"
    by (simp_all only: of_int_power of_int_numeral)
  define e where "e = int a - int b"
  have r: "rpow 2 (e + int b) = rpow 2 e * 2 ^ b" by (rule rpow2_add_nat)
  then have ea: "rpow 2 e * 2 ^ b = 2 ^ a" by (simp add: e_def)
  have up: "x < rpow 2 (e + 1)"
  proof -
    have "of_int p < 2 * (rpow 2 e * 2 ^ b)" using pb(2) ea by simp
    also have "\<dots> \<le> 2 * rpow 2 e * of_int q"
      using qb(1) by (simp add: mult_left_mono less_imp_le)
    finally show ?thesis using q by (simp add: x rpow2_Suc divide_less_eq)
  qed
  have lo: "rpow 2 (e - 1) \<le> x"
  proof -
    have "rpow 2 (e - 1) * 2 ^ Suc b = (2 * rpow 2 (e - 1)) * 2 ^ b" by simp
    also have "2 * rpow 2 (e - 1) = rpow 2 e" using rpow2_Suc[of "e - 1"] by simp
    finally have "rpow 2 (e - 1) * 2 ^ Suc b = 2 ^ a" using ea by simp
    moreover have "rpow 2 (e - 1) * of_int q \<le> rpow 2 (e - 1) * 2 ^ Suc b"
      using qb(2) by (simp add: mult_left_mono less_imp_le)
    ultimately have "rpow 2 (e - 1) * of_int q \<le> of_int p" using pb(1) by linarith
    then show ?thesis using q by (simp add: x le_divide_eq)
  qed
  have "expo2 x = (if x < rpow 2 e then e - 1 else e)"
    by (simp add: expo2_def pq e_def a_def b_def)
  then show "rpow 2 (expo2 x) \<le> x" and "x < rpow 2 (expo2 x + 1)"
    using up lo by auto
qed

lemma round_even_error: "\<bar>of_int (round_even x) - x\<bar> \<le> 1 / 2"
proof -
  define f where "f = \<lfloor>x\<rfloor>"
  have "of_int f \<le> x" "x < of_int f + 1"
    unfolding f_def using floor_correct[of x] by auto
  then show ?thesis
    by (auto simp: round_even_def Let_def f_def[symmetric])
qed

lemma round_even_of_int [simp]: "round_even (of_int n) = n"
  by (simp add: round_even_def)

text \<open>A rational below \<open>2 ^ k\<close> rounds to a finite number, with an error of at most
  \<open>2 ^ (k - 54)\<close>.\<close>

lemma f64_round_error:
  assumes "\<bar>x\<bar> < 2 ^ k" and "k \<le> 1023"
  obtains y where "f64_round x = Fin y" and "\<bar>y - x\<bar> \<le> 2 ^ k / 2 ^ 54"
proof (cases "x = 0")
  case True
  then show ?thesis using that[of 0] by (simp add: f64_round_def)
next
  case False
  define e where "e = max (expo2 \<bar>x\<bar>) (- 1022)"
  define u where "u = rpow 2 (e - 52)"
  define n where "n = round_even (\<bar>x\<bar> / u)"
  have u: "0 < u" by (simp add: u_def)
  have "rpow 2 (expo2 \<bar>x\<bar>) < rpow 2 (int k)"
    using expo2_bounds(1)[of "\<bar>x\<bar>"] False assms(1) by simp
  then have "expo2 \<bar>x\<bar> < int k" by (simp only: rpow2_less_iff)
  then have e: "e \<le> int k - 1" by (simp add: e_def)
  then have "rpow 2 (e - 52) \<le> rpow 2 (int k - 53)" by (intro rpow2_mono) simp
  moreover have "rpow 2 (int k - 53) * 2 ^ 53 = 2 ^ k"
    using rpow2_add_nat[of "int k - 53" 53] by simp
  ultimately have ub: "u \<le> 2 ^ k / 2 ^ 53" by (simp add: u_def field_simps)
  have "\<bar>of_int n * u - \<bar>x\<bar>\<bar> = \<bar>of_int n - \<bar>x\<bar> / u\<bar> * u"
    using u by (simp add: abs_mult_pos field_simps less_imp_le)
  also have "\<dots> \<le> 1 / 2 * u"
    using round_even_error[of "\<bar>x\<bar> / u"] u by (simp add: n_def mult_right_mono)
  finally have err: "\<bar>of_int n * u - \<bar>x\<bar>\<bar> \<le> 2 ^ k / 2 ^ 54" using ub by simp
  have "(2::rat) ^ k / 2 ^ 54 \<le> 2 ^ k" by (simp add: divide_le_eq)
  then have "of_int n * u < 2 * 2 ^ k" using err assms(1) by linarith
  also have "2 * (2::rat) ^ k \<le> 2 ^ 1024"
    using power_increasing[of "Suc k" 1024 "2::rat"] assms(2) by simp
  finally have "f64_round x = Fin (if x < 0 then - (of_int n * u) else of_int n * u)"
    using False by (simp add: f64_round_def e_def u_def n_def Let_def)
  moreover have "\<bar>(if x < 0 then - (of_int n * u) else of_int n * u) - x\<bar>
      = \<bar>of_int n * u - \<bar>x\<bar>\<bar>"
    by (cases "x < 0") (simp_all add: abs_minus_commute)
  ultimately show ?thesis using that err by metis
qed

text \<open>Every dyadic rational with a numerator of at most 53 bits is exact.\<close>

lemma f64_round_dyadic:
  assumes "\<bar>n\<bar> < 2 ^ 53" and "k \<le> 1000"
  shows "f64_round (of_int n / 2 ^ k) = Fin (of_int n / 2 ^ k)"
proof (cases "n = 0")
  case True
  then show ?thesis by (simp add: f64_round_def)
next
  case False
  define x where "x = (of_int n / 2 ^ k :: rat)"
  define e where "e = max (expo2 \<bar>x\<bar>) (- 1022)"
  define u where "u = rpow 2 (e - 52)"
  have x: "\<bar>x\<bar> = of_int \<bar>n\<bar> / 2 ^ k" by (simp add: x_def)
  have pos: "0 < \<bar>x\<bar>" using False by (simp add: x)
  have "(of_int \<bar>n\<bar> :: rat) < of_int (2 ^ 53)"
    using assms(1) by (simp only: of_int_less_iff)
  moreover have "rpow 2 (53 - int k) * 2 ^ k = 2 ^ 53"
    using rpow2_add_nat[of "53 - int k" k] rpow2_nat[of 53] by simp
  ultimately have xb: "\<bar>x\<bar> < rpow 2 (53 - int k)"
    unfolding x by (simp add: divide_less_eq)
  then have "rpow 2 (expo2 \<bar>x\<bar>) < rpow 2 (53 - int k)"
    using expo2_bounds(1)[OF pos] by linarith
  then have "expo2 \<bar>x\<bar> < 53 - int k" by (simp only: rpow2_less_iff)
  then have ek: "e - 52 \<le> - int k" using assms(2) by (simp add: e_def)
  define j where "j = nat (- int k - (e - 52))"
  have uj: "u * 2 ^ j * 2 ^ k = 1"
    using rpow2_add_nat[of "e - 52" "j + k"] ek rpow2_nat[of 0]
    by (simp add: u_def j_def power_add mult.assoc)
  then have u0: "u \<noteq> 0" by auto
  have "of_int (\<bar>n\<bar> * 2 ^ j) * u * 2 ^ k = of_int \<bar>n\<bar> * (u * 2 ^ j * 2 ^ k)" by simp
  then have n: "of_int (\<bar>n\<bar> * 2 ^ j) * u = \<bar>x\<bar>"
    unfolding uj x by (simp add: eq_divide_eq)
  then have "\<bar>x\<bar> / u = of_int (\<bar>n\<bar> * 2 ^ j)"
    using u0 by (simp add: divide_eq_eq)
  then have r: "of_int (round_even (\<bar>x\<bar> / u)) * u = \<bar>x\<bar>"
    by (simp only: round_even_of_int n)
  have "\<bar>x\<bar> < 2 ^ 53"
    using xb rpow2_mono[of "53 - int k" "int 53"] unfolding rpow2_nat by simp
  then have "\<not> \<bar>x\<bar> \<ge> 2 ^ 1024" using power_increasing[of 53 1024 "2::rat"] by linarith
  then have "f64_round x = Fin (if x < 0 then - \<bar>x\<bar> else \<bar>x\<bar>)"
    unfolding f64_round_def Let_def e_def[symmetric] u_def[symmetric] r using pos by simp
  then show ?thesis by (auto simp: x_def abs_if split: if_splits)
qed

lemma f64_round_int:
  assumes "\<bar>n\<bar> < 2 ^ 53"
  shows "f64_round (of_int n) = Fin (of_int n)"
  using f64_round_dyadic[of n 0] assms by simp

lemma f64_of_int_exact: "\<bar>n\<bar> < 2 ^ 53 \<Longrightarrow> f64_of_int n = Fin (of_int n)"
  by (simp add: f64_of_int_def f64_round_int)

lemma f64_less_simps [simp]:
  "Fin x < Fin y \<longleftrightarrow> x < y" "Fin x \<le> Fin y \<longleftrightarrow> x \<le> y"
  "\<not> NaN < z" "\<not> z < NaN" "\<not> NaN \<le> z" "\<not> z \<le> NaN"
  by (cases z; auto simp: f64_ops)+

end
