(* ===== verification/Go_Time.thy ===== *)
theory Go_Time
  imports Go_Base
begin

text \<open>
  Go's \<^verbatim>\<open>time\<close> package, as far as the backend uses it.  An instant is the number of nanoseconds
  since 1970-01-01T00:00:00 UTC, a \<^verbatim>\<open>time.Duration\<close> a number of nanoseconds; \<open>time_date\<close>
  normalises its arguments the way \<^verbatim>\<open>time.Date\<close> does (the 31st of February is the 3rd of
  March).  The layouts parsed and printed are the ones in the source.  Every function of the
  program that reads the clock takes the instant as an argument named \<open>now\<close>.
\<close>

type_synonym time = int
type_synonym duration = int

definition second :: duration where "second = 1000000000"
definition minute :: duration where "minute = 60 * second"

text \<open>The zero \<^verbatim>\<open>time.Time\<close>, 0001-01-01T00:00:00 UTC.\<close>

definition zero_time :: time where
  "zero_time = - 62135596800 * second"

definition is_zero_time :: "time \<Rightarrow> bool" where
  "is_zero_time t \<longleftrightarrow> t = zero_time"

text \<open>\<^verbatim>\<open>t.Sub(u)\<close>, which saturates at the range of an \<^verbatim>\<open>int64\<close>.\<close>

definition time_sub :: "time \<Rightarrow> time \<Rightarrow> duration" where
  "time_sub t u = max (- (2 ^ 63)) (min (2 ^ 63 - 1) (t - u))"

text \<open>Days since the epoch of a date of the proleptic Gregorian calendar, counted in years that
  start in March, and the inverse.\<close>

definition days_from_civil :: "int \<Rightarrow> int \<Rightarrow> int \<Rightarrow> int" where
  "days_from_civil y m d =
     (let y' = (if m \<le> 2 then y - 1 else y);
          era = y' div 400;
          yoe = y' - era * 400;
          doy = (153 * (if m > 2 then m - 3 else m + 9) + 2) div 5 + d - 1;
          doe = yoe * 365 + yoe div 4 - yoe div 100 + doy
      in era * 146097 + doe - 719468)"

definition civil_from_days :: "int \<Rightarrow> int \<times> int \<times> int" where
  "civil_from_days z0 =
     (let z = z0 + 719468;
          era = z div 146097;
          doe = z - era * 146097;
          yoe = (doe - doe div 1460 + doe div 36524 - doe div 146096) div 365;
          doy = doe - (365 * yoe + yoe div 4 - yoe div 100);
          mp = (5 * doy + 2) div 153;
          d = doy - (153 * mp + 2) div 5 + 1;
          m = (if mp < 10 then mp + 3 else mp - 9);
          y = yoe + era * 400
      in (if m \<le> 2 then y + 1 else y, m, d))"

definition time_date :: "int \<Rightarrow> int \<Rightarrow> int \<Rightarrow> int \<Rightarrow> int \<Rightarrow> int \<Rightarrow> time" where
  "time_date y m d h mi s =
     (let m' = (m - 1) mod 12 + 1; y' = y + (m - 1) div 12
      in (days_from_civil y' m' d * 86400 + h * 3600 + mi * 60 + s) * second)"

definition unix_seconds :: "time \<Rightarrow> int" where
  "unix_seconds t = t div second"

definition time_civil :: "time \<Rightarrow> int \<times> int \<times> int" where
  "time_civil t = civil_from_days (unix_seconds t div 86400)"

definition time_clock :: "time \<Rightarrow> int \<times> int \<times> int" where
  "time_clock t =
     (let s = unix_seconds t mod 86400 in (s div 3600, s mod 3600 div 60, s mod 60))"

definition is_leap :: "int \<Rightarrow> bool" where
  "is_leap y \<longleftrightarrow> y mod 4 = 0 \<and> (y mod 100 \<noteq> 0 \<or> y mod 400 = 0)"

definition days_in :: "int \<Rightarrow> int \<Rightarrow> int" where
  "days_in m y =
     (if m = 2 then (if is_leap y then 29 else 28)
      else if m \<in> {4, 6, 9, 11} then 30 else 31)"

section \<open>Layouts\<close>

definition two_digits :: "string \<Rightarrow> int option" where
  "two_digits s =
     (case s of
        [a, b] \<Rightarrow> if is_digit a \<and> is_digit b then Some (int (digit_val a * 10 + digit_val b)) else None
      | _ \<Rightarrow> None)"

text \<open>The layout element \<^verbatim>\<open>06\<close>: two characters read by an integer parser that admits a sign;
  values from 69 belong to the twentieth century.\<close>

definition two_digit_year :: "string \<Rightarrow> int option" where
  "two_digit_year s =
     (case atoi s of
        None \<Rightarrow> None
      | Some y \<Rightarrow> if length s = 2 then Some (if y \<ge> 69 then y + 1900 else y + 2000) else None)"

definition fmt02 :: "int \<Rightarrow> string" where
  "fmt02 n = [digit_char (nat (n div 10 mod 10)), digit_char (nat (n mod 10))]"

text \<open>\<^verbatim>\<open>t.Format("150405")\<close> in UTC.\<close>

definition format_hms :: "time \<Rightarrow> string" where
  "format_hms t = (case time_clock t of (h, m, s) \<Rightarrow> fmt02 h @ fmt02 m @ fmt02 s)"

definition valid_hms :: "int \<Rightarrow> int \<Rightarrow> int \<Rightarrow> bool" where
  "valid_hms h m s \<longleftrightarrow> h < 24 \<and> m < 60 \<and> s < 60"

definition valid_date :: "int \<Rightarrow> int \<Rightarrow> int \<Rightarrow> bool" where
  "valid_date y m d \<longleftrightarrow> 1 \<le> m \<and> m \<le> 12 \<and> 1 \<le> d \<and> d \<le> days_in m y"

text \<open>\<^verbatim>\<open>time.Parse("150405", s)\<close> on six characters: the clock reading.\<close>

definition parse_hms :: "string \<Rightarrow> (int \<times> int \<times> int) option" where
  "parse_hms s =
     (case (two_digits (take 2 s), two_digits (take 2 (drop 2 s)), two_digits (drop 4 s)) of
        (Some h, Some m, Some sec) \<Rightarrow> if valid_hms h m sec then Some (h, m, sec) else None
      | _ \<Rightarrow> None)"

text \<open>\<^verbatim>\<open>time.Parse("020106150405", s)\<close> on twelve characters.\<close>

definition parse_ddmmyyhhmmss :: "string \<Rightarrow> time option" where
  "parse_ddmmyyhhmmss s =
     (case (two_digits (take 2 s), two_digits (take 2 (drop 2 s)),
            two_digit_year (take 2 (drop 4 s)), parse_hms (drop 6 s)) of
        (Some d, Some m, Some y, Some (h, mi, sec)) \<Rightarrow>
          if valid_date y m d then Some (time_date y m d h mi sec) else None
      | _ \<Rightarrow> None)"

text \<open>\<^verbatim>\<open>time.Parse("0601021504", s)\<close> on ten characters: year, month, day, hour, minute.\<close>

definition parse_yymmddhhmm :: "string \<Rightarrow> (int \<times> int \<times> int \<times> int \<times> int) option" where
  "parse_yymmddhhmm s =
     (case (two_digit_year (take 2 s), two_digits (take 2 (drop 2 s)),
            two_digits (take 2 (drop 4 s)), two_digits (take 2 (drop 6 s)), two_digits (drop 8 s)) of
        (Some y, Some m, Some d, Some h, Some mi) \<Rightarrow>
          if valid_date y m d \<and> valid_hms h mi 0 then Some (y, m, d, h, mi) else None
      | _ \<Rightarrow> None)"

lemma length_fmt02 [simp]: "length (fmt02 n) = 2"
  by (simp add: fmt02_def)

lemma fmt02_digits [simp]: "list_all is_digit (fmt02 n)"
  by (simp add: fmt02_def nat_less_iff)

lemma length_format_hms [simp]: "length (format_hms t) = 6"
  by (simp add: format_hms_def split: prod.splits)

lemma format_hms_digits [simp]: "list_all is_digit (format_hms t)"
  by (simp add: format_hms_def split: prod.splits)

end
