(* ===== verification/Tracker.thy ===== *)
theory Tracker
  imports Go_Float Go_Time
begin

text \<open>
  The package \<^verbatim>\<open>internal/protocols\<close>: the normalised message and command, the errors the
  adapters return, the validation of identifiers, the conversion of NMEA coordinates, and the
  contract between the TCP session and a dialect.  The Go interface \<^verbatim>\<open>Framer\<close> is the locale
  \<open>framer\<close>; the theories \<^verbatim>\<open>GT06\<close>, \<^verbatim>\<open>H02\<close> and \<^verbatim>\<open>TKStar\<close> interpret it.

  Errors are values of \<open>perr\<close>, one constructor per message of the source; the accented texts
  themselves are not reproduced.  A call that panics in Go has no value here: the guards of the
  source are translated, and every index of the model lies behind them.
\<close>

section \<open>Messages, commands and errors\<close>

datatype confidence = Documented | Assumed | Unknown

datatype message_kind =
  KindLogin | KindPosition | KindHeartbeat | KindStatus | KindAlarm | KindCommandAck | KindOther

type_synonym command_type = string

datatype perr =
    ErrIncompleteFrame
  | ErrUnsupportedCommand command_type
  | ErrIMEILength nat | ErrIMEINotNumeric | ErrIMEIZero
  | ErrCoordEmpty | ErrCoordMalformed string | ErrCoordDegrees string | ErrCoordMinutes string
  | ErrCoordMinutesRange | ErrHemisphere string | ErrCoordinatesRange f64 f64
  | ErrNoStart nat | ErrGarbage nat | ErrFrameLength nat | ErrStopBytes byte byte
  | ErrShortFrame nat | ErrShortBody nat | ErrCRC "16 word" "16 word"
  | ErrShortHeartbeat nat | ErrShortReply nat | ErrShortGPS nat | ErrDate byte byte byte
  | ErrCommandChars | ErrCommandLength nat | ErrPasswordFormat | ErrHost | ErrCustomNeedsRaw
  | ErrNotNumber | ErrOutOfRange int int
  | ErrNoMarker nat | ErrNoTerminator | ErrConfiguredLength | ErrBinaryTooLong | ErrEmptyFrame
  | ErrUnknownMarker byte | ErrUnexpectedEnd nat | ErrBCDByte byte nat | ErrBCDNibble byte nat
  | ErrStatusWord | ErrCourseRange f64 | ErrTimeRange | ErrShortBinary nat | ErrNoIdentifier
  | ErrTextTooLong | ErrLoginWithoutIMEI | ErrTimestamp string
  | ErrNotCommand byte | ErrIMEITooLong
  | Wrapped string perr \<comment> \<open>\<^verbatim>\<open>fmt.Errorf("...: %w", err)\<close>\<close>

text \<open>A value of the attribute map; \<open>AErr\<close> stands for the text of an error.\<close>

datatype attr = ABool bool | AInt int | AStr string | AFloat f64 | AErr perr

record tracker_message =
  tm_IMEI :: string
  tm_Timestamp :: time
  tm_Latitude :: f64
  tm_Longitude :: f64
  tm_SpeedKmh :: f64
  tm_Heading :: f64
  tm_Altitude :: "f64 option"
  tm_GPSValid :: bool
  tm_Satellites :: "int option"
  tm_ACC :: "bool option"
  tm_BatteryVoltage :: "f64 option"
  tm_GSMLevel :: "int option"
  tm_RawPayload :: string
  tm_Kind :: message_kind
  tm_Protocol :: string
  tm_Ack :: bytes
  tm_HasLocation :: bool
  tm_Alarm :: string
  tm_CorrelationKey :: "32 word"
  tm_Response :: string
  tm_RelayOn :: "bool option"
  tm_BatteryPercent :: "int option"
  tm_HDOP :: "f64 option"
  tm_Attributes :: "string \<rightharpoonup> attr"

text \<open>The message whose fields are all unset; every adapter starts from it and sets a kind.\<close>

definition zero_message :: tracker_message where
  "zero_message = \<lparr> tm_IMEI = '''', tm_Timestamp = zero_time, tm_Latitude = Fin 0,
     tm_Longitude = Fin 0, tm_SpeedKmh = Fin 0, tm_Heading = Fin 0, tm_Altitude = None,
     tm_GPSValid = False, tm_Satellites = None, tm_ACC = None, tm_BatteryVoltage = None,
     tm_GSMLevel = None, tm_RawPayload = '''', tm_Kind = KindOther, tm_Protocol = '''',
     tm_Ack = [], tm_HasLocation = False, tm_Alarm = '''', tm_CorrelationKey = 0,
     tm_Response = '''', tm_RelayOn = None, tm_BatteryPercent = None, tm_HDOP = None,
     tm_Attributes = Map.empty \<rparr>"

definition set_attr :: "string \<Rightarrow> attr \<Rightarrow> tracker_message \<Rightarrow> tracker_message" where
  "set_attr k v m = m\<lparr>tm_Attributes := (tm_Attributes m)(k \<mapsto> v)\<rparr>"

abbreviation CommandEngineCut :: command_type where "CommandEngineCut \<equiv> ''ENGINE_CUT''"
abbreviation CommandEngineResume :: command_type where "CommandEngineResume \<equiv> ''ENGINE_RESUME''"
abbreviation CommandRequestPosition :: command_type where
  "CommandRequestPosition \<equiv> ''REQUEST_POSITION''"
abbreviation CommandRequestStatus :: command_type where "CommandRequestStatus \<equiv> ''REQUEST_STATUS''"
abbreviation CommandSetInterval :: command_type where "CommandSetInterval \<equiv> ''SET_INTERVAL''"
abbreviation CommandSetHeartbeat :: command_type where "CommandSetHeartbeat \<equiv> ''SET_HEARTBEAT''"
abbreviation CommandSetServer :: command_type where "CommandSetServer \<equiv> ''SET_SERVER''"
abbreviation CommandReboot :: command_type where "CommandReboot \<equiv> ''REBOOT''"
abbreviation CommandCustom :: command_type where "CommandCustom \<equiv> ''CUSTOM''"

definition AllCommandTypes :: "command_type list" where
  "AllCommandTypes =
     [CommandEngineCut, CommandEngineResume, CommandRequestPosition, CommandRequestStatus,
      CommandSetInterval, CommandSetHeartbeat, CommandSetServer, CommandReboot, CommandCustom]"

definition command_valid :: "command_type \<Rightarrow> bool" where
  "command_valid c \<longleftrightarrow> c \<in> set AllCommandTypes"

record command =
  cmd_Type :: command_type
  cmd_UniqueID :: string
  cmd_CorrelationKey :: "32 word"
  cmd_Password :: string
  cmd_Params :: "string \<rightharpoonup> string"
  cmd_Raw :: string

text \<open>Reading a missing key of a Go map gives the zero value.\<close>

definition Param :: "command \<Rightarrow> string \<Rightarrow> string" where
  "Param c k = (case cmd_Params c k of None \<Rightarrow> '''' | Some v \<Rightarrow> v)"

text \<open>The wrapping of an error and nothing else.\<close>

definition wrap_err :: "string \<Rightarrow> perr + 'a \<Rightarrow> perr + 'a" where
  "wrap_err s r = (case r of Inl e \<Rightarrow> Inl (Wrapped s e) | Inr x \<Rightarrow> Inr x)"

lemma wrap_err_ok [simp]: "wrap_err s (Inr x) = Inr x"
  by (simp add: wrap_err_def)

lemma wrap_err_Inr [simp]: "wrap_err s r = Inr x \<longleftrightarrow> r = Inr x"
  by (simp add: wrap_err_def split: sum.splits)

text \<open>\<^verbatim>\<open>errors.Is\<close> looks through the wrapping.\<close>

fun root_error :: "perr \<Rightarrow> perr" where
  "root_error (Wrapped _ e) = root_error e"
| "root_error e = e"

definition is_incomplete :: "perr \<Rightarrow> bool" where
  "is_incomplete e \<longleftrightarrow> root_error e = ErrIncompleteFrame"

definition is_unsupported :: "perr \<Rightarrow> bool" where
  "is_unsupported e \<longleftrightarrow> (case root_error e of ErrUnsupportedCommand _ \<Rightarrow> True | _ \<Rightarrow> False)"

record descriptor =
  ds_Name :: string
  ds_Vendor :: string
  ds_Confidence :: confidence
  ds_Commands :: "command_type list"

definition Supports :: "descriptor \<Rightarrow> command_type \<Rightarrow> bool" where
  "Supports d c \<longleftrightarrow> c \<in> set (ds_Commands d)"

section \<open>Identifiers\<close>

definition ValidateIMEI :: "string \<Rightarrow> perr option" where
  "ValidateIMEI s =
     (let imei = trim_space s in
      if length imei < 10 \<or> length imei > 20 then Some (ErrIMEILength (length imei))
      else if \<not> list_all is_digit imei then Some ErrIMEINotNumeric
      else if list_all (\<lambda>c. c = CHR ''0'') imei then Some ErrIMEIZero
      else None)"

lemma ValidateIMEI_None:
  "ValidateIMEI s = None \<longleftrightarrow>
     10 \<le> length (trim_space s) \<and> length (trim_space s) \<le> 20
     \<and> list_all is_digit (trim_space s) \<and> \<not> list_all (\<lambda>c. c = CHR ''0'') (trim_space s)"
  by (auto simp: ValidateIMEI_def Let_def)

lemma digits_trim_space: "list_all is_digit s \<Longrightarrow> trim_space s = s"
  by (rule trim_space_all_plain) (auto simp: list_all_iff intro: is_digit_plain)

section \<open>Coordinates\<close>

definition DDMMToDecimal :: "string \<Rightarrow> string \<Rightarrow> perr + f64" where
  "DDMMToDecimal value0 hemisphere =
     (let value = trim_space value0 in
      if value = [] then Inl ErrCoordEmpty
      else
        let dot = (case index_where (\<lambda>c. c = CHR ''.'') value of
                     None \<Rightarrow> length value | Some i \<Rightarrow> i)
        in if dot < 3 then Inl (ErrCoordMalformed value)
           else case parse_float (take (dot - 2) value) of
             None \<Rightarrow> Inl (ErrCoordDegrees value)
           | Some degrees \<Rightarrow>
               (case parse_float (drop (dot - 2) value) of
                  None \<Rightarrow> Inl (ErrCoordMinutes value)
                | Some minutes \<Rightarrow>
                    if Fin 60 \<le> minutes then Inl ErrCoordMinutesRange
                    else
                      let decimal = degrees + minutes / Fin 60;
                          h = to_upper (trim_space hemisphere)
                      in if h = ''S'' \<or> h = ''W'' then Inr (- decimal)
                         else if h = ''N'' \<or> h = ''E'' \<or> h = '''' then Inr decimal
                         else Inl (ErrHemisphere hemisphere)))"

definition ValidCoordinates :: "f64 \<Rightarrow> f64 \<Rightarrow> bool" where
  "ValidCoordinates lat lon =
     (if is_nan lat \<or> is_nan lon \<or> is_inf lat \<or> is_inf lon then False
      else if lat < Fin (- 90) \<or> lat > Fin 90 \<or> lon < Fin (- 180) \<or> lon > Fin 180 then False
      else True)"

text \<open>The factor is the \<^verbatim>\<open>float64\<close> nearest to 1.852.\<close>

definition KnotsToKmh :: "f64 \<Rightarrow> f64" where
  "KnotsToKmh knots = knots * f64_round (1852 / 1000)"

text \<open>What the check means: both coordinates are finite numbers on the globe.\<close>

definition on_globe :: "f64 \<Rightarrow> f64 \<Rightarrow> bool" where
  "on_globe lat lon \<longleftrightarrow>
     (\<exists>x y. lat = Fin x \<and> lon = Fin y \<and> \<bar>x\<bar> \<le> 90 \<and> \<bar>y\<bar> \<le> 180)"

lemma ValidCoordinates_iff: "ValidCoordinates lat lon \<longleftrightarrow> on_globe lat lon"
  by (cases lat; cases lon)
     (auto simp: ValidCoordinates_def on_globe_def is_nan_def is_inf_def not_less abs_le_iff)

text \<open>A message may carry a location only if it lies on the globe.\<close>

definition location_ok :: "tracker_message \<Rightarrow> bool" where
  "location_ok m \<longleftrightarrow> (tm_HasLocation m \<longrightarrow> on_globe (tm_Latitude m) (tm_Longitude m))"

section \<open>The framing contract\<close>

text \<open>What \<^verbatim>\<open>NextFrame\<close> returns: the frame (or nil), the bytes to consume, the error (or nil).\<close>

type_synonym frame_result = "bytes option \<times> nat \<times> perr option"

text \<open>The contract of the Go interface, as its comment states it: a frame is the consumed prefix of
  the buffer, an error other than \<^verbatim>\<open>ErrIncompleteFrame\<close> discards at least one byte and no more
  than there are, and separator bytes may be skipped without a frame.\<close>

locale framer =
  fixes next_frame :: "bytes \<Rightarrow> frame_result"
  assumes frame_prefix:
    "next_frame buf = (Some f, n, None) \<Longrightarrow> f = take n buf \<and> 0 < n \<and> n \<le> length buf"
  and skip_progress:
    "next_frame buf = (None, n, None) \<Longrightarrow> 0 < n \<and> n \<le> length buf"
  and error_progress:
    "buf \<noteq> [] \<Longrightarrow> next_frame buf = (fr, n, Some e) \<Longrightarrow>
       fr = None \<and> (if is_incomplete e then n = 0 else 0 < n \<and> n \<le> length buf)"
begin

lemma consumed_le:
  assumes "buf \<noteq> []" and "next_frame buf = (fr, n, e)"
  shows "n \<le> length buf"
proof (cases e)
  case None
  then show ?thesis
    using assms(2) by (cases fr) (auto dest: frame_prefix skip_progress)
next
  case (Some err)
  then show ?thesis
    using error_progress[OF assms(1), of fr n err] assms(2) by (auto split: if_splits)
qed

lemma advances:
  assumes "buf \<noteq> []" and "next_frame buf = (fr, n, e)"
    and "\<forall>err. e = Some err \<longrightarrow> \<not> is_incomplete err"
  shows "0 < n"
proof (cases e)
  case None
  then show ?thesis
    using assms(2) by (cases fr) (auto dest: frame_prefix skip_progress)
next
  case (Some err)
  then show ?thesis
    using error_progress[OF assms(1), of fr n err] assms by auto
qed

end

text \<open>A dialect whose frames do not depend on what follows them in the buffer.  Its frames can be
  read one after the other out of a stream, whatever the sizes of the reads: \<open>deframe\<close> is the
  sequence of frames in a buffer and the bytes that remain.  Frames up to a limit of the dialect
  are waited for until they are complete.\<close>

fun deframe_n :: "(bytes \<Rightarrow> frame_result) \<Rightarrow> nat \<Rightarrow> bytes \<Rightarrow> bytes list \<times> bytes" where
  "deframe_n nf 0 buf = ([], buf)"
| "deframe_n nf (Suc k) buf =
     (if buf = [] then ([], [])
      else case nf buf of
        (Some f, n, None) \<Rightarrow> (case deframe_n nf k (drop n buf) of (fs, r) \<Rightarrow> (f # fs, r))
      | (None, n, None) \<Rightarrow> deframe_n nf k (drop n buf)
      | (_, n, Some e) \<Rightarrow> if is_incomplete e then ([], buf) else deframe_n nf k (drop n buf))"

definition deframe :: "(bytes \<Rightarrow> frame_result) \<Rightarrow> bytes \<Rightarrow> bytes list \<times> bytes" where
  "deframe nf buf = deframe_n nf (length buf) buf"

text \<open>The same for a stream that arrives in chunks, as the session reads it: what a chunk leaves in
  the buffer precedes the next one.\<close>

fun feed :: "(bytes \<Rightarrow> frame_result) \<Rightarrow> bytes \<Rightarrow> bytes list \<Rightarrow> bytes list \<times> bytes" where
  "feed nf rest [] = ([], rest)"
| "feed nf rest (c # cs) =
     (case deframe nf (rest @ c) of
        (fs, r) \<Rightarrow> (case feed nf r cs of (gs, r') \<Rightarrow> (fs @ gs, r')))"

locale stream_framer = framer +
  fixes limit :: nat
  assumes frame_stable:
    "next_frame buf = (Some f, n, None) \<Longrightarrow> next_frame (buf @ rest) = (Some f, n, None)"
  and frame_waits:
    "next_frame f = (Some f, length f, None) \<Longrightarrow> length f \<le> limit \<Longrightarrow> 0 < k \<Longrightarrow> k < length f \<Longrightarrow>
       \<exists>e. next_frame (take k f) = (None, 0, Some e) \<and> is_incomplete e"
begin

lemma deframe_n_Cons:
  assumes "next_frame f = (Some f, length f, None)"
  shows "deframe_n next_frame (Suc k) (f @ rest) =
    (case deframe_n next_frame k rest of (fs, r) \<Rightarrow> (f # fs, r))"
proof -
  have "f \<noteq> []" using frame_prefix[OF assms] by auto
  then show ?thesis using frame_stable[OF assms, of rest] by simp
qed

text \<open>A partial frame at the end of the stream stays in the buffer.\<close>

lemma deframe_n_concat:
  assumes "\<forall>f \<in> set fs. next_frame f = (Some f, length f, None)"
    and "part \<noteq> [] \<Longrightarrow> \<exists>fr n e. next_frame part = (fr, n, Some e) \<and> is_incomplete e"
    and "length fs \<le> k" and "part \<noteq> [] \<Longrightarrow> length fs < k"
  shows "deframe_n next_frame k (concat fs @ part) = (fs, part)"
  using assms(1,3,4)
proof (induction fs arbitrary: k)
  case Nil
  show ?case
  proof (cases "part = []")
    case True
    then show ?thesis by (cases k) auto
  next
    case False
    then obtain fr n e where e: "next_frame part = (fr, n, Some e)" "is_incomplete e"
      using assms(2) by blast
    obtain j where "k = Suc j" using Nil.prems(3) False by (cases k) auto
    with e show ?thesis by (auto split: option.splits)
  qed
next
  case (Cons f fs)
  then obtain j where k: "k = Suc j" by (cases k) auto
  have "deframe_n next_frame j (concat fs @ part) = (fs, part)"
    using Cons k by simp
  then show ?case
    using Cons.prems(1) deframe_n_Cons[of f j "concat fs @ part"] k by simp
qed

lemma length_concat_ge:
  assumes "\<forall>f \<in> set fs. next_frame f = (Some f, length f, None)"
  shows "length fs \<le> length (concat fs)"
  using assms
proof (induction fs)
  case (Cons f fs)
  then have "0 < length f" using frame_prefix[of f f "length f"] by simp
  with Cons show ?case by (cases f) auto
qed simp

lemma deframe_concat:
  assumes "\<forall>f \<in> set fs. next_frame f = (Some f, length f, None)"
    and "part \<noteq> [] \<Longrightarrow> \<exists>fr n e. next_frame part = (fr, n, Some e) \<and> is_incomplete e"
  shows "deframe next_frame (concat fs @ part) = (fs, part)"
proof -
  have "length fs \<le> length (concat fs)" using assms(1) by (rule length_concat_ge)
  then show ?thesis
    unfolding deframe_def using assms
    by (intro deframe_n_concat) (auto simp: neq_Nil_conv)
qed

text \<open>A beginning of a sequence of frames splits into whole frames and a beginning of the next.\<close>

lemma prefix_concat_split:
  assumes "prefix x (concat fs)"
  shows "\<exists>k r. x = concat (take k fs) @ r \<and> (r = [] \<or> (k < length fs \<and> strict_prefix r (fs ! k)))"
  using assms
proof (induction fs arbitrary: x)
  case Nil
  then show ?case by simp
next
  case (Cons f fs)
  then consider "strict_prefix x f" | y where "x = f @ y" "prefix y (concat fs)"
    by (metis Nil_prefix append_Nil2 concat.simps(2) prefix_append strict_prefixI)
  then show ?case
  proof cases
    case 1
    then show ?thesis by (intro exI[of _ 0] exI[of _ x]) simp
  next
    case 2
    then obtain k r where "y = concat (take k fs) @ r"
      "r = [] \<or> (k < length fs \<and> strict_prefix r (fs ! k))"
      using Cons.IH by blast
    with 2(1) show ?thesis by (intro exI[of _ "Suc k"] exI[of _ r]) simp
  qed
qed

text \<open>The bytes that may wait in the buffer while the frames \<open>fs\<close> are still to come.\<close>

definition waiting :: "bytes \<Rightarrow> bytes list \<Rightarrow> bool" where
  "waiting r fs \<longleftrightarrow> r = [] \<or> (fs \<noteq> [] \<and> strict_prefix r (hd fs))"

text \<open>A frame of an admissible length that the framer recognises.\<close>

definition whole :: "bytes \<Rightarrow> bool" where
  "whole f \<longleftrightarrow> next_frame f = (Some f, length f, None) \<and> length f \<le> limit"

lemma waiting_incomplete:
  assumes "waiting r fs" and "\<forall>f \<in> set fs. whole f" and "r \<noteq> []"
  shows "\<exists>fr n e. next_frame r = (fr, n, Some e) \<and> is_incomplete e"
proof -
  have p: "strict_prefix r (hd fs)" "hd fs \<in> set fs" using assms by (auto simp: waiting_def)
  then obtain t where t: "hd fs = r @ t" "t \<noteq> []"
    by (auto simp: strict_prefix_def prefix_def)
  show ?thesis
    using frame_waits[of "hd fs" "length r"] bspec[OF assms(2) p(2)] assms(3) t
    by (fastforce simp: whole_def)
qed

lemma deframe_prefix:
  assumes c: "\<forall>f \<in> set fs. whole f" and "prefix x (concat fs)"
  shows "\<exists>k r. deframe next_frame x = (take k fs, r) \<and> x = concat (take k fs) @ r \<and> waiting r (drop k fs)"
proof -
  obtain k r where x: "x = concat (take k fs) @ r"
    and r: "r = [] \<or> (k < length fs \<and> strict_prefix r (fs ! k))"
    using prefix_concat_split[OF assms(2)] by blast
  have w: "waiting r (drop k fs)"
    using r by (auto simp: waiting_def hd_drop_conv_nth)
  have "deframe next_frame (concat (take k fs) @ r) = (take k fs, r)"
    using c waiting_incomplete[OF w] in_set_takeD[of _ k fs] in_set_dropD[of _ k fs]
    by (intro deframe_concat) (auto simp: whole_def)
  then show ?thesis using x w by blast
qed

text \<open>Reading the stream in pieces gives the same frames as reading it at once.\<close>

lemma feed_deframe:
  assumes "\<forall>f \<in> set fs. whole f"
    and "prefix (rest @ concat chunks) (concat fs)" and "waiting rest fs"
  shows "feed next_frame rest chunks = deframe next_frame (rest @ concat chunks)"
  using assms
proof (induction chunks arbitrary: rest fs)
  case Nil
  then show ?case
    using waiting_incomplete[OF Nil.prems(3,1)] deframe_concat[of "[]" rest] by simp
next
  case (Cons c cs)
  have "prefix (rest @ c) (concat fs)"
    using Cons.prems(2) by (auto simp: prefix_def)
  then obtain k r where d: "deframe next_frame (rest @ c) = (take k fs, r)"
    and x: "rest @ c = concat (take k fs) @ r" and w: "waiting r (drop k fs)"
    using deframe_prefix[OF Cons.prems(1)] by blast
  have "concat fs = concat (take k fs) @ concat (drop k fs)"
    by (metis append_take_drop_id concat_append)
  then have p: "prefix (r @ concat cs) (concat (drop k fs))"
    using Cons.prems(2) x by (metis append.assoc concat.simps(2) same_prefix_prefix)
  have c: "\<forall>f \<in> set (drop k fs). whole f"
    using Cons.prems(1) in_set_dropD by metis
  obtain j r' where e: "deframe next_frame (r @ concat cs) = (take j (drop k fs), r')"
    and y: "r @ concat cs = concat (take j (drop k fs)) @ r'"
    and w': "waiting r' (drop j (drop k fs))"
    using deframe_prefix[OF c p] by blast
  have c': "\<forall>f \<in> set (drop j (drop k fs)). whole f"
    using c in_set_dropD by metis
  have "rest @ concat (c # cs) = concat (take k fs @ take j (drop k fs)) @ r'"
    using x y by (metis append.assoc concat.simps(2) concat_append)
  moreover have "deframe next_frame (concat (take k fs @ take j (drop k fs)) @ r')
      = (take k fs @ take j (drop k fs), r')"
    using Cons.prems(1) c waiting_incomplete[OF w' c'] in_set_takeD[of _ k fs]
      in_set_takeD[of _ j "drop k fs"]
    by (intro deframe_concat) (auto simp: whole_def)
  ultimately show ?case
    using Cons.IH[OF c p w] d e by simp
qed

end

end
