(* ===== verification/GT06.thy ===== *)
theory GT06
  imports Tracker
begin

text \<open>
  The package \<^verbatim>\<open>internal/protocols/gt06\<close>, the binary GT06/Concox dialect: the CRC, the framing and
  the packet layout (\<^verbatim>\<open>frame.go\<close>), the decoders (\<^verbatim>\<open>decode.go\<close>, \<^verbatim>\<open>gt06.go\<close>), the command encoder
  (\<^verbatim>\<open>commands.go\<close>) and the device side that the simulator uses (\<^verbatim>\<open>simulate.go\<close>).  The lemmas show
  the framing contract, the detection of corrupted frames by the CRC, and the round trips between
  the two sides.
\<close>

section \<open>frame.go\<close>

abbreviation startShort :: byte where "startShort \<equiv> 0x78"
abbreviation startLong :: byte where "startLong \<equiv> 0x79"
abbreviation stopCR :: byte where "stopCR \<equiv> 0x0D"
abbreviation stopLF :: byte where "stopLF \<equiv> 0x0A"

definition maxFrameLength :: nat where "maxFrameLength = 4096"

definition crc_bit :: "16 word \<Rightarrow> 16 word" where
  "crc_bit crc = (if crc AND 1 \<noteq> 0 then drop_bit 1 crc XOR 0x8408 else drop_bit 1 crc)"

definition crc_byte :: "16 word \<Rightarrow> byte \<Rightarrow> 16 word" where
  "crc_byte crc b = (crc_bit ^^ 8) (crc XOR ucast b)"

definition crcITU :: "bytes \<Rightarrow> 16 word" where
  "crcITU data = NOT (foldl crc_byte 0xFFFF data)"

fun indexOfStart :: "bytes \<Rightarrow> nat option" where
  "indexOfStart (a # b # rest) =
     (if (a = startShort \<or> a = startLong) \<and> b = a then Some 0
      else map_option Suc (indexOfStart (b # rest)))"
| "indexOfStart _ = None"

definition gt06_header_size :: "bytes \<Rightarrow> nat" where
  "gt06_header_size buf = (if buf ! 0 = startLong then 4 else 3)"

definition gt06_NextFrame :: "bytes \<Rightarrow> frame_result" where
  "gt06_NextFrame buf =
     (case indexOfStart buf of
        None \<Rightarrow>
          let keep = (if buf \<noteq> [] \<and> (last buf = startShort \<or> last buf = startLong) then 1 else 0)
          in if length buf = keep then (None, 0, Some ErrIncompleteFrame)
             else (None, length buf - keep, Some (ErrNoStart (length buf - keep)))
      | Some start \<Rightarrow>
          if 0 < start then (None, start, Some (ErrGarbage start))
          else
            let headerSize = gt06_header_size buf in
            if length buf < headerSize then (None, 0, Some ErrIncompleteFrame)
            else
              let len = (if buf ! 0 = startLong then unat (uint16_be (buf ! 2) (buf ! 3))
                         else unat (buf ! 2))
              in if len < 5 \<or> len > maxFrameLength then (None, 2, Some (ErrFrameLength len))
                 else
                   let total = headerSize + len + 2 in
                   if length buf < total then (None, 0, Some ErrIncompleteFrame)
                   else if buf ! (total - 2) \<noteq> stopCR \<or> buf ! (total - 1) \<noteq> stopLF
                        then (None, 2, Some (ErrStopBytes (buf ! (total - 2)) (buf ! (total - 1))))
                        else (Some (take total buf), total, None))"

record packet =
  pkt_typ :: byte
  pkt_content :: bytes
  pkt_serial :: "16 word"

definition decodeFrame :: "bytes \<Rightarrow> perr + packet" where
  "decodeFrame frame =
     (if length frame < 9 then Inl (ErrShortFrame (length frame))
      else
        let headerSize = gt06_header_size frame;
            body = drop headerSize (take (length frame - 2) frame);
            n = length body
        in if n < 5 then Inl (ErrShortBody n)
           else
             let want = uint16_be (body ! (n - 2)) (body ! (n - 1));
                 got = crcITU (drop 2 (take (length frame - 4) frame))
             in if want \<noteq> got then Inl (ErrCRC want got)
                else Inr \<lparr> pkt_typ = body ! 0, pkt_content = drop 1 (take (n - 4) body),
                           pkt_serial = uint16_be (body ! (n - 4)) (body ! (n - 3)) \<rparr>)"

definition buildFrame :: "byte \<Rightarrow> bytes \<Rightarrow> 16 word \<Rightarrow> bytes" where
  "buildFrame typ content serial =
     (let len = 1 + length content + 2 + 2;
          out = [startShort, startShort, word_of_nat len, typ] @ content @ be16 serial
      in out @ be16 (crcITU (drop 2 out)) @ [stopCR, stopLF])"

section \<open>decode.go\<close>

abbreviation msgLogin :: byte where "msgLogin \<equiv> 0x01"
abbreviation msgGPS :: byte where "msgGPS \<equiv> 0x12"
abbreviation msgHeartbeat :: byte where "msgHeartbeat \<equiv> 0x13"
abbreviation msgStringInfo :: byte where "msgStringInfo \<equiv> 0x15"
abbreviation msgAlarmGPS :: byte where "msgAlarmGPS \<equiv> 0x16"
abbreviation msgGPSLBS2 :: byte where "msgGPSLBS2 \<equiv> 0x22"
abbreviation msgAlarm2 :: byte where "msgAlarm2 \<equiv> 0x26"
abbreviation msgAlarm3 :: byte where "msgAlarm3 \<equiv> 0x27"
abbreviation msgGPSLBSStatus :: byte where "msgGPSLBSStatus \<equiv> 0x2D"
abbreviation msgCommand :: byte where "msgCommand \<equiv> 0x80"
abbreviation msgTimeRequest :: byte where "msgTimeRequest \<equiv> 0x8A"
abbreviation msgGPSExtended :: byte where "msgGPSExtended \<equiv> 0xA0"

definition gpsBlockSize :: nat where "gpsBlockSize = 18"

definition isAlarm :: "byte \<Rightarrow> bool" where
  "isAlarm typ \<longleftrightarrow> typ = msgAlarmGPS \<or> typ = msgAlarm2 \<or> typ = msgAlarm3"

definition hasGPS :: "byte \<Rightarrow> bool" where
  "hasGPS typ \<longleftrightarrow> typ \<in> {msgGPS, msgGPSLBS2, msgGPSLBSStatus, msgGPSExtended, msgAlarmGPS,
     msgAlarm2, msgAlarm3}"

definition decodeIMEI :: "bytes \<Rightarrow> string" where
  "decodeIMEI b = (if length b < 8 then '''' else tl (fmt_hex False 16 (uint_be (take 8 b))))"

definition decodeGPS :: "tracker_message \<Rightarrow> bytes \<Rightarrow> perr + tracker_message" where
  "decodeGPS msg b =
     (if length b < gpsBlockSize then Inl (ErrShortGPS (length b))
      else
        let i = (\<lambda>k. int (unat (b ! k)));
            msg = msg\<lparr>tm_Timestamp := time_date (2000 + i 0) (i 1) (i 2) (i 3) (i 4) (i 5)\<rparr>
        in if b ! 1 < 1 \<or> b ! 1 > 12 \<or> b ! 2 < 1 \<or> b ! 2 > 31
           then Inl (ErrDate (b ! 0) (b ! 1) (b ! 2))
           else
             let sat = int (unat (b ! 6 AND 0x0F));
                 lat = f64_of_int (uint (uint32_be (b ! 7) (b ! 8) (b ! 9) (b ! 10))) / Fin 1800000;
                 lon = f64_of_int (uint (uint32_be (b ! 11) (b ! 12) (b ! 13) (b ! 14))) / Fin 1800000;
                 flags = uint16_be (b ! 16) (b ! 17);
                 msg = msg\<lparr>tm_Satellites := Some sat, tm_SpeedKmh := f64_of_int (i 15),
                   tm_Heading := f64_of_int (uint (flags AND 0x03FF)),
                   tm_GPSValid := (flags AND 0x1000 \<noteq> 0)\<rparr>;
                 lat = (if flags AND 0x0400 = 0 then - lat else lat);
                 lon = (if flags AND 0x0800 \<noteq> 0 then - lon else lon)
             in if \<not> ValidCoordinates lat lon then Inl (ErrCoordinatesRange lat lon)
                else Inr (msg\<lparr>tm_Latitude := lat, tm_Longitude := lon, tm_HasLocation := True\<rparr>))"

definition lbsBlockSize :: "bytes \<Rightarrow> nat" where
  "lbsBlockSize b =
     (if length b < 2 then 0
      else if uint16_be (b ! 0) (b ! 1) AND 0x8000 \<noteq> 0 then 9 else 8)"

definition applyTerminalInfo :: "tracker_message \<Rightarrow> byte \<Rightarrow> tracker_message" where
  "applyTerminalInfo msg info =
     (let msg = msg\<lparr>tm_RelayOn := Some (info AND 0x80 \<noteq> 0), tm_ACC := Some (info AND 0x02 \<noteq> 0)\<rparr>;
          msg = set_attr ''charging'' (ABool (info AND 0x04 \<noteq> 0)) msg;
          msg = set_attr ''armed'' (ABool (info AND 0x01 \<noteq> 0)) msg;
          code = drop_bit 3 info AND 0x07
      in if code = 1 then msg\<lparr>tm_Alarm := ''VIBRATION''\<rparr>
         else if code = 2 then msg\<lparr>tm_Alarm := ''POWER_LOSS''\<rparr>
         else if code = 3 then msg\<lparr>tm_Alarm := ''LOW_BATTERY''\<rparr>
         else if code = 4 then msg\<lparr>tm_Alarm := ''SOS''\<rparr>
         else msg)"

definition batteryLevelPercent :: "byte \<Rightarrow> int" where
  "batteryLevelPercent level =
     (let level = (if level > 6 then 6 else level) in int (unat level) * 100 div 6)"

definition alarmLabel :: "byte \<Rightarrow> string" where
  "alarmLabel code =
     (if code = 0x00 then ''''
      else if code = 0x01 then ''SOS''
      else if code = 0x02 then ''POWER_LOSS''
      else if code = 0x03 then ''VIBRATION''
      else if code = 0x04 then ''GEOFENCE_ENTER''
      else if code = 0x05 then ''GEOFENCE_EXIT''
      else if code = 0x06 then ''OVERSPEED''
      else if code = 0x09 then ''DISPLACEMENT''
      else if code = 0x0A then ''GPS_LOST''
      else if code = 0x0B then ''GPS_RECOVERED''
      else if code = 0x0E \<or> code = 0x0F then ''LOW_BATTERY''
      else if code = 0xFE then ''IGNITION_ON''
      else if code = 0xFF then ''IGNITION_OFF''
      else ''ALARM_0x'' @ hex_byte True code)"

text \<open>The bytes at the odd positions.\<close>

fun odd_bytes :: "bytes \<Rightarrow> bytes" where
  "odd_bytes (a # b # rest) = b # odd_bytes rest"
| "odd_bytes _ = []"

definition decodeReplyText :: "bytes \<Rightarrow> string" where
  "decodeReplyText b =
     (if length b \<ge> 2 \<and> b ! 0 = 0x00 \<and> b ! 1 \<noteq> 0x00
      then trim_space (str_of_bytes (odd_bytes b))
      else trim_space (str_of_bytes b))"

definition hexdump :: "bytes \<Rightarrow> string" where
  "hexdump b = hex_encode True b"

section \<open>gt06.go\<close>

abbreviation gt06_Name :: string where "gt06_Name \<equiv> ''gt06''"

definition gt06_Detect :: "bytes \<Rightarrow> bool" where
  "gt06_Detect data =
     (if length data < 2 then False
      else (data ! 0 = startShort \<and> data ! 1 = startShort)
         \<or> (data ! 0 = startLong \<and> data ! 1 = startLong))"

definition gt06_Describe :: descriptor where
  "gt06_Describe = \<lparr> ds_Name = gt06_Name,
     ds_Vendor = ''Concox e OEMs (inclui parte da linha TKSTAR 4G)'',
     ds_Confidence = Documented,
     ds_Commands = [CommandEngineCut, CommandEngineResume, CommandRequestPosition,
       CommandRequestStatus, CommandSetInterval, CommandSetHeartbeat, CommandSetServer,
       CommandReboot, CommandCustom] \<rparr>"

definition decodeHeartbeat :: "tracker_message \<Rightarrow> packet \<Rightarrow> perr + tracker_message" where
  "decodeHeartbeat msg pkt =
     (let c = pkt_content pkt in
      if length c < 3 then Inl (ErrShortHeartbeat (length c))
      else
        let msg = applyTerminalInfo msg (c ! 0);
            msg = msg\<lparr>tm_BatteryPercent := Some (batteryLevelPercent (c ! 1)),
                      tm_GSMLevel := Some (int (unat (c ! 2)))\<rparr>
        in if tm_Alarm msg \<noteq> '''' then Inr (msg\<lparr>tm_Kind := KindAlarm\<rparr>) else Inr msg)"

definition decodeLocation :: "tracker_message \<Rightarrow> packet \<Rightarrow> perr + tracker_message" where
  "decodeLocation msg pkt =
     (case decodeGPS msg (pkt_content pkt) of
        Inl e \<Rightarrow> Inl e
      | Inr msg \<Rightarrow>
          let msg = msg\<lparr>tm_Kind := KindPosition\<rparr>;
              rest = drop gpsBlockSize (pkt_content pkt);
              n = lbsBlockSize rest;
              rest = (if 0 < n \<and> n \<le> length rest then drop n rest else rest);
              (msg, rest) =
                (if 3 \<le> length rest then
                   ((applyTerminalInfo msg (rest ! 0))
                      \<lparr>tm_BatteryPercent := Some (batteryLevelPercent (rest ! 1)),
                       tm_GSMLevel := Some (int (unat (rest ! 2)))\<rparr>, drop 3 rest)
                 else (msg, rest))
          in if isAlarm (pkt_typ pkt) \<and> 1 \<le> length rest \<and> alarmLabel (rest ! 0) \<noteq> ''''
             then Inr (msg\<lparr>tm_Alarm := alarmLabel (rest ! 0), tm_Kind := KindAlarm\<rparr>)
             else Inr msg)"

definition decodeCommandReply :: "tracker_message \<Rightarrow> packet \<Rightarrow> perr + tracker_message" where
  "decodeCommandReply msg pkt =
     (let c = pkt_content pkt in
      if length c < 5 then Inl (ErrShortReply (length c))
      else
        let len0 = unat (c ! 0);
            len = (if len0 < 4 \<or> 1 + len0 > length c then length c - 1 else len0)
        in Inr (msg\<lparr>tm_CorrelationKey := uint32_be (c ! 1) (c ! 2) (c ! 3) (c ! 4),
                    tm_Response := decodeReplyText (drop 5 (take (1 + len) c))\<rparr>))"

definition buildTimeReply :: "time \<Rightarrow> 16 word \<Rightarrow> bytes" where
  "buildTimeReply now serial =
     (case (time_civil now, time_clock now) of
        ((y, m, d), (h, mi, s)) \<Rightarrow>
          buildFrame msgTimeRequest
            [word_of_int (y - 2000), word_of_int m, word_of_int d,
             word_of_int h, word_of_int mi, word_of_int s] serial)"

definition gt06_Parse :: "bool \<Rightarrow> time \<Rightarrow> bytes \<Rightarrow> perr + tracker_message list" where
  "gt06_Parse ackGPS now frame =
     (case decodeFrame frame of
        Inl e \<Rightarrow> Inl e
      | Inr pkt \<Rightarrow>
          let typ = pkt_typ pkt;
              msg = zero_message\<lparr>tm_Protocol := gt06_Name, tm_RawPayload := hexdump frame,
                tm_Attributes := [''packetType'' \<mapsto> AStr (''0x'' @ hex_byte True typ)],
                tm_Kind := KindOther\<rparr>
          in if typ = msgLogin then
               let imei = decodeIMEI (pkt_content pkt) in
               (case ValidateIMEI imei of
                  Some e \<Rightarrow> Inl (Wrapped ''login GT06'' e)
                | None \<Rightarrow> Inr [msg\<lparr>tm_Kind := KindLogin, tm_IMEI := imei,
                                   tm_Ack := buildFrame msgLogin [] (pkt_serial pkt)\<rparr>])
             else if typ = msgHeartbeat then
               (case decodeHeartbeat (msg\<lparr>tm_Kind := KindHeartbeat\<rparr>) pkt of
                  Inl e \<Rightarrow> Inl e
                | Inr msg \<Rightarrow> Inr [msg\<lparr>tm_Ack := buildFrame msgHeartbeat [] (pkt_serial pkt)\<rparr>])
             else if typ = msgStringInfo then
               (case decodeCommandReply (msg\<lparr>tm_Kind := KindCommandAck\<rparr>) pkt of
                  Inl e \<Rightarrow> Inl e | Inr msg \<Rightarrow> Inr [msg])
             else if typ = msgTimeRequest then
               Inr [msg\<lparr>tm_Kind := KindOther, tm_Ack := buildTimeReply now (pkt_serial pkt)\<rparr>]
             else if hasGPS typ then
               (case decodeLocation msg pkt of
                  Inl e \<Rightarrow> Inl e
                | Inr msg \<Rightarrow>
                    if isAlarm typ \<or> ackGPS
                    then Inr [msg\<lparr>tm_Ack := buildFrame typ [] (pkt_serial pkt)\<rparr>]
                    else Inr [msg])
             else
               let msg = set_attr ''unhandled'' (ABool True) (msg\<lparr>tm_Kind := KindOther\<rparr>)
               in if ackGPS then Inr [msg\<lparr>tm_Ack := buildFrame typ [] (pkt_serial pkt)\<rparr>]
                  else Inr [msg])"

section \<open>commands.go\<close>

definition maxCommandText :: nat where "maxCommandText = 200"

definition positiveInt :: "string \<Rightarrow> int \<Rightarrow> int \<Rightarrow> perr + int" where
  "positiveInt raw lo hi =
     (case atoi (trim_space raw) of
        None \<Rightarrow> Inl ErrNotNumber
      | Some v \<Rightarrow> if v < lo \<or> v > hi then Inl (ErrOutOfRange lo hi) else Inr v)"

definition withPwd :: "string \<Rightarrow> string \<Rightarrow> string" where
  "withPwd pwd base = (if pwd = '''' then base @ ''#'' else base @ '','' @ pwd @ ''#'')"

definition gt06_commandText :: "command \<Rightarrow> perr + string" where
  "gt06_commandText cmd =
     (let raw = trim_space (cmd_Raw cmd) in
      if raw \<noteq> '''' then Inr raw
      else
        let pwd = trim_space (cmd_Password cmd) in
        if pwd \<noteq> '''' \<and> \<not> re_safe_password pwd then Inl ErrPasswordFormat
        else if cmd_Type cmd = CommandEngineCut then Inr (withPwd pwd ''DYD'')
        else if cmd_Type cmd = CommandEngineResume then Inr (withPwd pwd ''HFYD'')
        else if cmd_Type cmd = CommandRequestPosition then Inr (withPwd pwd ''WHERE'')
        else if cmd_Type cmd = CommandRequestStatus then Inr (withPwd pwd ''STATUS'')
        else if cmd_Type cmd = CommandReboot then Inr (withPwd pwd ''RESET'')
        else if cmd_Type cmd = CommandSetInterval then
          (case positiveInt (Param cmd ''seconds'') 5 18000 of
             Inl e \<Rightarrow> Inl (Wrapped ''intervalo'' e)
           | Inr seconds \<Rightarrow>
               if pwd = '''' then Inr (''TIMER,'' @ show_int seconds @ ''#'')
               else Inr (''TIMER,'' @ pwd @ '','' @ show_int seconds @ ''#''))
        else if cmd_Type cmd = CommandSetHeartbeat then
          (case positiveInt (Param cmd ''minutes'') 1 360 of
             Inl e \<Rightarrow> Inl (Wrapped ''heartbeat'' e)
           | Inr minutes \<Rightarrow> Inr (''HBT,'' @ show_int minutes @ ''#''))
        else if cmd_Type cmd = CommandSetServer then
          (let host = trim_space (Param cmd ''host'') in
           if \<not> re_safe_host host then Inl ErrHost
           else case positiveInt (Param cmd ''port'') 1 65535 of
             Inl e \<Rightarrow> Inl (Wrapped ''porta'' e)
           | Inr port \<Rightarrow> Inr (''SERVER,1,'' @ host @ '','' @ show_int port @ '',0#''))
        else if cmd_Type cmd = CommandCustom then Inl ErrCustomNeedsRaw
        else Inl (ErrUnsupportedCommand (cmd_Type cmd)))"

text \<open>\<^verbatim>\<open>serialCounter\<close> is the state of the encoder: \<^verbatim>\<open>nextSerial\<close> adds one and truncates.\<close>

definition nextSerial :: "32 word \<Rightarrow> 16 word \<times> 32 word" where
  "nextSerial counter = (ucast (counter + 1), counter + 1)"

definition command_content :: "32 word \<Rightarrow> string \<Rightarrow> bytes" where
  "command_content key text =
     word_of_nat (length text + 4) # be32 key @ bytes_of_str text @ [0x00, 0x02]"

definition gt06_EncodeCommand :: "32 word \<Rightarrow> command \<Rightarrow> (perr + bytes) \<times> 32 word" where
  "gt06_EncodeCommand counter cmd =
     (case gt06_commandText cmd of
        Inl e \<Rightarrow> (Inl e, counter)
      | Inr text \<Rightarrow>
          if \<not> re_safe_text text then (Inl ErrCommandChars, counter)
          else if length text > maxCommandText then (Inl (ErrCommandLength (length text)), counter)
          else
            let (serial, counter') = nextSerial counter
            in (Inr (buildFrame msgCommand (command_content (cmd_CorrelationKey cmd) text) serial),
                counter'))"

section \<open>simulate.go: the device side\<close>

record device_status =
  dst_ACC :: bool
  dst_RelayOn :: bool
  dst_Charging :: bool
  dst_BatteryLevel :: byte
  dst_GSMLevel :: byte

definition TerminalInfoByte :: "device_status \<Rightarrow> byte" where
  "TerminalInfoByte s =
     (let info = 0x40;
          info = (if dst_RelayOn s then info OR 0x80 else info);
          info = (if dst_Charging s then info OR 0x04 else info);
          info = (if dst_ACC s then info OR 0x02 else info)
      in info OR 0x01)"

definition clampLevel :: "byte \<Rightarrow> byte \<Rightarrow> byte" where
  "clampLevel v m = (if v > m then m else v)"

definition sim_digit :: "char \<Rightarrow> perr + byte" where
  "sim_digit c = (if \<not> is_digit c then Inl ErrIMEINotNumeric else Inr (word_of_nat (digit_val c)))"

fun bcd_pairs :: "string \<Rightarrow> perr + bytes" where
  "bcd_pairs (h # l # rest) =
     (case sim_digit h of
        Inl e \<Rightarrow> Inl e
      | Inr hi \<Rightarrow>
          (case sim_digit l of
             Inl e \<Rightarrow> Inl e
           | Inr lo \<Rightarrow>
               (case bcd_pairs rest of
                  Inl e \<Rightarrow> Inl e
                | Inr bs \<Rightarrow> Inr ((push_bit 4 hi OR lo) # bs))))"
| "bcd_pairs _ = Inr []"

text \<open>\<^verbatim>\<open>%016s\<close> pads on the left with zeros.\<close>

definition BuildLoginFrame :: "string \<Rightarrow> 16 word \<Rightarrow> perr + bytes" where
  "BuildLoginFrame imei serial =
     (if length imei > 16 then Inl ErrIMEITooLong
      else case bcd_pairs (replicate (16 - length imei) (CHR ''0'') @ imei) of
        Inl e \<Rightarrow> Inl e
      | Inr content \<Rightarrow> Inr (buildFrame msgLogin content serial))"

definition BuildHeartbeatFrame :: "device_status \<Rightarrow> 16 word \<Rightarrow> bytes" where
  "BuildHeartbeatFrame status serial =
     buildFrame msgHeartbeat
       [TerminalInfoByte status, clampLevel (dst_BatteryLevel status) 6,
        clampLevel (dst_GSMLevel status) 4, 0x00, 0x01] serial"

definition BuildCommandReply :: "32 word \<Rightarrow> string \<Rightarrow> 16 word \<Rightarrow> bytes" where
  "BuildCommandReply serverFlag text serial =
     buildFrame msgStringInfo
       (word_of_nat (length text + 4) # be32 serverFlag @ bytes_of_str text @ [0x00, 0x02]) serial"

definition DecodeServerCommand :: "bytes \<Rightarrow> perr + 32 word \<times> string" where
  "DecodeServerCommand frame =
     (case decodeFrame frame of
        Inl e \<Rightarrow> Inl e
      | Inr pkt \<Rightarrow>
          let c = pkt_content pkt in
          if pkt_typ pkt \<noteq> msgCommand then Inl (ErrNotCommand (pkt_typ pkt))
          else if length c < 5 then Inl (ErrShortReply (length c))
          else
            let len0 = unat (c ! 0);
                len = (if len0 < 4 \<or> 1 + len0 > length c then length c - 1 else len0)
            in Inr (uint32_be (c ! 1) (c ! 2) (c ! 3) (c ! 4),
                    str_of_bytes (drop 5 (take (1 + len) c))))"

end
