(* ===== verification/GT06_Props.thy ===== *)
theory GT06_Props
  imports GT06
begin

text \<open>
  Properties of the GT06 adapter: the CRC refuses every frame with one damaged byte; the framing
  contract of \<open>stream_framer\<close> holds; what the device side builds is what the server side
  decodes; and a decoded location lies on the globe.
\<close>

section \<open>The CRC\<close>

lemma bit_crc_bit_top: "bit (crc_bit x) 15 \<longleftrightarrow> bit x 0"
proof -
  have "bit (0x8408 :: 16 word) 15" by simp
  moreover have "x AND 1 \<noteq> 0 \<longleftrightarrow> bit x 0"
    by (simp add: and_one_eq bit_0 odd_iff_mod_2_eq_one)
  ultimately show ?thesis
    by (auto simp: crc_bit_def bit_simps dest: bit_imp_le_length)
qed

lemma inj_crc_bit: "inj crc_bit"
proof (rule injI)
  fix x y :: "16 word"
  assume e: "crc_bit x = crc_bit y"
  then have b0: "bit x 0 = bit y 0" using bit_crc_bit_top by metis
  have odd: "z AND 1 \<noteq> 0 \<longleftrightarrow> bit z 0" for z :: "16 word"
    by (simp add: and_one_eq bit_0 odd_iff_mod_2_eq_one)
  have d: "drop_bit 1 x = drop_bit 1 y"
  proof (cases "bit x 0")
    case True
    then have "drop_bit 1 x XOR 0x8408 = drop_bit 1 y XOR (0x8408 :: 16 word)"
      using e b0 by (simp add: crc_bit_def odd)
    then have "(drop_bit 1 x XOR 0x8408) XOR 0x8408 = (drop_bit 1 y XOR 0x8408) XOR (0x8408 :: 16 word)"
      by (simp only:)
    then show ?thesis by (simp add: xor.assoc)
  next
    case False
    then show ?thesis using e b0 by (simp add: crc_bit_def odd)
  qed
  show "x = y"
  proof (rule bit_word_eqI)
    fix n assume "n < LENGTH(16)"
    show "bit x n = bit y n"
    proof (cases n)
      case 0
      then show ?thesis using b0 by simp
    next
      case (Suc k)
      have "bit (drop_bit 1 x) k = bit (drop_bit 1 y) k" using d by simp
      then show ?thesis using Suc by (simp add: bit_simps)
    qed
  qed
qed

lemma inj_crc_byte_state: "crc_byte c b = crc_byte c' b \<Longrightarrow> c = c'"
proof -
  assume "crc_byte c b = crc_byte c' b"
  then have "c XOR ucast b = c' XOR ucast b"
    using inj_fn[OF inj_crc_bit, of 8] by (auto simp: crc_byte_def dest: injD)
  then have "(c XOR ucast b) XOR ucast b = (c' XOR ucast b) XOR ucast b" by (simp only:)
  then show ?thesis by (simp add: xor.assoc)
qed

lemma inj_crc_byte_input: "crc_byte c b = crc_byte c b' \<Longrightarrow> b = b'"
proof -
  assume "crc_byte c b = crc_byte c b'"
  then have "c XOR ucast b = c XOR ucast b'"
    using inj_fn[OF inj_crc_bit, of 8] by (auto simp: crc_byte_def dest: injD)
  then have "c XOR (c XOR ucast b) = c XOR (c XOR ucast b')" by (simp only:)
  then have "(ucast b :: 16 word) = ucast b'" by (simp flip: xor.assoc)
  then have "(ucast (ucast b :: 16 word) :: byte) = ucast (ucast b' :: 16 word)" by (simp only:)
  then show ?thesis by simp
qed

lemma inj_foldl_crc: "foldl crc_byte c ys = foldl crc_byte c' ys \<Longrightarrow> c = c'"
  by (induction ys arbitrary: c c') (auto dest: inj_crc_byte_state)

lemma crc_one_byte: "b \<noteq> b' \<Longrightarrow> crcITU (xs @ b # ys) \<noteq> crcITU (xs @ b' # ys)"
proof
  assume "b \<noteq> b'" and "crcITU (xs @ b # ys) = crcITU (xs @ b' # ys)"
  then have "crc_byte (foldl crc_byte 0xFFFF xs) b = crc_byte (foldl crc_byte 0xFFFF xs) b'"
    by (auto simp: crcITU_def dest: inj_foldl_crc)
  then show False using \<open>b \<noteq> b'\<close> by (auto dest: inj_crc_byte_input)
qed

lemma crc_update:
  assumes "i < length xs" and "b \<noteq> xs ! i"
  shows "crcITU (xs[i := b]) \<noteq> crcITU xs"
proof -
  have "xs = take i xs @ xs ! i # drop (Suc i) xs" using assms(1) by (simp add: id_take_nth_drop)
  moreover have "xs[i := b] = take i xs @ b # drop (Suc i) xs"
    using assms(1) by (simp add: upd_conv_take_nth_drop)
  ultimately show ?thesis using crc_one_byte[OF assms(2), of "take i xs"] by metis
qed

section \<open>Frames\<close>

lemma indexOfStart_Some:
  "indexOfStart buf = Some i \<Longrightarrow>
     Suc i < length buf \<and> (buf ! i = startShort \<or> buf ! i = startLong) \<and> buf ! Suc i = buf ! i"
  by (induction buf arbitrary: i rule: indexOfStart.induct) (auto split: if_splits)

lemma indexOfStart_append:
  "indexOfStart buf = Some i \<Longrightarrow> indexOfStart (buf @ rest) = Some i"
  by (induction buf arbitrary: i rule: indexOfStart.induct) (auto split: if_splits)

text \<open>When a frame is found, it is the prefix that the header announces.\<close>

definition gt06_announced :: "bytes \<Rightarrow> nat" where
  "gt06_announced buf = gt06_header_size buf +
     (if buf ! 0 = startLong then unat (uint16_be (buf ! 2) (buf ! 3)) else unat (buf ! 2)) + 2"

lemma frame_chain:
  "(if a then (None, i, Some e1) else if b then (None, j, Some e2) else if c then (None, k, Some e3)
     else if d then (None, l, Some e4) else (Some t, m, None)) = (Some f, n, None)
   \<longleftrightarrow> \<not> a \<and> \<not> b \<and> \<not> c \<and> \<not> d \<and> f = t \<and> n = m"
  by auto

lemma gt06_NextFrame_frame:
  "gt06_NextFrame buf = (Some f, n, None) \<longleftrightarrow>
     indexOfStart buf = Some 0 \<and> gt06_header_size buf \<le> length buf
     \<and> n = gt06_announced buf \<and> n \<le> length buf \<and> gt06_header_size buf + 7 \<le> n
     \<and> n \<le> gt06_header_size buf + maxFrameLength + 2
     \<and> buf ! (n - 2) = stopCR \<and> buf ! (n - 1) = stopLF \<and> f = take n buf"
proof (cases "indexOfStart buf")
  case None
  then show ?thesis by (simp add: gt06_NextFrame_def Let_def)
next
  case (Some start)
  then show ?thesis
    by (cases "start = 0") (auto simp add: gt06_NextFrame_def Let_def frame_chain gt06_announced_def)
qed

lemma gt06_header_append: "buf \<noteq> [] \<Longrightarrow> gt06_header_size (buf @ rest) = gt06_header_size buf"
  by (simp add: gt06_header_size_def nth_append)

lemma gt06_announced_append:
  "gt06_header_size buf \<le> length buf \<Longrightarrow> gt06_announced (buf @ rest) = gt06_announced buf"
  by (auto simp: gt06_announced_def gt06_header_size_def nth_append split: if_splits)

lemma gt06_header_pos: "0 < gt06_header_size buf"
  by (simp add: gt06_header_size_def)

lemma gt06_frame_stable:
  assumes "gt06_NextFrame buf = (Some f, n, None)"
  shows "gt06_NextFrame (buf @ rest) = (Some f, n, None)"
proof -
  have h: "indexOfStart buf = Some 0" "gt06_header_size buf \<le> length buf" "n = gt06_announced buf"
    "n \<le> length buf" "gt06_header_size buf + 7 \<le> n"
    using assms by (auto simp: gt06_NextFrame_frame)
  moreover have "buf \<noteq> []" using h(1) by auto
  moreover have "n - 2 < length buf" "n - 1 < length buf" using h(4,5) by auto
  ultimately show ?thesis
    using assms unfolding gt06_NextFrame_frame
    by (auto simp: indexOfStart_append gt06_header_append gt06_announced_append nth_append)
qed

lemma indexOfStart_0:
  "indexOfStart buf = Some 0 \<longleftrightarrow>
     1 < length buf \<and> (buf ! 0 = startShort \<or> buf ! 0 = startLong) \<and> buf ! 1 = buf ! 0"
  by (cases buf rule: indexOfStart.cases) auto

text \<open>A frame that has not arrived completely is waited for.\<close>

lemma gt06_frame_waits:
  assumes "gt06_NextFrame f = (Some f, length f, None)" and "0 < k" and "k < length f"
  shows "gt06_NextFrame (take k f) = (None, 0, Some ErrIncompleteFrame)"
proof (cases "k = 1")
  case True
  then have "take k f = [f ! 0]" using assms by (cases f) auto
  moreover have "f ! 0 = startShort \<or> f ! 0 = startLong"
    using assms(1) by (auto simp: gt06_NextFrame_frame indexOfStart_0)
  ultimately show ?thesis by (auto simp: gt06_NextFrame_def)
next
  case False
  then have k: "1 < k" using assms(2) by simp
  have h: "indexOfStart f = Some 0" "gt06_header_size f + 7 \<le> length f"
    "length f = gt06_announced f" "length f \<le> gt06_header_size f + maxFrameLength + 2"
    using assms(1) by (auto simp: gt06_NextFrame_frame)
  have i: "indexOfStart (take k f) = Some 0"
    using h(1) k assms(3) by (auto simp: indexOfStart_0)
  have hs: "gt06_header_size (take k f) = gt06_header_size f"
    using k by (simp add: gt06_header_size_def)
  show ?thesis
  proof (cases "k < gt06_header_size f")
    case True
    then show ?thesis using i hs assms(3) by (simp add: gt06_NextFrame_def)
  next
    case False
    then have "gt06_announced (take k f) = gt06_announced f"
      using k by (auto simp: gt06_announced_def gt06_header_size_def)
    then show ?thesis
      using i hs assms(3) h(2,3,4) False
      by (auto simp: gt06_NextFrame_def gt06_announced_def)
  qed
qed

interpretation gt06: stream_framer gt06_NextFrame "maxFrameLength + 6"
proof
  fix buf f n
  assume "gt06_NextFrame buf = (Some f, n, None)"
  then show "f = take n buf \<and> 0 < n \<and> n \<le> length buf"
    using gt06_header_pos[of buf] by (auto simp: gt06_NextFrame_frame)
next
  fix buf n
  assume "gt06_NextFrame buf = (None, n, None)"
  then show "0 < n \<and> n \<le> length buf"
    by (auto simp: gt06_NextFrame_def Let_def split: option.splits if_splits)
next
  fix buf fr n e
  assume "buf \<noteq> []" and "gt06_NextFrame buf = (fr, n, Some e)"
  then show "fr = None \<and> (if is_incomplete e then n = 0 else 0 < n \<and> n \<le> length buf)"
    by (cases buf) (auto simp: gt06_NextFrame_def Let_def is_incomplete_def Suc_le_eq
        split: option.splits if_splits dest!: indexOfStart_Some)
next
  fix buf f n rest
  assume "gt06_NextFrame buf = (Some f, n, None)"
  then show "gt06_NextFrame (buf @ rest) = (Some f, n, None)" by (rule gt06_frame_stable)
next
  fix f k
  assume "gt06_NextFrame f = (Some f, length f, None)" and "0 < k" and "k < length f"
  then show "\<exists>e. gt06_NextFrame (take k f) = (None, 0, Some e) \<and> is_incomplete e"
    using gt06_frame_waits[of f k] by (simp add: is_incomplete_def)
qed

section \<open>Building and decoding\<close>

lemma length_buildFrame [simp]: "length (buildFrame typ content serial) = length content + 10"
  by (simp add: buildFrame_def Let_def)

lemma buildFrame_split:
  "buildFrame typ content serial =
     ([startShort, startShort, word_of_nat (length content + 5), typ] @ content @ be16 serial)
     @ be16 (crcITU ([word_of_nat (length content + 5), typ] @ content @ be16 serial))
     @ [stopCR, stopLF]"
  by (simp add: buildFrame_def Let_def add.commute)

lemma decodeFrame_buildFrame:
  "decodeFrame (buildFrame typ content serial) =
     Inr \<lparr> pkt_typ = typ, pkt_content = content, pkt_serial = serial \<rparr>"
proof -
  let ?len = "word_of_nat (length content + 5) :: byte"
  define crc where "crc = crcITU ([?len, typ] @ content @ be16 serial)"
  define f where "f = buildFrame typ content serial"
  have f: "f = [startShort, startShort, ?len] @ (typ # content @ be16 serial @ be16 crc) @ [stopCR, stopLF]"
    by (simp add: f_def buildFrame_split crc_def)
  have l: "length f = length content + 10" by (simp add: f_def)
  have h: "gt06_header_size f = 3" by (simp add: gt06_header_size_def f)
  have body: "drop 3 (take (length f - 2) f) = typ # content @ be16 serial @ be16 crc"
    unfolding l by (simp add: f take_Cons' be16_def)
  have cov: "drop 2 (take (length f - 4) f) = [?len, typ] @ content @ be16 serial"
    unfolding l by (simp add: f take_Cons' be16_def)
  show ?thesis
    unfolding f_def[symmetric] decodeFrame_def Let_def h body cov
    by (simp add: l be16_def nth_append bytes_simps nth_Cons' crc_def)
qed

lemma NextFrame_buildFrame:
  assumes "length content \<le> 250"
  shows "gt06_NextFrame (buildFrame typ content serial) =
    (Some (buildFrame typ content serial), length content + 10, None)"
proof -
  define f where "f = buildFrame typ content serial"
  have l: "length f = length content + 10" by (simp add: f_def)
  have f012: "f ! 0 = startShort" "f ! 2 = word_of_nat (length content + 5)"
    "indexOfStart f = Some 0"
    by (simp_all add: f_def buildFrame_split)
  have u: "unat (word_of_nat (length content + 5) :: byte) = length content + 5"
    using assms by (simp add: unat_of_nat take_bit_eq_mod del: of_nat_add)
  have h: "gt06_header_size f = 3" by (simp add: gt06_header_size_def f012)
  have a: "gt06_announced f = length f"
    using u by (simp add: gt06_announced_def h f012(1,2) l)
  have stop: "f ! (length f - 2) = stopCR" "f ! (length f - 1) = stopLF"
    by (simp_all add: l) (simp_all add: f_def buildFrame_split be16_def nth_append nth_Cons')
  show ?thesis
    using gt06_NextFrame_frame[of f f "length f"] h a stop f012(3) assms
    by (simp add: l maxFrameLength_def flip: f_def)
qed

lemma drop_take_update:
  assumes "i < n" and "k \<le> i" and "n \<le> length xs"
  shows "drop k (take n (xs[i := b])) = (drop k (take n xs))[i - k := b]"
  using assms by (simp add: take_update_swap drop_update_swap)

lemma decodeFrame_Inr:
  assumes "decodeFrame f = Inr p"
  shows "9 \<le> length f" and "gt06_header_size f + 7 \<le> length f"
    and "uint16_be (f ! (length f - 4)) (f ! (length f - 3))
      = crcITU (drop 2 (take (length f - 4) f))"
proof -
  show l: "9 \<le> length f" and h: "gt06_header_size f + 7 \<le> length f"
    using assms by (auto simp: decodeFrame_def Let_def split: if_splits)
  define n where "n = length f - 2 - gt06_header_size f"
  have n: "length (drop (gt06_header_size f) (take (length f - 2) f)) = n"
    using l by (simp add: n_def)
  have "gt06_header_size f + (n - 2) = length f - 4" "gt06_header_size f + (n - 1) = length f - 3"
    using h by (auto simp: n_def)
  then show "uint16_be (f ! (length f - 4)) (f ! (length f - 3))
      = crcITU (drop 2 (take (length f - 4) f))"
    using assms l h unfolding decodeFrame_def Let_def n by (auto split: if_splits)
qed

lemma decodeFrame_crc_mismatch:
  assumes "9 \<le> length f" and "gt06_header_size f + 7 \<le> length f"
    and "uint16_be (f ! (length f - 4)) (f ! (length f - 3))
      \<noteq> crcITU (drop 2 (take (length f - 4) f))"
  shows "\<exists>want got. decodeFrame f = Inl (ErrCRC want got)"
proof -
  define n where "n = length f - 2 - gt06_header_size f"
  have n: "length (drop (gt06_header_size f) (take (length f - 2) f)) = n"
    using assms(1) by (simp add: n_def)
  have i: "gt06_header_size f + (n - 2) = length f - 4" "gt06_header_size f + (n - 1) = length f - 3"
    and n5: "\<not> n < 5"
    using assms(2) by (auto simp: n_def)
  then show ?thesis
    using assms unfolding decodeFrame_def Let_def n by auto
qed

text \<open>Property C13: the CRC catches line noise.  Take any frame that the decoder accepts and
  replace any one byte behind the start marker and before the stop bytes (the length, the packet
  type, the content, the serial number or the CRC itself): the damaged frame is refused with a CRC
  error, whatever the position and the new value.\<close>

theorem gt06_damaged_frame_refused:
  assumes "decodeFrame f = Inr p" and "2 \<le> i" and "i < length f - 2" and "b \<noteq> f ! i"
  shows "\<exists>want got. decodeFrame (f[i := b]) = Inl (ErrCRC want got)"
proof (rule decodeFrame_crc_mismatch)
  note d = decodeFrame_Inr[OF assms(1)]
  have h: "gt06_header_size (f[i := b]) = gt06_header_size f"
    using assms(2) by (simp add: gt06_header_size_def)
  then show "9 \<le> length (f[i := b])"
    and "gt06_header_size (f[i := b]) + 7 \<le> length (f[i := b])"
    using d by simp_all
  let ?L = "length f"
  show "uint16_be (f[i := b] ! (length (f[i := b]) - 4)) (f[i := b] ! (length (f[i := b]) - 3))
      \<noteq> crcITU (drop 2 (take (length (f[i := b]) - 4) (f[i := b])))"
  proof (cases "i < ?L - 4")
    case True
    have "drop 2 (take (?L - 4) (f[i := b])) = (drop 2 (take (?L - 4) f))[i - 2 := b]"
      using True assms(2) by (intro drop_take_update) auto
    moreover have "crcITU ((drop 2 (take (?L - 4) f))[i - 2 := b]) \<noteq> crcITU (drop 2 (take (?L - 4) f))"
      using True assms(2,4) by (intro crc_update) (auto simp: Suc_diff_Suc numeral_2_eq_2)
    ultimately show ?thesis using True d(3) by auto
  next
    case False
    then have i: "i = ?L - 4 \<or> i = ?L - 3" using assms(3) d(1) by auto
    have "drop 2 (take (?L - 4) (f[i := b])) = drop 2 (take (?L - 4) f)"
      using False by simp
    moreover have "uint16_be (f[i := b] ! (?L - 4)) (f[i := b] ! (?L - 3))
        \<noteq> uint16_be (f ! (?L - 4)) (f ! (?L - 3))"
      using i assms(4) d(1) by (auto simp: uint16_be_inject nth_list_update)
    ultimately show ?thesis using d(3) by simp
  qed
qed

theorem gt06_damaged_frame_refused_witness:
  "(\<exists>want got. decodeFrame ((buildFrame msgHeartbeat [0x43, 6, 4, 0, 1] 7)[4 := 0x41])
      = Inl (ErrCRC want got))
   \<and> decodeFrame (buildFrame msgHeartbeat [0x43, 6, 4, 0, 1] 7)
      = Inr \<lparr> pkt_typ = msgHeartbeat, pkt_content = [0x43, 6, 4, 0, 1], pkt_serial = 7 \<rparr>"
  using gt06_damaged_frame_refused[OF decodeFrame_buildFrame, of 4 msgHeartbeat "[0x43, 6, 4, 0, 1]" 7 "0x41"]
  by (simp add: decodeFrame_buildFrame) (simp add: buildFrame_split)

text \<open>The frame codec is a round trip.  A frame built for any packet type, any content
  of up to 250 bytes and any serial number, followed by whatever else the socket delivered, is cut
  out of the buffer exactly, and decodes to that packet.\<close>

theorem gt06_frame_roundtrip:
  assumes "length content \<le> 250"
  shows "gt06_NextFrame (buildFrame typ content serial @ rest) =
           (Some (buildFrame typ content serial), length content + 10, None)
         \<and> decodeFrame (buildFrame typ content serial) =
             Inr \<lparr> pkt_typ = typ, pkt_content = content, pkt_serial = serial \<rparr>"
  using gt06_frame_stable[OF NextFrame_buildFrame[OF assms], of "typ" serial rest]
  by (simp add: decodeFrame_buildFrame)

theorem gt06_frame_roundtrip_witness:
  "gt06_NextFrame (buildFrame msgGPS [1, 2, 3] 9 @ [0x78]) = (Some (buildFrame msgGPS [1, 2, 3] 9), 13, None)"
  using gt06_frame_roundtrip[of "[1, 2, 3]" msgGPS 9 "[0x78]"] by simp

section \<open>Login\<close>

lemma unat_bcd_byte:
  assumes "h < 10" and "l < 10"
  shows "unat (push_bit 4 (word_of_nat h) OR word_of_nat l :: byte) = 16 * h + l"
proof -
  have "\<forall>h \<in> set [0..<10]. \<forall>l \<in> set [0..<10].
      unat (push_bit 4 (word_of_nat h) OR word_of_nat l :: byte) = 16 * h + l"
    by code_simp
  then show ?thesis using assms by simp
qed

lemma hex_char_digit: "is_digit c \<Longrightarrow> hex_char up (digit_val c) = c"
  using digit_char_digit_val[of c] digit_val_less[of c]
  by (simp add: hex_char_def digit_char_def)

lemma bcd_pairs_hex:
  "list_all is_digit s \<Longrightarrow> even (length s) \<Longrightarrow>
     \<exists>bs. bcd_pairs s = Inr bs \<and> hex_encode up bs = s \<and> 2 * length bs = length s"
proof (induction s rule: bcd_pairs.induct)
  case (1 h l rest)
  have d: "is_digit h" "is_digit l" using 1(2) by auto
  then have sd: "sim_digit h = Inr (word_of_nat (digit_val h))"
    "sim_digit l = Inr (word_of_nat (digit_val l))"
    by (simp_all add: sim_digit_def)
  obtain bs where bs: "bcd_pairs rest = Inr bs" "hex_encode up bs = rest"
    "2 * length bs = length rest"
    using 1(1)[OF sd] 1(2,3) by auto
  let ?b = "push_bit 4 (word_of_nat (digit_val h)) OR word_of_nat (digit_val l) :: byte"
  have "hex_byte up ?b = [h, l]"
    using unat_bcd_byte[of "digit_val h" "digit_val l"] digit_val_less[OF d(1)] digit_val_less[OF d(2)]
    by (simp add: hex_byte_def hex_char_digit d)
  with bs sd show ?case
    by (intro exI[of _ "?b # bs"]) (simp add: hex_encode_def)
qed (auto simp: hex_encode_def)

text \<open>A login round trip.  The device side accepts every identifier of fifteen digits
  that is not all zeros, and the server side reads the same identifier back out of the BCD
  packet, classifies the message as a login and acknowledges it with the serial number it came
  with.\<close>

theorem gt06_login_roundtrip:
  assumes "length imei = 15" and "list_all is_digit imei" and "\<not> list_all (\<lambda>c. c = CHR ''0'') imei"
  shows "\<exists>f m. BuildLoginFrame imei serial = Inr f
      \<and> gt06_NextFrame f = (Some f, length f, None)
      \<and> gt06_Parse ackGPS now f = Inr [m] \<and> tm_Kind m = KindLogin \<and> tm_IMEI m = imei
      \<and> tm_Ack m = buildFrame msgLogin [] serial"
proof -
  have "list_all is_digit (CHR ''0'' # imei)" using assms(2) by (simp add: is_digit_def)
  then obtain bs where bs: "bcd_pairs (CHR ''0'' # imei) = Inr bs"
    "hex_encode False bs = CHR ''0'' # imei" "length bs = 8"
    using bcd_pairs_hex[of "CHR ''0'' # imei" False] assms(1) by fastforce
  have "fmt_hex False 16 (uint_be bs) = CHR ''0'' # imei"
    using fmt_hex_uint_be[of False bs] bs(2,3) by simp
  then have "decodeIMEI bs = imei" by (simp add: decodeIMEI_def bs(3))
  moreover have "ValidateIMEI imei = None"
    using assms by (simp add: ValidateIMEI_None digits_trim_space)
  moreover have "BuildLoginFrame imei serial = Inr (buildFrame msgLogin bs serial)"
    using assms(1) bs(1) by (simp add: BuildLoginFrame_def)
  ultimately show ?thesis
    using bs(3) by (simp add: gt06_Parse_def decodeFrame_buildFrame NextFrame_buildFrame)
qed

theorem gt06_login_roundtrip_witness:
  "\<exists>f m. BuildLoginFrame ''869247061234567'' 1 = Inr f
      \<and> gt06_NextFrame f = (Some f, length f, None)
      \<and> gt06_Parse False 0 f = Inr [m] \<and> tm_Kind m = KindLogin \<and> tm_IMEI m = ''869247061234567''
      \<and> tm_Ack m = buildFrame msgLogin [] 1"
  by (rule gt06_login_roundtrip) (simp_all add: is_digit_def)

section \<open>Commands and replies\<close>

lemma gt06_EncodeCommand_Inr:
  assumes "gt06_EncodeCommand counter cmd = (Inr f, counter')"
  obtains ctext where "gt06_commandText cmd = Inr ctext" and "re_safe_text ctext"
    and "f = buildFrame msgCommand (command_content (cmd_CorrelationKey cmd) ctext) (ucast (counter + 1))"
    and "counter' = counter + 1"
proof (cases "gt06_commandText cmd")
  case (Inl e)
  then show ?thesis using assms by (simp add: gt06_EncodeCommand_def)
next
  case (Inr ctext)
  have safe: "re_safe_text ctext"
  proof (rule ccontr)
    assume "\<not> re_safe_text ctext"
    then show False using assms Inr by (simp add: gt06_EncodeCommand_def)
  qed
  then have "\<not> maxCommandText < length ctext" by (simp add: re_safe_text_def maxCommandText_def)
  then have e: "gt06_EncodeCommand counter cmd =
      (Inr (buildFrame msgCommand (command_content (cmd_CorrelationKey cmd) ctext) (ucast (counter + 1))),
       counter + 1)"
    using Inr safe by (simp add: gt06_EncodeCommand_def nextSerial_def)
  show ?thesis
    using assms unfolding e prod.inject sum.inject by (intro that[OF Inr safe]) auto
qed

text \<open>The fields of the command packet, as a reader at the other end finds them.\<close>

lemma length_command_content [simp]: "length (command_content key ctext) = length ctext + 7"
  by (simp add: command_content_def)

lemma command_content_length_byte:
  assumes "length ctext \<le> 200"
  shows "unat (command_content key ctext ! 0) = length ctext + 4"
  using assms by (simp add: command_content_def unat_of_nat take_bit_eq_mod del: of_nat_add)

lemma command_content_key:
  "uint32_be (command_content key ctext ! 1) (command_content key ctext ! 2)
     (command_content key ctext ! 3) (command_content key ctext ! 4) = key"
  by (simp add: command_content_def be32_def bytes_simps)

lemma command_content_text:
  "drop 5 (take (1 + (length ctext + 4)) (command_content key ctext)) = bytes_of_str ctext"
  by (simp add: command_content_def be32_def take_Cons')

lemma command_content_decode:
  assumes "length ctext \<le> 200"
  shows "DecodeServerCommand (buildFrame msgCommand (command_content key ctext) serial) = Inr (key, ctext)"
  unfolding DecodeServerCommand_def decodeFrame_buildFrame sum.case Let_def packet.simps
    command_content_length_byte[OF assms] command_content_key
  using command_content_text[of ctext key] by simp

text \<open>Property C14: what the encoder sends is what the device reads.  Whenever a command is encoded,
  the packet is one well-formed frame (its length byte does not wrap), the device side reads the
  correlation key of the command and its exact text back, and that text is printable ASCII of at
  most 200 characters, so that no control byte can be smuggled into the stream.\<close>

theorem gt06_command_roundtrip:
  assumes "gt06_EncodeCommand counter cmd = (Inr f, counter')"
  shows "\<exists>text. gt06_commandText cmd = Inr text
      \<and> gt06_NextFrame f = (Some f, length f, None)
      \<and> DecodeServerCommand f = Inr (cmd_CorrelationKey cmd, text)
      \<and> 1 \<le> length text \<and> length text \<le> 200 \<and> list_all printable_char text"
proof -
  obtain ctext where t: "gt06_commandText cmd = Inr ctext" "re_safe_text ctext"
    "f = buildFrame msgCommand (command_content (cmd_CorrelationKey cmd) ctext) (ucast (counter + 1))"
    by (rule gt06_EncodeCommand_Inr[OF assms])
  then have len: "1 \<le> length ctext" "length ctext \<le> 200" "list_all printable_char ctext"
    by (simp_all add: re_safe_text_def)
  then have "gt06_NextFrame f = (Some f, length f, None)"
    using NextFrame_buildFrame[of "command_content (cmd_CorrelationKey cmd) ctext"] t(3) by simp
  then show ?thesis using t len command_content_decode by blast
qed

definition sample_command :: command where
  "sample_command = \<lparr> cmd_Type = CommandEngineCut, cmd_UniqueID = ''869247061234567'',
     cmd_CorrelationKey = 0xCAFE, cmd_Password = '''', cmd_Params = Map.empty, cmd_Raw = '''' \<rparr>"

lemma sample_command_encodes:
  "gt06_EncodeCommand 0 sample_command =
     (Inr (buildFrame msgCommand (command_content 0xCAFE ''DYD#'') 1), 1)"
  by (simp add: gt06_EncodeCommand_def gt06_commandText_def sample_command_def withPwd_def
      re_safe_text_def printable_char_def maxCommandText_def nextSerial_def Let_def)

theorem gt06_command_roundtrip_witness:
  "\<exists>text. gt06_commandText sample_command = Inr text
      \<and> gt06_NextFrame (buildFrame msgCommand (command_content 0xCAFE ''DYD#'') 1)
          = (Some (buildFrame msgCommand (command_content 0xCAFE ''DYD#'') 1), 21, None)
      \<and> DecodeServerCommand (buildFrame msgCommand (command_content 0xCAFE ''DYD#'') 1)
          = Inr (cmd_CorrelationKey sample_command, text)
      \<and> 1 \<le> length text \<and> length text \<le> 200 \<and> list_all printable_char text"
  using gt06_command_roundtrip[OF sample_command_encodes] by simp

lemma decodeReplyText_printable:
  assumes "list_all printable_char s"
  shows "decodeReplyText (bytes_of_str s) = trim_space s"
proof -
  have "bytes_of_str s ! 0 \<noteq> 0" if "2 \<le> length s"
  proof -
    have "of_char (s ! 0) \<noteq> (0 :: nat)"
      using assms that by (cases s) (auto simp: printable_char_def)
    then have "unat (bytes_of_str s ! 0) \<noteq> 0"
      using that by (cases s) (simp_all add: bytes_of_str_def)
    then show ?thesis by auto
  qed
  then show ?thesis by (auto simp: decodeReplyText_def)
qed

text \<open>The acknowledgement of a command comes back with its key.  The packet that the
  device builds for a reply (printable text of up to 200 characters) is parsed as a command
  acknowledgement that carries the same 32-bit correlation key and the text without surrounding
  white space.\<close>

theorem gt06_reply_roundtrip:
  assumes "length text \<le> 200" and "list_all printable_char text"
  shows "\<exists>m. gt06_Parse ackGPS now (BuildCommandReply key text serial) = Inr [m]
      \<and> tm_Kind m = KindCommandAck \<and> tm_CorrelationKey m = key \<and> tm_Response m = trim_space text"
proof -
  let ?c = "command_content key text"
  have f: "BuildCommandReply key text serial = buildFrame msgStringInfo ?c serial"
    by (simp add: BuildCommandReply_def command_content_def)
  have "decodeCommandReply m \<lparr> pkt_typ = msgStringInfo, pkt_content = ?c, pkt_serial = serial \<rparr>
      = Inr (m\<lparr>tm_CorrelationKey := key, tm_Response := trim_space text\<rparr>)" for m
    unfolding decodeCommandReply_def Let_def packet.simps command_content_length_byte[OF assms(1)]
      command_content_key
    using command_content_text[of "text" key] by (simp add: decodeReplyText_printable[OF assms(2)])
  then show ?thesis
    by (simp add: gt06_Parse_def f decodeFrame_buildFrame)
qed

theorem gt06_reply_roundtrip_witness:
  "\<exists>m. gt06_Parse False 0 (BuildCommandReply 0xCAFE '' DYD=Success! '' 3) = Inr [m]
      \<and> tm_Kind m = KindCommandAck \<and> tm_CorrelationKey m = 0xCAFE
      \<and> tm_Response m = trim_space '' DYD=Success! ''"
  by (rule gt06_reply_roundtrip) (simp_all add: printable_char_def)

section \<open>Telemetry\<close>

lemma decodeGPS_location:
  assumes "decodeGPS msg b = Inr m"
  shows "on_globe (tm_Latitude m) (tm_Longitude m)"
  using assms
  by (auto simp: decodeGPS_def Let_def ValidCoordinates_iff split: if_splits)

lemma applyTerminalInfo_location [simp]:
  "tm_HasLocation (applyTerminalInfo msg i) = tm_HasLocation msg"
  "tm_Latitude (applyTerminalInfo msg i) = tm_Latitude msg"
  "tm_Longitude (applyTerminalInfo msg i) = tm_Longitude msg"
  by (simp_all add: applyTerminalInfo_def Let_def set_attr_def)

lemma decodeLocation_location:
  assumes "decodeLocation msg pkt = Inr m"
  shows "on_globe (tm_Latitude m) (tm_Longitude m)"
proof -
  obtain g where g: "decodeGPS msg (pkt_content pkt) = Inr g"
    using assms by (auto simp: decodeLocation_def split: sum.splits)
  then have "tm_Latitude m = tm_Latitude g" "tm_Longitude m = tm_Longitude g"
    using assms by (auto simp: decodeLocation_def Let_def split: if_splits)
  then show ?thesis using decodeGPS_location[OF g] by simp
qed

lemma decodeHeartbeat_location:
  "decodeHeartbeat msg pkt = Inr m \<Longrightarrow> tm_HasLocation m = tm_HasLocation msg"
  by (auto simp: decodeHeartbeat_def Let_def split: if_splits)

lemma decodeCommandReply_location:
  "decodeCommandReply msg pkt = Inr m \<Longrightarrow> tm_HasLocation m = tm_HasLocation msg"
  by (auto simp: decodeCommandReply_def Let_def split: if_splits)

lemma zero_message_no_location [simp]: "\<not> tm_HasLocation zero_message"
  by (simp add: zero_message_def)

lemma gt06_Parse_location:
  assumes "gt06_Parse ackGPS now f = Inr ms" and "m \<in> set ms"
  shows "location_ok m"
proof -
  obtain pkt where pkt: "decodeFrame f = Inr pkt"
    using assms by (cases "decodeFrame f") (auto simp: gt06_Parse_def)
  show ?thesis
  proof (cases "pkt_typ pkt \<in> {msgLogin, msgHeartbeat, msgStringInfo, msgTimeRequest} \<or> \<not> hasGPS (pkt_typ pkt)")
    case True
    then have "\<not> tm_HasLocation m"
      using assms pkt
      by (elim disjE insertE)
         (auto simp: gt06_Parse_def Let_def set_attr_def split: sum.splits option.splits if_splits
           dest: decodeHeartbeat_location decodeCommandReply_location)
    then show ?thesis by (simp add: location_ok_def)
  next
    case False
    then have "on_globe (tm_Latitude m) (tm_Longitude m)"
      using assms pkt
      by (auto simp: gt06_Parse_def Let_def split: sum.splits if_splits
          dest: decodeLocation_location)
    then show ?thesis by (simp add: location_ok_def)
  qed
qed

lemma TerminalInfoByte_bits:
  "(TerminalInfoByte s AND 0x80 \<noteq> 0) = dst_RelayOn s"
  "(TerminalInfoByte s AND 0x02 \<noteq> 0) = dst_ACC s"
  "(TerminalInfoByte s AND 0x04 \<noteq> 0) = dst_Charging s"
  "drop_bit 3 (TerminalInfoByte s) AND 0x07 = 0"
  by (simp_all add: TerminalInfoByte_def Let_def)

lemma batteryLevelPercent_range: "0 \<le> batteryLevelPercent l \<and> batteryLevelPercent l \<le> 100"
proof -
  define v where "v = (if l > 6 then 6 else l)"
  have "uint v \<le> 6"
    unfolding v_def by (auto simp: not_less word_le_def)
  moreover have "0 \<le> x * 100 div 6 \<and> x * 100 div 6 \<le> 100" if "0 \<le> x" "x \<le> 6" for x :: int
    using that by linarith
  ultimately have "0 \<le> int (unat v) * 100 div 6 \<and> int (unat v) * 100 div 6 \<le> 100" by simp
  then show ?thesis by (simp only: batteryLevelPercent_def Let_def v_def)
qed

text \<open>A heartbeat reports the state of the device.  The heartbeat frame that the device
  side builds is parsed back to the same ignition and relay state, to a battery level between 0
  and 100 percent and to the clamped GSM level; it raises no alarm, carries no location, and is
  acknowledged with its serial number.\<close>

theorem gt06_heartbeat_roundtrip:
  "\<exists>m. gt06_Parse ackGPS now (BuildHeartbeatFrame st serial) = Inr [m]
     \<and> tm_Kind m = KindHeartbeat \<and> tm_Alarm m = '''' \<and> \<not> tm_HasLocation m
     \<and> tm_ACC m = Some (dst_ACC st) \<and> tm_RelayOn m = Some (dst_RelayOn st)
     \<and> tm_BatteryPercent m = Some (batteryLevelPercent (dst_BatteryLevel st))
     \<and> 0 \<le> batteryLevelPercent (dst_BatteryLevel st) \<and> batteryLevelPercent (dst_BatteryLevel st) \<le> 100
     \<and> tm_GSMLevel m = Some (min 4 (int (unat (dst_GSMLevel st))))
     \<and> tm_Ack m = buildFrame msgHeartbeat [] serial"
proof -
  have b: "batteryLevelPercent (clampLevel l 6) = batteryLevelPercent l" for l
    by (simp add: batteryLevelPercent_def clampLevel_def)
  have g: "uint (clampLevel l 4) = min 4 (uint l)" for l
    by (auto simp: clampLevel_def word_less_def min_def)
  show ?thesis
    using batteryLevelPercent_range[of "dst_BatteryLevel st"]
    by (simp add: gt06_Parse_def BuildHeartbeatFrame_def decodeFrame_buildFrame decodeHeartbeat_def
        Let_def applyTerminalInfo_def set_attr_def TerminalInfoByte_bits zero_message_def b g)
qed

end
