(* ===== verification/H02.thy ===== *)
theory H02
  imports Tracker
begin

text \<open>
  The package \<^verbatim>\<open>internal/protocols/h02\<close>: the dialect of the TKSTAR line, with binary frames
  that start with a dollar sign (\<^verbatim>\<open>binary.go\<close>) and text frames that start with an asterisk
  (\<^verbatim>\<open>text.go\<close>), the framing that tells them apart (\<^verbatim>\<open>h02.go\<close>) and the command encoder
  (\<^verbatim>\<open>commands.go\<close>).  The cursor of the binary decoder is a record that every read returns
  advanced; a read that fails ends the decoding, as every call in the source returns the error.
\<close>

section \<open>binary.go\<close>

record cursor =
  cur_data :: bytes
  cur_pos :: nat

definition remaining :: "cursor \<Rightarrow> nat" where
  "remaining c = length (cur_data c) - cur_pos c"

definition peekByte :: "cursor \<Rightarrow> perr + byte" where
  "peekByte c = (if cur_pos c \<ge> length (cur_data c) then Inl (ErrUnexpectedEnd (cur_pos c))
     else Inr (cur_data c ! cur_pos c))"

definition readByte :: "cursor \<Rightarrow> perr + byte \<times> cursor" where
  "readByte c = (if cur_pos c \<ge> length (cur_data c) then Inl (ErrUnexpectedEnd (cur_pos c))
     else Inr (cur_data c ! cur_pos c, c\<lparr>cur_pos := cur_pos c + 1\<rparr>))"

text \<open>The loop over whole bytes and the odd digit at the end.\<close>

fun bcd_bytes :: "nat \<Rightarrow> int \<Rightarrow> cursor \<Rightarrow> perr + int \<times> cursor" where
  "bcd_bytes 0 result c = Inr (result, c)"
| "bcd_bytes (Suc k) result c =
     and_then (readByte c) (\<lambda>(b, c).
       let high = drop_bit 4 b; low = b AND 0x0F in
       if high > 9 \<or> low > 9 then Inl (ErrBCDByte b (cur_pos c - 1))
       else bcd_bytes k ((result * 10 + int (unat high)) * 10 + int (unat low)) c)"

definition readBCD :: "nat \<Rightarrow> cursor \<Rightarrow> perr + int \<times> cursor" where
  "readBCD digits c =
     and_then (bcd_bytes (digits div 2) 0 c) (\<lambda>(result, c).
       if digits mod 2 \<noteq> 0 then
         and_then (peekByte c) (\<lambda>b.
           let high = drop_bit 4 b in
           if high > 9 then Inl (ErrBCDNibble high (cur_pos c))
           else Inr (result * 10 + int (unat high), c))
       else Inr (result, c))"

definition readUint32 :: "cursor \<Rightarrow> perr + 32 word \<times> cursor" where
  "readUint32 c =
     (if remaining c < 4 then Inl ErrStatusWord
      else
        let d = cur_data c; p = cur_pos c in
        Inr (uint32_be (d ! p) (d ! (p + 1)) (d ! (p + 2)) (d ! (p + 3)), c\<lparr>cur_pos := p + 4\<rparr>))"

definition minBinaryPayload :: nat where "minBinaryPayload = 29"

definition binaryIDShort :: nat where "binaryIDShort = 5"
definition binaryIDLong :: nat where "binaryIDLong = 8"

definition readCoordinate :: "bool \<Rightarrow> cursor \<Rightarrow> perr + f64 \<times> cursor" where
  "readCoordinate isLongitude c =
     and_then (readBCD 2 c) (\<lambda>(degrees, c).
     and_then
       (if isLongitude then
          and_then (peekByte c) (\<lambda>nxt.
            let high = drop_bit 4 nxt in
            if high > 9 then Inl (ErrBCDNibble high (cur_pos c))
            else and_then (readByte c) (\<lambda>(b, c).
              let low = b AND 0x0F in
              if low > 9 then Inl (ErrBCDNibble low (cur_pos c))
              else Inr (degrees * 10 + int (unat high), f64_of_int (int (unat low)), c)))
        else Inr (degrees, Fin 0, c)) (\<lambda>(degrees, minutes, c).
     and_then (readBCD (if isLongitude then 5 else 6) c) (\<lambda>(fraction, c).
       let minutes = minutes * Fin 10 + f64_of_int fraction / Fin 10000 in
       if Fin 60 \<le> minutes then Inl ErrCoordMinutesRange
       else Inr (f64_of_int degrees + minutes / Fin 60, c))))"

definition decodeBattery :: "byte \<Rightarrow> int option" where
  "decodeBattery value =
     (if value = 0 then None
      else if value \<le> 3 then Some ((int (unat value) - 1) * 10)
      else if value \<le> 6 then Some ((int (unat value) - 1) * 20)
      else if value \<le> 100 then Some (int (unat value))
      else if 0xF1 \<le> value \<and> value \<le> 0xF6 then Some (int (unat value) - 0xF0)
      else None)"

abbreviation (input) statusBitVibration :: nat where "statusBitVibration \<equiv> 0"
abbreviation (input) statusBitSOS :: nat where "statusBitSOS \<equiv> 1"
abbreviation (input) statusBitOverspeed :: nat where "statusBitOverspeed \<equiv> 2"
abbreviation (input) statusBitIgnition :: nat where "statusBitIgnition \<equiv> 10"
abbreviation (input) statusBitSOSAlt :: nat where "statusBitSOSAlt \<equiv> 18"
abbreviation (input) statusBitPowerCut :: nat where "statusBitPowerCut \<equiv> 19"

definition bitSet :: "32 word \<Rightarrow> nat \<Rightarrow> bool" where
  "bitSet status n \<longleftrightarrow> status AND push_bit n 1 \<noteq> 0"

definition applyStatus :: "tracker_message \<Rightarrow> 32 word \<Rightarrow> tracker_message" where
  "applyStatus msg status =
     (let msg = set_attr ''statusWord'' (AStr (fmt_hex True 8 (unat status))) msg;
          msg = (if \<not> bitSet status statusBitVibration then msg\<lparr>tm_Alarm := ''VIBRATION''\<rparr>
                 else if \<not> bitSet status statusBitSOS \<or> \<not> bitSet status statusBitSOSAlt
                   then msg\<lparr>tm_Alarm := ''SOS''\<rparr>
                 else if \<not> bitSet status statusBitOverspeed then msg\<lparr>tm_Alarm := ''OVERSPEED''\<rparr>
                 else if \<not> bitSet status statusBitPowerCut then msg\<lparr>tm_Alarm := ''POWER_LOSS''\<rparr>
                 else msg);
          msg = msg\<lparr>tm_ACC := Some (bitSet status statusBitIgnition)\<rparr>
      in if tm_Alarm msg \<noteq> '''' then msg\<lparr>tm_Kind := KindAlarm\<rparr> else msg)"

fun read_fields :: "nat \<Rightarrow> cursor \<Rightarrow> perr + int list \<times> cursor" where
  "read_fields 0 c = Inr ([], c)"
| "read_fields (Suc k) c =
     and_then (wrap_err ''data/hora'' (readBCD 2 c)) (\<lambda>(v, c).
     and_then (read_fields k c) (\<lambda>(vs, c). Inr (v # vs, c)))"

definition readBinaryTime :: "cursor \<Rightarrow> perr + time \<times> cursor" where
  "readBinaryTime c =
     and_then (read_fields 6 c) (\<lambda>(fields, c).
       let hour = fields ! 0; min = fields ! 1; sec = fields ! 2;
           day = fields ! 3; month = fields ! 4; year = fields ! 5
       in if hour > 23 \<or> min > 59 \<or> sec > 59 \<or> day < 1 \<or> day > 31 \<or> month < 1 \<or> month > 12
          then Inl ErrTimeRange
          else Inr (time_date (2000 + year) month day hour min sec, c))"

definition normalizeID :: "bytes \<Rightarrow> string" where
  "normalizeID raw = concat (map (\<lambda>b. [hex_char False (unat (drop_bit 4 b)),
     hex_char False (unat (b AND 0x0F))]) raw)"

definition h02_hexdump :: "bytes \<Rightarrow> string" where
  "h02_hexdump b = hex_encode True b"

abbreviation h02_Name :: string where "h02_Name \<equiv> ''h02''"

definition decodeBinary :: "bytes \<Rightarrow> perr + tracker_message" where
  "decodeBinary frame =
     (let msg = zero_message\<lparr>tm_Protocol := h02_Name, tm_Kind := KindPosition,
        tm_RawPayload := h02_hexdump frame,
        tm_Attributes := [''form'' \<mapsto> AStr ''binary'', ''frameBytes'' \<mapsto> AInt (int (length frame))]\<rparr> in
      if length frame < minBinaryPayload then Inl (ErrShortBinary (length frame))
      else
      and_then (readByte \<lparr>cur_data = frame, cur_pos = 0\<rparr>) (\<lambda>(_, c).
      let idLength = (if length frame = 42 then binaryIDLong else binaryIDShort) in
      if remaining c < idLength then Inl ErrNoIdentifier
      else
      let msg = msg\<lparr>tm_IMEI := normalizeID (take idLength (drop (cur_pos c) frame))\<rparr>;
          c = c\<lparr>cur_pos := cur_pos c + idLength\<rparr> in
      and_then (case ValidateIMEI (tm_IMEI msg) of
                  Some e \<Rightarrow> Inl (Wrapped ''identificador do quadro'' e) | None \<Rightarrow> Inr ()) (\<lambda>_.
      and_then (readBinaryTime c) (\<lambda>(timestamp, c).
      let msg = msg\<lparr>tm_Timestamp := timestamp\<rparr> in
      and_then (wrap_err ''latitude'' (readCoordinate False c)) (\<lambda>(latitude, c).
      and_then (readByte c) (\<lambda>(batteryByte, c).
      let msg = msg\<lparr>tm_BatteryPercent := decodeBattery batteryByte\<rparr> in
      and_then (wrap_err ''longitude'' (readCoordinate True c)) (\<lambda>(longitude, c).
      and_then (readByte c) (\<lambda>(flagsByte, c).
      let flags = flagsByte AND 0x0F;
          msg = msg\<lparr>tm_GPSValid := (flags AND 0x02 \<noteq> 0)\<rparr>;
          latitude = (if flags AND 0x04 = 0 then - latitude else latitude);
          longitude = (if flags AND 0x08 = 0 then - longitude else longitude) in
      if \<not> ValidCoordinates latitude longitude then Inl (ErrCoordinatesRange latitude longitude)
      else
      let msg = msg\<lparr>tm_Latitude := latitude, tm_Longitude := longitude, tm_HasLocation := True\<rparr> in
      and_then (wrap_err ''velocidade'' (readBCD 3 c)) (\<lambda>(speed, c).
      let msg = msg\<lparr>tm_SpeedKmh := KnotsToKmh (f64_of_int speed)\<rparr>;
          msg = set_attr ''speedRaw'' (AInt speed) msg;
          msg = set_attr ''speedUnit'' (AStr ''knots'') msg in
      and_then (readByte c) (\<lambda>(courseHigh, c).
      and_then (wrap_err ''rumo'' (readBCD 2 c)) (\<lambda>(courseLow, c).
      let course = f64_of_int (int (unat (courseHigh AND 0x0F))) * Fin 100 + f64_of_int courseLow in
      if Fin 360 < course then Inl (ErrCourseRange course)
      else
      let msg = msg\<lparr>tm_Heading := course\<rparr> in
      and_then (readUint32 c) (\<lambda>(status, c).
      let msg = applyStatus msg status in
      Inr (if remaining c > 0
           then set_attr ''trailing'' (AStr (h02_hexdump (drop (cur_pos c) frame))) msg
           else msg)))))))))))))"

section \<open>text.go\<close>

definition h02_field :: "string list \<Rightarrow> nat \<Rightarrow> string" where
  "h02_field parts i = (if i \<ge> length parts then '''' else trim_space (parts ! i))"

definition h02_parseFloatField :: "string list \<Rightarrow> nat \<Rightarrow> f64 option" where
  "h02_parseFloatField parts i =
     (let raw = h02_field parts i in if raw = '''' then None else parse_float raw)"

definition h02_parseIntField :: "string list \<Rightarrow> nat \<Rightarrow> int option" where
  "h02_parseIntField parts i =
     (let raw = h02_field parts i in if raw = '''' then None else atoi raw)"

abbreviation (input) textFieldHeader :: nat where "textFieldHeader \<equiv> 0"
abbreviation (input) textFieldID :: nat where "textFieldID \<equiv> 1"
abbreviation (input) textFieldKind :: nat where "textFieldKind \<equiv> 2"
abbreviation (input) textFieldTime :: nat where "textFieldTime \<equiv> 3"
abbreviation (input) textFieldValid :: nat where "textFieldValid \<equiv> 4"
abbreviation (input) textFieldLat :: nat where "textFieldLat \<equiv> 5"
abbreviation (input) textFieldLatHem :: nat where "textFieldLatHem \<equiv> 6"
abbreviation (input) textFieldLon :: nat where "textFieldLon \<equiv> 7"
abbreviation (input) textFieldLonHem :: nat where "textFieldLonHem \<equiv> 8"
abbreviation (input) textFieldSpeed :: nat where "textFieldSpeed \<equiv> 9"
abbreviation (input) textFieldCourse :: nat where "textFieldCourse \<equiv> 10"
abbreviation (input) textFieldDate :: nat where "textFieldDate \<equiv> 11"
abbreviation (input) textFieldStatus :: nat where "textFieldStatus \<equiv> 12"
abbreviation (input) textMinFields :: nat where "textMinFields \<equiv> 12"

definition parseTextTimestamp :: "string \<Rightarrow> string \<Rightarrow> perr + time" where
  "parseTextTimestamp date clock =
     (if length date < 6 \<or> length clock < 6 then Inl (ErrTimestamp (date @ '' '' @ clock))
      else case parse_ddmmyyhhmmss (take 6 date @ take 6 clock) of
        None \<Rightarrow> Inl (ErrTimestamp (take 6 date @ take 6 clock))
      | Some t \<Rightarrow> Inr t)"

text \<open>The fields after the coordinates: speed, course, time and the status word.\<close>

definition text_motion :: "string list \<Rightarrow> tracker_message \<Rightarrow> tracker_message" where
  "text_motion parts msg =
     (let msg = (case h02_parseFloatField parts textFieldSpeed of
                   None \<Rightarrow> msg
                 | Some knots \<Rightarrow> set_attr ''speedUnit'' (AStr ''knots'')
                     (set_attr ''speedRaw'' (AFloat knots) (msg\<lparr>tm_SpeedKmh := KnotsToKmh knots\<rparr>)))
      in case h02_parseFloatField parts textFieldCourse of
           None \<Rightarrow> msg | Some course \<Rightarrow> msg\<lparr>tm_Heading := course\<rparr>)"

definition text_clock :: "string list \<Rightarrow> tracker_message \<Rightarrow> tracker_message" where
  "text_clock parts msg =
     (case parseTextTimestamp (h02_field parts textFieldDate) (h02_field parts textFieldTime) of
        Inr t \<Rightarrow> msg\<lparr>tm_Timestamp := t\<rparr>
      | Inl e \<Rightarrow> set_attr ''timestampFallback'' (AErr e) msg)"

definition text_status :: "string list \<Rightarrow> tracker_message \<Rightarrow> tracker_message" where
  "text_status parts msg =
     (let status = trim_space (h02_field parts textFieldStatus) in
      if status = '''' then msg
      else case parse_uint_hex32 status of
        None \<Rightarrow> set_attr ''statusWordUnparsed'' (ABool True) (set_attr ''statusWord'' (AStr status) msg)
      | Some v \<Rightarrow> applyStatus msg v)"

definition decodeTextPosition :: "tracker_message \<Rightarrow> string list \<Rightarrow> perr + tracker_message" where
  "decodeTextPosition msg parts =
     (if length parts < textMinFields then Inr (set_attr ''shortPacket'' (ABool True) msg)
      else
      let msg = msg\<lparr>tm_GPSValid := (to_upper (h02_field parts textFieldValid) = ''A'')\<rparr> in
      and_then (wrap_err ''latitude'' (DDMMToDecimal (h02_field parts textFieldLat)
        (h02_field parts textFieldLatHem))) (\<lambda>latitude.
      and_then (wrap_err ''longitude'' (DDMMToDecimal (h02_field parts textFieldLon)
        (h02_field parts textFieldLonHem))) (\<lambda>longitude.
      if \<not> ValidCoordinates latitude longitude then Inl (ErrCoordinatesRange latitude longitude)
      else
      let msg = msg\<lparr>tm_Latitude := latitude, tm_Longitude := longitude, tm_HasLocation := True,
                    tm_Kind := KindPosition\<rparr>
      in Inr (text_status parts (text_clock parts (text_motion parts msg))))))"

definition decodeText :: "time \<Rightarrow> bytes \<Rightarrow> perr + tracker_message" where
  "decodeText now frame =
     (let raw = trim_space (str_of_bytes frame);
          line = trim_suffix raw ''#'';
          parts = split_on (CHR '','') line;
          msg = zero_message\<lparr>tm_Protocol := h02_Name, tm_Kind := KindOther, tm_RawPayload := raw,
            tm_Timestamp := now,
            tm_Attributes := [''form'' \<mapsto> AStr ''text'',
                              ''header'' \<mapsto> AStr (h02_field parts textFieldHeader)]\<rparr>;
          id = trim_space (h02_field parts textFieldID) in
      case ValidateIMEI id of
        Some e \<Rightarrow> Inl (Wrapped ''quadro de texto H02'' e)
      | None \<Rightarrow>
          let kind = to_upper (h02_field parts textFieldKind);
              msg = set_attr ''messageType'' (AStr kind) (msg\<lparr>tm_IMEI := id\<rparr>) in
          if kind = ''HTBT'' then
            let msg = msg\<lparr>tm_Kind := KindHeartbeat\<rparr> in
            (case h02_parseIntField parts 3 of
               None \<Rightarrow> Inr msg
             | Some battery \<Rightarrow>
                 if battery \<ge> 0 \<and> battery \<le> 100 then Inr (msg\<lparr>tm_BatteryPercent := Some battery\<rparr>)
                 else Inr msg)
          else if kind = ''V4'' then
            let resp = join_with '','' (drop 3 parts);
                resp = (if resp = '''' then h02_field parts 3 else resp)
            in Inr (msg\<lparr>tm_Kind := KindCommandAck, tm_Response := resp\<rparr>)
          else if has_prefix kind ''V'' then decodeTextPosition msg parts
          else Inr (set_attr ''unrecognized'' (ABool True) msg))"

section \<open>h02.go\<close>

abbreviation markerBinary :: byte where "markerBinary \<equiv> 0x24"
abbreviation markerText :: byte where "markerText \<equiv> 0x2A"

definition h02_maxFrame :: nat where "h02_maxFrame = 1024"

definition h02_Describe :: descriptor where
  "h02_Describe = \<lparr> ds_Name = h02_Name, ds_Vendor = ''TKSTAR e compativeis'',
     ds_Confidence = Assumed,
     ds_Commands = [CommandEngineCut, CommandEngineResume, CommandSetInterval, CommandCustom] \<rparr>"

definition h02_Detect :: "bytes \<Rightarrow> bool" where
  "h02_Detect data =
     (if data = [] then False
      else if data ! 0 = markerBinary then True
      else if data ! 0 = markerText then
        (let parts = split_on (CHR '','') (trim_suffix (str_of_bytes data) ''#'') in
         if length parts < 2 then length data < 32
         else ValidateIMEI (trim_space (parts ! 1)) = None)
      else False)"

definition indexOfMarker :: "bytes \<Rightarrow> nat option" where
  "indexOfMarker buf = index_where (\<lambda>b. b = markerBinary \<or> b = markerText) buf"

definition indexOfByte :: "bytes \<Rightarrow> byte \<Rightarrow> nat option" where
  "indexOfByte buf target = index_where (\<lambda>b. b = target) buf"

definition h02_NextFrame :: "int \<Rightarrow> bytes \<Rightarrow> frame_result" where
  "h02_NextFrame BinaryFrameLength buf =
     (case indexOfMarker buf of
        None \<Rightarrow>
          if length buf > h02_maxFrame then (None, length buf, Some (ErrNoMarker (length buf)))
          else if length buf = 0 then (None, 0, Some ErrIncompleteFrame)
          else (None, length buf, Some (ErrNoMarker (length buf)))
      | Some start \<Rightarrow>
          if start > 0 then (None, start, Some (ErrGarbage start))
          else if buf ! 0 = markerText then
            (case indexOfByte buf 0x23 of
               None \<Rightarrow> if length buf > h02_maxFrame then (None, length buf, Some ErrNoTerminator)
                       else (None, 0, Some ErrIncompleteFrame)
             | Some e \<Rightarrow> (Some (take (e + 1) buf), e + 1, None))
          else if BinaryFrameLength > 0 then
            (if BinaryFrameLength > int h02_maxFrame
             then (None, length buf, Some ErrConfiguredLength)
             else if int (length buf) < BinaryFrameLength then (None, 0, Some ErrIncompleteFrame)
             else (Some (take (nat BinaryFrameLength) buf), nat BinaryFrameLength, None))
          else if length buf < minBinaryPayload then (None, 0, Some ErrIncompleteFrame)
          else if length buf > h02_maxFrame then (None, length buf, Some ErrBinaryTooLong)
          else (Some buf, length buf, None))"

definition h02_Parse :: "time \<Rightarrow> bytes \<Rightarrow> perr + tracker_message list" where
  "h02_Parse now frame =
     (if frame = [] then Inl ErrEmptyFrame
      else
        and_then
          (if frame ! 0 = markerBinary then decodeBinary frame
           else if frame ! 0 = markerText then decodeText now frame
           else Inl (ErrUnknownMarker (frame ! 0)))
          (\<lambda>msg. Inr [msg]))"

section \<open>commands.go\<close>

definition boundedInt :: "string \<Rightarrow> int \<Rightarrow> int \<Rightarrow> perr + int" where
  "boundedInt raw minValue maxValue =
     (case atoi (trim_space raw) of
        None \<Rightarrow> Inl ErrNotNumber
      | Some v \<Rightarrow> if v < minValue \<or> v > maxValue then Inl (ErrOutOfRange minValue maxValue) else Inr v)"

definition formatCommand :: "time \<Rightarrow> string \<Rightarrow> string \<Rightarrow> string list \<Rightarrow> string" where
  "formatCommand now devid commandType params =
     ''*HQ,'' @ devid @ '','' @ commandType @ '','' @ format_hms now
       @ concat (map (\<lambda>p. '','' @ p) params) @ ''#''"

definition h02_EncodeCommand :: "time \<Rightarrow> command \<Rightarrow> perr + bytes" where
  "h02_EncodeCommand now cmd =
     (let raw = trim_space (cmd_Raw cmd) in
      if raw \<noteq> '''' then
        (if \<not> re_safe_text raw then Inl ErrCommandChars else Inr (bytes_of_str raw))
      else
      let id = trim_space (cmd_UniqueID cmd); pwd = trim_space (cmd_Password cmd) in
      case ValidateIMEI id of
        Some e \<Rightarrow> Inl (Wrapped ''comando H02 exige o identificador'' e)
      | None \<Rightarrow>
          if pwd \<noteq> '''' \<and> \<not> re_safe_password pwd then Inl ErrPasswordFormat
          else
          and_then
            (if cmd_Type cmd = CommandEngineCut then Inr (''S20'', [''1'', ''1''])
             else if cmd_Type cmd = CommandEngineResume then Inr (''S20'', [''1'', ''0''])
             else if cmd_Type cmd = CommandSetInterval then
               and_then (wrap_err ''intervalo'' (boundedInt (Param cmd ''seconds'') 5 18000))
                 (\<lambda>seconds. Inr (''S71'', [''22'', show_int seconds]))
             else if cmd_Type cmd = CommandCustom then Inl ErrCustomNeedsRaw
             else Inl (Wrapped ''H02'' (ErrUnsupportedCommand (cmd_Type cmd))))
            (\<lambda>(commandType, params).
               let cmdtext = formatCommand now id commandType params in
               if \<not> re_safe_text cmdtext then Inl ErrCommandChars else Inr (bytes_of_str cmdtext)))"

end
