(* ===== verification/H02_Props.thy ===== *)
theory H02_Props
  imports H02
begin

text \<open>
  The properties of the H02 adapter.  The specification of the binary form is a table of columns:
  the frame is read as a row of hexadecimal digits, and every field is the decimal number that
  stands in its columns.  The decoder, which moves a cursor over bytes and splits some of them
  between two fields, is shown to read exactly this table.
\<close>

section \<open>Columns\<close>

text \<open>The digit in column \<open>i\<close>, the number in the \<open>n\<close> columns from \<open>i\<close>, and whether they hold
  decimal digits.\<close>

definition nib :: "bytes \<Rightarrow> nat \<Rightarrow> nat" where
  "nib f i = (if even i then unat (f ! (i div 2)) div 16 else unat (f ! (i div 2)) mod 16)"

fun dec :: "bytes \<Rightarrow> nat \<Rightarrow> nat \<Rightarrow> int" where
  "dec f i 0 = 0"
| "dec f i (Suc n) = dec f i n * 10 + int (nib f (i + n))"

definition digits_at :: "bytes \<Rightarrow> nat \<Rightarrow> nat \<Rightarrow> bool" where
  "digits_at f i n \<longleftrightarrow> (\<forall>j < n. nib f (i + j) \<le> 9)"

lemma dec_add: "dec f i (a + b) = dec f i a * 10 ^ b + dec f (i + a) b"
  by (induction b) (simp_all add: algebra_simps)

lemma digits_at_Suc [simp]: "digits_at f i (Suc n) \<longleftrightarrow> digits_at f i n \<and> nib f (i + n) \<le> 9"
  by (auto simp: digits_at_def less_Suc_eq)

lemma digits_at_0 [simp]: "digits_at f i 0"
  by (simp add: digits_at_def)

lemma digits_at_add: "digits_at f i (a + b) \<longleftrightarrow> digits_at f i a \<and> digits_at f (i + a) b"
  by (induction b) (auto simp: add.assoc)

lemma dec_range: "digits_at f i n \<Longrightarrow> 0 \<le> dec f i n \<and> dec f i n < 10 ^ n"
  by (induction n) auto

lemma unat_high [simp]: "unat (drop_bit 4 (b :: byte)) = unat b div 16"
  by (simp add: drop_bit_eq_div unat_div)

lemma and_15: "(b :: byte) AND 15 = take_bit 4 b"
  by (simp add: take_bit_eq_mask mask_eq_exp_minus_1)

lemma unat_low [simp]: "unat ((b :: byte) AND 15) = unat b mod 16"
  by (simp add: and_15 take_bit_eq_mod unat_mod)

lemma byte_gt_9: "(x :: byte) > 9 \<longleftrightarrow> \<not> unat x \<le> 9"
  by (simp add: word_less_nat_alt not_le)

lemma nib_even [simp]: "nib f (2 * i) = unat (f ! i) div 16"
  by (simp add: nib_def)

lemma nib_odd [simp]: "nib f (Suc (2 * i)) = unat (f ! i) mod 16"
  by (simp add: nib_def)

lemma readByte_Inr:
  "readByte c = Inr (b, c') \<longleftrightarrow> cur_pos c < length (cur_data c) \<and> b = cur_data c ! cur_pos c
     \<and> c' = c\<lparr>cur_pos := cur_pos c + 1\<rparr>"
  by (auto simp: readByte_def)

lemma peekByte_Inr:
  "peekByte c = Inr b \<longleftrightarrow> cur_pos c < length (cur_data c) \<and> b = cur_data c ! cur_pos c"
  by (auto simp: peekByte_def)

lemma bcd_bytes_Inr:
  "bcd_bytes k r c = Inr (v, c') \<longleftrightarrow>
     (k = 0 \<or> cur_pos c + k \<le> length (cur_data c)) \<and> digits_at (cur_data c) (2 * cur_pos c) (2 * k)
     \<and> v = r * 10 ^ (2 * k) + dec (cur_data c) (2 * cur_pos c) (2 * k)
     \<and> c' = c\<lparr>cur_pos := cur_pos c + k\<rparr>"
proof (induction k arbitrary: r c)
  case 0
  show ?case by auto
next
  case (Suc k)
  let ?d = "cur_data c" and ?p = "cur_pos c"
  have t: "digits_at ?d (2 * ?p) (2 * Suc k) \<longleftrightarrow>
      nib ?d (2 * ?p) \<le> 9 \<and> nib ?d (Suc (2 * ?p)) \<le> 9 \<and> digits_at ?d (2 * Suc ?p) (2 * k)"
    using digits_at_add[of ?d "2 * ?p" 2 "2 * k"] by (simp add: numeral_2_eq_2)
  have u: "dec ?d (2 * ?p) (2 * Suc k) =
      (int (nib ?d (2 * ?p)) * 10 + int (nib ?d (Suc (2 * ?p)))) * 10 ^ (2 * k)
      + dec ?d (2 * Suc ?p) (2 * k)"
    using dec_add[of ?d "2 * ?p" 2 "2 * k"] by (simp add: numeral_2_eq_2)
  show ?case
    unfolding t u
    by (simp add: and_then_Inr readByte_Inr Let_def byte_gt_9 Suc.IH) (auto simp: algebra_simps)
qed

lemma readBCD_Inr:
  assumes "0 < n"
  shows "readBCD n c = Inr (v, c') \<longleftrightarrow>
     cur_pos c + (n + 1) div 2 \<le> length (cur_data c) \<and> digits_at (cur_data c) (2 * cur_pos c) n
     \<and> v = dec (cur_data c) (2 * cur_pos c) n \<and> c' = c\<lparr>cur_pos := cur_pos c + n div 2\<rparr>"
proof (cases "even n")
  case True
  then obtain k where "n = 2 * k" by blast
  with assms show ?thesis
    by (auto simp: readBCD_def and_then_Inr bcd_bytes_Inr)
next
  case False
  then obtain k where n: "n = Suc (2 * k)" using oddE by fastforce
  have e: "2 * cur_pos c + 2 * k = 2 * (cur_pos c + k)" by simp
  show ?thesis
    unfolding n readBCD_def
    by (auto simp: and_then_Inr bcd_bytes_Inr peekByte_Inr Let_def byte_gt_9 e simp del: distrib_left_numeral)
qed

lemmas readBCD_cols [simp] =
  readBCD_Inr[of 2, simplified] readBCD_Inr[of 3, simplified] readBCD_Inr[of 5, simplified]
  readBCD_Inr[of 6, simplified]

text \<open>Degrees, tens of minutes and ten-thousandths of the remaining minutes.\<close>

definition coordinate :: "int \<Rightarrow> int \<Rightarrow> int \<Rightarrow> f64" where
  "coordinate d tens frc =
     f64_of_int d + (f64_of_int tens * Fin 10 + f64_of_int frc / Fin 10000) / Fin 60"

lemma f64_of_int_0 [simp]: "f64_of_int 0 = Fin 0"
  using f64_of_int_exact[of 0] by simp

lemma readCoordinate_lat:
  "readCoordinate False c = Inr (x, c') \<Longrightarrow>
     cur_pos c + 4 \<le> length (cur_data c) \<and> digits_at (cur_data c) (2 * cur_pos c) 8
     \<and> x = coordinate (dec (cur_data c) (2 * cur_pos c) 2) 0 (dec (cur_data c) (2 * cur_pos c + 2) 6)
     \<and> c' = c\<lparr>cur_pos := cur_pos c + 4\<rparr>"
  using digits_at_add[of "cur_data c" "2 * cur_pos c" 2 6]
  by (auto simp: readCoordinate_def and_then_Inr Let_def coordinate_def split: if_splits)

lemma lon_columns:
  "digits_at f (2 * p) 9 \<longleftrightarrow> digits_at f (2 * p) 2 \<and> nib f (2 * (p + 1)) \<le> 9
     \<and> nib f (Suc (2 * (p + 1))) \<le> 9 \<and> digits_at f (2 * (p + 2)) 5"
  "dec f (2 * p) 3 = dec f (2 * p) 2 * 10 + int (nib f (2 * (p + 1)))"
  "dec f (2 * p + 3) 1 = int (nib f (Suc (2 * (p + 1))))"
proof -
  have "digits_at f (2 * p) (2 + (Suc (Suc 0) + 5)) \<longleftrightarrow> digits_at f (2 * p) 2 \<and>
      (nib f (2 * p + 2) \<le> 9 \<and> nib f (2 * p + 3) \<le> 9) \<and> digits_at f (2 * p + 2 + Suc (Suc 0)) 5"
    unfolding digits_at_add by (simp add: numeral_3_eq_3)
  then show "digits_at f (2 * p) 9 \<longleftrightarrow> digits_at f (2 * p) 2 \<and> nib f (2 * (p + 1)) \<le> 9
     \<and> nib f (Suc (2 * (p + 1))) \<le> 9 \<and> digits_at f (2 * (p + 2)) 5"
    by (simp add: numeral_3_eq_3)
  show "dec f (2 * p) 3 = dec f (2 * p) 2 * 10 + int (nib f (2 * (p + 1)))"
    by (simp add: numeral_3_eq_3 numeral_2_eq_2)
  show "dec f (2 * p + 3) 1 = int (nib f (Suc (2 * (p + 1))))"
    by (simp add: numeral_3_eq_3)
qed

lemma readCoordinate_lon:
  assumes "readCoordinate True c = Inr (x, c')"
  shows "cur_pos c + 5 \<le> length (cur_data c) \<and> digits_at (cur_data c) (2 * cur_pos c) 9
     \<and> x = coordinate (dec (cur_data c) (2 * cur_pos c) 3)
             (dec (cur_data c) (2 * cur_pos c + 3) 1) (dec (cur_data c) (2 * cur_pos c + 4) 5)
     \<and> c' = c\<lparr>cur_pos := cur_pos c + 4\<rparr>"
proof -
  have e: "2 * p + 4 = Suc (Suc (Suc (Suc (2 * p))))" for p :: nat by simp
  show ?thesis
    using assms unfolding lon_columns nib_even nib_odd e
    by (auto simp: readCoordinate_def and_then_Inr Let_def coordinate_def peekByte_Inr
        readByte_Inr byte_gt_9 split: if_splits)
qed

lemma read_fields_Inr:
  "read_fields n c = Inr (vs, c') \<Longrightarrow>
     (n = 0 \<or> cur_pos c + n \<le> length (cur_data c)) \<and> digits_at (cur_data c) (2 * cur_pos c) (2 * n)
     \<and> vs = map (\<lambda>k. dec (cur_data c) (2 * (cur_pos c + k)) 2) [0..<n]
     \<and> c' = c\<lparr>cur_pos := cur_pos c + n\<rparr>"
proof (induction n arbitrary: c vs)
  case 0
  then show ?case by auto
next
  case (Suc n)
  obtain v c1 ws where r: "readBCD 2 c = Inr (v, c1)" and w: "read_fields n c1 = Inr (ws, c')"
    and vs: "vs = v # ws"
    using Suc.prems by (auto simp: and_then_Inr)
  have c1: "c1 = c\<lparr>cur_pos := Suc (cur_pos c)\<rparr>" and v: "v = dec (cur_data c) (2 * cur_pos c) 2"
    and d: "digits_at (cur_data c) (2 * cur_pos c) 2" and l: "cur_pos c < length (cur_data c)"
    using r by simp_all
  have "map (\<lambda>k. dec (cur_data c) (2 * (cur_pos c + k)) 2) [0..<Suc n] =
      v # map (\<lambda>k. dec (cur_data c) (2 * (Suc (cur_pos c) + k)) 2) [0..<n]"
    by (simp add: upt_conv_Cons map_Suc_upt[symmetric] v del: upt_Suc)
  moreover have "digits_at (cur_data c) (2 * cur_pos c) (2 + 2 * n)"
    unfolding digits_at_add using d Suc.IH[OF w] c1 by simp
  ultimately show ?case
    using Suc.IH[OF w] c1 vs l by auto
qed

text \<open>The time in the six pairs of columns from \<open>t\<close>.\<close>

definition column_time :: "bytes \<Rightarrow> nat \<Rightarrow> time" where
  "column_time f t = time_date (2000 + dec f (t + 10) 2) (dec f (t + 8) 2) (dec f (t + 6) 2)
     (dec f t 2) (dec f (t + 2) 2) (dec f (t + 4) 2)"

definition column_time_ok :: "bytes \<Rightarrow> nat \<Rightarrow> bool" where
  "column_time_ok f t \<longleftrightarrow> digits_at f t 12 \<and> dec f t 2 \<le> 23 \<and> dec f (t + 2) 2 \<le> 59
     \<and> dec f (t + 4) 2 \<le> 59 \<and> dec f (t + 6) 2 \<in> {1..31} \<and> dec f (t + 8) 2 \<in> {1..12}"

lemma readBinaryTime_Inr:
  assumes "readBinaryTime c = Inr (x, c')"
  shows "cur_pos c + 6 \<le> length (cur_data c) \<and> column_time_ok (cur_data c) (2 * cur_pos c)
     \<and> x = column_time (cur_data c) (2 * cur_pos c) \<and> c' = c\<lparr>cur_pos := cur_pos c + 6\<rparr>"
proof -
  obtain vs where r: "read_fields 6 c = Inr (vs, c')"
    using assms by (auto simp: readBinaryTime_def and_then_Inr Let_def split: if_splits)
  have nths: "vs ! k = dec (cur_data c) (2 * cur_pos c + 2 * k) 2" if "k < 6" for k
    using read_fields_Inr[OF r] that by simp
  show ?thesis
    using assms read_fields_Inr[OF r] nths[of 0] nths[of 1] nths[of 2] nths[of 3] nths[of 4] nths[of 5]
    by (auto simp: readBinaryTime_def r Let_def column_time_ok_def column_time_def split: if_splits)
qed

lemma course_float:
  assumes "0 \<le> h" "h \<le> 15" "0 \<le> l" "l \<le> 99"
  shows "f64_of_int h * Fin 100 + f64_of_int l = Fin (of_int (h * 100 + l))"
proof -
  have "f64_round (rat_of_int h * 100) = Fin (of_int (h * 100))"
    using f64_round_int[of "h * 100"] assms by simp
  moreover have "f64_round (rat_of_int (h * 100) + of_int l) = Fin (of_int (h * 100 + l))"
    using f64_round_int[of "h * 100 + l"] assms by simp
  ultimately show ?thesis
    using assms by (simp add: f64_of_int_exact f64_ops)
qed

lemma normalizeID_columns:
  assumes "p + n \<le> length f"
  shows "normalizeID (take n (drop p f)) = map (\<lambda>i. hex_char False (nib f i)) [2 * p..<2 * p + 2 * n]"
  using assms
proof (induction n)
  case 0
  then show ?case by (simp add: normalizeID_def)
next
  case (Suc n)
  then have "take (Suc n) (drop p f) = take n (drop p f) @ [f ! (p + n)]"
    by (simp add: take_Suc_conv_app_nth)
  moreover have "nib f (2 * p + 2 * n) = unat (f ! (p + n)) div 16"
    "nib f (Suc (2 * p + 2 * n)) = unat (f ! (p + n)) mod 16"
    using nib_even[of f "p + n"] nib_odd[of f "p + n"] by simp_all
  ultimately show ?case using Suc by (simp add: normalizeID_def)
qed

text \<open>The column after the identifier: ten digits, or sixteen in frames of 42 bytes.\<close>

definition id_end :: "bytes \<Rightarrow> nat" where
  "id_end f = (if length f = 42 then 9 else 6)"

lemma applyStatus_fields [simp]:
  "tm_IMEI (applyStatus msg st) = tm_IMEI msg"
  "tm_Timestamp (applyStatus msg st) = tm_Timestamp msg"
  "tm_HasLocation (applyStatus msg st) = tm_HasLocation msg"
  "tm_Latitude (applyStatus msg st) = tm_Latitude msg"
  "tm_Longitude (applyStatus msg st) = tm_Longitude msg"
  "tm_SpeedKmh (applyStatus msg st) = tm_SpeedKmh msg"
  "tm_Heading (applyStatus msg st) = tm_Heading msg"
  "tm_ACC (applyStatus msg st) = Some (bitSet st 10)"
  by (simp_all add: applyStatus_def Let_def set_attr_def)

lemma set_attr_fields [simp]:
  "tm_IMEI (set_attr k v msg) = tm_IMEI msg"
  "tm_Timestamp (set_attr k v msg) = tm_Timestamp msg"
  "tm_HasLocation (set_attr k v msg) = tm_HasLocation msg"
  "tm_Latitude (set_attr k v msg) = tm_Latitude msg"
  "tm_Longitude (set_attr k v msg) = tm_Longitude msg"
  "tm_SpeedKmh (set_attr k v msg) = tm_SpeedKmh msg"
  "tm_Heading (set_attr k v msg) = tm_Heading msg"
  "tm_ACC (set_attr k v msg) = tm_ACC msg"
  by (simp_all add: set_attr_def)

lemma trailing_fields:
  "tm_IMEI (if b then set_attr k v msg else msg) = tm_IMEI msg"
  "tm_Timestamp (if b then set_attr k v msg else msg) = tm_Timestamp msg"
  "tm_HasLocation (if b then set_attr k v msg else msg) = tm_HasLocation msg"
  "tm_Latitude (if b then set_attr k v msg else msg) = tm_Latitude msg"
  "tm_Longitude (if b then set_attr k v msg else msg) = tm_Longitude msg"
  "tm_SpeedKmh (if b then set_attr k v msg else msg) = tm_SpeedKmh msg"
  "tm_Heading (if b then set_attr k v msg else msg) = tm_Heading msg"
  "tm_ACC (if b then set_attr k v msg else msg) = tm_ACC msg"
  by simp_all

lemma decodeBinary_steps:
  assumes "decodeBinary f = Inr m"
  defines "p \<equiv> id_end f"
  shows "29 \<le> length f \<and> tm_IMEI m = normalizeID (take (p - 1) (drop 1 f))
     \<and> ValidateIMEI (tm_IMEI m) = None
     \<and> column_time_ok f (2 * p) \<and> tm_Timestamp m = column_time f (2 * p)
     \<and> digits_at f (2 * p + 12) 8 \<and> digits_at f (2 * p + 22) 9
     \<and> tm_Latitude m = (let lat = coordinate (dec f (2 * p + 12) 2) 0 (dec f (2 * p + 14) 6)
         in if f ! (p + 15) AND 0x04 = 0 then - lat else lat)
     \<and> tm_Longitude m =
         (let lon = coordinate (dec f (2 * p + 22) 3) (dec f (2 * p + 25) 1) (dec f (2 * p + 26) 5)
          in if f ! (p + 15) AND 0x08 = 0 then - lon else lon)
     \<and> ValidCoordinates (tm_Latitude m) (tm_Longitude m) \<and> tm_HasLocation m
     \<and> digits_at f (2 * p + 32) 3 \<and> tm_SpeedKmh m = KnotsToKmh (f64_of_int (dec f (2 * p + 32) 3))
     \<and> digits_at f (2 * p + 36) 2
     \<and> tm_Heading m = f64_of_int (int (unat (f ! (p + 17)) mod 16)) * Fin 100
         + f64_of_int (dec f (2 * p + 36) 2)
     \<and> \<not> Fin 360 < tm_Heading m
     \<and> tm_ACC m = Some (bitSet (uint32_be (f ! (p + 19)) (f ! (p + 20)) (f ! (p + 21)) (f ! (p + 22))) 10)"
proof -
  define idl where "idl = (if length f = 42 then binaryIDLong else binaryIDShort)"
  have p: "p = Suc idl"
    by (simp add: p_def id_end_def idl_def binaryIDLong_def binaryIDShort_def)
  show ?thesis
    using assms(1) unfolding decodeBinary_def Let_def idl_def[symmetric] p
    by (clarsimp simp: and_then_Inr readByte_Inr readUint32_def split: option.splits
          split del: if_split dest!: readBinaryTime_Inr readCoordinate_lat readCoordinate_lon)
       (simp add: trailing_fields minBinaryPayload_def and.assoc cong: if_cong split del: if_split)
qed

text \<open>The table of the binary frame.  With \<open>t\<close> the column after the identifier: hour, minute,
  second, day, month and year in two columns each; degrees and ten-thousandths of minutes of the
  latitude; the battery byte; degrees, tens of minutes and ten-thousandths of the remaining minutes
  of the longitude; the flags; speed in knots and course in three columns each; the status word.\<close>

definition h02_table :: "bytes \<Rightarrow> tracker_message \<Rightarrow> bool" where
  "h02_table f m \<longleftrightarrow>
     (let p = id_end f; t = 2 * p;
          lat = coordinate (dec f (t + 12) 2) 0 (dec f (t + 14) 6);
          lon = coordinate (dec f (t + 22) 3) (dec f (t + 25) 1) (dec f (t + 26) 5);
          flags = f ! (p + 15);
          status = uint32_be (f ! (p + 19)) (f ! (p + 20)) (f ! (p + 21)) (f ! (p + 22))
      in digits_at f 2 (t - 2) \<and> tm_IMEI m = map (\<lambda>i. digit_char (nib f i)) [2..<t]
         \<and> column_time_ok f t \<and> tm_Timestamp m = column_time f t
         \<and> digits_at f (t + 12) 8 \<and> digits_at f (t + 22) 9
         \<and> tm_HasLocation m \<and> on_globe (tm_Latitude m) (tm_Longitude m)
         \<and> tm_Latitude m = (if bit flags 2 then lat else - lat)
         \<and> tm_Longitude m = (if bit flags 3 then lon else - lon)
         \<and> digits_at f (t + 32) 6
         \<and> tm_SpeedKmh m = KnotsToKmh (Fin (of_int (dec f (t + 32) 3)))
         \<and> tm_Heading m = Fin (of_int (dec f (t + 35) 3)) \<and> dec f (t + 35) 3 \<le> 360
         \<and> tm_ACC m = Some (bit status 10))"

lemma dec_3: "dec f i 3 = int (nib f i) * 100 + dec f (i + 1) 2"
  by (simp add: numeral_3_eq_3 numeral_2_eq_2)

lemma digits_at_6:
  "digits_at f i 6 \<longleftrightarrow> digits_at f i 3 \<and> nib f (i + 3) \<le> 9 \<and> digits_at f (i + 4) 2"
  by (simp add: numeral_eq_Suc)

lemma is_digit_hex_char: "d < 16 \<Longrightarrow> is_digit (hex_char False d) \<longleftrightarrow> d \<le> 9"
  by (auto simp: is_digit_def hex_char_def of_char_of)

lemma hex_char_small: "d \<le> 9 \<Longrightarrow> hex_char False d = digit_char d"
  by (simp add: hex_char_def digit_char_def)

lemma nib_less [simp]: "nib f i < 16"
  using unat_byte_less[of "f ! (i div 2)"] by (simp add: nib_def less_mult_imp_div_less)

lemma plain_hex_char: "d < 16 \<Longrightarrow> plain (hex_char False d)"
  by (auto simp: plain_def hex_char_def of_char_of)

lemma hex_id_digits:
  assumes "ValidateIMEI s = None" and "s = map (\<lambda>i. hex_char False (nib f i)) [2..<t]"
  shows "digits_at f 2 (t - 2) \<and> s = map (\<lambda>i. digit_char (nib f i)) [2..<t]"
proof -
  have "trim_space s = s"
    unfolding assms(2) by (intro trim_space_all_plain) (simp add: list_all_iff plain_hex_char)
  then have d: "nib f i \<le> 9" if "2 \<le> i" "i < t" for i
    using assms that by (simp add: ValidateIMEI_None list_all_iff is_digit_hex_char)
  then show ?thesis
    unfolding assms(2) by (auto simp: digits_at_def hex_char_small)
qed

lemma id_end_le: "29 \<le> length f \<Longrightarrow> 1 + (id_end f - 1) \<le> length f \<and> 2 \<le> id_end f"
  by (simp add: id_end_def)

lemma and_bit_byte:
  "(b :: byte) AND 4 = 0 \<longleftrightarrow> \<not> bit b 2" "(b :: byte) AND 8 = 0 \<longleftrightarrow> \<not> bit b 3"
  using and_exp_eq_0_iff_not_bit[of b 2] and_exp_eq_0_iff_not_bit[of b 3] by simp_all

lemma bitSet_iff: "bitSet w n \<longleftrightarrow> bit w n"
  using and_exp_eq_0_iff_not_bit[of w n] by (simp add: bitSet_def push_bit_eq_mult)



definition sample_binary :: bytes where
  "sample_binary = [0x24, 0x12, 0x34, 0x56, 0x78, 0x90, 0x13, 0x45, 0x30, 0x17, 0x09, 0x26,
     0x23, 0x30, 0x00, 0x00, 0x64, 0x04, 0x63, 0x00, 0x00, 0x02, 0x06, 0x03, 0x44,
     0xFF, 0xFF, 0xFB, 0xFF]"

lemma f64_round_samples:
  "f64_round 30 = Fin 30" "f64_round (1 / 2) = Fin (1 / 2)" "f64_round (47 / 2) = Fin (47 / 2)"
  "f64_round (93 / 2) = Fin (93 / 2)" "f64_round 0 = Fin 0"
  using f64_round_int[of 30] f64_round_dyadic[of 1 1] f64_round_dyadic[of 47 1]
    f64_round_dyadic[of 93 1] f64_round_int[of 0] by simp_all

abbreviation sample_at :: "nat \<Rightarrow> cursor" where "sample_at n \<equiv> \<lparr>cur_data = sample_binary, cur_pos = n\<rparr>"

lemma sample_time: "readBinaryTime (sample_at 6) = Inr (column_time sample_binary 12, sample_at 12)"
  by code_simp

lemma sample_bcd:
  "readBCD 2 (sample_at 12) = Inr (23, sample_at 13)" "readBCD 6 (sample_at 13) = Inr (300000, sample_at 16)"
  "readBCD 2 (sample_at 17) = Inr (4, sample_at 18)" "readBCD 5 (sample_at 19) = Inr (0, sample_at 21)"
  "readBCD 3 (sample_at 22) = Inr (60, sample_at 23)" "readBCD 2 (sample_at 24) = Inr (44, sample_at 25)"
  by code_simp+

lemma sample_bytes:
  "readByte (sample_at 0) = Inr (0x24, sample_at 1)" "readByte (sample_at 16) = Inr (0x64, sample_at 17)"
  "readByte (sample_at 18) = Inr (0x63, sample_at 19)" "peekByte (sample_at 18) = Inr 0x63"
  "readByte (sample_at 21) = Inr (0x02, sample_at 22)" "readByte (sample_at 23) = Inr (0x03, sample_at 24)"
  "readUint32 (sample_at 25) = Inr (0xFFFFFBFF, sample_at 29)"
  "ValidateIMEI (normalizeID (take 5 (drop (Suc 0) sample_binary))) = None"
  "length sample_binary = 29"
  by code_simp+

lemma sample_coordinates:
  "readCoordinate False (sample_at 12) = Inr (Fin (47 / 2), sample_at 16)"
  "readCoordinate True (sample_at 17) = Inr (Fin (93 / 2), sample_at 21)"
  by (simp_all add: readCoordinate_def sample_bcd sample_bytes f64_of_int_exact f64_ops Let_def
      f64_round_samples)

lemma sample_course: "f64_of_int 3 * Fin 100 + f64_of_int 44 = Fin 344"
  using course_float[of 3 44] by simp

lemma sample_globe: "ValidCoordinates (Fin (- (47 / 2))) (Fin (- (93 / 2)))"
  by (simp add: ValidCoordinates_def is_nan_def is_inf_def)

lemma sample_binary_decodes: "\<exists>m. decodeBinary sample_binary = Inr m"
  by (simp add: decodeBinary_def sample_bytes sample_time minBinaryPayload_def remaining_def
      binaryIDShort_def sample_bcd sample_coordinates sample_course sample_globe Let_def
      uminus_f64_def)


section \<open>The framing contract\<close>

interpretation h02: framer "h02_NextFrame n" for n
proof
  show "f = take k buf \<and> 0 < k \<and> k \<le> length buf"
    if "h02_NextFrame n buf = (Some f, k, None)" for buf f k
    using that
    by (auto simp: h02_NextFrame_def indexOfMarker_def indexOfByte_def minBinaryPayload_def
        dest: index_where_less split: option.splits if_splits)
  show "0 < k \<and> k \<le> length buf" if "h02_NextFrame n buf = (None, k, None)" for buf k
    using that by (auto simp: h02_NextFrame_def split: option.splits if_splits)
  show "fr = None \<and> (if is_incomplete e then k = 0 else 0 < k \<and> k \<le> length buf)"
    if "buf \<noteq> []" "h02_NextFrame n buf = (fr, k, Some e)" for buf fr k e
    using that
    by (auto simp: h02_NextFrame_def indexOfMarker_def is_incomplete_def
        dest: index_where_less split: option.splits if_splits)
qed

lemma index_where_0: "index_where P xs = Some 0 \<longleftrightarrow> xs \<noteq> [] \<and> P (xs ! 0)"
  by (cases xs) auto

lemma index_where_take_None:
  "index_where P xs = Some i \<Longrightarrow> k \<le> i \<Longrightarrow> index_where P (take k xs) = None"
  unfolding index_where_None index_where_Some by (auto simp: in_set_conv_nth)

lemma h02_frame_waits:
  assumes a: "h02_NextFrame (1 + int n) f = (Some f, length f, None)"
    and l: "length f \<le> h02_maxFrame" and m: "0 < m" "m < length f"
  shows "h02_NextFrame (1 + int n) (take m f) = (None, 0, Some ErrIncompleteFrame)"
proof -
  have i: "indexOfMarker f = Some 0"
    using a by (auto simp: h02_NextFrame_def split: option.splits if_splits)
  then have i': "indexOfMarker (take m f) = Some 0"
    using m by (auto simp: indexOfMarker_def index_where_0)
  have h: "take m f ! 0 = f ! 0" using m by simp
  show ?thesis
  proof (cases "f ! 0 = markerText")
    case True
    then have e: "indexOfByte f 0x23 = Some (length f - 1)"
      using a i by (auto simp: h02_NextFrame_def split: option.splits if_splits)
    then have "indexOfByte (take m f) 0x23 = None"
      using m unfolding indexOfByte_def by (intro index_where_take_None[OF e[unfolded indexOfByte_def]]) simp
    then show ?thesis
      using True i' h m l by (simp add: h02_NextFrame_def)
  next
    case False
    then have "length f = Suc n" "Suc n \<le> h02_maxFrame"
      using a i by (auto simp: h02_NextFrame_def split: if_splits)
    then show ?thesis
      using False i' h m by (simp add: h02_NextFrame_def)
  qed
qed

text \<open>With a configured length the frames do not depend on what follows.\<close>

interpretation h02_fixed: stream_framer "h02_NextFrame (1 + int k)" h02_maxFrame for k
proof
  fix buf f n rest
  assume a: "h02_NextFrame (1 + int k) buf = (Some f, n, None)"
  have "buf \<noteq> []" using h02.frame_prefix[OF a] by auto
  then show "h02_NextFrame (1 + int k) (buf @ rest) = (Some f, n, None)"
    using a index_where_append_Some[of "\<lambda>b. b = markerBinary \<or> b = markerText" buf 0 rest]
      index_where_append_Some[of "\<lambda>b. b = 0x23" buf _ rest]
    by (auto simp: h02_NextFrame_def indexOfMarker_def indexOfByte_def nth_append
        dest: index_where_less split: option.splits if_splits)
next
  fix f m
  assume a: "h02_NextFrame (1 + int k) f = (Some f, length f, None)" "length f \<le> h02_maxFrame"
    "0 < m" "m < length f"
  then have "h02_NextFrame (1 + int k) (take m f) = (None, 0, Some ErrIncompleteFrame)"
    by (rule h02_frame_waits)
  then show "\<exists>e. h02_NextFrame (1 + int k) (take m f) = (None, 0, Some e) \<and> is_incomplete e"
    by (simp add: is_incomplete_def)
qed

section \<open>Locations\<close>

lemma text_tail_location [simp]:
  "tm_HasLocation (text_status ps (text_clock ps (text_motion ps msg))) = tm_HasLocation msg"
  "tm_Latitude (text_status ps (text_clock ps (text_motion ps msg))) = tm_Latitude msg"
  "tm_Longitude (text_status ps (text_clock ps (text_motion ps msg))) = tm_Longitude msg"
  by (simp_all add: text_status_def text_clock_def text_motion_def Let_def split: option.splits sum.splits)

lemma decodeTextPosition_location:
  assumes "decodeTextPosition msg parts = Inr m" and "\<not> tm_HasLocation msg"
  shows "location_ok m"
  using assms
  by (cases "length parts < 12")
     (auto simp: decodeTextPosition_def location_ok_def and_then_Inr Let_def ValidCoordinates_iff)

lemma decodeText_location:
  assumes "decodeText now f = Inr m"
  shows "location_ok m"
  using assms
  by (auto simp: decodeText_def location_ok_def Let_def zero_message_def
      dest!: decodeTextPosition_location split: option.splits if_splits)

lemma decodeBinary_location:
  "decodeBinary f = Inr m \<Longrightarrow> location_ok m"
  unfolding location_ok_def ValidCoordinates_iff[symmetric] using decodeBinary_steps by blast

lemma h02_Parse_location:
  "h02_Parse now f = Inr ms \<Longrightarrow> m \<in> set ms \<Longrightarrow> location_ok m"
  by (auto simp: h02_Parse_def and_then_Inr split: if_splits
      dest: decodeBinary_location decodeText_location)

section \<open>Commands\<close>

lemma show_int_chars:
  "0 \<le> n \<Longrightarrow> list_all is_digit (show_int n) \<and> show_int n \<noteq> ''''"
  by (simp add: show_int_def show_nat_digits)

lemma digits_no_sep: "list_all is_digit s \<Longrightarrow> CHR '','' \<notin> set s \<and> CHR ''#'' \<notin> set s"
  by (auto simp: list_all_iff is_digit_def)

lemma split_on_params:
  "CHR '','' \<notin> set a \<Longrightarrow> \<forall>p \<in> set ps. CHR '','' \<notin> set p \<Longrightarrow>
     split_on (CHR '','') (a @ concat (map (\<lambda>p. '','' @ p) ps)) = a # ps"
  by (induction ps arbitrary: a) (simp_all add: split_on_no_sep split_on_append_sep)

text \<open>The parameters that the encoder sends for each kind of command.\<close>

definition h02_payload :: "command \<Rightarrow> (string \<times> string list) \<Rightarrow> bool" where
  "h02_payload cmd tp \<longleftrightarrow>
     (cmd_Type cmd = CommandEngineCut \<and> tp = (''S20'', [''1'', ''1'']))
     \<or> (cmd_Type cmd = CommandEngineResume \<and> tp = (''S20'', [''1'', ''0'']))
     \<or> (cmd_Type cmd = CommandSetInterval
        \<and> (\<exists>n. 5 \<le> n \<and> n \<le> 18000 \<and> atoi (trim_space (Param cmd ''seconds'')) = Some n
             \<and> tp = (''S71'', [''22'', show_int n])))"

lemma h02_EncodeCommand_text:
  assumes "h02_EncodeCommand now cmd = Inr bs" and "trim_space (cmd_Raw cmd) = ''''"
  obtains t ps where "h02_payload cmd (t, ps)" "ValidateIMEI (trim_space (cmd_UniqueID cmd)) = None"
    "bs = bytes_of_str (formatCommand now (trim_space (cmd_UniqueID cmd)) t ps)"
  using assms
  by (auto simp: h02_EncodeCommand_def Let_def and_then_Inr h02_payload_def boundedInt_def
      split: option.splits if_splits)

lemma payload_chars:
  assumes "h02_payload cmd (t, ps)"
  shows "\<forall>p \<in> set (t # ps). CHR '','' \<notin> set p \<and> CHR ''#'' \<notin> set p"
  using assms show_int_chars digits_no_sep by (fastforce simp: h02_payload_def)

lemma bytes_of_str_marks:
  "CHR ''#'' \<notin> set s \<Longrightarrow> index_where (\<lambda>b. b = 0x23) (bytes_of_str (s @ ''#'')) = Some (length s)"
  using index_where_bytes[of "CHR ''#''" "s @ ''#''"] by (simp add: index_where_hit)

text \<open>An H02 command is exactly one text frame and says what was asked.  Whenever a
  command without raw text is encoded, the bytes form one frame whatever is sent after them, and
  its comma-separated fields are the header, the identifier of the device, the type, the time and
  the parameters: cutting the engine is \<^verbatim>\<open>S20,1,1\<close>, resuming it \<^verbatim>\<open>S20,1,0\<close>, an interval
  between 5 and 18000 seconds \<^verbatim>\<open>S71,22\<close>; nothing else is encoded.\<close>

theorem h02_command_frame:
  assumes "h02_EncodeCommand now cmd = Inr bs" and "trim_space (cmd_Raw cmd) = ''''"
  shows "h02_NextFrame n (bs @ rest) = (Some bs, length bs, None)
    \<and> (\<exists>t ps. h02_payload cmd (t, ps)
        \<and> split_on (CHR '','') (trim_suffix (str_of_bytes bs) ''#'')
          = [''*HQ'', trim_space (cmd_UniqueID cmd), t, format_hms now] @ ps)"
proof -
  obtain t ps where p: "h02_payload cmd (t, ps)"
    and v: "ValidateIMEI (trim_space (cmd_UniqueID cmd)) = None"
    and bs: "bs = bytes_of_str (formatCommand now (trim_space (cmd_UniqueID cmd)) t ps)"
    using h02_EncodeCommand_text[OF assms] by blast
  let ?id = "trim_space (cmd_UniqueID cmd)"
  define body where "body = ''*HQ'' @ concat (map (\<lambda>p. '','' @ p) ([?id, t, format_hms now] @ ps))"
  have bs': "bs = bytes_of_str (body @ ''#'')" by (simp add: bs formatCommand_def body_def)
  have "list_all is_digit ?id" using v by (simp add: ValidateIMEI_None digits_trim_space)
  then have d: "\<forall>p \<in> set ([?id, t, format_hms now] @ ps). CHR '','' \<notin> set p \<and> CHR ''#'' \<notin> set p"
    using payload_chars[OF p] digits_no_sep[of ?id] digits_no_sep[of "format_hms now"] by auto
  have "split_on (CHR '','') body = ''*HQ'' # [?id, t, format_hms now] @ ps"
    unfolding body_def by (rule split_on_params) (use d in auto)
  moreover have "CHR ''#'' \<notin> set body" unfolding body_def using d by auto
  then have "indexOfByte (bs @ rest) 0x23 = Some (length body)"
    unfolding indexOfByte_def bs' by (intro index_where_append_Some bytes_of_str_marks)
  moreover have "indexOfMarker (bs @ rest) = Some 0" "(bs @ rest) ! 0 = markerText"
    by (simp_all add: bs' body_def indexOfMarker_def bytes_of_str_def)
  ultimately show ?thesis
    using p by (auto simp: h02_NextFrame_def bs' trim_suffix_append)
qed

definition sample_cut :: command where
  "sample_cut = \<lparr> cmd_Type = CommandEngineCut, cmd_UniqueID = ''869247061234567'',
     cmd_CorrelationKey = 0, cmd_Password = '''', cmd_Params = Map.empty, cmd_Raw = '''' \<rparr>"

lemma sample_cut_encodes:
  "h02_EncodeCommand 0 sample_cut
     = Inr (bytes_of_str ''*HQ,869247061234567,S20,000000,1,1#'')"
proof -
  have "format_hms 0 = ''000000''" by code_simp
  moreover have "trim_space ''869247061234567'' = ''869247061234567''"
    by (simp add: digits_trim_space is_digit_def)
  ultimately show ?thesis
    by (simp add: h02_EncodeCommand_def sample_cut_def ValidateIMEI_def is_digit_def
        formatCommand_def re_safe_text_def printable_char_def)
qed

theorem h02_command_frame_witness:
  "h02_NextFrame 0 (bytes_of_str ''*HQ,869247061234567,S20,000000,1,1#'' @ [0x24])
     = (Some (bytes_of_str ''*HQ,869247061234567,S20,000000,1,1#''),
        length (bytes_of_str ''*HQ,869247061234567,S20,000000,1,1#''), None)"
  using h02_command_frame[OF sample_cut_encodes, of 0 "[0x24]"] by (simp add: sample_cut_def)

end
