(* ===== verification/TKStar.thy ===== *)
theory TKStar
  imports Tracker
begin

text \<open>
  The package \<^verbatim>\<open>internal/protocols/tkstar\<close>: the text dialects of the TKSTAR line.  The terminator
  framing and the field readers (\<^verbatim>\<open>parser.go\<close>), the V1 grammar with its V1.8 extension
  (\<^verbatim>\<open>protocol_v1.go\<close>), the capture-only V4 adapter (\<^verbatim>\<open>protocol_v4.go\<close>) and the command
  vocabulary (\<^verbatim>\<open>commands.go\<close>).  The two variants of V1 differ in the flag \<open>extended\<close>, which is
  an argument of the definitions.
\<close>

section \<open>parser.go\<close>

definition maxTextFrame :: nat where "maxTextFrame = 1024"

definition text_nextFrame :: "byte \<Rightarrow> bytes \<Rightarrow> frame_result" where
  "text_nextFrame terminator buf =
     (let skip = length (takeWhile (\<lambda>b. b = 0x0D \<or> b = 0x0A \<or> b = 0x20) buf) in
      if skip > 0 then (None, skip, None)
      else case index_where (\<lambda>b. b = terminator) buf of
        None \<Rightarrow> if length buf > maxTextFrame then (None, length buf, Some ErrTextTooLong)
                else (None, 0, Some ErrIncompleteFrame)
      | Some i \<Rightarrow>
          if i + 1 > maxTextFrame then (None, i + 1, Some ErrTextTooLong)
          else (Some (take (i + 1) buf), i + 1, None))"

definition tk_field :: "string list \<Rightarrow> nat \<Rightarrow> string" where
  "tk_field parts i = (if i \<ge> length parts then '''' else trim_space (parts ! i))"

definition tk_parseFloatField :: "string list \<Rightarrow> nat \<Rightarrow> f64 option" where
  "tk_parseFloatField parts i =
     (let raw = tk_field parts i in if raw = '''' then None else parse_float raw)"

definition tk_parseIntField :: "string list \<Rightarrow> nat \<Rightarrow> int option" where
  "tk_parseIntField parts i =
     (let raw = tk_field parts i in if raw = '''' then None else atoi raw)"

definition extractIMEI :: "string \<Rightarrow> perr + string" where
  "extractIMEI raw0 =
     (let raw = trim_prefix (trim_prefix (trim_space raw0) ''imei:'') ''IMEI:'' in
      case ValidateIMEI raw of Some e \<Rightarrow> Inl e | None \<Rightarrow> Inr raw)"

section \<open>commands.go\<close>

record commandSet =
  cs_engineCut :: string
  cs_engineResume :: string
  cs_requestPosition :: string
  cs_requestStatus :: string
  cs_reboot :: string
  cs_setInterval :: "(int \<Rightarrow> string) option"
  cs_setHeartbeat :: "(int \<Rightarrow> string) option"
  cs_setServer :: "(string \<Rightarrow> int \<Rightarrow> string) option"
  cs_terminator :: string

definition defaultCommands :: commandSet where
  "defaultCommands = \<lparr> cs_engineCut = ''RELAY,1#'', cs_engineResume = ''RELAY,0#'',
     cs_requestPosition = ''WHERE#'', cs_requestStatus = ''STATUS#'', cs_reboot = '''',
     cs_setInterval = None, cs_setHeartbeat = None, cs_setServer = None,
     cs_terminator = ''#'' \<rparr>"

definition unconfirmed :: "command_type \<Rightarrow> perr" where
  "unconfirmed t = Wrapped ''TKSTAR'' (ErrUnsupportedCommand t)"

definition required :: "string \<Rightarrow> command_type \<Rightarrow> perr + string" where
  "required s t = (if trim_space s = '''' then Inl (unconfirmed t) else Inr s)"

definition tk_boundedInt :: "string \<Rightarrow> int \<Rightarrow> int \<Rightarrow> perr + int" where
  "tk_boundedInt raw minValue maxValue =
     (case atoi (trim_space raw) of
        None \<Rightarrow> Inl ErrNotNumber
      | Some v \<Rightarrow> if v < minValue \<or> v > maxValue then Inl (ErrOutOfRange minValue maxValue) else Inr v)"

definition tk_commandText :: "commandSet \<Rightarrow> command \<Rightarrow> perr + string" where
  "tk_commandText cs cmd =
     (let raw = trim_space (cmd_Raw cmd); pwd = trim_space (cmd_Password cmd); t = cmd_Type cmd in
      if raw \<noteq> '''' then Inr raw
      else if pwd \<noteq> '''' \<and> \<not> re_safe_password pwd then Inl ErrPasswordFormat
      else if t = CommandEngineCut then required (cs_engineCut cs) t
      else if t = CommandEngineResume then required (cs_engineResume cs) t
      else if t = CommandRequestPosition then required (cs_requestPosition cs) t
      else if t = CommandRequestStatus then required (cs_requestStatus cs) t
      else if t = CommandReboot then required (cs_reboot cs) t
      else if t = CommandSetInterval then
        (case cs_setInterval cs of
           None \<Rightarrow> Inl (unconfirmed t)
         | Some f \<Rightarrow> and_then (wrap_err ''intervalo'' (tk_boundedInt (Param cmd ''seconds'') 5 18000))
                       (\<lambda>seconds. Inr (f seconds)))
      else if t = CommandSetHeartbeat then
        (case cs_setHeartbeat cs of
           None \<Rightarrow> Inl (unconfirmed t)
         | Some f \<Rightarrow> and_then (wrap_err ''heartbeat'' (tk_boundedInt (Param cmd ''minutes'') 1 360))
                       (\<lambda>minutes. Inr (f minutes)))
      else if t = CommandSetServer then
        (case cs_setServer cs of
           None \<Rightarrow> Inl (unconfirmed t)
         | Some f \<Rightarrow>
             let host = trim_space (Param cmd ''host'') in
             if \<not> re_safe_host host then Inl ErrHost
             else and_then (wrap_err ''porta'' (tk_boundedInt (Param cmd ''port'') 1 65535))
                    (\<lambda>port. Inr (f host port)))
      else if t = CommandCustom then Inl ErrCustomNeedsRaw
      else Inl (ErrUnsupportedCommand t))"

definition tk_encodeCommand :: "commandSet \<Rightarrow> command \<Rightarrow> perr + bytes" where
  "tk_encodeCommand cs cmd =
     and_then (tk_commandText cs cmd) (\<lambda>s.
       let s = (if cs_terminator cs \<noteq> '''' \<and> \<not> has_suffix s (cs_terminator cs)
                then s @ cs_terminator cs else s)
       in if \<not> re_safe_text s then Inl ErrCommandChars else Inr (bytes_of_str s))"

definition supportedCommands :: "commandSet \<Rightarrow> command_type list" where
  "supportedCommands cs =
     (if cs_engineCut cs \<noteq> '''' then [CommandEngineCut] else [])
     @ (if cs_engineResume cs \<noteq> '''' then [CommandEngineResume] else [])
     @ (if cs_requestPosition cs \<noteq> '''' then [CommandRequestPosition] else [])
     @ (if cs_requestStatus cs \<noteq> '''' then [CommandRequestStatus] else [])
     @ (if cs_reboot cs \<noteq> '''' then [CommandReboot] else [])
     @ (if cs_setInterval cs \<noteq> None then [CommandSetInterval] else [])
     @ (if cs_setHeartbeat cs \<noteq> None then [CommandSetHeartbeat] else [])
     @ (if cs_setServer cs \<noteq> None then [CommandSetServer] else [])
     @ [CommandCustom]"

section \<open>protocol_v1.go\<close>

abbreviation (input) v1FieldIMEI :: nat where "v1FieldIMEI \<equiv> 0"
abbreviation (input) v1FieldType :: nat where "v1FieldType \<equiv> 1"
abbreviation (input) v1FieldLocalTime :: nat where "v1FieldLocalTime \<equiv> 2"
abbreviation (input) v1FieldFix :: nat where "v1FieldFix \<equiv> 4"
abbreviation (input) v1FieldUTCTime :: nat where "v1FieldUTCTime \<equiv> 5"
abbreviation (input) v1FieldValid :: nat where "v1FieldValid \<equiv> 6"
abbreviation (input) v1FieldLat :: nat where "v1FieldLat \<equiv> 7"
abbreviation (input) v1FieldLatHemi :: nat where "v1FieldLatHemi \<equiv> 8"
abbreviation (input) v1FieldLon :: nat where "v1FieldLon \<equiv> 9"
abbreviation (input) v1FieldLonHemi :: nat where "v1FieldLonHemi \<equiv> 10"
abbreviation (input) v1FieldSpeedKn :: nat where "v1FieldSpeedKn \<equiv> 11"
abbreviation (input) v1FieldCourse :: nat where "v1FieldCourse \<equiv> 12"
abbreviation (input) v1FieldAltitude :: nat where "v1FieldAltitude \<equiv> 13"
abbreviation (input) v1FieldBattery :: nat where "v1FieldBattery \<equiv> 14"
abbreviation (input) v1MinFields :: nat where "v1MinFields \<equiv> 12"

definition v1_Name :: "bool \<Rightarrow> string" where
  "v1_Name extended = (if extended then ''tkstar_v1_8'' else ''tkstar_v1'')"

definition v1_Describe :: "bool \<Rightarrow> descriptor" where
  "v1_Describe extended = \<lparr> ds_Name = v1_Name extended, ds_Vendor = ''TKSTAR'',
     ds_Confidence = Assumed, ds_Commands = supportedCommands defaultCommands \<rparr>"

definition isAllDigits :: "string \<Rightarrow> bool" where
  "isAllDigits s = (if s = '''' then False else list_all is_digit s)"

definition v1_Detect :: "bytes \<Rightarrow> bool" where
  "v1_Detect data =
     (let s = trim_left_set (str_of_bytes data) [CHR 0x0D, CHR 0x0A, CHR '' ''] in
      if s = '''' then False
      else if has_prefix s ''##,imei:'' \<or> has_prefix s ''imei:'' then True
      else case index_where (\<lambda>c. c = CHR '';'') s of
        Some i \<Rightarrow> if i > 9 then ValidateIMEI (take i s) = None
                  else length s \<le> 20 \<and> isAllDigits s
      | None \<Rightarrow> length s \<le> 20 \<and> isAllDigits s)"

definition v1_NextFrame :: "bytes \<Rightarrow> frame_result" where
  "v1_NextFrame buf = text_nextFrame 0x3B buf"

definition v1_EncodeCommand :: "command \<Rightarrow> perr + bytes" where
  "v1_EncodeCommand cmd = tk_encodeCommand defaultCommands cmd"

definition applyV1Type :: "tracker_message \<Rightarrow> string \<Rightarrow> tracker_message" where
  "applyV1Type msg kind =
     (if kind = ''tracker'' then msg
      else if kind = ''acc on'' then msg\<lparr>tm_ACC := Some True\<rparr>
      else if kind = ''acc off'' then msg\<lparr>tm_ACC := Some False\<rparr>
      else if kind = ''help me'' then msg\<lparr>tm_Alarm := ''SOS'', tm_Kind := KindAlarm\<rparr>
      else if kind = ''low battery'' then msg\<lparr>tm_Alarm := ''LOW_BATTERY'', tm_Kind := KindAlarm\<rparr>
      else if kind = ''move'' \<or> kind = ''stockade''
        then msg\<lparr>tm_Alarm := ''VIBRATION'', tm_Kind := KindAlarm\<rparr>
      else if kind = ''speed'' then msg\<lparr>tm_Alarm := ''OVERSPEED'', tm_Kind := KindAlarm\<rparr>
      else if kind \<noteq> '''' then set_attr ''unmappedType'' (AStr kind) msg
      else msg)"

definition parseV1Timestamp :: "string \<Rightarrow> string \<Rightarrow> perr + time" where
  "parseV1Timestamp localDateTime utcTime =
     (if length localDateTime < 10 then Inl (ErrTimestamp localDateTime)
      else case parse_yymmddhhmm (take 10 localDateTime) of
        None \<Rightarrow> Inl (ErrTimestamp localDateTime)
      | Some (y, m, d, h, mi) \<Rightarrow>
          if length utcTime < 6 then Inr (time_date y m d h mi 0)
          else case parse_hms (take 6 utcTime) of
            None \<Rightarrow> Inl (ErrTimestamp utcTime)
          | Some (h', mi', s') \<Rightarrow> Inr (time_date y m d h' mi' s'))"

text \<open>The fields after the coordinates: speed and course, the time, and the extension of V1.8.\<close>

definition v1_motion :: "string list \<Rightarrow> tracker_message \<Rightarrow> tracker_message" where
  "v1_motion parts msg =
     (let msg = (case tk_parseFloatField parts v1FieldSpeedKn of
                   None \<Rightarrow> msg | Some knots \<Rightarrow> msg\<lparr>tm_SpeedKmh := KnotsToKmh knots\<rparr>)
      in case tk_parseFloatField parts v1FieldCourse of
           None \<Rightarrow> msg | Some course \<Rightarrow> msg\<lparr>tm_Heading := course\<rparr>)"

definition v1_clock :: "string list \<Rightarrow> tracker_message \<Rightarrow> tracker_message" where
  "v1_clock parts msg =
     (case parseV1Timestamp (tk_field parts v1FieldLocalTime) (tk_field parts v1FieldUTCTime) of
        Inl e \<Rightarrow> set_attr ''timestampFallback'' (AErr e) msg
      | Inr ts \<Rightarrow> msg\<lparr>tm_Timestamp := ts\<rparr>)"

definition v1_extension :: "bool \<Rightarrow> string list \<Rightarrow> tracker_message \<Rightarrow> tracker_message" where
  "v1_extension extended parts msg =
     (if extended then
        let msg = (case tk_parseFloatField parts v1FieldAltitude of
                     None \<Rightarrow> msg | Some alt \<Rightarrow> msg\<lparr>tm_Altitude := Some alt\<rparr>)
        in case tk_parseIntField parts v1FieldBattery of
             None \<Rightarrow> msg
           | Some batt \<Rightarrow> if batt \<ge> 0 \<and> batt \<le> 100 then msg\<lparr>tm_BatteryPercent := Some batt\<rparr> else msg
      else msg)"

definition v1_parseData :: "bool \<Rightarrow> tracker_message \<Rightarrow> string \<Rightarrow> perr + tracker_message" where
  "v1_parseData extended msg line =
     (let parts = split_on (CHR '','') line in
      and_then (wrap_err ''pacote TKSTAR V1'' (extractIMEI (tk_field parts v1FieldIMEI))) (\<lambda>imei.
      let kind = to_lower (tk_field parts v1FieldType);
          msg = applyV1Type (set_attr ''messageType'' (AStr kind) (msg\<lparr>tm_IMEI := imei\<rparr>)) kind in
      if length parts < v1MinFields then Inr (set_attr ''shortPacket'' (ABool True) msg)
      else
      let fix' = to_upper (tk_field parts v1FieldFix);
          valid = (to_upper (tk_field parts v1FieldValid) = ''A'');
          msg = msg\<lparr>tm_GPSValid := (fix' = ''F'' \<and> valid)\<rparr> in
      if fix' \<noteq> ''F'' then Inr (set_attr ''positioning'' (AStr ''lbs'') (msg\<lparr>tm_Kind := KindStatus\<rparr>))
      else
      and_then (wrap_err ''latitude'' (DDMMToDecimal (tk_field parts v1FieldLat)
        (tk_field parts v1FieldLatHemi))) (\<lambda>lat.
      and_then (wrap_err ''longitude'' (DDMMToDecimal (tk_field parts v1FieldLon)
        (tk_field parts v1FieldLonHemi))) (\<lambda>lon.
      if \<not> ValidCoordinates lat lon then Inl (ErrCoordinatesRange lat lon)
      else
      let msg = msg\<lparr>tm_Latitude := lat, tm_Longitude := lon, tm_HasLocation := True\<rparr>;
          msg = (if tm_Kind msg = KindOther then msg\<lparr>tm_Kind := KindPosition\<rparr> else msg)
      in Inr (v1_extension extended parts (v1_clock parts (v1_motion parts msg)))))))"

definition v1_Parse :: "bool \<Rightarrow> time \<Rightarrow> bytes \<Rightarrow> perr + tracker_message list" where
  "v1_Parse extended now frame =
     (let raw = trim_space (str_of_bytes frame);
          line = trim_suffix raw '';'';
          msg = zero_message\<lparr>tm_Protocol := v1_Name extended, tm_RawPayload := raw,
                  tm_Kind := KindOther, tm_Timestamp := now\<rparr> in
      if has_prefix line ''##,'' then
        let parts = split_on (CHR '','') line in
        if length parts < 2 then Inl ErrLoginWithoutIMEI
        else and_then (wrap_err ''login TKSTAR V1'' (extractIMEI (parts ! 1))) (\<lambda>imei.
          Inr [msg\<lparr>tm_Kind := KindLogin, tm_IMEI := imei, tm_Ack := bytes_of_str ''LOAD''\<rparr>])
      else if isAllDigits line then
        and_then (wrap_err ''heartbeat TKSTAR V1'' (extractIMEI line)) (\<lambda>imei.
          Inr [msg\<lparr>tm_Kind := KindHeartbeat, tm_IMEI := imei, tm_Ack := bytes_of_str ''ON''\<rparr>])
      else if has_prefix line ''imei:'' then
        and_then (v1_parseData extended msg line) (\<lambda>msg. Inr [msg])
      else Inr [set_attr ''unrecognized'' (ABool True) msg])"

section \<open>protocol_v4.go\<close>

abbreviation (input) NameV4 :: string where "NameV4 \<equiv> ''tkstar_v4''"

definition v4_Describe :: descriptor where
  "v4_Describe = \<lparr> ds_Name = NameV4, ds_Vendor = ''TKSTAR'', ds_Confidence = Unknown,
     ds_Commands = [] \<rparr>"

definition v4_Detect :: "bool \<Rightarrow> bytes \<Rightarrow> bool" where
  "v4_Detect enabled data \<longleftrightarrow> enabled \<and> length data > 0"

definition v4_NextFrame :: "bytes \<Rightarrow> frame_result" where
  "v4_NextFrame buf =
     (if length buf = 0 then (None, 0, Some ErrIncompleteFrame) else (Some buf, length buf, None))"

definition printableASCII :: "bytes \<Rightarrow> string" where
  "printableASCII b = map (\<lambda>c. if printable_char c then c else CHR ''.'') (str_of_bytes b)"

definition v4_Parse :: "time \<Rightarrow> bytes \<Rightarrow> perr + tracker_message list" where
  "v4_Parse now frame =
     Inr [zero_message\<lparr>tm_Protocol := NameV4, tm_Kind := KindOther, tm_Timestamp := now,
       tm_RawPayload := hex_encode True frame,
       tm_Attributes := [''capture'' \<mapsto> ABool True, ''ascii'' \<mapsto> AStr (printableASCII frame),
         ''bytes'' \<mapsto> AInt (int (length frame))]\<rparr>]"

definition v4_EncodeCommand :: "command \<Rightarrow> perr + bytes" where
  "v4_EncodeCommand cmd = Inl (ErrUnsupportedCommand (cmd_Type cmd))"

end
