(* ===== verification/TKStar_Props.thy ===== *)
theory TKStar_Props
  imports TKStar
begin

text \<open>
  The properties of the TKSTAR adapters: the framing contract, the login and heartbeat
  handshakes, the texts of the commands, and that no message carries a location off the globe.
\<close>

section \<open>The framing contract\<close>

lemma text_skip_0:
  "length (takeWhile P buf) = 0 \<longleftrightarrow> buf = [] \<or> \<not> P (hd buf)"
  by (cases buf) auto

interpretation v1: stream_framer v1_NextFrame maxTextFrame
proof
  show "f = take n buf \<and> 0 < n \<and> n \<le> length buf" if "v1_NextFrame buf = (Some f, n, None)" for buf f n
    using that by (auto simp: v1_NextFrame_def text_nextFrame_def Let_def dest: index_where_less
        split: option.splits if_splits)
  show "0 < n \<and> n \<le> length buf" if "v1_NextFrame buf = (None, n, None)" for buf n
    using that by (auto simp: v1_NextFrame_def text_nextFrame_def Let_def length_takeWhile_le
        split: option.splits if_splits)
  show "fr = None \<and> (if is_incomplete e then n = 0 else 0 < n \<and> n \<le> length buf)"
    if "buf \<noteq> []" "v1_NextFrame buf = (fr, n, Some e)" for buf fr n e
    using that by (auto simp: v1_NextFrame_def text_nextFrame_def Let_def is_incomplete_def
        dest: index_where_less split: option.splits if_splits)
next
  fix buf f n rest
  let ?sp = "\<lambda>b. b = 0x0D \<or> b = 0x0A \<or> b = (0x20 :: byte)"
  assume a: "v1_NextFrame buf = (Some f, n, None)"
  then have 0: "length (takeWhile ?sp buf) = 0" and i: "index_where (\<lambda>b. b = 0x3B) buf = Some (n - 1)"
    and n: "0 < n" "n \<le> maxTextFrame" "f = take n buf"
    by (auto simp: v1_NextFrame_def text_nextFrame_def Let_def split: option.splits if_splits)
  have le: "n \<le> length buf" using index_where_less[OF i] n by simp
  then have "length (takeWhile ?sp (buf @ rest)) = 0"
    using 0 n unfolding text_skip_0 by (cases buf) auto
  then show "v1_NextFrame (buf @ rest) = (Some f, n, None)"
    using index_where_append_Some[OF i, of rest] n le
    by (simp add: v1_NextFrame_def text_nextFrame_def)
next
  fix f k
  let ?sp = "\<lambda>b. b = 0x0D \<or> b = 0x0A \<or> b = (0x20 :: byte)"
  assume a: "v1_NextFrame f = (Some f, length f, None)" and k: "0 < k" "k < length f"
  then have 0: "length (takeWhile ?sp f) = 0"
    and i: "index_where (\<lambda>b. b = 0x3B) f = Some (length f - 1)" and n: "length f \<le> maxTextFrame"
    by (auto simp: v1_NextFrame_def text_nextFrame_def Let_def split: option.splits if_splits)
  have "length (takeWhile ?sp (take k f)) = 0"
    using 0 k unfolding text_skip_0 by auto
  moreover have "index_where (\<lambda>b. b = 0x3B) (take k f) = None"
    using i k unfolding index_where_None index_where_Some by (auto simp: in_set_conv_nth)
  ultimately show "\<exists>e. v1_NextFrame (take k f) = (None, 0, Some e) \<and> is_incomplete e"
    using n k by (simp add: v1_NextFrame_def text_nextFrame_def is_incomplete_def)
qed

interpretation v4: framer v4_NextFrame
  by unfold_locales (auto simp: v4_NextFrame_def is_incomplete_def split: if_splits)

section \<open>Locations\<close>

lemma v1_tail_location [simp]:
  "tm_HasLocation (v1_extension x ps (v1_clock ps (v1_motion ps msg))) = tm_HasLocation msg"
  "tm_Latitude (v1_extension x ps (v1_clock ps (v1_motion ps msg))) = tm_Latitude msg"
  "tm_Longitude (v1_extension x ps (v1_clock ps (v1_motion ps msg))) = tm_Longitude msg"
  by (simp_all add: v1_extension_def v1_clock_def v1_motion_def set_attr_def Let_def
      split: option.splits sum.splits)

lemma applyV1Type_location [simp]: "tm_HasLocation (applyV1Type msg k) = tm_HasLocation msg"
  by (simp add: applyV1Type_def set_attr_def)

lemma v1_parseData_location:
  assumes "v1_parseData x msg line = Inr m" and "\<not> tm_HasLocation msg"
  shows "location_ok m"
proof (cases "length (split_on (CHR '','') line) < 12
    \<or> to_upper (tk_field (split_on (CHR '','') line) 4) \<noteq> ''F''")
  case True
  then show ?thesis
    using assms by (auto simp: v1_parseData_def location_ok_def and_then_Inr Let_def set_attr_def
        split: if_splits)
next
  case False
  then show ?thesis
    using assms
    by (auto simp: v1_parseData_def location_ok_def and_then_Inr Let_def ValidCoordinates_iff)
qed

lemma v1_Parse_location:
  assumes "v1_Parse x now f = Inr ms" and "m \<in> set ms"
  shows "location_ok m"
  using assms
  by (auto simp: v1_Parse_def and_then_Inr Let_def location_ok_def zero_message_def set_attr_def
      split: if_splits dest!: v1_parseData_location)

lemma v4_Parse_location: "v4_Parse now f = Inr ms \<Longrightarrow> m \<in> set ms \<Longrightarrow> \<not> tm_HasLocation m"
  by (auto simp: v4_Parse_def zero_message_def)

section \<open>The handshake\<close>

lemma digits_prefix: "list_all is_digit s \<Longrightarrow> p \<noteq> [] \<Longrightarrow> \<not> is_digit (hd p) \<Longrightarrow> \<not> has_prefix s p"
  by (cases s; cases p) (auto simp: has_prefix_def)

lemma extractIMEI_digits:
  assumes "list_all is_digit s" and "ValidateIMEI s = None"
  shows "extractIMEI s = Inr s" "extractIMEI (''imei:'' @ s) = Inr s"
proof -
  have p: "trim_prefix s ''imei:'' = s" "trim_prefix s ''IMEI:'' = s"
    using digits_prefix[OF assms(1)] by (simp_all add: trim_prefix_def is_digit_def)
  have t: "trim_space s = s" using assms(1) by (rule digits_trim_space)
  then show "extractIMEI s = Inr s" using assms(2) p by (simp add: extractIMEI_def)
  have "trim_space (''imei:'' @ s) = ''imei:'' @ s"
    using assms(1)
    by (intro trim_space_all_plain) (auto simp: plain_def list_all_iff is_digit_def)
  then show "extractIMEI (''imei:'' @ s) = Inr s"
    using assms(2) p trim_prefix_append[of "''imei:''" s] by (simp add: extractIMEI_def)
qed

lemma v1_NextFrame_line:
  assumes "list_all plain s" "s \<noteq> []" "CHR '';'' \<notin> set s" "length s < 1024"
  shows "v1_NextFrame (bytes_of_str (s @ '';'') @ rest) = (Some (bytes_of_str (s @ '';'')), length s + 1, None)"
proof -
  obtain c t where s: "s = c # t" using assms(2) by (cases s) auto
  have "\<not> plain (CHR 0x0D)" "\<not> plain (CHR 0x0A)" "\<not> plain (CHR 0x20)" "plain c"
    using assms(1) s by (simp_all add: plain_def)
  then have "c \<noteq> CHR 0x0D" "c \<noteq> CHR 0x0A" "c \<noteq> CHR 0x20" by auto
  then have "word_of_nat (of_char c) \<noteq> (0x0D :: byte)" "word_of_nat (of_char c) \<noteq> (0x0A :: byte)"
    "word_of_nat (of_char c) \<noteq> (0x20 :: byte)"
    using byte_of_char_inject[of c "CHR 0x0D"] byte_of_char_inject[of c "CHR 0x0A"]
      byte_of_char_inject[of c "CHR 0x20"] by simp_all
  moreover have "index_where (\<lambda>b. b = 0x3B) (bytes_of_str (s @ '';'') @ rest) = Some (length s)"
    using index_where_bytes[of "CHR '';''" "s @ '';''"] index_where_hit[OF assms(3), of "[]"]
    by (intro index_where_append_Some) simp
  ultimately show ?thesis
    using assms(4) by (simp add: v1_NextFrame_def text_nextFrame_def maxTextFrame_def s bytes_of_str_def)
qed

lemma line_trim:
  assumes "list_all plain s"
  shows "trim_suffix (trim_space (str_of_bytes (bytes_of_str (s @ '';'')))) '';'' = s"
proof -
  have "trim_space (s @ '';'') = s @ '';''"
    using assms by (intro trim_space_all_plain) (simp add: plain_def)
  then show ?thesis unfolding str_of_bytes_of_str by (simp only: trim_suffix_append)
qed

lemma digits_plain: "list_all is_digit s \<Longrightarrow> list_all plain s"
  by (auto simp: list_all_iff intro: is_digit_plain)

text \<open>The V1 handshake.  For every identifier of ten to twenty digits, not all zero,
  the login line and the heartbeat line of that device are each one frame of the stream, are
  decoded as a login and a heartbeat of exactly that identifier, and are answered with
  \<^verbatim>\<open>LOAD\<close> and \<^verbatim>\<open>ON\<close>.\<close>

theorem v1_handshake:
  assumes "list_all is_digit imei" and "ValidateIMEI imei = None"
  shows "v1_NextFrame (bytes_of_str (imei @ '';'') @ rest)
      = (Some (bytes_of_str (imei @ '';'')), length imei + 1, None)
    \<and> (\<exists>m. v1_Parse x now (bytes_of_str (imei @ '';'')) = Inr [m]
         \<and> tm_Kind m = KindHeartbeat \<and> tm_IMEI m = imei \<and> tm_Ack m = bytes_of_str ''ON'')
    \<and> v1_NextFrame (bytes_of_str (''##,imei:'' @ imei @ '',A;'') @ rest)
      = (Some (bytes_of_str (''##,imei:'' @ imei @ '',A;'')), length imei + 11, None)
    \<and> (\<exists>m. v1_Parse x now (bytes_of_str (''##,imei:'' @ imei @ '',A;'')) = Inr [m]
         \<and> tm_Kind m = KindLogin \<and> tm_IMEI m = imei \<and> tm_Ack m = bytes_of_str ''LOAD'')"
proof -
  have len: "imei \<noteq> []" "length imei \<le> 20"
    using assms by (auto simp: ValidateIMEI_None digits_trim_space)
  have sep: "CHR '';'' \<notin> set imei" "CHR '','' \<notin> set imei"
    using assms(1) by (auto simp: list_all_iff is_digit_def)
  define login where "login = ''##,imei:'' @ imei @ '',A''"
  have login: "list_all plain login" "CHR '';'' \<notin> set login" "length login = length imei + 10"
    "''##,imei:'' @ imei @ '',A;'' = login @ '';''"
    using digits_plain[OF assms(1)] sep by (simp_all add: login_def plain_def)
  have split: "split_on (CHR '','') login = [''##'', ''imei:'' @ imei, ''A'']"
    using split_on_append_sep[of "CHR '',''" "''imei:'' @ imei" "''A''"] sep
    by (simp add: login_def)
  have "\<not> has_prefix imei ''##,''"
    by (rule digits_prefix[OF assms(1)]) (simp_all add: is_digit_def)
  moreover have "has_prefix login ''##,''" by (simp add: login_def has_prefix_def)
  ultimately have hash: "\<not> has_prefix imei ''##,''" "has_prefix login ''##,''" by simp_all
  have a: "v1_NextFrame (bytes_of_str (imei @ '';'') @ rest)
      = (Some (bytes_of_str (imei @ '';'')), length imei + 1, None)"
    using v1_NextFrame_line[OF digits_plain[OF assms(1)]] len sep by simp
  have c: "v1_NextFrame (bytes_of_str (login @ '';'') @ rest)
      = (Some (bytes_of_str (login @ '';'')), length login + 1, None)"
    using len login by (intro v1_NextFrame_line) (auto simp: login_def)
  have b: "\<exists>m. v1_Parse x now (bytes_of_str (imei @ '';'')) = Inr [m]
         \<and> tm_Kind m = KindHeartbeat \<and> tm_IMEI m = imei \<and> tm_Ack m = bytes_of_str ''ON''"
    unfolding v1_Parse_def Let_def line_trim[OF digits_plain[OF assms(1)]]
    using hash assms(1) len by (simp add: isAllDigits_def extractIMEI_digits[OF assms])
  have d: "\<exists>m. v1_Parse x now (bytes_of_str (login @ '';'')) = Inr [m]
         \<and> tm_Kind m = KindLogin \<and> tm_IMEI m = imei \<and> tm_Ack m = bytes_of_str ''LOAD''"
    unfolding v1_Parse_def Let_def line_trim[OF login(1)] split
    using hash extractIMEI_digits(2)[OF assms] by simp
  show ?thesis
    unfolding login(4) using a b c d login(3) by simp
qed

theorem v1_handshake_witness:
  "\<exists>m. v1_Parse False 0 (bytes_of_str (''##,imei:'' @ ''869247061234567'' @ '',A;'')) = Inr [m]
     \<and> tm_Kind m = KindLogin \<and> tm_IMEI m = ''869247061234567'' \<and> tm_Ack m = bytes_of_str ''LOAD''"
proof -
  have d: "list_all is_digit ''869247061234567''" by (simp add: is_digit_def)
  then have "ValidateIMEI ''869247061234567'' = None"
    unfolding ValidateIMEI_None digits_trim_space[OF d] by (simp add: is_digit_def)
  from v1_handshake[OF d this, of _ False 0] show ?thesis by blast
qed

section \<open>Commands\<close>

text \<open>The V1 encoder sends only the confirmed texts.  Without a raw override the four
  commands with a confirmed text are encoded as exactly that text, and every other command is
  refused; in particular the relay text \<^verbatim>\<open>RELAY,1#\<close> is produced by an engine cut and by
  nothing else.  With an override the bytes are the override, terminated and printable.\<close>

theorem v1_command_texts:
  assumes "v1_EncodeCommand cmd = Inr bs"
  shows "if trim_space (cmd_Raw cmd) = ''''
    then (cmd_Type cmd, str_of_bytes bs)
      \<in> {(CommandEngineCut, ''RELAY,1#''), (CommandEngineResume, ''RELAY,0#''),
         (CommandRequestPosition, ''WHERE#''), (CommandRequestStatus, ''STATUS#'')}
    else list_all printable_char (str_of_bytes bs) \<and> has_suffix (str_of_bytes bs) ''#''
      \<and> length bs \<le> 200
      \<and> str_of_bytes bs \<in> {trim_space (cmd_Raw cmd), trim_space (cmd_Raw cmd) @ ''#''}"
proof (cases "trim_space (cmd_Raw cmd) = ''''")
  case True
  have r: "required s t = Inr u \<longleftrightarrow> trim_space s \<noteq> '''' \<and> u = s" for s t u
    by (auto simp: required_def)
  let ?T = "{(CommandEngineCut, ''RELAY,1#''), (CommandEngineResume, ''RELAY,0#''),
    (CommandRequestPosition, ''WHERE#''), (CommandRequestStatus, ''STATUS#'')}"
  obtain s where s: "tk_commandText defaultCommands cmd = Inr s"
    and bs: "bs = bytes_of_str (if has_suffix s ''#'' then s else s @ ''#'')"
    using assms
    by (auto simp: v1_EncodeCommand_def tk_encodeCommand_def and_then_Inr Let_def
        defaultCommands_def split: if_splits)
  have m: "(cmd_Type cmd, s) \<in> ?T"
    using s True by (auto simp: tk_commandText_def Let_def defaultCommands_def r split: if_splits)
  then have "s \<in> {''RELAY,1#'', ''RELAY,0#'', ''WHERE#'', ''STATUS#''}" by blast
  then have "has_suffix s ''#''" by (elim insertE emptyE) (simp_all add: has_suffix_def)
  then show ?thesis using True m bs by simp
next
  case False
  then have t: "tk_commandText defaultCommands cmd = Inr (trim_space (cmd_Raw cmd))"
    by (simp add: tk_commandText_def)
  show ?thesis
    using assms False unfolding v1_EncodeCommand_def tk_encodeCommand_def t
    by (auto simp: Let_def re_safe_text_def defaultCommands_def has_suffix_def split: if_splits)
qed

definition sample_resume :: command where
  "sample_resume = \<lparr> cmd_Type = CommandEngineResume, cmd_UniqueID = '''', cmd_CorrelationKey = 0,
     cmd_Password = '''', cmd_Params = Map.empty, cmd_Raw = '''' \<rparr>"

lemma sample_resume_encodes: "v1_EncodeCommand sample_resume = Inr (bytes_of_str ''RELAY,0#'')"
proof -
  have "trim_space ''RELAY,0#'' = ''RELAY,0#''"
    by (rule trim_space_all_plain) (simp add: plain_def)
  then show ?thesis
    by (simp add: v1_EncodeCommand_def tk_encodeCommand_def tk_commandText_def sample_resume_def
        defaultCommands_def required_def has_suffix_def re_safe_text_def printable_char_def)
qed

theorem v1_command_texts_witness:
  "(cmd_Type sample_resume, str_of_bytes (bytes_of_str ''RELAY,0#''))
     \<in> {(CommandEngineCut, ''RELAY,1#''), (CommandEngineResume, ''RELAY,0#''),
        (CommandRequestPosition, ''WHERE#''), (CommandRequestStatus, ''STATUS#'')}"
  using v1_command_texts[OF sample_resume_encodes] by (simp add: sample_resume_def)

section \<open>Two observations\<close>

text \<open>The identifier that the validation accepts is not always the one returned.
  \<^verbatim>\<open>ValidateIMEI\<close> trims its argument, but the text after the prefix is returned as it is, so
  that a blank after \<^verbatim>\<open>imei:\<close> stays in the identifier of the message.\<close>

theorem extractIMEI_keeps_blank:
  "extractIMEI ''imei: 869247061234567'' = Inr '' 869247061234567''"
proof -
  have d: "list_all is_digit ''869247061234567''" by (simp add: is_digit_def)
  have t: "trim_space '' 869247061234567'' = ''869247061234567''"
    by code_simp
  have u: "trim_space ''imei: 869247061234567'' = ''imei: 869247061234567''"
    by (rule trim_space_plain) (simp_all add: plain_def)
  have "ValidateIMEI '' 869247061234567'' = None"
    unfolding ValidateIMEI_None t using d by simp
  then show ?thesis by (simp add: extractIMEI_def u trim_prefix_def has_prefix_def)
qed

end
