(* ===== verification/Registry.thy ===== *)
theory Registry
  imports GT06_Props H02_Props TKStar_Props "HOL-Library.Char_ord" "HOL-Library.List_Lexorder"
begin

text \<open>
  The registry of adapters (\<^verbatim>\<open>ProtocolRegistry\<close> of \<^verbatim>\<open>internal/protocols/tracker.go\<close>) as
  \<^verbatim>\<open>cmd/server/main.go\<close> builds it.  The Go interface \<^verbatim>\<open>TrackerProtocol\<close> is the datatype of its
  implementations, and each method a function that dispatches on it; the clock and the serial
  counter of the GT06 encoder are arguments.  Every adapter satisfies the framing contract and
  never reports a location off the globe.
\<close>

datatype protocol =
    GT06Protocol bool \<comment> \<open>\<^verbatim>\<open>AckGPS\<close>\<close>
  | H02Protocol int \<comment> \<open>\<^verbatim>\<open>BinaryFrameLength\<close>\<close>
  | TKStarV1 bool \<comment> \<open>\<^verbatim>\<open>extended\<close>\<close>
  | TKStarV4 bool \<comment> \<open>\<^verbatim>\<open>Enabled\<close>\<close>

fun proto_Name :: "protocol \<Rightarrow> string" where
  "proto_Name (GT06Protocol _) = gt06_Name"
| "proto_Name (H02Protocol _) = h02_Name"
| "proto_Name (TKStarV1 x) = v1_Name x"
| "proto_Name (TKStarV4 _) = NameV4"

fun proto_Detect :: "protocol \<Rightarrow> bytes \<Rightarrow> bool" where
  "proto_Detect (GT06Protocol _) data = gt06_Detect data"
| "proto_Detect (H02Protocol _) data = h02_Detect data"
| "proto_Detect (TKStarV1 _) data = v1_Detect data"
| "proto_Detect (TKStarV4 e) data = v4_Detect e data"

fun proto_NextFrame :: "protocol \<Rightarrow> bytes \<Rightarrow> frame_result" where
  "proto_NextFrame (GT06Protocol _) buf = gt06_NextFrame buf"
| "proto_NextFrame (H02Protocol n) buf = h02_NextFrame n buf"
| "proto_NextFrame (TKStarV1 _) buf = v1_NextFrame buf"
| "proto_NextFrame (TKStarV4 _) buf = v4_NextFrame buf"

fun proto_Parse :: "protocol \<Rightarrow> time \<Rightarrow> bytes \<Rightarrow> perr + tracker_message list" where
  "proto_Parse (GT06Protocol a) now f = gt06_Parse a now f"
| "proto_Parse (H02Protocol _) now f = h02_Parse now f"
| "proto_Parse (TKStarV1 x) now f = v1_Parse x now f"
| "proto_Parse (TKStarV4 _) now f = v4_Parse now f"

fun proto_EncodeCommand ::
  "protocol \<Rightarrow> time \<Rightarrow> 32 word \<Rightarrow> command \<Rightarrow> (perr + bytes) \<times> 32 word" where
  "proto_EncodeCommand (GT06Protocol _) now n cmd = gt06_EncodeCommand n cmd"
| "proto_EncodeCommand (H02Protocol _) now n cmd = (h02_EncodeCommand now cmd, n)"
| "proto_EncodeCommand (TKStarV1 _) now n cmd = (v1_EncodeCommand cmd, n)"
| "proto_EncodeCommand (TKStarV4 _) now n cmd = (v4_EncodeCommand cmd, n)"

fun proto_Describe :: "protocol \<Rightarrow> descriptor" where
  "proto_Describe (GT06Protocol _) = gt06_Describe"
| "proto_Describe (H02Protocol _) = h02_Describe"
| "proto_Describe (TKStarV1 x) = v1_Describe x"
| "proto_Describe (TKStarV4 _) = v4_Describe"

type_synonym registry = "protocol list"

definition reg_Detect :: "registry \<Rightarrow> bytes \<Rightarrow> protocol option" where
  "reg_Detect r data = find (\<lambda>p. proto_Detect p data) r"

definition reg_ByName :: "registry \<Rightarrow> string \<Rightarrow> protocol option" where
  "reg_ByName r name0 =
     (let name = to_lower (trim_space name0) in find (\<lambda>p. to_lower (proto_Name p) = name) r)"

definition reg_Descriptors :: "registry \<Rightarrow> descriptor list" where
  "reg_Descriptors r = sort_key ds_Name (map proto_Describe r)"

text \<open>The registry of the server, from its configuration.\<close>

definition server_registry :: "bool \<Rightarrow> int \<Rightarrow> bool \<Rightarrow> registry" where
  "server_registry gt06AckGPS h02FrameLength v4Capture =
     [GT06Protocol gt06AckGPS, H02Protocol h02FrameLength, TKStarV1 False, TKStarV1 True,
      TKStarV4 v4Capture]"

interpretation proto: framer "proto_NextFrame p" for p
proof -
  have "proto_NextFrame p = gt06_NextFrame \<or> (\<exists>n. proto_NextFrame p = h02_NextFrame n)
      \<or> proto_NextFrame p = v1_NextFrame \<or> proto_NextFrame p = v4_NextFrame"
    by (cases p) (auto simp: fun_eq_iff)
  then show "framer (proto_NextFrame p)"
    using gt06.framer_axioms h02.framer_axioms v1.framer_axioms v4.framer_axioms by auto
qed

text \<open>Property C16: whatever the dialect, a message that carries a location carries one on the globe.
  For every adapter of the registry and every frame it parses, each message either has no location
  or has finite coordinates with a latitude of at most 90 and a longitude of at most 180 degrees.\<close>

theorem parsed_location_on_globe:
  assumes "proto_Parse p now f = Inr ms" and "m \<in> set ms" and "tm_HasLocation m"
  shows "on_globe (tm_Latitude m) (tm_Longitude m)"
proof -
  have "location_ok m"
    using assms gt06_Parse_location h02_Parse_location v1_Parse_location v4_Parse_location
    by (cases p) auto
  with assms(3) show ?thesis by (simp add: location_ok_def)
qed

theorem parsed_location_on_globe_witness:
  "\<exists>m. proto_Parse (H02Protocol 0) 0 sample_binary = Inr [m]
     \<and> on_globe (tm_Latitude m) (tm_Longitude m)"
proof -
  obtain m where m: "decodeBinary sample_binary = Inr m"
    using sample_binary_decodes by blast
  then have p: "proto_Parse (H02Protocol 0) 0 sample_binary = Inr [m]"
    by (simp add: h02_Parse_def sample_binary_def)
  have "tm_HasLocation m" using decodeBinary_steps[OF m] by blast
  then show ?thesis using parsed_location_on_globe[OF p, of m] p by simp
qed

text \<open>An adapter sends nothing it does not announce.  Without a raw override, a command
  is encoded only if the descriptor of the adapter lists its type.\<close>

theorem encoded_is_supported:
  assumes "proto_EncodeCommand p now n cmd = (Inr bs, n')" and "trim_space (cmd_Raw cmd) = ''''"
  shows "Supports (proto_Describe p) (cmd_Type cmd)"
proof (cases p)
  case (GT06Protocol a)
  then show ?thesis
    using assms by (auto simp: gt06_EncodeCommand_def gt06_commandText_def gt06_Describe_def
        Supports_def Let_def split: sum.splits if_splits)
next
  case (H02Protocol n)
  then have "h02_EncodeCommand now cmd = Inr bs" using assms(1) by simp
  then obtain t ps where "h02_payload cmd (t, ps)"
    using h02_EncodeCommand_text[OF _ assms(2)] by blast
  with H02Protocol show ?thesis
    by (auto simp: h02_payload_def h02_Describe_def Supports_def)
next
  case (TKStarV1 x)
  then have "tk_encodeCommand defaultCommands cmd = Inr bs"
    using assms by (simp add: v1_EncodeCommand_def)
  with TKStarV1 assms(2) show ?thesis
    by (auto simp: tk_encodeCommand_def tk_commandText_def and_then_Inr Let_def v1_Describe_def
        Supports_def supportedCommands_def defaultCommands_def required_def split: if_splits)
next
  case (TKStarV4 e)
  then show ?thesis using assms by (simp add: v4_EncodeCommand_def)
qed

theorem encoded_is_supported_witness:
  "Supports (proto_Describe (H02Protocol 0)) (cmd_Type sample_cut)"
  using encoded_is_supported[of "H02Protocol 0" 0 0 sample_cut] sample_cut_encodes
  by (simp add: sample_cut_def)

text \<open>The V1.8 dialect is never chosen.  Its detection is the one of V1, which stands
  before it in the registry of the server, so that whatever a device sends the extended variant
  (altitude and battery) is not selected.\<close>

theorem v1_8_never_detected: "reg_Detect (server_registry a l v) data \<noteq> Some (TKStarV1 True)"
  by (simp add: reg_Detect_def server_registry_def)

text \<open>Every adapter of the server is found by its name.\<close>

lemma server_names:
  "p \<in> set (server_registry a l v) \<Longrightarrow> reg_ByName (server_registry a l v) (proto_Name p) = Some p"
  by (auto simp: server_registry_def reg_ByName_def v1_Name_def trim_space_all_plain plain_def
      lower_char_def)

end
