(* ===== verification/TCP_Conn.thy ===== *)
theory TCP_Conn
  imports Registry "HOL-Library.AList"
begin

text \<open>
  \<^verbatim>\<open>internal/tcp/connection.go\<close>: the sessions of the devices and the registry of the live ones.
  A \<^verbatim>\<open>*DeviceConnection\<close> is a key of the store \<open>ts_conns\<close>, so that two variables that point to
  the same session share it, as in the source; the map of the \<^verbatim>\<open>Manager\<close> takes an IMEI to such a
  pointer.  The operations run under the mutex of the manager and are atomic here.  A write to a
  socket can fail for reasons outside the program: whether it does is an argument \<open>wok\<close>.
\<close>

type_synonym conn_ptr = nat

record device_connection =
  dc_imei :: string
  dc_deviceID :: uuid
  dc_protocol :: "protocol option"
  dc_ConnectedAt :: time
  dc_lastSeen :: time
  dc_open :: bool
  dc_written :: "bytes list"

record tcp_state =
  ts_conns :: "conn_ptr \<Rightarrow> device_connection"
  ts_manager :: "(string \<times> conn_ptr) list"
  ts_notified :: "nat list"

datatype send_error = ErrEmptyPayload | ErrWrite | ErrNotConnected

definition newConnection :: "time \<Rightarrow> device_connection" where
  "newConnection now = \<lparr> dc_imei = '''', dc_deviceID = 0, dc_protocol = None,
     dc_ConnectedAt = now, dc_lastSeen = now, dc_open = True, dc_written = [] \<rparr>"

definition upd_conn :: "conn_ptr \<Rightarrow> (device_connection \<Rightarrow> device_connection) \<Rightarrow> tcp_state \<Rightarrow> tcp_state" where
  "upd_conn c f s = s\<lparr>ts_conns := (ts_conns s)(c := f (ts_conns s c))\<rparr>"

definition conn_IMEI :: "tcp_state \<Rightarrow> conn_ptr \<Rightarrow> string" where
  "conn_IMEI s c = dc_imei (ts_conns s c)"

definition Identify :: "conn_ptr \<Rightarrow> string \<Rightarrow> uuid \<Rightarrow> tcp_state \<Rightarrow> tcp_state" where
  "Identify c imei deviceID = upd_conn c (\<lambda>d. d\<lparr>dc_imei := imei, dc_deviceID := deviceID\<rparr>)"

definition setProtocol :: "conn_ptr \<Rightarrow> protocol \<Rightarrow> tcp_state \<Rightarrow> tcp_state" where
  "setProtocol c p = upd_conn c (\<lambda>d. d\<lparr>dc_protocol := Some p\<rparr>)"

definition ProtocolName :: "tcp_state \<Rightarrow> conn_ptr \<Rightarrow> string" where
  "ProtocolName s c = (case dc_protocol (ts_conns s c) of None \<Rightarrow> '''' | Some p \<Rightarrow> proto_Name p)"

definition conn_touch :: "conn_ptr \<Rightarrow> time \<Rightarrow> tcp_state \<Rightarrow> tcp_state" where
  "conn_touch c now = upd_conn c (\<lambda>d. d\<lparr>dc_lastSeen := now\<rparr>)"

definition conn_Send :: "bool \<Rightarrow> conn_ptr \<Rightarrow> bytes \<Rightarrow> tcp_state \<Rightarrow> send_error option \<times> tcp_state" where
  "conn_Send wok c payload s =
     (if payload = [] then (Some ErrEmptyPayload, s)
      else if \<not> dc_open (ts_conns s c) \<or> \<not> wok then (Some ErrWrite, s)
      else (None, upd_conn c (\<lambda>d. d\<lparr>dc_written := dc_written d @ [payload]\<rparr>) s))"

definition conn_Close :: "conn_ptr \<Rightarrow> tcp_state \<Rightarrow> tcp_state" where
  "conn_Close c = upd_conn c (\<lambda>d. d\<lparr>dc_open := False\<rparr>)"

record connection_info =
  ci_IMEI :: string
  ci_DeviceID :: uuid
  ci_Protocol :: string
  ci_ConnectedAt :: time
  ci_LastSeenAt :: time

definition conn_Info :: "tcp_state \<Rightarrow> conn_ptr \<Rightarrow> connection_info" where
  "conn_Info s c = (let d = ts_conns s c in \<lparr> ci_IMEI = dc_imei d, ci_DeviceID = dc_deviceID d,
     ci_Protocol = ProtocolName s c, ci_ConnectedAt = dc_ConnectedAt d, ci_LastSeenAt = dc_lastSeen d \<rparr>)"

section \<open>The manager\<close>

definition mgr_notify :: "nat \<Rightarrow> tcp_state \<Rightarrow> tcp_state" where
  "mgr_notify n s = s\<lparr>ts_notified := ts_notified s @ [n]\<rparr>"

definition mgr_Get :: "tcp_state \<Rightarrow> string \<Rightarrow> conn_ptr option" where
  "mgr_Get s imei = map_of (ts_manager s) imei"

definition mgr_Count :: "tcp_state \<Rightarrow> nat" where
  "mgr_Count s = length (ts_manager s)"

definition mgr_Register :: "conn_ptr \<Rightarrow> tcp_state \<Rightarrow> tcp_state" where
  "mgr_Register c s =
     (let imei = conn_IMEI s c in
      if imei = '''' then s
      else
        let previous = mgr_Get s imei;
            s = s\<lparr>ts_manager := AList.update imei c (ts_manager s)\<rparr>;
            count = mgr_Count s;
            s = (case previous of None \<Rightarrow> s | Some p \<Rightarrow> if p \<noteq> c then conn_Close p s else s)
        in mgr_notify count s)"

definition mgr_Unregister :: "string \<Rightarrow> tcp_state \<Rightarrow> tcp_state" where
  "mgr_Unregister imei s =
     (let s = s\<lparr>ts_manager := AList.delete imei (ts_manager s)\<rparr> in mgr_notify (mgr_Count s) s)"

definition mgr_UnregisterConn :: "conn_ptr \<Rightarrow> tcp_state \<Rightarrow> tcp_state" where
  "mgr_UnregisterConn c s =
     (let imei = conn_IMEI s c in
      if imei = '''' then s
      else if mgr_Get s imei = Some c then
        let s = s\<lparr>ts_manager := AList.delete imei (ts_manager s)\<rparr> in mgr_notify (mgr_Count s) s
      else s)"

definition mgr_Send :: "bool \<Rightarrow> string \<Rightarrow> bytes \<Rightarrow> tcp_state \<Rightarrow> send_error option \<times> tcp_state" where
  "mgr_Send wok imei payload s =
     (case mgr_Get s imei of
        None \<Rightarrow> (Some ErrNotConnected, s)
      | Some c \<Rightarrow> conn_Send wok c payload s)"

definition mgr_List :: "tcp_state \<Rightarrow> connection_info list" where
  "mgr_List s = map (conn_Info s \<circ> snd) (ts_manager s)"

text \<open>The map has one entry for an IMEI, and the session of an entry has that IMEI.\<close>

definition mgr_wf :: "tcp_state \<Rightarrow> bool" where
  "mgr_wf s \<longleftrightarrow> distinct (map fst (ts_manager s))
     \<and> list_all (\<lambda>(i, c). i \<noteq> '''') (ts_manager s)"

definition mgr_consistent :: "tcp_state \<Rightarrow> bool" where
  "mgr_consistent s \<longleftrightarrow> mgr_wf s \<and> list_all (\<lambda>(i, c). conn_IMEI s c = i) (ts_manager s)"

section \<open>The interface of the manager\<close>

text \<open>\<^verbatim>\<open>ConnectionManager\<close> as its clients see it: the session registered last for an identifier is
  the one found, an operation on one identifier leaves the others alone.\<close>

locale connection_manager =
  fixes register :: "'c \<Rightarrow> 's \<Rightarrow> 's"
    and unregister :: "string \<Rightarrow> 's \<Rightarrow> 's"
    and get :: "'s \<Rightarrow> string \<Rightarrow> 'c option"
    and name_of :: "'s \<Rightarrow> 'c \<Rightarrow> string"
    and inv :: "'s \<Rightarrow> bool"
  assumes get_register: "inv s \<Longrightarrow> get (register c s) i =
      (if name_of s c \<noteq> '''' \<and> i = name_of s c then Some c else get s i)"
    and get_unregister: "inv s \<Longrightarrow> get (unregister i s) j = (if i = j then None else get s j)"
    and inv_register: "inv s \<Longrightarrow> inv (register c s)"
    and inv_unregister: "inv s \<Longrightarrow> inv (unregister i s)"
    and name_register: "name_of (register c s) d = name_of s d"
begin

lemma register_found: "inv s \<Longrightarrow> name_of s c \<noteq> '''' \<Longrightarrow> get (register c s) (name_of s c) = Some c"
  by (simp add: get_register)

lemma register_unregister:
  "inv s \<Longrightarrow> name_of s c \<noteq> '''' \<Longrightarrow> get (unregister (name_of s c) (register c s)) j =
     (if j = name_of s c then None else get s j)"
  by (simp add: get_unregister inv_register get_register)

text \<open>Any sequence of registrations leaves the last session of each identifier in the map.\<close>

lemma get_fold_register:
  assumes "inv s"
  shows "get (fold register cs s) i =
    (case find (\<lambda>c. i \<noteq> '''' \<and> name_of s c = i) (rev cs) of Some c \<Rightarrow> Some c | None \<Rightarrow> get s i)"
  using assms
proof (induction cs arbitrary: s)
  case (Cons c cs)
  have f: "find P (xs @ [y]) = (case find P xs of Some z \<Rightarrow> Some z | None \<Rightarrow> if P y then Some y else None)"
    for P xs and y :: 'c by (induction xs) auto
  show ?case
    using Cons by (auto simp: f inv_register name_register get_register split: option.splits)
qed simp

end

lemma conn_IMEI_simps [simp]:
  "conn_IMEI (conn_Close c s) d = conn_IMEI s d"
  "conn_IMEI (mgr_notify n s) d = conn_IMEI s d"
  "conn_IMEI (s\<lparr>ts_manager := m\<rparr>) d = conn_IMEI s d"
  by (simp_all add: conn_IMEI_def conn_Close_def upd_conn_def mgr_notify_def)

lemma ts_manager_simps [simp]:
  "ts_manager (conn_Close c s) = ts_manager s"
  "ts_manager (mgr_notify n s) = ts_manager s"
  "ts_manager (upd_conn c f s) = ts_manager s"
  by (simp_all add: conn_Close_def upd_conn_def mgr_notify_def)

lemma mgr_Register_manager:
  "ts_manager (mgr_Register c s) =
     (if conn_IMEI s c = '''' then ts_manager s else AList.update (conn_IMEI s c) c (ts_manager s))"
  by (simp add: mgr_Register_def Let_def split: option.splits)

lemma conn_IMEI_Register [simp]: "conn_IMEI (mgr_Register c s) d = conn_IMEI s d"
  by (simp add: mgr_Register_def Let_def split: option.splits)

lemma conn_IMEI_Unregister [simp]: "conn_IMEI (mgr_Unregister i s) d = conn_IMEI s d"
  by (simp add: mgr_Unregister_def Let_def)

lemma conn_IMEI_UnregisterConn [simp]: "conn_IMEI (mgr_UnregisterConn c s) d = conn_IMEI s d"
  by (simp add: mgr_UnregisterConn_def Let_def)

lemma set_alist_update: "set (AList.update k v al) \<subseteq> insert (k, v) (set al)"
  by (induction al) auto

lemma mgr_wf_Register: "mgr_wf s \<Longrightarrow> mgr_wf (mgr_Register c s)"
  using set_alist_update[of "conn_IMEI s c" c "ts_manager s"]
  by (auto simp: mgr_wf_def mgr_Register_manager distinct_update list_all_iff)

lemma mgr_wf_delete:
  "mgr_wf s \<Longrightarrow> ts_manager t = AList.delete i (ts_manager s) \<Longrightarrow> mgr_wf t"
  by (auto simp: mgr_wf_def distinct_map_filter list_all_iff AList.delete_eq)

interpretation manager: connection_manager mgr_Register mgr_Unregister mgr_Get conn_IMEI mgr_wf
proof
  show "mgr_Get (mgr_Register c s) i =
      (if conn_IMEI s c \<noteq> '''' \<and> i = conn_IMEI s c then Some c else mgr_Get s i)" for s c i
    by (simp add: mgr_Get_def mgr_Register_manager update_conv')
  show "mgr_Get (mgr_Unregister i s) j = (if i = j then None else mgr_Get s j)" for s i j
    by (simp add: mgr_Get_def mgr_Unregister_def Let_def delete_conv')
  show "mgr_wf (mgr_Unregister i s)" if "mgr_wf s" for i s
    using mgr_wf_delete[OF that] by (simp add: mgr_Unregister_def Let_def)
qed (simp_all add: mgr_wf_Register)

end
