(* ===== verification/TCP_Session.thy ===== *)
theory TCP_Session
  imports TCP_Conn
begin

text \<open>
  \<^verbatim>\<open>internal/tcp/session.go\<close> and \<^verbatim>\<open>server.go\<close>: the read loop of a session, which accumulates the
  bytes of the socket, asks the adapter for frames, decodes them and hands the messages to the
  ingestor; and the life of a connection, from accept to clean-up.

  The ingestor is an interface of the package, so it is a parameter of the model, a record of its
  three methods over the state of the package and a state \<open>'i\<close> of its own.  Logs and metric
  counters are left out.  A slice expression out of range panics in Go; here it is the outcome
  \<open>Panic\<close>, which \<^verbatim>\<open>handle\<close> recovers from.  The writes of a session consult \<open>wok\<close>, which tells
  whether the socket accepts them.
\<close>

datatype invalid_reason = Oversized | UnknownProtocol | BadFrame perr | BadContent perr

datatype handle_error = RejectSession | OtherError

record 'i ingestor =
  ig_message :: "conn_ptr \<Rightarrow> tracker_message \<Rightarrow> tcp_state \<times> 'i \<Rightarrow> handle_error option \<times> (tcp_state \<times> 'i)"
  ig_invalid :: "conn_ptr \<Rightarrow> bytes \<Rightarrow> string \<Rightarrow> invalid_reason \<Rightarrow> tcp_state \<times> 'i \<Rightarrow> tcp_state \<times> 'i"
  ig_disconnect :: "conn_ptr \<Rightarrow> tcp_state \<times> 'i \<Rightarrow> tcp_state \<times> 'i"

record 'i server =
  sv_MaxPacketSize :: nat
  sv_MaxConnections :: nat
  sv_registry :: registry
  sv_ingestor :: "'i ingestor"

record 'i session =
  ss_conn :: conn_ptr
  ss_buf :: bytes
  ss_registered :: bool
  ss_world :: "tcp_state \<times> 'i"

abbreviation ss_tcp :: "'i session \<Rightarrow> tcp_state" where "ss_tcp s \<equiv> fst (ss_world s)"

definition map_tcp :: "(tcp_state \<Rightarrow> tcp_state) \<Rightarrow> 'i session \<Rightarrow> 'i session" where
  "map_tcp f s = s\<lparr>ss_world := (f (ss_tcp s), snd (ss_world s))\<rparr>"

datatype outcome = Continue | Stop | Panic

definition readChunk :: nat where "readChunk = 2048"
definition detectMinBytes :: nat where "detectMinBytes = 8"
definition maxCapture :: nat where "maxCapture = 2048"

definition truncate_capture :: "bytes \<Rightarrow> bytes" where
  "truncate_capture b = (if length b \<le> maxCapture then b else take maxCapture b)"

definition sess_invalid ::
  "'i server \<Rightarrow> bytes \<Rightarrow> string \<Rightarrow> invalid_reason \<Rightarrow> 'i session \<Rightarrow> 'i session" where
  "sess_invalid sv payload name reason s =
     s\<lparr>ss_world := ig_invalid (sv_ingestor sv) (ss_conn s) (truncate_capture payload) name reason
        (ss_world s)\<rparr>"

datatype detectResult = detectOK | detectPending | detectFailed

definition sess_detect :: "'i server \<Rightarrow> 'i session \<Rightarrow> detectResult \<times> 'i session" where
  "sess_detect sv s =
     (case reg_Detect (sv_registry sv) (ss_buf s) of
        Some p \<Rightarrow> (detectOK, map_tcp (setProtocol (ss_conn s) p) s)
      | None \<Rightarrow>
          if length (ss_buf s) < detectMinBytes then (detectPending, s)
          else (detectFailed, (sess_invalid sv (ss_buf s) '''' UnknownProtocol s)\<lparr>ss_buf := []\<rparr>))"

text \<open>The loop of \<^verbatim>\<open>dispatch\<close> over the messages of a frame.\<close>

definition complete_message :: "protocol \<Rightarrow> 'i session \<Rightarrow> tracker_message \<Rightarrow> tracker_message" where
  "complete_message p s msg =
     (let msg = (if tm_Protocol msg = '''' then msg\<lparr>tm_Protocol := proto_Name p\<rparr> else msg)
      in if tm_IMEI msg = '''' then msg\<lparr>tm_IMEI := conn_IMEI (ss_tcp s) (ss_conn s)\<rparr> else msg)"

definition sess_publish :: "'i session \<Rightarrow> 'i session" where
  "sess_publish s =
     (if \<not> ss_registered s \<and> conn_IMEI (ss_tcp s) (ss_conn s) \<noteq> ''''
      then (map_tcp (mgr_Register (ss_conn s)) s)\<lparr>ss_registered := True\<rparr> else s)"

definition sess_ack :: "bool \<Rightarrow> tracker_message \<Rightarrow> 'i session \<Rightarrow> bool \<times> 'i session" where
  "sess_ack wok msg s =
     (if tm_Ack msg = [] then (True, s)
      else case conn_Send wok (ss_conn s) (tm_Ack msg) (ss_tcp s) of
        (Some _, t) \<Rightarrow> (False, map_tcp (\<lambda>_. t) s)
      | (None, t) \<Rightarrow> (True, map_tcp (\<lambda>_. t) s))"

fun dispatch_msgs ::
  "'i server \<Rightarrow> bool \<Rightarrow> protocol \<Rightarrow> tracker_message list \<Rightarrow> 'i session \<Rightarrow> bool \<times> 'i session" where
  "dispatch_msgs sv wok p [] s = (True, s)"
| "dispatch_msgs sv wok p (m # ms) s =
     (let msg = complete_message p s m in
      case sess_ack wok msg s of
        (False, s) \<Rightarrow> (False, s)
      | (True, s) \<Rightarrow>
          (case ig_message (sv_ingestor sv) (ss_conn s) msg (ss_world s) of
             (Some RejectSession, w) \<Rightarrow> (False, s\<lparr>ss_world := w\<rparr>)
           | (Some OtherError, w) \<Rightarrow> dispatch_msgs sv wok p ms (s\<lparr>ss_world := w\<rparr>)
           | (None, w) \<Rightarrow> dispatch_msgs sv wok p ms (sess_publish (s\<lparr>ss_world := w\<rparr>))))"

definition sess_dispatch ::
  "'i server \<Rightarrow> bool \<Rightarrow> time \<Rightarrow> protocol \<Rightarrow> bytes \<Rightarrow> 'i session \<Rightarrow> bool \<times> 'i session" where
  "sess_dispatch sv wok now p frame s =
     (case proto_Parse p now frame of
        Inl e \<Rightarrow> (True, sess_invalid sv frame (proto_Name p) (BadContent e) s)
      | Inr msgs \<Rightarrow> dispatch_msgs sv wok p msgs s)"

lemma map_tcp_buf [simp]:
  "ss_buf (map_tcp f s) = ss_buf s" "ss_conn (map_tcp f s) = ss_conn s"
  "ss_registered (map_tcp f s) = ss_registered s"
  by (simp_all add: map_tcp_def)

lemma sess_invalid_buf [simp]:
  "ss_buf (sess_invalid sv b n r s) = ss_buf s" "ss_conn (sess_invalid sv b n r s) = ss_conn s"
  by (simp_all add: sess_invalid_def)

lemma sess_publish_buf [simp]: "ss_buf (sess_publish s) = ss_buf s"
  by (simp add: sess_publish_def)

lemma sess_ack_buf: "sess_ack wok m s = (b, s') \<Longrightarrow> ss_buf s' = ss_buf s \<and> ss_conn s' = ss_conn s"
  by (auto simp: sess_ack_def split: if_splits option.splits prod.splits)

lemma dispatch_msgs_buf: "dispatch_msgs sv wok p ms s = (b, s') \<Longrightarrow> ss_buf s' = ss_buf s"
  by (induction sv wok p ms s rule: dispatch_msgs.induct)
     (auto simp: Let_def split: prod.splits bool.splits option.splits handle_error.splits
       dest!: sess_ack_buf)

lemma sess_dispatch_buf: "sess_dispatch sv wok now p f s = (b, s') \<Longrightarrow> ss_buf s' = ss_buf s"
  by (auto simp: sess_dispatch_def split: sum.splits dest: dispatch_msgs_buf)

text \<open>The loop of \<^verbatim>\<open>process\<close>.  It ends because every turn that goes on drops bytes from the
  buffer.\<close>

function process_loop ::
  "'i server \<Rightarrow> bool \<Rightarrow> time \<Rightarrow> protocol \<Rightarrow> 'i session \<Rightarrow> outcome \<times> 'i session" where
  "process_loop sv wok now p s =
     (let buf = ss_buf s in
      if buf = [] then (Continue, s)
      else case proto_NextFrame p buf of
        (_, consumed, Some e) \<Rightarrow>
          if is_incomplete e then (Continue, s)
          else
            let s = sess_invalid sv (take (min consumed (length buf)) buf) (proto_Name p) (BadFrame e) s in
            if consumed = 0 then (Stop, s)
            else if consumed > length buf then (Panic, s)
            else process_loop sv wok now p (s\<lparr>ss_buf := drop consumed buf\<rparr>)
      | (frame, consumed, None) \<Rightarrow>
          if consumed = 0 then (Continue, s)
          else if consumed > length buf then (Panic, s)
          else
            let s = s\<lparr>ss_buf := drop consumed buf\<rparr> in
            (case frame of
               None \<Rightarrow> process_loop sv wok now p s
             | Some f \<Rightarrow>
                 (case sess_dispatch sv wok now p f s of
                    (False, s) \<Rightarrow> (Stop, s)
                  | (True, s) \<Rightarrow> process_loop sv wok now p s)))"
  by pat_completeness auto
termination
  by (relation "measure (\<lambda>(sv, wok, now, p, s). length (ss_buf s))")
     (auto dest: sess_dispatch_buf[OF sym] simp: neq_Nil_conv)

declare process_loop.simps [simp del]

definition sess_process :: "'i server \<Rightarrow> bool \<Rightarrow> time \<Rightarrow> 'i session \<Rightarrow> outcome \<times> 'i session" where
  "sess_process sv wok now s =
     (if length (ss_buf s) > sv_MaxPacketSize sv then
        (Stop, sess_invalid sv (ss_buf s) (ProtocolName (ss_tcp s) (ss_conn s)) Oversized s)
      else case dc_protocol (ts_conns (ss_tcp s) (ss_conn s)) of
        Some p \<Rightarrow> process_loop sv wok now p s
      | None \<Rightarrow>
          (case sess_detect sv s of
             (detectPending, s) \<Rightarrow> (Continue, s)
           | (detectFailed, s) \<Rightarrow> (Stop, s)
           | (detectOK, s) \<Rightarrow>
               (case dc_protocol (ts_conns (ss_tcp s) (ss_conn s)) of
                  Some p \<Rightarrow> process_loop sv wok now p s
                | None \<Rightarrow> (Panic, s))))"

text \<open>One read of the socket: at most \<^verbatim>\<open>readChunk\<close> bytes and the instant they arrive.\<close>

definition sess_read :: "'i server \<Rightarrow> bool \<Rightarrow> time \<Rightarrow> bytes \<Rightarrow> 'i session \<Rightarrow> outcome \<times> 'i session" where
  "sess_read sv wok now chunk s =
     (if chunk = [] then (Continue, s)
      else
        let s = map_tcp (conn_touch (ss_conn s) now) s;
            s = s\<lparr>ss_buf := ss_buf s @ take readChunk chunk\<rparr>
        in sess_process sv wok now s)"

text \<open>The read loop on the reads that happen until the socket reports an error.\<close>

fun sess_run :: "'i server \<Rightarrow> (bool \<times> time \<times> bytes) list \<Rightarrow> 'i session \<Rightarrow> outcome \<times> 'i session" where
  "sess_run sv [] s = (Stop, s)"
| "sess_run sv ((wok, now, chunk) # reads) s =
     (case sess_read sv wok now chunk s of
        (Continue, s) \<Rightarrow> sess_run sv reads s
      | r \<Rightarrow> r)"

text \<open>\<^verbatim>\<open>Server.handle\<close>: a new connection, its session, and the deferred clean-up, which runs after a
  panic too.\<close>

definition sv_handle ::
  "'i server \<Rightarrow> conn_ptr \<Rightarrow> time \<Rightarrow> (bool \<times> time \<times> bytes) list \<Rightarrow> tcp_state \<times> 'i \<Rightarrow> tcp_state \<times> 'i" where
  "sv_handle sv c now reads w =
     (let t = upd_conn c (\<lambda>_. newConnection now) (fst w);
          s = \<lparr> ss_conn = c, ss_buf = [], ss_registered = False, ss_world = (t, snd w) \<rparr>;
          (_, s) = sess_run sv reads s;
          w = (conn_Close c (ss_tcp s), snd (ss_world s));
          w = (mgr_UnregisterConn c (fst w), snd w)
      in ig_disconnect (sv_ingestor sv) c w)"

text \<open>The semaphore of the accept loop: the number of sessions that run.\<close>

inductive accept_step :: "nat \<Rightarrow> nat \<Rightarrow> nat \<Rightarrow> bool" for maxConnections where
  accept: "n < maxConnections \<Longrightarrow> accept_step maxConnections n (Suc n)"
| refuse: "\<not> n < maxConnections \<Longrightarrow> accept_step maxConnections n n"
| finish: "accept_step maxConnections (Suc n) n"

end
