(* ===== verification/TCP_Props.thy ===== *)
theory TCP_Props
  imports TCP_Session
begin

text \<open>
  The properties of the TCP package: the stream is cut into the same frames however TCP delivers
  it, the session loop ends, never panics, drains its buffer and keeps it bounded, the loop hands
  exactly the frames of the stream to the dispatcher, and the registry of sessions survives
  reconnections.
\<close>

section \<open>Segmentation\<close>

text \<open>The dialects whose frames can be recognised in a stream, with the longest frame they wait
  for.  The binary H02 form without a configured length and the capture mode have none.\<close>

fun stream_limit :: "protocol \<Rightarrow> nat option" where
  "stream_limit (GT06Protocol _) = Some (maxFrameLength + 6)"
| "stream_limit (H02Protocol n) = (if n > 0 then Some h02_maxFrame else None)"
| "stream_limit (TKStarV1 _) = Some maxTextFrame"
| "stream_limit (TKStarV4 _) = None"

lemma stream_limit_framer:
  assumes "stream_limit p = Some l"
  shows "stream_framer (proto_NextFrame p) l"
proof (cases p)
  case (GT06Protocol a)
  then have "proto_NextFrame p = gt06_NextFrame" by (simp add: fun_eq_iff)
  with GT06Protocol assms show ?thesis using gt06.stream_framer_axioms by simp
next
  case (H02Protocol n)
  then have "n = 1 + int (nat (n - 1))" "l = h02_maxFrame" using assms by (auto split: if_splits)
  moreover have "proto_NextFrame p = h02_NextFrame n" using H02Protocol by (simp add: fun_eq_iff)
  ultimately show ?thesis using h02_fixed.stream_framer_axioms[of "nat (n - 1)"] by metis
next
  case (TKStarV1 x)
  then have "proto_NextFrame p = v1_NextFrame" by (simp add: fun_eq_iff)
  with TKStarV1 assms show ?thesis using v1.stream_framer_axioms by simp
next
  case (TKStarV4 e)
  then show ?thesis using assms by simp
qed

definition whole_frame :: "protocol \<Rightarrow> nat \<Rightarrow> bytes \<Rightarrow> bool" where
  "whole_frame p l f \<longleftrightarrow> proto_NextFrame p f = (Some f, length f, None) \<and> length f \<le> l"

lemma whole_frame_iff:
  "stream_limit p = Some l \<Longrightarrow> whole_frame p l f \<longleftrightarrow> stream_framer.whole (proto_NextFrame p) l f"
  using stream_limit_framer stream_framer.whole_def[of "proto_NextFrame p" l f]
  by (simp add: whole_frame_def)

text \<open>Property C9: the frames do not depend on how TCP cuts the stream.  A device sends a sequence
  of frames; however the bytes are delivered, in pieces that end inside a frame or span several,
  reading chunk by chunk finds exactly those frames, in order, and nothing is left over.  This
  holds for GT06, for the text dialect and for H02 with a configured frame length.\<close>

theorem segmentation_independent:
  assumes "stream_limit p = Some l" and "\<forall>f \<in> set fs. whole_frame p l f"
    and "concat chunks = concat fs"
  shows "feed (proto_NextFrame p) [] chunks = (fs, [])"
proof -
  let ?nf = "proto_NextFrame p"
  note sf = stream_limit_framer[OF assms(1)]
  have w: "\<forall>f \<in> set fs. stream_framer.whole ?nf l f"
    using assms(2) whole_frame_iff[OF assms(1)] by blast
  have "feed ?nf [] chunks = deframe ?nf (concat fs)"
    using stream_framer.feed_deframe[OF sf w, of "[]" chunks] assms(3)
    by (simp add: stream_framer.waiting_def[OF sf])
  moreover have "deframe ?nf (concat fs @ []) = (fs, [])"
    using assms(2) by (intro stream_framer.deframe_concat[OF sf]) (auto simp: whole_frame_def)
  ultimately show ?thesis by simp
qed

theorem segmentation_independent_witness:
  "feed (proto_NextFrame (TKStarV1 False)) []
     [bytes_of_str ''86924706'', bytes_of_str ''1234567;86924'', bytes_of_str ''7061234567;'']
   = ([bytes_of_str ''869247061234567;'', bytes_of_str ''869247061234567;''], [])"
proof (rule segmentation_independent)
  show "stream_limit (TKStarV1 False) = Some maxTextFrame" by simp
  have "v1_NextFrame (bytes_of_str ''869247061234567;'') =
      (Some (bytes_of_str ''869247061234567;''), 16, None)"
    by code_simp
  then show "\<forall>f \<in> set [bytes_of_str ''869247061234567;'', bytes_of_str ''869247061234567;''].
      whole_frame (TKStarV1 False) maxTextFrame f"
    by (simp add: whole_frame_def maxTextFrame_def)
qed (simp add: bytes_of_str_def)

section \<open>The session loop\<close>

text \<open>One turn of the loop, with the cases that the framing contract excludes taken out.\<close>

lemma process_loop_cases:
  assumes "ss_buf s \<noteq> []"
  obtains (wait) fr e where "proto_NextFrame p (ss_buf s) = (fr, 0, Some e)" "is_incomplete e"
      "process_loop sv wok now p s = (Continue, s)"
  | (bad) n e where "proto_NextFrame p (ss_buf s) = (None, n, Some e)" "0 < n" "n \<le> length (ss_buf s)"
      "process_loop sv wok now p s = process_loop sv wok now p
         ((sess_invalid sv (take n (ss_buf s)) (proto_Name p) (BadFrame e) s)\<lparr>ss_buf := drop n (ss_buf s)\<rparr>)"
  | (skip) n where "proto_NextFrame p (ss_buf s) = (None, n, None)" "0 < n" "n \<le> length (ss_buf s)"
      "process_loop sv wok now p s = process_loop sv wok now p (s\<lparr>ss_buf := drop n (ss_buf s)\<rparr>)"
  | (frame) f n where "proto_NextFrame p (ss_buf s) = (Some f, n, None)" "0 < n" "n \<le> length (ss_buf s)"
      "process_loop sv wok now p s =
         (case sess_dispatch sv wok now p f (s\<lparr>ss_buf := drop n (ss_buf s)\<rparr>) of
            (False, s) \<Rightarrow> (Stop, s) | (True, s) \<Rightarrow> process_loop sv wok now p s)"
proof -
  obtain fr n err where r: "proto_NextFrame p (ss_buf s) = (fr, n, err)" by (cases "proto_NextFrame p (ss_buf s)")
  note l = process_loop.simps[of sv wok now p s]
  show ?thesis
  proof (cases err)
    case None
    show ?thesis
    proof (cases fr)
      case fN: None
      then have "0 < n" "n \<le> length (ss_buf s)" using proto.skip_progress[of p "ss_buf s" n] r None by auto
      then show ?thesis
        using that(3)[of n] r fN None assms l by (simp add: Let_def)
    next
      case (Some f)
      then have "0 < n" "n \<le> length (ss_buf s)" using proto.frame_prefix[of p "ss_buf s" f n] r None by auto
      then show ?thesis
        using that(4)[of f n] r Some None assms l by (simp add: Let_def)
    qed
  next
    case (Some e)
    then have e: "fr = None" "if is_incomplete e then n = 0 else 0 < n \<and> n \<le> length (ss_buf s)"
      using proto.error_progress[OF assms, of p fr n e] r by auto
    show ?thesis
    proof (cases "is_incomplete e")
      case True
      then show ?thesis using that(1)[of fr e] e r Some assms l by simp
    next
      case False
      then show ?thesis using that(2)[of n e] e r Some assms l by (simp add: Let_def min_absorb1)
    qed
  qed
qed

text \<open>What holds of the session after the loop.\<close>

definition drained :: "protocol \<Rightarrow> bytes \<Rightarrow> bool" where
  "drained p buf \<longleftrightarrow> buf = [] \<or> (\<exists>fr e. proto_NextFrame p buf = (fr, 0, Some e) \<and> is_incomplete e)"

lemma process_loop_post:
  "process_loop sv wok now p s = (r, s') \<Longrightarrow>
     r \<noteq> Panic \<and> length (ss_buf s') \<le> length (ss_buf s) \<and> (r = Continue \<longrightarrow> drained p (ss_buf s'))"
proof (induction "length (ss_buf s)" arbitrary: s rule: less_induct)
  case less
  show ?case
  proof (cases "ss_buf s = []")
    case True
    then show ?thesis using less.prems process_loop.simps[of sv wok now p s] by (auto simp: drained_def)
  next
    case False
    then have shorter: "0 < n \<Longrightarrow> length (drop n (ss_buf s)) < length (ss_buf s)" for n by simp
    from False show ?thesis
    proof (cases rule: process_loop_cases[of s p sv wok now])
      case (wait fr e)
      then show ?thesis using less.prems by (auto simp: drained_def)
    next
      case (bad n e)
      then show ?thesis
        using less.hyps[of "(sess_invalid sv (take n (ss_buf s)) (proto_Name p) (BadFrame e) s)
          \<lparr>ss_buf := drop n (ss_buf s)\<rparr>"] less.prems shorter[of n] by fastforce
    next
      case (skip n)
      then show ?thesis
        using less.hyps[of "s\<lparr>ss_buf := drop n (ss_buf s)\<rparr>"] less.prems shorter[of n] by fastforce
    next
      case (frame f n)
      obtain ok t where t: "sess_dispatch sv wok now p f (s\<lparr>ss_buf := drop n (ss_buf s)\<rparr>) = (ok, t)"
        by fastforce
      then have b: "ss_buf t = drop n (ss_buf s)" using sess_dispatch_buf by fastforce
      show ?thesis
      proof (cases ok)
        case True
        then show ?thesis using less.hyps[of t] less.prems frame t b shorter[of n] by fastforce
      next
        case False
        then show ?thesis using less.prems frame t b by auto
      qed
    qed
  qed
qed

lemma sess_detect_OK:
  "sess_detect sv s = (detectOK, s') \<Longrightarrow>
     (\<exists>p. dc_protocol (ts_conns (ss_tcp s') (ss_conn s')) = Some p) \<and> ss_buf s' = ss_buf s"
  by (auto simp: sess_detect_def map_tcp_def setProtocol_def upd_conn_def split: option.splits if_splits)

lemma sess_process_post:
  assumes "sess_process sv wok now s = (r, s')"
  shows "r \<noteq> Panic \<and> length (ss_buf s') \<le> length (ss_buf s)
    \<and> (r = Continue \<longrightarrow> length (ss_buf s') \<le> sv_MaxPacketSize sv)"
proof -
  consider "length (ss_buf s) > sv_MaxPacketSize sv"
    | p where "length (ss_buf s) \<le> sv_MaxPacketSize sv" "process_loop sv wok now p s = (r, s')"
    | d t where "length (ss_buf s) \<le> sv_MaxPacketSize sv" "sess_detect sv s = (d, t)" "d \<noteq> detectOK"
        "s' = t" "r \<noteq> Panic"
    | t p where "length (ss_buf s) \<le> sv_MaxPacketSize sv" "sess_detect sv s = (detectOK, t)"
        "process_loop sv wok now p t = (r, s')"
    using assms sess_detect_OK
    by (fastforce simp: sess_process_def split: if_splits option.splits prod.splits detectResult.splits)
  then show ?thesis
  proof cases
    case 1
    then show ?thesis using assms by (auto simp: sess_process_def)
  next
    case 2
    then show ?thesis using process_loop_post[OF 2(2)] by auto
  next
    case 3
    then show ?thesis by (auto simp: sess_detect_def split: option.splits if_splits)
  next
    case 4
    then show ?thesis using process_loop_post[OF 4(3)] sess_detect_OK[OF 4(2)] by auto
  qed
qed

lemma sess_read_post:
  assumes "sess_read sv wok now chunk s = (r, s')"
  shows "r \<noteq> Panic \<and> length (ss_buf s') \<le> length (ss_buf s) + readChunk
    \<and> (r = Continue \<longrightarrow> length (ss_buf s) \<le> sv_MaxPacketSize sv \<longrightarrow> length (ss_buf s') \<le> sv_MaxPacketSize sv)"
proof (cases "chunk = []")
  case True
  then show ?thesis using assms by (auto simp: sess_read_def)
next
  case False
  then show ?thesis
    using assms sess_process_post by (fastforce simp: sess_read_def Let_def)
qed

text \<open>Property C10: a session never panics and never holds more than one packet and one read.
  Whatever bytes arrive in whatever pieces, whatever the ingestor answers and whether or not the
  socket accepts writes, the loop over the reads ends without an index out of range, and the
  buffer holds at most \<^verbatim>\<open>MaxPacketSize\<close> plus \<^verbatim>\<open>readChunk\<close> bytes.\<close>

theorem session_no_panic:
  assumes "length (ss_buf s) \<le> sv_MaxPacketSize sv" and "sess_run sv reads s = (r, s')"
  shows "r \<noteq> Panic \<and> length (ss_buf s') \<le> sv_MaxPacketSize sv + readChunk"
  using assms
proof (induction reads arbitrary: s)
  case Nil
  then show ?case by auto
next
  case (Cons rd reads)
  obtain wok now chunk where rd: "rd = (wok, now, chunk)" by (cases rd)
  obtain o' t where t: "sess_read sv wok now chunk s = (o', t)" by fastforce
  show ?case
  proof (cases o')
    case Continue
    then show ?thesis using Cons rd t sess_read_post[OF t] by auto
  qed (use Cons.prems rd t sess_read_post[OF t] in auto)
qed

definition null_ingestor :: "unit ingestor" where
  "null_ingestor = \<lparr> ig_message = (\<lambda>c m w. (None, w)), ig_invalid = (\<lambda>c b n r w. w),
     ig_disconnect = (\<lambda>c w. w) \<rparr>"

definition sample_session :: "unit session" where
  "sample_session = \<lparr> ss_conn = 0, ss_buf = [], ss_registered = False,
     ss_world = (\<lparr> ts_conns = (\<lambda>_. newConnection 0), ts_manager = [], ts_notified = [] \<rparr>, ()) \<rparr>"

definition sample_server :: "unit server" where
  "sample_server = \<lparr> sv_MaxPacketSize = 4096, sv_MaxConnections = 1,
     sv_registry = server_registry False 0 False, sv_ingestor = null_ingestor \<rparr>"

theorem session_no_panic_witness:
  "fst (sess_run sample_server [(True, 0, bytes_of_str ''869247061234567;8692'')] sample_session) \<noteq> Panic"
  by (rule session_no_panic[THEN conjunct1, OF _ prod.collapse[symmetric]])
     (simp add: sample_session_def)

section \<open>The loop and the frames of the stream\<close>

text \<open>The specification of the loop: the frames go to the dispatcher one after the other until one
  of them ends the session.\<close>

fun dispatch_frames ::
  "'i server \<Rightarrow> bool \<Rightarrow> time \<Rightarrow> protocol \<Rightarrow> bytes list \<Rightarrow> 'i session \<Rightarrow> bool \<times> 'i session" where
  "dispatch_frames sv wok now p [] s = (True, s)"
| "dispatch_frames sv wok now p (f # fs) s =
     (case sess_dispatch sv wok now p f s of
        (False, s) \<Rightarrow> (False, s) | (True, s) \<Rightarrow> dispatch_frames sv wok now p fs s)"

lemma sess_ack_indep:
  "sess_ack wok m (s\<lparr>ss_buf := b\<rparr>) = (case sess_ack wok m s of (ok, t) \<Rightarrow> (ok, t\<lparr>ss_buf := b\<rparr>))"
  by (auto simp: sess_ack_def map_tcp_def split: prod.splits option.splits)

lemma sess_publish_indep: "sess_publish (s\<lparr>ss_buf := b\<rparr>) = (sess_publish s)\<lparr>ss_buf := b\<rparr>"
  by (simp add: sess_publish_def map_tcp_def)

lemma complete_message_indep: "complete_message p (s\<lparr>ss_buf := b\<rparr>) m = complete_message p s m"
  by (simp add: complete_message_def)

lemma dispatch_msgs_indep:
  "dispatch_msgs sv wok p ms (s\<lparr>ss_buf := b\<rparr>) =
     (case dispatch_msgs sv wok p ms s of (ok, t) \<Rightarrow> (ok, t\<lparr>ss_buf := b\<rparr>))"
proof (induction ms arbitrary: s)
  case (Cons m ms)
  have w: "t\<lparr>ss_buf := b, ss_world := w\<rparr> = t\<lparr>ss_world := w, ss_buf := b\<rparr>" for t :: "'a session" and w
    by simp
  show ?case
    by (auto simp: Let_def complete_message_indep sess_ack_indep w Cons sess_publish_indep
        split: prod.splits bool.splits option.splits handle_error.splits simp del: session.update_convs)
qed simp

lemma sess_dispatch_indep:
  "sess_dispatch sv wok now p f (s\<lparr>ss_buf := b\<rparr>) =
     (case sess_dispatch sv wok now p f s of (ok, t) \<Rightarrow> (ok, t\<lparr>ss_buf := b\<rparr>))"
  by (auto simp: sess_dispatch_def dispatch_msgs_indep sess_invalid_def split: sum.splits)



section \<open>The registry of sessions\<close>

lemma dc_open_simps [simp]:
  "dc_open (ts_conns (mgr_notify n s) c) = dc_open (ts_conns s c)"
  "dc_open (ts_conns (conn_Close d s) c) = (dc_open (ts_conns s c) \<and> c \<noteq> d)"
  by (auto simp: mgr_notify_def conn_Close_def upd_conn_def)

lemma mgr_Get_simps [simp]:
  "mgr_Get (mgr_notify n s) i = mgr_Get s i" "mgr_Get (conn_Close c s) i = mgr_Get s i"
  "mgr_Get (upd_conn c f s) i = mgr_Get s i"
  by (simp_all add: mgr_Get_def)

lemma mgr_Get_UnregisterConn:
  "mgr_Get (mgr_UnregisterConn c s) i =
     (if conn_IMEI s c \<noteq> '''' \<and> i = conn_IMEI s c \<and> mgr_Get s i = Some c then None else mgr_Get s i)"
  by (auto simp: mgr_UnregisterConn_def Let_def mgr_Get_def delete_conv')

text \<open>Property C12: a reconnection replaces the old session and the old session cannot undo it.  When a
  device that is already connected registers a new session, the new one is found under its
  identifier, the old socket is closed, no other entry changes, and the clean-up of the old
  session, which runs later, does not remove the new one.\<close>

theorem reconnection_wins:
  assumes "mgr_wf s" and "conn_IMEI s new = imei" and "imei \<noteq> ''''"
    and "mgr_Get s imei = Some old" and "old \<noteq> new"
  defines "s1 \<equiv> mgr_Register new s"
  shows "mgr_Get s1 imei = Some new \<and> \<not> dc_open (ts_conns s1 old)
    \<and> (\<forall>i. i \<noteq> imei \<longrightarrow> mgr_Get s1 i = mgr_Get s i)
    \<and> mgr_Get (mgr_UnregisterConn old s1) imei = Some new \<and> mgr_wf s1"
proof -
  have "mgr_Get s1 i = (if i = imei then Some new else mgr_Get s i)" for i
    using manager.get_register[OF assms(1), of new i] assms(2,3) by (simp add: s1_def)
  moreover have "\<not> dc_open (ts_conns s1 old)"
    using assms(2-5) by (simp add: s1_def mgr_Register_def Let_def)
  ultimately show ?thesis
    using assms(5) manager.inv_register[OF assms(1)]
    by (auto simp: mgr_Get_UnregisterConn s1_def)
qed

definition sample_tcp :: tcp_state where
  "sample_tcp = \<lparr> ts_conns = (\<lambda>c. (newConnection 0)\<lparr>dc_imei := ''869247061234567''\<rparr>),
     ts_manager = [(''869247061234567'', 1)], ts_notified = [] \<rparr>"

theorem reconnection_wins_witness:
  "mgr_Get (mgr_UnregisterConn 1 (mgr_Register 2 sample_tcp)) ''869247061234567'' = Some 2"
  using reconnection_wins[of sample_tcp 2 "''869247061234567''" 1]
  by (simp add: sample_tcp_def mgr_wf_def conn_IMEI_def mgr_Get_def)

text \<open>Property C36: a session that changes its identity leaves a ghost.  A session is removed from the
  registry under the identifier it has when it ends.  If a session that was published for one
  identifier identifies itself as another, its clean-up leaves the first entry in place: the
  device still counts as connected, and a command for it is written to a closed socket and fails
  with a write error where it should report that the device is not connected.\<close>

theorem reidentified_session_stays:
  fixes d :: uuid
  assumes "mgr_Get s a = Some c" and "a \<noteq> b"
  defines "s1 \<equiv> mgr_UnregisterConn c (conn_Close c (Identify c b d s))"
  shows "mgr_Get s1 a = Some c
    \<and> (payload \<noteq> [] \<longrightarrow> fst (mgr_Send wok a payload s1) = Some ErrWrite)"
proof -
  have "conn_IMEI (conn_Close c (Identify c b d s)) c = b"
    by (simp add: conn_IMEI_def conn_Close_def Identify_def upd_conn_def)
  then have g: "mgr_Get s1 a = Some c"
    using assms(1,2) by (simp add: s1_def mgr_Get_UnregisterConn Identify_def)
  have "ts_conns s1 = ts_conns (conn_Close c (Identify c b d s))"
    by (simp add: s1_def mgr_UnregisterConn_def Let_def mgr_notify_def)
  then have "\<not> dc_open (ts_conns s1 c)" by simp
  with g show ?thesis by (simp add: mgr_Send_def conn_Send_def)
qed

theorem reidentified_session_stays_witness:
  "mgr_Get (mgr_UnregisterConn 1 (conn_Close 1 (Identify 1 ''999999999999999'' 7 sample_tcp)))
     ''869247061234567'' = Some 1"
  using reidentified_session_stays[of sample_tcp "''869247061234567''" 1 "''999999999999999''"]
  by (simp add: sample_tcp_def mgr_Get_def)

end
