(* ===== verification/Store.thy ===== *)
theory Store
  imports Go_Float Go_Time
begin

text \<open>
  What the services share: the database with its errors (\<^verbatim>\<open>internal/database\<close>), the audit trail
  (\<^verbatim>\<open>internal/audit\<close>), the events (\<^verbatim>\<open>internal/events\<close>) and the messages handed to the WebSocket hub.
  The state is a record that the components extend with their tables, so that every operation
  works on every extension.

  PostgreSQL is outside the program; a statement is modelled by its effect on the table, a list of
  rows.  Any statement can also fail for reasons of the server: the list \<open>w_faults\<close> says, for the
  statements to come, which of them fail.  The clock is an argument \<open>now\<close> of each operation, one
  instant for the whole of it, which serves as the clock of Go and of the database.
\<close>

datatype db_error = ErrNotFound | ErrConflict | ErrForeignKey | ErrDB

text \<open>The values of the metadata maps.\<close>

datatype meta = MStr string | MId uuid | MBool bool | MFloat f64 | MInt int | MNull

record audit_entry =
  ae_UserID :: "uuid option"
  ae_Action :: string
  ae_VehicleID :: "uuid option"
  ae_DeviceID :: "uuid option"
  ae_Result :: string
  ae_IPAddress :: string
  ae_Metadata :: "(string \<times> meta) list"
  ae_CreatedAt :: time

record event =
  ev_DeviceID :: uuid
  ev_Type :: string
  ev_Timestamp :: time
  ev_Latitude :: "f64 option"
  ev_Longitude :: "f64 option"
  ev_SpeedKmh :: "f64 option"
  ev_Metadata :: "(string \<times> meta) list"

text \<open>A message to the hub: topic, vehicle, device, and what identifies the payload.\<close>

record publication =
  pb_Topic :: string
  pb_VehicleID :: "uuid option"
  pb_DeviceID :: "uuid option"
  pb_Data :: "(string \<times> meta) list"

record base_world =
  w_faults :: "bool list"
  w_nextid :: nat
  w_audit :: "audit_entry list"
  w_events :: "event list"
  w_published :: "publication list"

section \<open>database.go\<close>

definition db_call ::
  "('x base_world_scheme \<Rightarrow> (db_error + 'a) \<times> 'x base_world_scheme) \<Rightarrow>
   'x base_world_scheme \<Rightarrow> (db_error + 'a) \<times> 'x base_world_scheme" where
  "db_call f w =
     (case w_faults w of
        [] \<Rightarrow> f w
      | b # bs \<Rightarrow> let w = w\<lparr>w_faults := bs\<rparr> in if b then (Inl ErrDB, w) else f w)"

definition fresh_id :: "'x base_world_scheme \<Rightarrow> uuid \<times> 'x base_world_scheme" where
  "fresh_id w = (w_nextid w, w\<lparr>w_nextid := Suc (w_nextid w)\<rparr>)"

text \<open>A statement succeeds, or fails and changes nothing but the list of faults.\<close>

lemma db_call_cases:
  obtains (fault) bs where "db_call f w = (Inl ErrDB, w\<lparr>w_faults := bs\<rparr>)"
  | (run) bs where "db_call f w = f (w\<lparr>w_faults := bs\<rparr>)"
proof (cases "w_faults w")
  case Nil
  then have "w\<lparr>w_faults := []\<rparr> = w" by (cases w) simp
  moreover have "db_call f w = f w" using Nil by (simp add: db_call_def)
  ultimately show ?thesis using run[of "[]"] by metis
next
  case (Cons b bs)
  then show ?thesis using fault[of bs] run[of bs] by (cases b) (simp_all add: db_call_def)
qed

section \<open>audit.go\<close>

definition audit_Create ::
  "time \<Rightarrow> audit_entry \<Rightarrow> 'x base_world_scheme \<Rightarrow> (db_error + unit) \<times> 'x base_world_scheme" where
  "audit_Create now e = db_call (\<lambda>w. (Inr (), w\<lparr>w_audit := w_audit w @ [e\<lparr>ae_CreatedAt := now\<rparr>]\<rparr>))"

definition audit_Record :: "time \<Rightarrow> audit_entry \<Rightarrow> 'x base_world_scheme \<Rightarrow> 'x base_world_scheme" where
  "audit_Record now e w = snd (audit_Create now e w)"

section \<open>events.go\<close>

definition event_Create ::
  "time \<Rightarrow> event \<Rightarrow> 'x base_world_scheme \<Rightarrow> (db_error + event) \<times> 'x base_world_scheme" where
  "event_Create now e =
     (let e = (if is_zero_time (ev_Timestamp e) then e\<lparr>ev_Timestamp := now\<rparr> else e)
      in db_call (\<lambda>w. (Inr e, w\<lparr>w_events := w_events w @ [e]\<rparr>)))"

definition publish_for ::
  "string \<Rightarrow> uuid option \<Rightarrow> uuid option \<Rightarrow> (string \<times> meta) list \<Rightarrow>
   'x base_world_scheme \<Rightarrow> 'x base_world_scheme" where
  "publish_for topic v d data w =
     w\<lparr>w_published := w_published w @
        [\<lparr> pb_Topic = topic, pb_VehicleID = v, pb_DeviceID = d, pb_Data = data \<rparr>]\<rparr>"

definition event_Record :: "time \<Rightarrow> event \<Rightarrow> 'x base_world_scheme \<Rightarrow> 'x base_world_scheme" where
  "event_Record now e w =
     (case event_Create now e w of
        (Inl _, w) \<Rightarrow> w
      | (Inr e, w) \<Rightarrow> publish_for ''vehicle.event'' None None
          [(''type'', MStr (ev_Type e)), (''deviceId'', MId (ev_DeviceID e))] w)"

record event_query =
  eq_DeviceID :: uuid
  eq_From :: time
  eq_To :: time
  eq_Types :: "string list"
  eq_Limit :: int

definition event_limit :: "int \<Rightarrow> nat" where
  "event_limit l = (if l \<le> 0 \<or> l > 1000 then 200 else nat l)"

definition event_List :: "event_query \<Rightarrow> 'x base_world_scheme \<Rightarrow> event list" where
  "event_List q w =
     take (event_limit (eq_Limit q))
       (rev (sort_key ev_Timestamp
         (filter (\<lambda>e. ev_DeviceID e = eq_DeviceID q \<and> eq_From q \<le> ev_Timestamp e
             \<and> ev_Timestamp e \<le> eq_To q \<and> (eq_Types q \<noteq> [] \<longrightarrow> ev_Type e \<in> set (eq_Types q)))
           (w_events w))))"

definition event_ListRecent :: "int \<Rightarrow> 'x base_world_scheme \<Rightarrow> event list" where
  "event_ListRecent limit w =
     take (if limit \<le> 0 \<or> limit > 500 then 100 else nat limit) (rev (sort_key ev_Timestamp (w_events w)))"

section \<open>What these operations keep\<close>

text \<open>The audit trail and the events touch nothing but their own fields, the messages and the
  faults.\<close>

definition side_effect :: "('x base_world_scheme \<Rightarrow> 'x base_world_scheme) \<Rightarrow> bool" where
  "side_effect f \<longleftrightarrow> (\<forall>w. base_world.more (f w) = base_world.more w \<and> w_nextid (f w) = w_nextid w)"

lemma db_call_more:
  assumes "\<And>w. base_world.more (snd (f w)) = base_world.more w \<and> w_nextid (snd (f w)) = w_nextid w"
  shows "base_world.more (snd (db_call f w)) = base_world.more w \<and> w_nextid (snd (db_call f w)) = w_nextid w"
  by (cases rule: db_call_cases[of f w]) (simp_all add: assms)

lemma audit_Record_side: "side_effect (audit_Record now e)"
  unfolding side_effect_def audit_Record_def audit_Create_def by (intro allI db_call_more) simp

lemma publish_for_side: "side_effect (publish_for t v d x)"
  by (simp add: side_effect_def publish_for_def)

lemma event_Record_side: "side_effect (event_Record now e)"
  unfolding side_effect_def
proof
  fix w :: "'x base_world_scheme"
  obtain r w' where r: "event_Create now e w = (r, w')" by fastforce
  have "base_world.more (snd (event_Create now e w)) = base_world.more w
      \<and> w_nextid (snd (event_Create now e w)) = w_nextid w"
    unfolding event_Create_def Let_def by (intro db_call_more) simp
  then show "base_world.more (event_Record now e w) = base_world.more w
      \<and> w_nextid (event_Record now e w) = w_nextid w"
    using r by (cases r) (auto simp: event_Record_def publish_for_def)
qed

end
