(* ===== verification/Devices.thy ===== *)
theory Devices
  imports Registry Store
begin

text \<open>
  The package \<^verbatim>\<open>internal/devices\<close>: the record of a tracker and its connection status
  (\<^verbatim>\<open>device.go\<close>), the table (\<^verbatim>\<open>repository.go\<close>) and the service with the validation of the
  inputs (\<^verbatim>\<open>service.go\<close>).  Go iterates over a map in an arbitrary order, so the overrides of an
  input are a list of pairs, the order of one iteration.
\<close>

section \<open>device.go\<close>

datatype dev_status = ONLINE | STALE | OFFLINE

record device =
  dv_ID :: uuid
  dv_IMEI :: string
  dv_Model :: string
  dv_Protocol :: string
  dv_Status :: dev_status
  dv_LastSeenAt :: "time option"
  dv_ServerHost :: string
  dv_ServerPort :: "int option"
  dv_ReportIntervalSeconds :: "int option"
  dv_HeartbeatIntervalSeconds :: "int option"
  dv_CommandPassword :: string
  dv_CommandOverrides :: "string \<rightharpoonup> string"
  dv_CreatedAt :: time
  dv_UpdatedAt :: time

text \<open>The input; the fields that are stored as they come (model, manufacturer, firmware, phone,
  APN and notes) are represented by the model.\<close>

record dev_input =
  in_IMEI :: string
  in_Model :: string
  in_Protocol :: string
  in_ServerHost :: string
  in_ServerPort :: "int option"
  in_ReportIntervalSeconds :: "int option"
  in_HeartbeatIntervalSeconds :: "int option"
  in_CommandPassword :: string
  in_CommandOverrides :: "(string \<times> string) list"

record status_change =
  sc_DeviceID :: uuid
  sc_IMEI :: string
  sc_From :: dev_status
  sc_To :: dev_status

record dev_world = base_world +
  w_devices :: "device list"

section \<open>repository.go\<close>

definition dev_fill :: "dev_input \<Rightarrow> device \<Rightarrow> device" where
  "dev_fill i d = d\<lparr> dv_IMEI := trim_space (in_IMEI i), dv_Model := in_Model i,
     dv_Protocol := in_Protocol i, dv_ServerHost := in_ServerHost i,
     dv_ServerPort := in_ServerPort i, dv_ReportIntervalSeconds := in_ReportIntervalSeconds i,
     dv_HeartbeatIntervalSeconds := in_HeartbeatIntervalSeconds i,
     dv_CommandPassword := in_CommandPassword i,
     dv_CommandOverrides := map_of (rev (in_CommandOverrides i)) \<rparr>"

definition blank_device :: "uuid \<Rightarrow> time \<Rightarrow> device" where
  "blank_device i now = \<lparr> dv_ID = i, dv_IMEI = '''', dv_Model = '''', dv_Protocol = '''',
     dv_Status = OFFLINE, dv_LastSeenAt = None, dv_ServerHost = '''', dv_ServerPort = None,
     dv_ReportIntervalSeconds = None, dv_HeartbeatIntervalSeconds = None, dv_CommandPassword = '''',
     dv_CommandOverrides = Map.empty, dv_CreatedAt = now, dv_UpdatedAt = now \<rparr>"

definition dev_Create ::
  "time \<Rightarrow> dev_input \<Rightarrow> 'x dev_world_scheme \<Rightarrow> (db_error + device) \<times> 'x dev_world_scheme" where
  "dev_Create now i = db_call (\<lambda>w.
     if \<exists>d \<in> set (w_devices w). dv_IMEI d = trim_space (in_IMEI i) then (Inl ErrConflict, w)
     else
       let (k, w) = fresh_id w; d = dev_fill i (blank_device k now)
       in (Inr d, w\<lparr>w_devices := w_devices w @ [d]\<rparr>))"

definition dev_Update ::
  "time \<Rightarrow> uuid \<Rightarrow> dev_input \<Rightarrow> 'x dev_world_scheme \<Rightarrow> (db_error + device) \<times> 'x dev_world_scheme" where
  "dev_Update now k i = db_call (\<lambda>w.
     case find (\<lambda>d. dv_ID d = k) (w_devices w) of
       None \<Rightarrow> (Inl ErrNotFound, w)
     | Some d \<Rightarrow>
         if \<exists>e \<in> set (w_devices w). dv_ID e \<noteq> k \<and> dv_IMEI e = trim_space (in_IMEI i)
         then (Inl ErrConflict, w)
         else
           let d' = (dev_fill i d)\<lparr>dv_UpdatedAt := now\<rparr>
           in (Inr d', w\<lparr>w_devices := map (\<lambda>e. if dv_ID e = k then d' else e) (w_devices w)\<rparr>))"

definition dev_Delete :: "uuid \<Rightarrow> 'x dev_world_scheme \<Rightarrow> (db_error + unit) \<times> 'x dev_world_scheme" where
  "dev_Delete k = db_call (\<lambda>w.
     if find (\<lambda>d. dv_ID d = k) (w_devices w) = None then (Inl ErrNotFound, w)
     else (Inr (), w\<lparr>w_devices := filter (\<lambda>d. dv_ID d \<noteq> k) (w_devices w)\<rparr>))"

definition dev_GetByID :: "uuid \<Rightarrow> 'x dev_world_scheme \<Rightarrow> (db_error + device) \<times> 'x dev_world_scheme" where
  "dev_GetByID k = db_call (\<lambda>w.
     case find (\<lambda>d. dv_ID d = k) (w_devices w) of None \<Rightarrow> (Inl ErrNotFound, w) | Some d \<Rightarrow> (Inr d, w))"

definition dev_GetByIMEI :: "string \<Rightarrow> 'x dev_world_scheme \<Rightarrow> (db_error + device) \<times> 'x dev_world_scheme" where
  "dev_GetByIMEI imei = db_call (\<lambda>w.
     case find (\<lambda>d. dv_IMEI d = trim_space imei) (w_devices w) of
       None \<Rightarrow> (Inl ErrNotFound, w) | Some d \<Rightarrow> (Inr d, w))"

definition dev_List :: "'x dev_world_scheme \<Rightarrow> (db_error + device list) \<times> 'x dev_world_scheme" where
  "dev_List = db_call (\<lambda>w. (Inr (sort_key dv_CreatedAt (w_devices w)), w))"

text \<open>\<^verbatim>\<open>GREATEST(COALESCE(last_seen_at, $2), $2)\<close>\<close>

definition touch_device :: "time \<Rightarrow> time \<Rightarrow> device \<Rightarrow> device" where
  "touch_device now seenAt d =
     d\<lparr>dv_LastSeenAt := Some (max (case dv_LastSeenAt d of None \<Rightarrow> seenAt | Some t \<Rightarrow> t) seenAt),
       dv_Status := ONLINE, dv_UpdatedAt := now\<rparr>"

definition dev_Touch ::
  "time \<Rightarrow> uuid \<Rightarrow> time \<Rightarrow> 'x dev_world_scheme \<Rightarrow> (db_error + unit) \<times> 'x dev_world_scheme" where
  "dev_Touch now k seenAt = db_call (\<lambda>w.
     (Inr (), w\<lparr>w_devices := map (\<lambda>d. if dv_ID d = k then touch_device now seenAt d else d) (w_devices w)\<rparr>))"

definition dev_SetProtocol ::
  "time \<Rightarrow> uuid \<Rightarrow> string \<Rightarrow> 'x dev_world_scheme \<Rightarrow> (db_error + unit) \<times> 'x dev_world_scheme" where
  "dev_SetProtocol now k p = db_call (\<lambda>w.
     (Inr (), w\<lparr>w_devices := map (\<lambda>d. if dv_ID d = k \<and> dv_Protocol d \<noteq> p
        then d\<lparr>dv_Protocol := p, dv_UpdatedAt := now\<rparr> else d) (w_devices w)\<rparr>))"

definition next_status :: "time \<Rightarrow> duration \<Rightarrow> duration \<Rightarrow> device \<Rightarrow> dev_status" where
  "next_status now stale offline d =
     (case dv_LastSeenAt d of
        None \<Rightarrow> OFFLINE
      | Some t \<Rightarrow> if t < now - offline then OFFLINE else if t < now - stale then STALE else ONLINE)"

definition dev_SweepStatuses ::
  "time \<Rightarrow> duration \<Rightarrow> duration \<Rightarrow> 'x dev_world_scheme \<Rightarrow>
   (db_error + status_change list) \<times> 'x dev_world_scheme" where
  "dev_SweepStatuses now stale offline = db_call (\<lambda>w.
     let changed = filter (\<lambda>d. dv_Status d \<noteq> next_status now stale offline d) (w_devices w)
     in (Inr (map (\<lambda>d. \<lparr> sc_DeviceID = dv_ID d, sc_IMEI = dv_IMEI d, sc_From = dv_Status d,
                         sc_To = next_status now stale offline d \<rparr>) changed),
         w\<lparr>w_devices := map (\<lambda>d. if dv_Status d \<noteq> next_status now stale offline d
             then d\<lparr>dv_Status := next_status now stale offline d, dv_UpdatedAt := now\<rparr> else d)
           (w_devices w)\<rparr>))"

definition dev_CountOnline :: "'x dev_world_scheme \<Rightarrow> (db_error + nat) \<times> 'x dev_world_scheme" where
  "dev_CountOnline = db_call (\<lambda>w. (Inr (length (filter (\<lambda>d. dv_Status d = ONLINE) (w_devices w))), w))"

section \<open>service.go\<close>

datatype val_error =
    VIMEI perr | VProtocol string | VPort | VInterval | VHeartbeat
  | VOverrideType string | VOverrideLong string | VOverrideChars string
  | VPasswordChars | VPasswordLong
  | VStore db_error

text \<open>The loop over the overrides; \<open>clean\<close> grows with each accepted pair, a later pair for the same
  command replaces an earlier one.  A character outside ASCII is several bytes in Go's string and
  is refused here as there.\<close>

fun clean_overrides :: "(string \<times> string) list \<Rightarrow> (string \<times> string) list \<Rightarrow> val_error + (string \<times> string) list" where
  "clean_overrides clean [] = Inr clean"
| "clean_overrides clean ((key, value) # rest) =
     (let cmdType = to_upper (trim_space key) in
      if \<not> command_valid cmdType then Inl (VOverrideType key)
      else
        let value = trim_space value in
        if value = '''' then clean_overrides clean rest
        else if length value > 200 then Inl (VOverrideLong cmdType)
        else if \<not> list_all printable_char value then Inl (VOverrideChars cmdType)
        else clean_overrides (clean @ [(cmdType, value)]) rest)"

definition out_of :: "int \<Rightarrow> int \<Rightarrow> int option \<Rightarrow> bool" where
  "out_of lo hi v = (case v of None \<Rightarrow> False | Some n \<Rightarrow> n < lo \<or> n > hi)"

definition dev_validate :: "registry \<Rightarrow> dev_input \<Rightarrow> val_error + dev_input" where
  "dev_validate reg i =
     (let i = i\<lparr>in_IMEI := trim_space (in_IMEI i)\<rparr> in
      case ValidateIMEI (in_IMEI i) of
        Some e \<Rightarrow> Inl (VIMEI e)
      | None \<Rightarrow>
          let i = i\<lparr>in_Protocol := to_lower (trim_space (in_Protocol i))\<rparr> in
          if in_Protocol i \<noteq> '''' \<and> reg_ByName reg (in_Protocol i) = None then Inl (VProtocol (in_Protocol i))
          else if out_of 1 65535 (in_ServerPort i) then Inl VPort
          else if out_of 5 86400 (in_ReportIntervalSeconds i) then Inl VInterval
          else if out_of 30 86400 (in_HeartbeatIntervalSeconds i) then Inl VHeartbeat
          else and_then (clean_overrides [] (in_CommandOverrides i)) (\<lambda>clean.
            let i = i\<lparr>in_CommandOverrides := clean\<rparr>; pwd = trim_space (in_CommandPassword i) in
            if pwd = '''' then Inr i
            else if \<not> list_all (\<lambda>c. is_digit c \<or> is_letter c) pwd then Inl VPasswordChars
            else if length pwd > 16 then Inl VPasswordLong
            else Inr (i\<lparr>in_CommandPassword := pwd\<rparr>)))"

definition lift_store :: "(db_error + 'a) \<times> 'w \<Rightarrow> (val_error + 'a) \<times> 'w" where
  "lift_store r = (case r of (Inl e, w) \<Rightarrow> (Inl (VStore e), w) | (Inr x, w) \<Rightarrow> (Inr x, w))"

definition svc_Create ::
  "registry \<Rightarrow> time \<Rightarrow> dev_input \<Rightarrow> 'x dev_world_scheme \<Rightarrow> (val_error + device) \<times> 'x dev_world_scheme" where
  "svc_Create reg now i w =
     (case dev_validate reg i of Inl e \<Rightarrow> (Inl e, w) | Inr n \<Rightarrow> lift_store (dev_Create now n w))"

definition svc_Update ::
  "registry \<Rightarrow> time \<Rightarrow> uuid \<Rightarrow> dev_input \<Rightarrow> 'x dev_world_scheme \<Rightarrow> (val_error + device) \<times> 'x dev_world_scheme" where
  "svc_Update reg now k i w =
     (case dev_validate reg i of Inl e \<Rightarrow> (Inl e, w) | Inr n \<Rightarrow> lift_store (dev_Update now k n w))"

record provisioning =
  pv_Type :: command_type
  pv_Text :: string
  pv_Available :: bool
  pv_Reason :: "perr option"

definition printableCommand :: "bytes \<Rightarrow> string" where
  "printableCommand raw = concat (map (\<lambda>b.
     if 0x20 \<le> b \<and> b \<le> 0x7E then [char_of (unat b)] else [CHR 0x5C, CHR ''x''] @ hex_byte True b) raw)"

text \<open>One suggestion; the serial of the GT06 encoder advances with each.\<close>

definition provision_one ::
  "protocol \<Rightarrow> time \<Rightarrow> device \<Rightarrow> command_type \<Rightarrow> (string \<rightharpoonup> string) \<Rightarrow>
   provisioning list \<times> 32 word \<Rightarrow> provisioning list \<times> 32 word" where
  "provision_one p now d t params acc =
     (case proto_EncodeCommand p now (snd acc)
         \<lparr> cmd_Type = t, cmd_UniqueID = dv_IMEI d, cmd_CorrelationKey = 0,
           cmd_Password = dv_CommandPassword d, cmd_Params = params,
           cmd_Raw = (case dv_CommandOverrides d t of None \<Rightarrow> '''' | Some r \<Rightarrow> r) \<rparr> of
        (Inl e, n) \<Rightarrow> (fst acc @ [\<lparr> pv_Type = t, pv_Text = '''', pv_Available = False, pv_Reason = Some e \<rparr>], n)
      | (Inr raw, n) \<Rightarrow> (fst acc @ [\<lparr> pv_Type = t, pv_Text = printableCommand raw, pv_Available = True,
          pv_Reason = None \<rparr>], n))"

definition ProvisioningCommands ::
  "registry \<Rightarrow> time \<Rightarrow> 32 word \<Rightarrow> device \<Rightarrow> provisioning list \<times> 32 word" where
  "ProvisioningCommands reg now n d =
     (case reg_ByName reg (dv_Protocol d) of
        None \<Rightarrow> ([], n)
      | Some p \<Rightarrow>
          let acc = ([], n);
              acc = (case (dv_ServerHost d \<noteq> '''', dv_ServerPort d) of
                       (True, Some port) \<Rightarrow> provision_one p now d CommandSetServer
                         [''host'' \<mapsto> dv_ServerHost d, ''port'' \<mapsto> show_int port] acc
                     | _ \<Rightarrow> acc);
              acc = (case dv_ReportIntervalSeconds d of
                       Some s \<Rightarrow> provision_one p now d CommandSetInterval [''seconds'' \<mapsto> show_int s] acc
                     | None \<Rightarrow> acc)
          in case dv_HeartbeatIntervalSeconds d of
               Some s \<Rightarrow> provision_one p now d CommandSetHeartbeat
                 [''minutes'' \<mapsto> show_int (int_quot s 60)] acc
             | None \<Rightarrow> acc)"

end
