(* ===== verification/Devices_Props.thy ===== *)
theory Devices_Props
  imports Devices
begin

text \<open>
  The properties of the device registry: what the validation guarantees and that the guarantees
  are what the encoders need, the uniqueness of identifiers over every sequence of operations,
  and the status machine of the connection (\<^verbatim>\<open>ONLINE\<close>, \<^verbatim>\<open>STALE\<close>, \<^verbatim>\<open>OFFLINE\<close>).
\<close>

section \<open>Validation\<close>

definition override_ok :: "string \<times> string \<Rightarrow> bool" where
  "override_ok tv \<longleftrightarrow> command_valid (fst tv) \<and> re_safe_text (snd tv) \<and> trim_space (snd tv) = snd tv"

definition valid_input :: "registry \<Rightarrow> dev_input \<Rightarrow> bool" where
  "valid_input reg i \<longleftrightarrow>
     ValidateIMEI (in_IMEI i) = None \<and> list_all is_digit (in_IMEI i)
     \<and> (in_Protocol i = '''' \<or> (\<exists>p \<in> set reg. reg_ByName reg (in_Protocol i) = Some p))
     \<and> \<not> out_of 1 65535 (in_ServerPort i) \<and> \<not> out_of 5 86400 (in_ReportIntervalSeconds i)
     \<and> \<not> out_of 30 86400 (in_HeartbeatIntervalSeconds i)
     \<and> list_all override_ok (in_CommandOverrides i)
     \<and> (trim_space (in_CommandPassword i) = '''' \<or> re_safe_password (in_CommandPassword i))"

lemma clean_overrides_ok:
  "clean_overrides clean ovs = Inr out \<Longrightarrow> list_all override_ok clean \<Longrightarrow> list_all override_ok out"
proof (induction clean ovs rule: clean_overrides.induct)
  case (2 clean key v rest)
  let ?v = "trim_space v" and ?t = "to_upper (trim_space key)"
  have ok: "command_valid ?t" "length ?v \<le> 200 \<or> ?v = ''''"
    "list_all printable_char ?v \<or> ?v = ''''"
    using 2(3) by (auto simp: Let_def split: if_splits)
  show ?case
  proof (cases "?v = ''''")
    case True
    then show ?thesis using 2 ok(1) by (simp add: Let_def)
  next
    case False
    then have "override_ok (?t, ?v)"
      using ok by (auto simp: override_ok_def re_safe_text_def Suc_le_eq)
    then show ?thesis using 2(2)[OF refl _ refl] 2(3,4) ok False by (auto simp: Let_def split: if_splits)
  qed
qed simp

lemma reg_ByName_mem: "reg_ByName reg n = Some p \<Longrightarrow> p \<in> set reg"
  by (auto simp: reg_ByName_def Let_def find_Some_iff)

text \<open>What the registration of a device guarantees.  An input that passes the validation
  has an identifier of ten to twenty digits, a protocol that is empty or registered, a port,
  report interval and heartbeat interval in range, overrides of known commands with one to two
  hundred printable characters, and a password of at most sixteen letters and digits or none.\<close>

theorem dev_validate_sound:
  assumes "dev_validate reg i = Inr n"
  shows "valid_input reg n"
proof -
  obtain clean where c: "clean_overrides [] (in_CommandOverrides i) = Inr clean"
    using assms by (auto simp: dev_validate_def Let_def and_then_Inr split: option.splits if_splits)
  have v: "ValidateIMEI (trim_space (in_IMEI i)) = None"
    using assms by (auto simp: dev_validate_def Let_def split: option.splits)
  have d: "list_all is_digit (trim_space (in_IMEI i))" using v by (simp add: ValidateIMEI_None)
  have "list_all override_ok clean" using clean_overrides_ok[OF c] by simp
  moreover obtain q where n: "n = i\<lparr>in_IMEI := trim_space (in_IMEI i),
      in_Protocol := to_lower (trim_space (in_Protocol i)), in_CommandOverrides := clean,
      in_CommandPassword := q\<rparr>" and "trim_space q = '''' \<or> re_safe_password q"
  proof (cases "trim_space (in_CommandPassword i) = ''''")
    case True
    then show ?thesis
      using assms c that[of "in_CommandPassword i"]
      by (auto simp: dev_validate_def Let_def split: option.splits if_splits)
  next
    case False
    then show ?thesis
      using assms c that[of "trim_space (in_CommandPassword i)"]
      by (auto simp: dev_validate_def Let_def re_safe_password_def Suc_le_eq split: option.splits if_splits)
  qed
  moreover have "to_lower (trim_space (in_Protocol i)) = '''' \<or>
      (\<exists>p \<in> set reg. reg_ByName reg (to_lower (trim_space (in_Protocol i))) = Some p)"
    "\<not> out_of 1 65535 (in_ServerPort i)" "\<not> out_of 5 86400 (in_ReportIntervalSeconds i)"
    "\<not> out_of 30 86400 (in_HeartbeatIntervalSeconds i)"
    using assms reg_ByName_mem[of reg]
    by (auto simp: dev_validate_def Let_def split: option.splits if_splits)
  ultimately show ?thesis
    using v d unfolding valid_input_def n by simp
qed

definition sample_input :: dev_input where
  "sample_input = \<lparr> in_IMEI = ''869247061234567'', in_Model = ''TK905'', in_Protocol = '''',
     in_ServerHost = '''', in_ServerPort = Some 5023, in_ReportIntervalSeconds = Some 30,
     in_HeartbeatIntervalSeconds = Some 30, in_CommandPassword = '''',
     in_CommandOverrides = [(''ENGINE_CUT'', ''RELAY,1#'')] \<rparr>"

lemma sample_imei: "list_all is_digit ''869247061234567''" "ValidateIMEI ''869247061234567'' = None"
proof -
  show d: "list_all is_digit ''869247061234567''" by (simp add: is_digit_def)
  then show "ValidateIMEI ''869247061234567'' = None"
    unfolding ValidateIMEI_None digits_trim_space[OF d] by simp
qed

lemma sample_trims:
  "trim_space ''869247061234567'' = ''869247061234567''" "trim_space ''ENGINE_CUT'' = ''ENGINE_CUT''"
  "trim_space ''RELAY,1#'' = ''RELAY,1#''" "to_upper ''ENGINE_CUT'' = ''ENGINE_CUT''"
  by (rule trim_space_all_plain; simp add: plain_def)+ (simp add: upper_char_def)

lemma sample_input_valid: "dev_validate reg sample_input = Inr sample_input"
  by (simp add: dev_validate_def sample_input_def sample_imei sample_trims out_of_def
      command_valid_def AllCommandTypes_def printable_char_def upper_char_def)

theorem dev_validate_sound_witness: "valid_input [] sample_input"
  using dev_validate_sound[OF sample_input_valid] .

text \<open>An override that was accepted at registration can be sent.  For a GT06 or an H02
  device, every override of a validated input is accepted by the encoder as the raw text of a
  command, whatever the other fields of the command are.\<close>

theorem validated_override_encodes:
  assumes "dev_validate reg i = Inr n" and "(t, v) \<in> set (in_CommandOverrides n)"
    and "p = GT06Protocol a \<or> p = H02Protocol l" and "cmd_Raw cmd = v"
  shows "\<exists>bs k'. proto_EncodeCommand p now k cmd = (Inr bs, k')"
proof -
  obtain clean where c: "clean_overrides [] (in_CommandOverrides i) = Inr clean"
    and "in_CommandOverrides n = clean"
    using assms(1) by (auto simp: dev_validate_def Let_def and_then_Inr split: option.splits if_splits)
  then have "override_ok (t, v)"
    using clean_overrides_ok[OF c] assms(2) by (auto simp: list_all_iff)
  then have "trim_space (cmd_Raw cmd) = v" "re_safe_text v" "v \<noteq> ''''"
    using assms(4) by (auto simp: override_ok_def re_safe_text_def)
  then show ?thesis
    using assms(3)
    by (auto simp: gt06_EncodeCommand_def gt06_commandText_def h02_EncodeCommand_def
        re_safe_text_def maxCommandText_def nextSerial_def)
qed

theorem validated_override_encodes_witness:
  "\<exists>bs k'. proto_EncodeCommand (GT06Protocol False) 0 0 (sample_cut\<lparr>cmd_Raw := ''RELAY,1#''\<rparr>) = (Inr bs, k')"
  by (rule validated_override_encodes[OF sample_input_valid, of "''ENGINE_CUT''" "''RELAY,1#''" _ False 0])
     (simp_all add: sample_input_def)

text \<open>Two spellings of one command make the stored override depend on the order of the
  map.  The keys of the input are compared after trimming and upper-casing, so two keys of the
  same map may name the same command; the last one visited wins, and Go visits them in an
  arbitrary order.\<close>

theorem override_order_matters:
  "clean_overrides [] [(''engine_cut'', ''A#''), (''ENGINE_CUT'', ''B#'')]
     = Inr [(''ENGINE_CUT'', ''A#''), (''ENGINE_CUT'', ''B#'')]
   \<and> map_of (rev [(''ENGINE_CUT'', ''A#''), (''ENGINE_CUT'', ''B#'')]) ''ENGINE_CUT'' = Some ''B#''
   \<and> clean_overrides [] [(''ENGINE_CUT'', ''B#''), (''engine_cut'', ''A#'')]
     = Inr [(''ENGINE_CUT'', ''B#''), (''ENGINE_CUT'', ''A#'')]
   \<and> map_of (rev [(''ENGINE_CUT'', ''B#''), (''ENGINE_CUT'', ''A#'')]) ''ENGINE_CUT'' = Some ''A#''"
proof -
  have "trim_space ''engine_cut'' = ''engine_cut''" "trim_space ''A#'' = ''A#''" "trim_space ''B#'' = ''B#''"
    by (rule trim_space_all_plain; simp add: plain_def)+
  moreover have "to_upper ''engine_cut'' = ''ENGINE_CUT''" by code_simp
  ultimately show ?thesis
    by (simp add: sample_trims command_valid_def AllCommandTypes_def printable_char_def upper_char_def Let_def)
qed

text \<open>A heartbeat interval below a minute is accepted at registration and refused by the
  encoder.  The registration admits 30 to 86400 seconds, the suggestion for the device divides by
  sixty, and the GT06 encoder admits 1 to 360 minutes: for 30 to 59 seconds the suggestion is
  always unavailable.\<close>

theorem short_heartbeat_unavailable:
  assumes "30 \<le> s" and "s < 60" and "dv_HeartbeatIntervalSeconds d = Some s"
    and "reg_ByName reg (dv_Protocol d) = Some (GT06Protocol a)"
    and "dv_CommandOverrides d = Map.empty"
  shows "\<not> out_of 30 86400 (dv_HeartbeatIntervalSeconds d)
    \<and> \<not> pv_Available (last (fst (ProvisioningCommands reg now n d)))"
proof -
  have "int_quot s 60 = 0" using assms(1,2) by simp
  then have "positiveInt (show_int (int_quot s 60)) 1 360 = Inl (ErrOutOfRange 1 360)"
  proof -
    have "show_int 0 = ''0''" by code_simp
    moreover have "trim_space ''0'' = ''0''" by (rule trim_space_all_plain) (simp add: plain_def)
    moreover have "atoi ''0'' = Some 0" by (simp add: atoi_def is_digit_def nat_of_digits_def digit_val_def)
    ultimately show ?thesis using \<open>int_quot s 60 = 0\<close> by (simp add: positiveInt_def)
  qed
  then have "\<exists>e. gt06_commandText \<lparr> cmd_Type = CommandSetHeartbeat, cmd_UniqueID = dv_IMEI d,
      cmd_CorrelationKey = 0, cmd_Password = dv_CommandPassword d,
      cmd_Params = [''minutes'' \<mapsto> show_int (int_quot s 60)], cmd_Raw = '''' \<rparr> = Inl e"
    by (simp add: gt06_commandText_def Param_def Let_def)
  then show ?thesis
    using assms
    by (auto simp: ProvisioningCommands_def provision_one_def gt06_EncodeCommand_def Let_def out_of_def)
qed

definition sample_device :: device where
  "sample_device = (blank_device 1 0)\<lparr>dv_IMEI := ''869247061234567'', dv_Protocol := ''gt06'',
     dv_HeartbeatIntervalSeconds := Some 45\<rparr>"

lemma gt06_by_name: "reg_ByName (server_registry a l v) ''gt06'' = Some (GT06Protocol a)"
  using server_names[of "GT06Protocol a" a l v] by (simp add: server_registry_def)

theorem short_heartbeat_unavailable_witness:
  "\<not> pv_Available (last (fst (ProvisioningCommands (server_registry False 0 False) 0 0 sample_device)))"
  using short_heartbeat_unavailable[of 45 sample_device "server_registry False 0 False" False 0 0]
    gt06_by_name[of False 0 False]
  by (simp add: sample_device_def blank_device_def)

section \<open>The status of the connection\<close>

definition sweep_device :: "time \<Rightarrow> duration \<Rightarrow> duration \<Rightarrow> device \<Rightarrow> device" where
  "sweep_device now stale offline d =
     (if dv_Status d \<noteq> next_status now stale offline d
      then d\<lparr>dv_Status := next_status now stale offline d, dv_UpdatedAt := now\<rparr> else d)"

lemma next_status_sweep [simp]:
  "next_status now a b (sweep_device now a b d) = next_status now a b d"
  "dv_Status (sweep_device now a b d) = next_status now a b d"
  "dv_ID (sweep_device now a b d) = dv_ID d" "dv_IMEI (sweep_device now a b d) = dv_IMEI d"
  by (simp_all add: sweep_device_def next_status_def)

lemma dev_SweepStatuses_run:
  assumes "w_faults w = []"
  shows "dev_SweepStatuses now stale offline w =
    (Inr (map (\<lambda>d. \<lparr> sc_DeviceID = dv_ID d, sc_IMEI = dv_IMEI d, sc_From = dv_Status d,
        sc_To = next_status now stale offline d \<rparr>)
      (filter (\<lambda>d. dv_Status d \<noteq> next_status now stale offline d) (w_devices w))),
     w\<lparr>w_devices := map (sweep_device now stale offline) (w_devices w)\<rparr>)"
proof -
  have f: "(\<lambda>d. if dv_Status d \<noteq> next_status now stale offline d
      then d\<lparr>dv_Status := next_status now stale offline d, dv_UpdatedAt := now\<rparr> else d)
    = sweep_device now stale offline"
    by (rule ext) (simp add: sweep_device_def)
  show ?thesis
    using assms unfolding dev_SweepStatuses_def db_call_def Let_def f by simp
qed


definition sample_dev_world :: dev_world where
  "sample_dev_world = \<lparr> w_faults = [], w_nextid = 2, w_audit = [], w_events = [], w_published = [],
     w_devices = [sample_device\<lparr>dv_Status := ONLINE, dv_LastSeenAt := Some 0\<rparr>] \<rparr>"


text \<open>The last-seen instant of a device never goes back.  Whatever instants packets carry
  and in whatever order they are processed, after each of them the device is online and its
  last-seen instant is at least what it was and at least the instant of the packet; the order of
  two touches does not matter.\<close>

theorem touch_monotone:
  "(case dv_LastSeenAt d of None \<Rightarrow> True
    | Some t \<Rightarrow> (\<exists>u. dv_LastSeenAt (touch_device now seen d) = Some u \<and> t \<le> u \<and> seen \<le> u))
   \<and> dv_Status (touch_device now seen d) = ONLINE
   \<and> touch_device now s1 (touch_device now s2 d) = touch_device now s2 (touch_device now s1 d)"
  by (simp add: touch_device_def max.commute max.left_commute split: option.splits)

section \<open>Identity\<close>

text \<open>The keys of the table: distinct identifiers below the next one, distinct IMEIs.\<close>

definition dev_wf :: "'x dev_world_scheme \<Rightarrow> bool" where
  "dev_wf w \<longleftrightarrow> distinct (map dv_ID (w_devices w)) \<and> distinct (map dv_IMEI (w_devices w))
     \<and> (\<forall>d \<in> set (w_devices w). dv_ID d < w_nextid w)"

text \<open>The statements of the repository as steps of the table.\<close>

inductive dev_step :: "'x dev_world_scheme \<Rightarrow> 'x dev_world_scheme \<Rightarrow> bool" where
  create: "dev_step w (snd (dev_Create now i w))"
| update: "dev_step w (snd (dev_Update now k i w))"
| delete: "dev_step w (snd (dev_Delete k w))"
| touch: "dev_step w (snd (dev_Touch now k seen w))"
| set_protocol: "dev_step w (snd (dev_SetProtocol now k p w))"
| sweep: "dev_step w (snd (dev_SweepStatuses now a b w))"

lemma dev_wf_faults [simp]: "dev_wf (w\<lparr>w_faults := bs\<rparr>) = dev_wf w"
  by (simp add: dev_wf_def)

lemma dev_wf_db_call:
  assumes "\<And>v. dev_wf v \<Longrightarrow> dev_wf (snd (f v))" and "dev_wf w"
  shows "dev_wf (snd (db_call f w))"
  by (cases rule: db_call_cases[of f w]) (simp_all add: assms)

lemma dev_wf_map:
  assumes "dev_wf w" and "\<And>d. dv_ID (f d) = dv_ID d" and "\<And>d. dv_IMEI (f d) = dv_IMEI d"
  shows "dev_wf (w\<lparr>w_devices := map f (w_devices w)\<rparr>)"
proof -
  have "dv_ID \<circ> f = dv_ID" "dv_IMEI \<circ> f = dv_IMEI" using assms(2,3) by auto
  with assms show ?thesis by (simp add: dev_wf_def)
qed

lemma dev_wf_insert:
  assumes "dev_wf w" and "\<forall>d \<in> set (w_devices w). dv_IMEI d \<noteq> dv_IMEI n" and "dv_ID n = w_nextid w"
  shows "dev_wf (w\<lparr>w_nextid := Suc (w_nextid w), w_devices := w_devices w @ [n]\<rparr>)"
  using assms by (force simp: dev_wf_def less_Suc_eq)

lemma find_None_all: "find P xs = None \<longleftrightarrow> (\<forall>x \<in> set xs. \<not> P x)"
  by (auto simp: find_None_iff)

lemma distinct_map_replace:
  assumes "distinct (map dv_ID ds)" and "distinct (map dv_IMEI ds)" and "dv_ID d' = k"
    and "\<forall>e \<in> set ds. dv_ID e \<noteq> k \<longrightarrow> dv_IMEI e \<noteq> dv_IMEI d'"
  shows "distinct (map dv_ID (map (\<lambda>e. if dv_ID e = k then d' else e) ds))
    \<and> distinct (map dv_IMEI (map (\<lambda>e. if dv_ID e = k then d' else e) ds))"
  using assms
proof (induction ds)
  case (Cons e ds)
  let ?f = "\<lambda>e. if dv_ID e = k then d' else e"
  show ?case
  proof (cases "dv_ID e = k")
    case True
    then have "\<forall>x \<in> set ds. dv_ID x \<noteq> k" using Cons.prems(1) by (force simp: image_iff)
    then have "map ?f ds = ds" by (simp add: map_idI)
    with True Cons.prems \<open>\<forall>x \<in> set ds. dv_ID x \<noteq> k\<close> show ?thesis by force
  next
    case False
    have "\<forall>x \<in> set ds. dv_ID (?f x) \<noteq> dv_ID e \<and> dv_IMEI (?f x) \<noteq> dv_IMEI e"
    proof
      fix x assume "x \<in> set ds"
      then show "dv_ID (?f x) \<noteq> dv_ID e \<and> dv_IMEI (?f x) \<noteq> dv_IMEI e"
        using Cons.prems False by (cases "dv_ID x = k") (auto simp: image_iff)
    qed
    with False Cons show ?thesis by (auto simp: image_iff)
  qed
qed simp

lemma dev_step_wf: "dev_step w w' \<Longrightarrow> dev_wf w \<Longrightarrow> dev_wf w'"
proof (induction rule: dev_step.induct)
  case (create w now i)
  then show ?case
    unfolding dev_Create_def fresh_id_def Let_def prod.case
    by (intro dev_wf_db_call) (simp_all add: dev_wf_insert dev_fill_def blank_device_def)
next
  case (update w now k i)
  have u: "dev_wf (snd (case find (\<lambda>d. dv_ID d = k) (w_devices w) of
       None \<Rightarrow> (Inl ErrNotFound, w)
     | Some d \<Rightarrow>
         if \<exists>e \<in> set (w_devices w). dv_ID e \<noteq> k \<and> dv_IMEI e = trim_space (in_IMEI i)
         then (Inl ErrConflict, w)
         else
           let d' = (dev_fill i d)\<lparr>dv_UpdatedAt := now\<rparr>
           in (Inr d', w\<lparr>w_devices := map (\<lambda>e. if dv_ID e = k then d' else e) (w_devices w)\<rparr>)))"
    if "dev_wf w" for w :: "'x dev_world_scheme"
  proof (cases "find (\<lambda>d. dv_ID d = k) (w_devices w)")
    case None
    then show ?thesis using that by simp
  next
    case (Some d)
    then have d: "dv_ID d = k" "d \<in> set (w_devices w)" by (auto simp: find_Some_iff)
    let ?d = "(dev_fill i d)\<lparr>dv_UpdatedAt := now\<rparr>"
    have k: "dv_ID ?d = k" "dv_IMEI ?d = trim_space (in_IMEI i)" using d by (simp_all add: dev_fill_def)
    show ?thesis
    proof (cases "\<exists>e \<in> set (w_devices w). dv_ID e \<noteq> k \<and> dv_IMEI e = trim_space (in_IMEI i)")
      case True
      then show ?thesis using Some that by simp
    next
      case False
      then have "\<forall>e \<in> set (w_devices w). dv_ID e \<noteq> k \<longrightarrow> dv_IMEI e \<noteq> dv_IMEI ?d" unfolding k(2) by blast
      from distinct_map_replace[OF _ _ k(1) this] that d(2) False show ?thesis
        using Some k(1) by (auto simp: dev_wf_def Let_def)
    qed
  qed
  show ?case
    unfolding dev_Update_def using update by (intro dev_wf_db_call u)
next
  case (delete w k)
  then show ?case
    unfolding dev_Delete_def
    by (intro dev_wf_db_call) (auto simp: dev_wf_def distinct_map_filter)
next
  case (touch w now k seen)
  show ?case
    unfolding dev_Touch_def using touch
    by (intro dev_wf_db_call) (auto intro!: dev_wf_map simp: touch_device_def)
next
  case (set_protocol w now k p)
  show ?case
    unfolding dev_SetProtocol_def using set_protocol
    by (intro dev_wf_db_call) (auto intro!: dev_wf_map)
next
  case (sweep w now a b)
  show ?case
    unfolding dev_SweepStatuses_def Let_def using sweep
    by (intro dev_wf_db_call) (auto intro!: dev_wf_map)
qed

text \<open>Property C17: an identifier belongs to one device.  Starting from a table with distinct keys, no
  sequence of statements, successful or failing, ever makes two rows with the same IMEI or the
  same key, so that a session is always attributed to one device.\<close>

theorem dev_identity_invariant:
  assumes "dev_step\<^sup>*\<^sup>* w w'" and "dev_wf w"
  shows "dev_wf w'"
  using assms by (induction rule: rtranclp_induct) (auto intro: dev_step_wf)

theorem dev_identity_invariant_witness:
  "dev_wf (snd (dev_Create 5 (sample_input\<lparr>in_IMEI := ''1234567890''\<rparr>) sample_dev_world))"
  by (rule dev_identity_invariant[OF r_into_rtranclp[of dev_step, OF dev_step.create]])
     (simp add: dev_wf_def sample_dev_world_def sample_device_def blank_device_def)

end
