(* ===== verification/Commands.thy ===== *)
theory Commands
  imports TCP_Conn Devices
begin

text \<open>
  The package \<^verbatim>\<open>internal/commands\<close>: the table of commands (\<^verbatim>\<open>command.go\<close>) and the service that
  validates, sends and closes them (\<^verbatim>\<open>service.go\<close>).  Every statement of the repository is an
  operation on the list of rows, with the condition of its \<^verbatim>\<open>WHERE\<close> clause; an \<^verbatim>\<open>UPDATE ...
  RETURNING\<close> that matches no row gives \<^verbatim>\<open>ErrNotFound\<close>, as the scan of an empty result does.

  The sender is the manager of the TCP package, through the adapter of \<^verbatim>\<open>cmd/server/main.go\<close>.  The
  telemetry is an interface of the package: its method is the parameter \<open>tel\<close>, and the theory of
  the tracking package supplies it.  The random bytes of a correlation key are the parameter
  \<open>rnd\<close> (\<open>None\<close> when the source of randomness fails), the success of the write is \<open>wok\<close>.
\<close>

section \<open>command.go\<close>

datatype cmd_status = PENDING | SENDING | SENT | ACKNOWLEDGED | FAILED | TIMEOUT | REJECTED

fun status_name :: "cmd_status \<Rightarrow> string" where
  "status_name PENDING = ''PENDING''"
| "status_name SENDING = ''SENDING''"
| "status_name SENT = ''SENT''"
| "status_name ACKNOWLEDGED = ''ACKNOWLEDGED''"
| "status_name FAILED = ''FAILED''"
| "status_name TIMEOUT = ''TIMEOUT''"
| "status_name REJECTED = ''REJECTED''"

definition Terminal :: "cmd_status \<Rightarrow> bool" where
  "Terminal s \<longleftrightarrow> s \<in> {ACKNOWLEDGED, FAILED, TIMEOUT, REJECTED}"

text \<open>The reasons of a refusal and the other texts of the column \<^verbatim>\<open>error\<close>.\<close>

datatype block_reason = NoTelemetry | NoPosition | PositionTooOld duration | TooFast f64

datatype cmd_fault = NoFault | Blocked block_reason | SendFailed send_error | Answer string | NoAnswer

record cmd_row =
  cr_ID :: uuid
  cr_DeviceID :: uuid
  cr_Command :: command_type
  cr_Payload :: string
  cr_Status :: cmd_status
  cr_CorrelationKey :: "32 word"
  cr_RequestedBy :: "uuid option"
  cr_RequestedAt :: time
  cr_SentAt :: "time option"
  cr_AcknowledgedAt :: "time option"
  cr_TimeoutAt :: "time option"
  cr_Response :: string
  cr_Error :: cmd_fault
  cr_CreatedAt :: time

record cmd_world = dev_world +
  w_commands :: "cmd_row list"
  w_tcp :: tcp_state
  w_serial :: "32 word"

text \<open>The \<^verbatim>\<open>INSERT\<close> writes device, command, payload, status, key and user; the other columns get
  their defaults.\<close>

definition insert_row ::
  "time \<Rightarrow> cmd_row \<Rightarrow> 'x cmd_world_scheme \<Rightarrow> (db_error + cmd_row) \<times> 'x cmd_world_scheme" where
  "insert_row now c w =
     (let (k, w) = fresh_id w;
          stored = \<lparr> cr_ID = k, cr_DeviceID = cr_DeviceID c, cr_Command = cr_Command c,
            cr_Payload = cr_Payload c, cr_Status = cr_Status c, cr_CorrelationKey = cr_CorrelationKey c,
            cr_RequestedBy = cr_RequestedBy c, cr_RequestedAt = now, cr_SentAt = None,
            cr_AcknowledgedAt = None, cr_TimeoutAt = None, cr_Response = '''', cr_Error = NoFault,
            cr_CreatedAt = now \<rparr>
      in (Inr (c\<lparr>cr_ID := k, cr_RequestedAt := now, cr_CreatedAt := now\<rparr>),
          w\<lparr>w_commands := w_commands w @ [stored]\<rparr>))"

definition repo_Create ::
  "time \<Rightarrow> cmd_row \<Rightarrow> 'x cmd_world_scheme \<Rightarrow> (db_error + cmd_row) \<times> 'x cmd_world_scheme" where
  "repo_Create now c = db_call (insert_row now c)"

definition update_row ::
  "uuid \<Rightarrow> (cmd_row \<Rightarrow> bool) \<Rightarrow> (cmd_row \<Rightarrow> cmd_row) \<Rightarrow>
   'x cmd_world_scheme \<Rightarrow> (db_error + cmd_row) \<times> 'x cmd_world_scheme" where
  "update_row k P f w =
     (case find (\<lambda>r. cr_ID r = k \<and> P r) (w_commands w) of
        None \<Rightarrow> (Inl ErrNotFound, w)
      | Some r \<Rightarrow> (Inr (f r),
          w\<lparr>w_commands := map (\<lambda>r. if cr_ID r = k \<and> P r then f r else r) (w_commands w)\<rparr>))"

definition repo_update ::
  "uuid \<Rightarrow> (cmd_row \<Rightarrow> bool) \<Rightarrow> (cmd_row \<Rightarrow> cmd_row) \<Rightarrow>
   'x cmd_world_scheme \<Rightarrow> (db_error + cmd_row) \<times> 'x cmd_world_scheme" where
  "repo_update k P f = db_call (update_row k P f)"

definition repo_Get :: "uuid \<Rightarrow> 'x cmd_world_scheme \<Rightarrow> (db_error + cmd_row) \<times> 'x cmd_world_scheme" where
  "repo_Get k = db_call (\<lambda>w.
     case find (\<lambda>r. cr_ID r = k) (w_commands w) of None \<Rightarrow> (Inl ErrNotFound, w) | Some r \<Rightarrow> (Inr r, w))"

definition repo_ListByDevice ::
  "uuid \<Rightarrow> int \<Rightarrow> 'x cmd_world_scheme \<Rightarrow> (db_error + cmd_row list) \<times> 'x cmd_world_scheme" where
  "repo_ListByDevice d limit = db_call (\<lambda>w.
     (Inr (take (if limit \<le> 0 \<or> limit > 500 then 100 else nat limit)
        (rev (sort_key cr_CreatedAt (filter (\<lambda>r. cr_DeviceID r = d) (w_commands w))))), w))"

definition MarkSending :: "uuid \<Rightarrow> 'x cmd_world_scheme \<Rightarrow> (db_error + cmd_row) \<times> 'x cmd_world_scheme" where
  "MarkSending k = repo_update k (\<lambda>r. cr_Status r = PENDING) (\<lambda>r. r\<lparr>cr_Status := SENDING\<rparr>)"

definition MarkSent ::
  "time \<Rightarrow> uuid \<Rightarrow> time \<Rightarrow> 'x cmd_world_scheme \<Rightarrow> (db_error + cmd_row) \<times> 'x cmd_world_scheme" where
  "MarkSent now k timeoutAt = repo_update k (\<lambda>r. cr_Status r \<in> {PENDING, SENDING})
     (\<lambda>r. r\<lparr>cr_Status := SENT, cr_SentAt := Some now, cr_TimeoutAt := Some timeoutAt\<rparr>)"

definition MarkAcknowledged ::
  "time \<Rightarrow> uuid \<Rightarrow> string \<Rightarrow> 'x cmd_world_scheme \<Rightarrow> (db_error + cmd_row) \<times> 'x cmd_world_scheme" where
  "MarkAcknowledged now k response = repo_update k (\<lambda>r. cr_Status r \<in> {PENDING, SENDING, SENT})
     (\<lambda>r. r\<lparr>cr_Status := ACKNOWLEDGED, cr_AcknowledgedAt := Some now, cr_Response := response\<rparr>)"

definition MarkFinal ::
  "uuid \<Rightarrow> cmd_status \<Rightarrow> cmd_fault \<Rightarrow> 'x cmd_world_scheme \<Rightarrow> (db_error + cmd_row) \<times> 'x cmd_world_scheme" where
  "MarkFinal k status reason = repo_update k (\<lambda>r. cr_Status r \<notin> {ACKNOWLEDGED, FAILED, TIMEOUT, REJECTED})
     (\<lambda>r. r\<lparr>cr_Status := status, cr_Error := reason\<rparr>)"

text \<open>\<^verbatim>\<open>ORDER BY created_at DESC LIMIT 1\<close> and \<^verbatim>\<open>ORDER BY created_at LIMIT 1\<close>.\<close>

definition newest :: "cmd_row list \<Rightarrow> cmd_row option" where
  "newest rs = find (\<lambda>r. list_all (\<lambda>q. cr_CreatedAt q \<le> cr_CreatedAt r) rs) (rev rs)"

definition oldest :: "cmd_row list \<Rightarrow> cmd_row option" where
  "oldest rs = find (\<lambda>r. list_all (\<lambda>q. cr_CreatedAt r \<le> cr_CreatedAt q) rs) rs"

definition FindOpenByCorrelation ::
  "uuid \<Rightarrow> 32 word \<Rightarrow> 'x cmd_world_scheme \<Rightarrow> (db_error + cmd_row) \<times> 'x cmd_world_scheme" where
  "FindOpenByCorrelation d key = db_call (\<lambda>w.
     case newest (filter (\<lambda>r. cr_DeviceID r = d \<and> cr_CorrelationKey r = key
         \<and> cr_Status r \<in> {PENDING, SENDING, SENT}) (w_commands w)) of
       None \<Rightarrow> (Inl ErrNotFound, w) | Some r \<Rightarrow> (Inr r, w))"

definition FindOldestOpen :: "uuid \<Rightarrow> 'x cmd_world_scheme \<Rightarrow> (db_error + cmd_row) \<times> 'x cmd_world_scheme" where
  "FindOldestOpen d = db_call (\<lambda>w.
     case oldest (filter (\<lambda>r. cr_DeviceID r = d \<and> cr_Status r \<in> {SENDING, SENT}) (w_commands w)) of
       None \<Rightarrow> (Inl ErrNotFound, w) | Some r \<Rightarrow> (Inr r, w))"

definition expired :: "time \<Rightarrow> cmd_row \<Rightarrow> bool" where
  "expired now r \<longleftrightarrow> cr_Status r \<in> {SENDING, SENT}
     \<and> (case cr_TimeoutAt r of None \<Rightarrow> False | Some t \<Rightarrow> t < now)"

definition expire :: "cmd_row \<Rightarrow> cmd_row" where
  "expire r = r\<lparr>cr_Status := TIMEOUT, cr_Error := NoAnswer\<rparr>"

definition expire_rows :: "time \<Rightarrow> 'x cmd_world_scheme \<Rightarrow> (db_error + cmd_row list) \<times> 'x cmd_world_scheme" where
  "expire_rows now w =
     (Inr (map expire (filter (expired now) (w_commands w))),
      w\<lparr>w_commands := map (\<lambda>r. if expired now r then expire r else r) (w_commands w)\<rparr>)"

definition ExpireTimedOut :: "time \<Rightarrow> 'x cmd_world_scheme \<Rightarrow> (db_error + cmd_row list) \<times> 'x cmd_world_scheme" where
  "ExpireTimedOut now = db_call (expire_rows now)"

definition IsEngineCommand :: "command_type \<Rightarrow> bool" where
  "IsEngineCommand c \<longleftrightarrow> c = CommandEngineCut \<or> c = CommandEngineResume"

section \<open>service.go\<close>

record snapshot =
  sn_HasPosition :: bool
  sn_SpeedKmh :: f64
  sn_Timestamp :: time

record cmd_config =
  cc_AckTimeout :: duration
  cc_EngineCutMaxSpeedKmh :: f64
  cc_EngineCutMaxPositionAge :: duration

record cmd_request =
  rq_Device :: device
  rq_VehicleID :: "uuid option"
  rq_Type :: command_type
  rq_Params :: "string \<rightharpoonup> string"
  rq_RawOverride :: string
  rq_UserID :: "uuid option"
  rq_IP :: string

datatype cmd_error =
    UnknownCommand command_type | NoProtocol | EncodeError string perr | Refused block_reason
  | StoreError db_error

abbreviation (input) EngineCutRequested :: string where "EngineCutRequested \<equiv> ''ENGINE_CUT_REQUESTED''"
abbreviation (input) EngineCutSent :: string where "EngineCutSent \<equiv> ''ENGINE_CUT_SENT''"
abbreviation (input) EngineCutAck :: string where "EngineCutAck \<equiv> ''ENGINE_CUT_ACK''"
abbreviation (input) EngineResumeRequested :: string where "EngineResumeRequested \<equiv> ''ENGINE_RESUME_REQUESTED''"
abbreviation (input) EngineResumeSent :: string where "EngineResumeSent \<equiv> ''ENGINE_RESUME_SENT''"
abbreviation (input) EngineResumeAck :: string where "EngineResumeAck \<equiv> ''ENGINE_RESUME_ACK''"

definition requestedEvent :: "command_type \<Rightarrow> string" where
  "requestedEvent c = (if c = CommandEngineCut then EngineCutRequested
     else if c = CommandEngineResume then EngineResumeRequested else '''')"

definition sentEvent :: "command_type \<Rightarrow> string" where
  "sentEvent c = (if c = CommandEngineCut then EngineCutSent
     else if c = CommandEngineResume then EngineResumeSent else '''')"

definition ackEvent :: "command_type \<Rightarrow> string" where
  "ackEvent c = (if c = CommandEngineCut then EngineCutAck
     else if c = CommandEngineResume then EngineResumeAck else '''')"

text \<open>When the source of randomness fails the key is the low half of the clock.\<close>

definition newCorrelationKey :: "(byte \<times> byte \<times> byte \<times> byte) option \<Rightarrow> time \<Rightarrow> 32 word" where
  "newCorrelationKey rnd now =
     (case rnd of
        None \<Rightarrow> word_of_int now
      | Some (a, b, c, d) \<Rightarrow> let key = uint32_be a b c d in if key = 0 then 1 else key)"

definition printable :: "bytes \<Rightarrow> string" where
  "printable payload = concat (map (\<lambda>b.
     if 0x20 \<le> b \<and> b \<le> 0x7E then [char_of (unat b)] else [CHR 0x5C, CHR ''x''] @ hex_byte True b) payload)"

definition engineCutBlocked :: "cmd_config \<Rightarrow> (db_error + snapshot) \<Rightarrow> time \<Rightarrow> block_reason option" where
  "engineCutBlocked cfg snap now =
     (case snap of
        Inl _ \<Rightarrow> Some NoTelemetry
      | Inr s \<Rightarrow>
          if \<not> sn_HasPosition s then Some NoPosition
          else
            let age = time_sub now (sn_Timestamp s) in
            if age > cc_EngineCutMaxPositionAge cfg then Some (PositionTooOld age)
            else if sn_SpeedKmh s > cc_EngineCutMaxSpeedKmh cfg then Some (TooFast (sn_SpeedKmh s))
            else None)"

definition recordEngineEvent :: "time \<Rightarrow> cmd_row \<Rightarrow> string \<Rightarrow> 'x cmd_world_scheme \<Rightarrow> 'x cmd_world_scheme" where
  "recordEngineEvent now c eventType w =
     (if eventType = '''' then w
      else event_Record now \<lparr> ev_DeviceID = cr_DeviceID c, ev_Type = eventType, ev_Timestamp = now,
        ev_Latitude = None, ev_Longitude = None, ev_SpeedKmh = None,
        ev_Metadata = [(''commandId'', MId (cr_ID c)), (''command'', MStr (cr_Command c)),
          (''status'', MStr (status_name (cr_Status c)))] \<rparr> w)"

definition publish_command ::
  "string \<Rightarrow> uuid option \<Rightarrow> cmd_row \<Rightarrow> 'x cmd_world_scheme \<Rightarrow> 'x cmd_world_scheme" where
  "publish_command topic v c = publish_for topic v (Some (cr_DeviceID c))
     [(''id'', MId (cr_ID c)), (''status'', MStr (status_name (cr_Status c)))]"

definition cmd_audit ::
  "time \<Rightarrow> uuid option \<Rightarrow> string \<Rightarrow> uuid option \<Rightarrow> uuid \<Rightarrow> string \<Rightarrow> string \<Rightarrow> (string \<times> meta) list \<Rightarrow>
   'x cmd_world_scheme \<Rightarrow> 'x cmd_world_scheme" where
  "cmd_audit now user action v d result ip md =
     audit_Record now \<lparr> ae_UserID = user, ae_Action = action, ae_VehicleID = v, ae_DeviceID = Some d,
       ae_Result = result, ae_IPAddress = ip, ae_Metadata = md, ae_CreatedAt = now \<rparr>"

definition rawFor :: "cmd_request \<Rightarrow> string" where
  "rawFor req = (if rq_Type req = CommandCustom then rq_RawOverride req
     else case dv_CommandOverrides (rq_Device req) (rq_Type req) of None \<Rightarrow> '''' | Some r \<Rightarrow> r)"

text \<open>\<^verbatim>\<open>commandSender.Send\<close> of \<^verbatim>\<open>main.go\<close>.\<close>

definition sender_Send ::
  "bool \<Rightarrow> string \<Rightarrow> bytes \<Rightarrow> 'x cmd_world_scheme \<Rightarrow> send_error option \<times> 'x cmd_world_scheme" where
  "sender_Send wok imei payload w =
     (case mgr_Send wok imei payload (w_tcp w) of (e, t) \<Rightarrow> (e, w\<lparr>w_tcp := t\<rparr>))"

definition cmd_dispatch ::
  "cmd_config \<Rightarrow> bool \<Rightarrow> time \<Rightarrow> cmd_request \<Rightarrow> cmd_row \<Rightarrow> bytes \<Rightarrow>
   'x cmd_world_scheme \<Rightarrow> (cmd_row option \<times> cmd_error option) \<times> 'x cmd_world_scheme" where
  "cmd_dispatch cfg wok now req c payload w =
     (case MarkSending (cr_ID c) w of
        (Inl e, w) \<Rightarrow> ((None, Some (StoreError e)), w)
      | (Inr c, w) \<Rightarrow>
          (case sender_Send wok (dv_IMEI (rq_Device req)) payload w of
             (Some se, w) \<Rightarrow>
               (case MarkFinal (cr_ID c) FAILED (SendFailed se) w of
                  (Inl e, w) \<Rightarrow> ((None, Some (StoreError e)), w)
                | (Inr failed, w) \<Rightarrow>
                    ((Some failed, None), publish_command ''command.failed'' (rq_VehicleID req) failed w))
           | (None, w) \<Rightarrow>
               (case MarkSent now (cr_ID c) (now + cc_AckTimeout cfg) w of
                  (Inl e, w) \<Rightarrow> ((None, Some (StoreError e)), w)
                | (Inr sent, w) \<Rightarrow>
                    let w = cmd_audit now (rq_UserID req) ''COMMAND_SENT'' (rq_VehicleID req)
                          (dv_ID (rq_Device req)) ''SENT'' (rq_IP req)
                          [(''command'', MStr (cr_Command sent)), (''commandId'', MId (cr_ID sent))] w;
                        w = recordEngineEvent now sent (sentEvent (cr_Command sent)) w
                    in ((Some sent, None), publish_command ''command.sent'' (rq_VehicleID req) sent w))))"

definition blank_command :: cmd_row where
  "blank_command = \<lparr> cr_ID = 0, cr_DeviceID = 0, cr_Command = '''', cr_Payload = '''',
     cr_Status = PENDING, cr_CorrelationKey = 0, cr_RequestedBy = None, cr_RequestedAt = zero_time,
     cr_SentAt = None, cr_AcknowledgedAt = None, cr_TimeoutAt = None, cr_Response = '''',
     cr_Error = NoFault, cr_CreatedAt = zero_time \<rparr>"

definition cmd_reject ::
  "(byte \<times> byte \<times> byte \<times> byte) option \<Rightarrow> time \<Rightarrow> cmd_request \<Rightarrow> block_reason \<Rightarrow>
   'x cmd_world_scheme \<Rightarrow> (cmd_row option \<times> cmd_error option) \<times> 'x cmd_world_scheme" where
  "cmd_reject rnd now req reason w =
     (let c = blank_command\<lparr>cr_DeviceID := dv_ID (rq_Device req), cr_Command := rq_Type req,
            cr_Status := REJECTED, cr_CorrelationKey := newCorrelationKey rnd now,
            cr_RequestedBy := rq_UserID req, cr_Error := Blocked reason\<rparr> in
      case repo_Create now c w of
        (Inl e, w) \<Rightarrow> ((None, Some (StoreError e)), w)
      | (Inr c, w) \<Rightarrow>
          let (rejected, w) =
                (case MarkFinal (cr_ID c) REJECTED (Blocked reason) w of
                   (Inl _, w) \<Rightarrow> (c, w) | (Inr r, w) \<Rightarrow> (r, w));
              w = cmd_audit now (rq_UserID req) ''COMMAND_REJECTED'' (rq_VehicleID req)
                    (dv_ID (rq_Device req)) ''REJECTED'' (rq_IP req)
                    [(''command'', MStr (cr_Command rejected)), (''commandId'', MId (cr_ID rejected))] w;
              w = publish_command ''command.failed'' (rq_VehicleID req) rejected w
          in ((Some rejected, Some (Refused reason)), w))"

definition proto_command :: "cmd_request \<Rightarrow> 32 word \<Rightarrow> command" where
  "proto_command req key = \<lparr> cmd_Type = rq_Type req, cmd_UniqueID = dv_IMEI (rq_Device req),
     cmd_CorrelationKey = key, cmd_Password = dv_CommandPassword (rq_Device req),
     cmd_Params = rq_Params req, cmd_Raw = rawFor req \<rparr>"

definition cmd_submit ::
  "cmd_config \<Rightarrow> bool \<Rightarrow> time \<Rightarrow> cmd_request \<Rightarrow> string \<Rightarrow> 32 word \<Rightarrow> bytes \<Rightarrow>
   'x cmd_world_scheme \<Rightarrow> (cmd_row option \<times> cmd_error option) \<times> 'x cmd_world_scheme" where
  "cmd_submit cfg wok now req name key payload w =
     (let c = blank_command\<lparr>cr_DeviceID := dv_ID (rq_Device req), cr_Command := rq_Type req,
            cr_Payload := printable payload, cr_Status := PENDING, cr_CorrelationKey := key,
            cr_RequestedBy := rq_UserID req\<rparr> in
      case repo_Create now c w of
        (Inl e, w) \<Rightarrow> ((None, Some (StoreError e)), w)
      | (Inr c, w) \<Rightarrow>
          let w = cmd_audit now (rq_UserID req) ''COMMAND_REQUESTED'' (rq_VehicleID req)
                (dv_ID (rq_Device req)) ''PENDING'' (rq_IP req)
                [(''command'', MStr (cr_Command c)), (''payload'', MStr (cr_Payload c)),
                 (''commandId'', MId (cr_ID c)), (''protocol'', MStr name)] w;
              w = recordEngineEvent now c (requestedEvent (cr_Command c)) w
          in cmd_dispatch cfg wok now req c payload w)"

definition cmd_Send ::
  "cmd_config \<Rightarrow> registry \<Rightarrow> ('x cmd_world_scheme \<Rightarrow> uuid \<Rightarrow> db_error + snapshot) \<Rightarrow> bool \<Rightarrow>
   (byte \<times> byte \<times> byte \<times> byte) option \<Rightarrow> time \<Rightarrow> cmd_request \<Rightarrow>
   'x cmd_world_scheme \<Rightarrow> (cmd_row option \<times> cmd_error option) \<times> 'x cmd_world_scheme" where
  "cmd_Send cfg reg tel wok rnd now req w =
     (if \<not> command_valid (rq_Type req) then ((None, Some (UnknownCommand (rq_Type req))), w)
      else case reg_ByName reg (dv_Protocol (rq_Device req)) of
        None \<Rightarrow> ((None, Some NoProtocol), w)
      | Some p \<Rightarrow>
          (case (if rq_Type req = CommandEngineCut
                 then engineCutBlocked cfg (tel w (dv_ID (rq_Device req))) now else None) of
             Some reason \<Rightarrow> cmd_reject rnd now req reason w
           | None \<Rightarrow>
               let key = newCorrelationKey rnd now;
                   (enc, serial) = proto_EncodeCommand p now (w_serial w) (proto_command req key);
                   w = w\<lparr>w_serial := serial\<rparr> in
               (case enc of
                  Inl e \<Rightarrow> ((None, Some (EncodeError (proto_Name p) e)), w)
                | Inr payload \<Rightarrow>
                    cmd_submit cfg wok now req (proto_Name p) key payload w)))"

text \<open>The prefix that marks an answer matched by order.\<close>

definition order_prefix :: string where
  "order_prefix = ''[correla'' @ [CHR 0xC3, CHR 0xA7, CHR 0xC3, CHR 0xA3] @ ''o por ordem de envio] ''"

text \<open>The command an answer is for: by its key, or else the oldest one that waits.\<close>

definition ack_target ::
  "uuid \<Rightarrow> 32 word \<Rightarrow> 'x cmd_world_scheme \<Rightarrow> (db_error + cmd_row) \<times> 'x cmd_world_scheme" where
  "ack_target d key w =
     (case (if key \<noteq> 0 then FindOpenByCorrelation d key w else (Inl ErrNotFound, w)) of
        (Inl _, w) \<Rightarrow> FindOldestOpen d w
      | (Inr c, w) \<Rightarrow> (Inr c, w))"

definition ack_close ::
  "time \<Rightarrow> uuid \<Rightarrow> string \<Rightarrow> bool \<Rightarrow> 'x cmd_world_scheme \<Rightarrow> (db_error + cmd_row) \<times> 'x cmd_world_scheme" where
  "ack_close now k response success w =
     (if success then MarkAcknowledged now k response w else MarkFinal k FAILED (Answer response) w)"

definition HandleAck ::
  "time \<Rightarrow> uuid \<Rightarrow> uuid option \<Rightarrow> 32 word \<Rightarrow> string \<Rightarrow> bool \<Rightarrow> 'x cmd_world_scheme \<Rightarrow> 'x cmd_world_scheme" where
  "HandleAck now d v key response success w =
     (case ack_target d key w of
        (Inl _, w) \<Rightarrow> w
      | (Inr c, w) \<Rightarrow>
          let exact = (key \<noteq> 0);
              response = (if exact then response else order_prefix @ response) in
          (case ack_close now (cr_ID c) response success w of
             (Inl _, w) \<Rightarrow> w
           | (Inr u, w) \<Rightarrow>
               let w = cmd_audit now (cr_RequestedBy u) ''COMMAND_RESULT'' v d
                         (status_name (cr_Status u)) ''''
                         [(''command'', MStr (cr_Command u)), (''commandId'', MId (cr_ID u)),
                          (''response'', MStr response), (''exactMatch'', MBool exact)] w;
                   w = recordEngineEvent now u (ackEvent (cr_Command u)) w
               in publish_command (if success then ''command.acknowledged'' else ''command.failed'') v u w))"

fun sweep_expired :: "time \<Rightarrow> cmd_row list \<Rightarrow> 'x cmd_world_scheme \<Rightarrow> 'x cmd_world_scheme" where
  "sweep_expired now [] w = w"
| "sweep_expired now (c # cs) w =
     sweep_expired now cs
       (publish_command ''command.failed'' None c
         (cmd_audit now (cr_RequestedBy c) ''COMMAND_RESULT'' None (cr_DeviceID c) ''TIMEOUT'' ''''
           [(''command'', MStr (cr_Command c)), (''commandId'', MId (cr_ID c))] w))"

definition SweepTimeouts :: "time \<Rightarrow> 'x cmd_world_scheme \<Rightarrow> 'x cmd_world_scheme" where
  "SweepTimeouts now w =
     (case ExpireTimedOut now w of (Inl _, w) \<Rightarrow> w | (Inr cs, w) \<Rightarrow> sweep_expired now cs w)"

end
