(* ===== verification/Commands_Props.thy ===== *)
theory Commands_Props
  imports Commands Devices_Props
begin

text \<open>
  The properties of the command service: the safety rule of the engine cut, the life cycle of a
  command under every interleaving of the statements of concurrent requests, acknowledgements and
  sweeps, the outcome of a request, the matching of answers, and the places where the code does
  not do what its comments say.
\<close>

section \<open>What the side effects keep\<close>

lemma more_eq_fields:
  fixes w w' :: "'x cmd_world_scheme"
  assumes "base_world.more w' = base_world.more w"
  shows "w_commands w' = w_commands w \<and> w_tcp w' = w_tcp w \<and> w_serial w' = w_serial w
    \<and> w_devices w' = w_devices w"
  using assms by (cases w; cases w') simp

lemma side_effect_fields:
  fixes f :: "'x cmd_world_scheme \<Rightarrow> 'x cmd_world_scheme"
  assumes "side_effect f"
  shows "w_commands (f w) = w_commands w" "w_tcp (f w) = w_tcp w" "w_serial (f w) = w_serial w"
    "w_devices (f w) = w_devices w" "w_nextid (f w) = w_nextid w"
  using assms more_eq_fields[of "f w" w] by (simp_all add: side_effect_def)

lemma cmd_audit_side: "side_effect (cmd_audit now u a v d r ip md)"
  unfolding cmd_audit_def by (rule audit_Record_side)

lemma recordEngineEvent_side: "side_effect (recordEngineEvent now c e)"
  using event_Record_side by (cases "e = ''''") (simp_all add: recordEngineEvent_def side_effect_def)

lemma publish_command_side: "side_effect (publish_command t v c)"
  unfolding publish_command_def by (rule publish_for_side)

lemmas side_simps [simp] =
  side_effect_fields[OF cmd_audit_side] side_effect_fields[OF recordEngineEvent_side]
  side_effect_fields[OF publish_command_side]

lemma sweep_expired_fields [simp]:
  "w_commands (sweep_expired now cs w) = w_commands w" "w_tcp (sweep_expired now cs w) = w_tcp w"
  "w_nextid (sweep_expired now cs w) = w_nextid w"
  by (induction cs arbitrary: w) simp_all

section \<open>Statements\<close>

lemma repo_update_cases:
  assumes "repo_update k P f w = (res, w')"
  obtains (fault) bs where "res = Inl ErrDB" "w' = w\<lparr>w_faults := bs\<rparr>"
  | (none) bs where "res = Inl ErrNotFound" "w' = w\<lparr>w_faults := bs\<rparr>"
      "\<forall>r \<in> set (w_commands w). \<not> (cr_ID r = k \<and> P r)"
  | (hit) bs r where "res = Inr (f r)" "r \<in> set (w_commands w)" "cr_ID r = k" "P r"
      "w' = w\<lparr>w_faults := bs, w_commands := map (\<lambda>r. if cr_ID r = k \<and> P r then f r else r) (w_commands w)\<rparr>"
proof (cases rule: db_call_cases[of "update_row k P f" w])
  case (fault bs)
  then show ?thesis using that(1)[of bs] assms by (auto simp: repo_update_def)
next
  case (run bs)
  show ?thesis
  proof (cases "find (\<lambda>r. cr_ID r = k \<and> P r) (w_commands w)")
    case None
    then have "\<forall>r \<in> set (w_commands w). \<not> (cr_ID r = k \<and> P r)" by (simp add: find_None_iff)
    with None show ?thesis using that(2)[of bs] assms run by (auto simp: repo_update_def update_row_def)
  next
    case (Some r)
    then have "r \<in> set (w_commands w)" "cr_ID r = k" "P r" by (auto simp: find_Some_iff)
    with Some show ?thesis using that(3)[of r bs] assms run by (auto simp: repo_update_def update_row_def)
  qed
qed

lemma repo_update_keeps [simp]:
  "w_tcp (snd (repo_update k P f w)) = w_tcp w" "w_nextid (snd (repo_update k P f w)) = w_nextid w"
proof -
  obtain res w' where r: "repo_update k P f w = (res, w')" by fastforce
  then show "w_tcp (snd (repo_update k P f w)) = w_tcp w" "w_nextid (snd (repo_update k P f w)) = w_nextid w"
    by (cases rule: repo_update_cases[OF r]; auto)+
qed

lemmas mark_defs = MarkSending_def MarkSent_def MarkAcknowledged_def MarkFinal_def

section \<open>The life cycle\<close>

text \<open>What a row of the table always satisfies.\<close>

definition row_ok :: "cmd_row \<Rightarrow> bool" where
  "row_ok r \<longleftrightarrow> (cr_Status r = SENT \<longrightarrow> cr_SentAt r \<noteq> None)
     \<and> (cr_SentAt r = None \<longleftrightarrow> cr_TimeoutAt r = None)
     \<and> (cr_AcknowledgedAt r \<noteq> None \<longleftrightarrow> cr_Status r = ACKNOWLEDGED)
     \<and> (cr_Status r \<in> {PENDING, SENDING} \<longrightarrow> cr_SentAt r = None)"

text \<open>One statement of any of the concurrent activities: a request creates, locks, marks as sent or
  as failed or as refused; an answer acknowledges or fails; a sweep expires; everything else leaves
  the table alone.\<close>

inductive cmd_step :: "'x cmd_world_scheme \<Rightarrow> 'x cmd_world_scheme \<Rightarrow> bool" where
  create: "cr_Status c \<in> {PENDING, REJECTED} \<Longrightarrow> cmd_step w (snd (repo_Create now c w))"
| sending: "cmd_step w (snd (MarkSending k w))"
| sent: "cmd_step w (snd (MarkSent now k t w))"
| acknowledged: "cmd_step w (snd (MarkAcknowledged now k resp w))"
| final: "st \<in> {FAILED, REJECTED} \<Longrightarrow> cmd_step w (snd (MarkFinal k st reason w))"
| expire: "cmd_step w (snd (ExpireTimedOut now w))"
| other: "w_commands w' = w_commands w \<Longrightarrow> w_nextid w' = w_nextid w \<Longrightarrow> cmd_step w w'"

text \<open>What no statement ever changes of a row.\<close>

definition same_order :: "cmd_row \<Rightarrow> cmd_row \<Rightarrow> bool" where
  "same_order r r' \<longleftrightarrow> cr_ID r' = cr_ID r \<and> cr_DeviceID r' = cr_DeviceID r
     \<and> cr_Command r' = cr_Command r \<and> cr_Payload r' = cr_Payload r
     \<and> cr_CorrelationKey r' = cr_CorrelationKey r \<and> cr_RequestedBy r' = cr_RequestedBy r"

lemmas row_facts = Terminal_def row_ok_def same_order_def

lemma same_order_refl: "same_order r r"
  by (simp add: same_order_def)

lemma same_order_trans: "same_order r q \<Longrightarrow> same_order q p \<Longrightarrow> same_order r p"
  by (simp add: same_order_def)

text \<open>The contract that the service relies on, for whatever store it is given.\<close>

locale command_store =
  fixes rows :: "'s \<Rightarrow> cmd_row list" and step :: "'s \<Rightarrow> 's \<Rightarrow> bool"
  assumes closed_stays: "step s s' \<Longrightarrow> r \<in> set (rows s) \<Longrightarrow> Terminal (cr_Status r) \<Longrightarrow> r \<in> set (rows s')"
    and ok_kept: "step s s' \<Longrightarrow> list_all row_ok (rows s) \<Longrightarrow> list_all row_ok (rows s')"
    and old_rows: "step s s' \<Longrightarrow> r \<in> set (rows s) \<Longrightarrow>
      \<exists>r' \<in> set (rows s'). same_order r r'"
begin

lemma closed_forever:
  "step\<^sup>*\<^sup>* s s' \<Longrightarrow> r \<in> set (rows s) \<Longrightarrow> Terminal (cr_Status r) \<Longrightarrow> r \<in> set (rows s')"
  by (induction rule: rtranclp_induct) (auto intro: closed_stays)

lemma ok_forever: "step\<^sup>*\<^sup>* s s' \<Longrightarrow> list_all row_ok (rows s) \<Longrightarrow> list_all row_ok (rows s')"
  by (induction rule: rtranclp_induct) (auto intro: ok_kept)

lemma nothing_is_lost:
  "step\<^sup>*\<^sup>* s s' \<Longrightarrow> r \<in> set (rows s) \<Longrightarrow>
     \<exists>r' \<in> set (rows s'). same_order r r'"
proof (induction rule: rtranclp_induct)
  case (step y z)
  then obtain q where q: "q \<in> set (rows y)" "same_order r q" by blast
  from old_rows[OF step.hyps(2) q(1)] show ?case using same_order_trans[OF q(2)] by blast
qed (auto intro: same_order_refl)

end

text \<open>What one update does to the rows.\<close>

lemma update_rows:
  "w_commands (snd (repo_update k P f w)) \<in>
     {w_commands w, map (\<lambda>r. if cr_ID r = k \<and> P r then f r else r) (w_commands w)}"
proof -
  obtain res w' where r: "repo_update k P f w = (res, w')" by fastforce
  then show ?thesis by (cases rule: repo_update_cases[OF r]) auto
qed

text \<open>An update of open rows that keeps their well-formedness and what the order was.\<close>

definition open_update :: "cmd_row list \<Rightarrow> cmd_row list \<Rightarrow> bool" where
  "open_update rs rs' \<longleftrightarrow> (\<exists>P f. rs' = map (\<lambda>r. if P r then f r else r) rs
     \<and> (\<forall>r. P r \<longrightarrow> \<not> Terminal (cr_Status r) \<and> (row_ok r \<longrightarrow> row_ok (f r)) \<and> same_order r (f r)))"

lemma open_updateI:
  assumes "rs' = map (\<lambda>r. if P r then f r else r) rs"
    and "\<And>r. P r \<Longrightarrow> \<not> Terminal (cr_Status r)" and "\<And>r. P r \<Longrightarrow> row_ok r \<Longrightarrow> row_ok (f r)"
    and "\<And>r. same_order r (f r)"
  shows "open_update rs rs'"
  unfolding open_update_def using assms by blast

lemma open_update_refl: "open_update rs rs"
  by (rule open_updateI[where P = "\<lambda>_. False" and f = id]) (simp_all add: same_order_refl)

lemma guarded_update:
  assumes "\<And>r. P r \<Longrightarrow> \<not> Terminal (cr_Status r)" and "\<And>r. P r \<Longrightarrow> row_ok r \<Longrightarrow> row_ok (f r)"
    and "\<And>r. same_order r (f r)"
  shows "open_update (w_commands w) (w_commands (snd (repo_update k P f w)))"
proof -
  have "open_update (w_commands w) (map (\<lambda>r. if cr_ID r = k \<and> P r then f r else r) (w_commands w))"
    by (rule open_updateI[OF refl]) (use assms in auto)
  then show ?thesis using update_rows[of k P f w] open_update_refl by auto
qed

lemma step_rows:
  assumes "cmd_step w w'"
  obtains (new) c where "w_commands w' = w_commands w @ [c]" "row_ok c"
      "cr_ID c = w_nextid w" "w_nextid w' = Suc (w_nextid w)"
  | (update) "open_update (w_commands w) (w_commands w')" "w_nextid w' = w_nextid w"
  using assms
proof cases
  case (create c now)
  show ?thesis
  proof (cases rule: db_call_cases[of "insert_row now c" w])
    case (fault bs)
    then show ?thesis using create update by (simp add: repo_Create_def open_update_refl)
  next
    case (run bs)
    then have "w_commands w' = w_commands w @ [\<lparr> cr_ID = w_nextid w, cr_DeviceID = cr_DeviceID c,
        cr_Command = cr_Command c, cr_Payload = cr_Payload c, cr_Status = cr_Status c,
        cr_CorrelationKey = cr_CorrelationKey c, cr_RequestedBy = cr_RequestedBy c,
        cr_RequestedAt = now, cr_SentAt = None, cr_AcknowledgedAt = None, cr_TimeoutAt = None,
        cr_Response = '''', cr_Error = NoFault, cr_CreatedAt = now \<rparr>]"
      using create(1) by (simp add: repo_Create_def insert_row_def fresh_id_def Let_def)
    then show ?thesis
      by (rule new) (use create run in \<open>auto simp: row_ok_def repo_Create_def insert_row_def fresh_id_def Let_def\<close>)
  qed
next
  case (sending k)
  have "open_update (w_commands w) (w_commands w')"
    unfolding sending MarkSending_def by (rule guarded_update) (auto simp: row_facts)
  then show ?thesis by (rule update) (simp add: sending mark_defs)
next
  case (sent now k t)
  have "open_update (w_commands w) (w_commands w')"
    unfolding sent MarkSent_def by (rule guarded_update) (auto simp: row_facts)
  then show ?thesis by (rule update) (simp add: sent mark_defs)
next
  case (acknowledged now k resp)
  have "open_update (w_commands w) (w_commands w')"
    unfolding acknowledged MarkAcknowledged_def by (rule guarded_update) (auto simp: row_facts)
  then show ?thesis by (rule update) (simp add: acknowledged mark_defs)
next
  case (final st k reason)
  have "open_update (w_commands w) (w_commands (snd (MarkFinal k st reason w)))"
    unfolding MarkFinal_def by (rule guarded_update) (use final in \<open>auto simp: row_facts\<close>)
  then show ?thesis using final update by (simp add: mark_defs)
next
  case (expire now)
  show ?thesis
  proof (cases rule: db_call_cases[of "expire_rows now" w])
    case (fault bs)
    then show ?thesis using expire update by (simp add: ExpireTimedOut_def open_update_refl)
  next
    case (run bs)
    then have "w_commands w' = map (\<lambda>r. if expired now r then Commands.expire r else r) (w_commands w)"
      using expire by (simp add: ExpireTimedOut_def expire_rows_def)
    then have "open_update (w_commands w) (w_commands w')"
      by (rule open_updateI) (auto simp: expired_def expire_def row_facts split: option.splits)
    then show ?thesis using run expire by (intro update) (simp_all add: ExpireTimedOut_def expire_rows_def)
  qed
next
  case other
  then show ?thesis using update by (simp add: open_update_refl)
qed

interpretation repo: command_store w_commands cmd_step
proof
  fix s s' :: "'x cmd_world_scheme" and r
  assume "cmd_step s s'" and "r \<in> set (w_commands s)"
  then show "r \<in> set (w_commands s')" if "Terminal (cr_Status r)"
    using that by (cases rule: step_rows) (auto simp: open_update_def image_iff)
next
  fix s s' :: "'x cmd_world_scheme"
  assume "cmd_step s s'" and "list_all row_ok (w_commands s)"
  then show "list_all row_ok (w_commands s')"
    by (cases rule: step_rows) (auto simp: list_all_iff open_update_def)
next
  fix s s' :: "'x cmd_world_scheme" and r
  assume "cmd_step s s'" and r: "r \<in> set (w_commands s)"
  then show "\<exists>r' \<in> set (w_commands s'). same_order r r'"
  proof (cases rule: step_rows)
    case update
    then obtain P f where w: "w_commands s' = map (\<lambda>r. if P r then f r else r) (w_commands s)"
      and "\<forall>r. P r \<longrightarrow> same_order r (f r)" unfolding open_update_def by blast
    then have "same_order r (if P r then f r else r)" by (simp add: same_order_refl)
    moreover have "(if P r then f r else r) \<in> set (w_commands s')" unfolding w using r by auto
    ultimately show ?thesis by blast
  qed (use r in \<open>auto intro: same_order_refl\<close>)
qed

section \<open>The operations are sequences of statements\<close>

lemma steps_case:
  assumes "cmd_step w (snd x)"
    and "\<And>e w'. x = (Inl e, w') \<Longrightarrow> cmd_step\<^sup>*\<^sup>* w' (F (f e w'))"
    and "\<And>a w'. x = (Inr a, w') \<Longrightarrow> cmd_step\<^sup>*\<^sup>* w' (F (g a w'))"
  shows "cmd_step\<^sup>*\<^sup>* w (F (case x of (Inl e, w') \<Rightarrow> f e w' | (Inr a, w') \<Rightarrow> g a w'))"
proof (cases x)
  case (Pair r w')
  then have "cmd_step w w'" using assms(1) by simp
  moreover have "cmd_step\<^sup>*\<^sup>* w' (F (case x of (Inl e, w') \<Rightarrow> f e w' | (Inr a, w') \<Rightarrow> g a w'))"
    using assms(2,3) Pair by (cases r) auto
  ultimately show ?thesis by (rule converse_rtranclp_into_rtranclp)
qed

lemma steps_other:
  "w_commands w' = w_commands w \<Longrightarrow> w_nextid w' = w_nextid w \<Longrightarrow> cmd_step\<^sup>*\<^sup>* w w'"
  by (rule r_into_rtranclp) (rule cmd_step.other)

lemma steps_before:
  "w_commands v = w_commands w \<Longrightarrow> w_nextid v = w_nextid w \<Longrightarrow> cmd_step\<^sup>*\<^sup>* v w' \<Longrightarrow> cmd_step\<^sup>*\<^sup>* w w'"
  by (rule converse_rtranclp_into_rtranclp) (rule cmd_step.other)

lemma find_step: "cmd_step w (snd (FindOpenByCorrelation d key w))" "cmd_step w (snd (FindOldestOpen d w))"
proof -
  have "cmd_step w (snd (db_call (\<lambda>w. case F w of None \<Rightarrow> (Inl ErrNotFound, w) | Some r \<Rightarrow> (Inr r, w)) w))"
    for F :: "'a cmd_world_scheme \<Rightarrow> cmd_row option"
    by (cases rule: db_call_cases[of "\<lambda>w. case F w of None \<Rightarrow> (Inl ErrNotFound, w) | Some r \<Rightarrow> (Inr r, w)" w])
       (auto split: option.splits intro: cmd_step.other)
  note finds = this
  show "cmd_step w (snd (FindOpenByCorrelation d key w))"
    unfolding FindOpenByCorrelation_def by (rule finds)
  show "cmd_step w (snd (FindOldestOpen d w))"
    unfolding FindOldestOpen_def by (rule finds)
qed

lemma sender_keeps:
  assumes "sender_Send wok imei payload w = (e, w')"
  shows "w_commands w' = w_commands w" "w_nextid w' = w_nextid w"
    "mgr_Send wok imei payload (w_tcp w) = (e, w_tcp w')"
  using assms by (auto simp: sender_Send_def split: prod.splits)

lemma dispatch_steps: "cmd_step\<^sup>*\<^sup>* w (snd (cmd_dispatch cfg wok now req c payload w))"
  unfolding cmd_dispatch_def
proof (rule steps_case, goal_cases)
  case 1
  show ?case by (rule cmd_step.sending)
next
  case (2 e w')
  show ?case by simp
next
  case (3 c1 w1)
  obtain e w2 where s: "sender_Send wok (dv_IMEI (rq_Device req)) payload w1 = (e, w2)" by fastforce
  show ?case
  proof (cases e)
    case None
    show ?thesis
      by (rule steps_before[OF sender_keeps(1,2)[OF s]], unfold s None prod.case option.case, rule steps_case)
         (simp_all add: Let_def cmd_step.sent steps_other)
  next
    case (Some se)
    show ?thesis
      by (rule steps_before[OF sender_keeps(1,2)[OF s]], unfold s Some prod.case option.case, rule steps_case)
         (simp_all add: cmd_step.final steps_other)
  qed
qed

lemma reject_steps: "cmd_step\<^sup>*\<^sup>* w (snd (cmd_reject rnd now req reason w))"
  unfolding cmd_reject_def Let_def
proof (rule steps_case, goal_cases)
  case 1
  show ?case by (rule cmd_step.create) simp
next
  case (3 c w1)
  obtain r w2 where f: "MarkFinal (cr_ID c) REJECTED (Blocked reason) w1 = (r, w2)" by fastforce
  then have "cmd_step w1 w2" using cmd_step.final[of REJECTED w1 "cr_ID c" "Blocked reason"] by simp
  then show ?case
    by (rule converse_rtranclp_into_rtranclp) (simp add: f steps_other split: sum.split)
qed simp

lemma submit_steps: "cmd_step\<^sup>*\<^sup>* w (snd (cmd_submit cfg wok now req name key payload w))"
  unfolding cmd_submit_def Let_def
proof (rule steps_case, goal_cases)
  case 1
  show ?case by (rule cmd_step.create) simp
next
  case (3 c w1)
  show ?case by (rule steps_before[OF _ _ dispatch_steps]) simp_all
qed simp

lemma send_steps: "cmd_step\<^sup>*\<^sup>* w (snd (cmd_Send cfg reg tel wok rnd now req w))"
proof -
  have "cmd_step\<^sup>*\<^sup>* w (snd (cmd_submit cfg wok now req name key payload (w\<lparr>w_serial := n\<rparr>)))"
    for name key payload n
    by (rule steps_before[OF _ _ submit_steps]) simp_all
  then show ?thesis
    by (auto simp: cmd_Send_def Let_def reject_steps intro!: steps_other
      split: option.split prod.split sum.split)
qed

lemma target_step: "cmd_step\<^sup>*\<^sup>* w (snd (ack_target d key w))"
proof -
  have "cmd_step\<^sup>*\<^sup>* w (snd (case FindOpenByCorrelation d key w of
      (Inl e, w) \<Rightarrow> FindOldestOpen d w | (Inr c, w) \<Rightarrow> (Inr c, w)))"
    by (rule steps_case) (simp_all add: find_step r_into_rtranclp)
  then show ?thesis by (simp add: ack_target_def find_step r_into_rtranclp)
qed

lemma close_step: "cmd_step w (snd (ack_close now k response success w))"
  by (simp add: ack_close_def cmd_step.acknowledged cmd_step.final)

lemma ack_steps: "cmd_step\<^sup>*\<^sup>* w (HandleAck now d v key response success w)"
proof (cases "ack_target d key w")
  case (Pair r w1)
  have "cmd_step\<^sup>*\<^sup>* w w1" using target_step[of w d key] Pair by simp
  moreover have "cmd_step\<^sup>*\<^sup>* w1 (HandleAck now d v key response success w)"
  proof (cases r)
    case (Inr c)
    show ?thesis unfolding HandleAck_def Pair Inr Let_def prod.case sum.case
      by (rule steps_case[where F = "\<lambda>x. x"]) (simp_all add: close_step steps_other)
  qed (simp add: HandleAck_def Pair)
  ultimately show ?thesis by simp
qed

lemma sweep_steps: "cmd_step\<^sup>*\<^sup>* w (SweepTimeouts now w)"
  unfolding SweepTimeouts_def
  by (rule steps_case[where F = "\<lambda>x. x"]) (simp_all add: cmd_step.expire steps_other)

section \<open>The safety rule\<close>

lemma repo_Create_run:
  assumes "repo_Create now c w = (Inr c', w')"
  shows "cr_ID c' = w_nextid w" "w_tcp w' = w_tcp w" "w_nextid w' = Suc (w_nextid w)"
    "w_commands w' = w_commands w @ [c'\<lparr>cr_SentAt := None, cr_AcknowledgedAt := None,
       cr_TimeoutAt := None, cr_Response := '''', cr_Error := NoFault\<rparr>]"
    "c' = c\<lparr>cr_ID := w_nextid w, cr_RequestedAt := now, cr_CreatedAt := now\<rparr>"
proof -
  obtain bs where e: "insert_row now c (w\<lparr>w_faults := bs\<rparr>) = (Inr c', w')"
    using assms by (cases rule: db_call_cases[of "insert_row now c" w]) (auto simp: repo_Create_def)
  show "cr_ID c' = w_nextid w" "w_tcp w' = w_tcp w" "w_nextid w' = Suc (w_nextid w)"
    "w_commands w' = w_commands w @ [c'\<lparr>cr_SentAt := None, cr_AcknowledgedAt := None,
       cr_TimeoutAt := None, cr_Response := '''', cr_Error := NoFault\<rparr>]"
    "c' = c\<lparr>cr_ID := w_nextid w, cr_RequestedAt := now, cr_CreatedAt := now\<rparr>"
    using e by (auto simp: insert_row_def fresh_id_def Let_def)
qed

lemma repo_Create_tcp [simp]: "w_tcp (snd (repo_Create now c w)) = w_tcp w"
  unfolding repo_Create_def
  by (cases rule: db_call_cases[of "insert_row now c" w]) (simp_all add: insert_row_def fresh_id_def Let_def)

lemma reject_tcp: "w_tcp (snd (cmd_reject rnd now req reason w)) = w_tcp w"
proof -
  let ?c = "blank_command\<lparr>cr_DeviceID := dv_ID (rq_Device req), cr_Command := rq_Type req,
     cr_Status := REJECTED, cr_CorrelationKey := newCorrelationKey rnd now,
     cr_RequestedBy := rq_UserID req, cr_Error := Blocked reason\<rparr>"
  obtain r w1 where c: "repo_Create now ?c w = (r, w1)" by fastforce
  then have w1: "w_tcp w1 = w_tcp w" using repo_Create_tcp[of now ?c w] by simp
  show ?thesis
  proof (cases r)
    case (Inr c1)
    obtain r2 w2 where f: "MarkFinal (cr_ID c1) REJECTED (Blocked reason) w1 = (r2, w2)" by fastforce
    then have "w_tcp w2 = w_tcp w1"
      using repo_update_keeps(1)[of "cr_ID c1" _ _ w1] unfolding MarkFinal_def by (metis snd_conv)
    then show ?thesis using c w1 Inr f by (cases r2) (simp_all add: cmd_reject_def Let_def)
  qed (use c w1 in \<open>simp add: cmd_reject_def Let_def\<close>)
qed

lemma engine_cut_rule:
  assumes "rq_Type req = CommandEngineCut" and "cmd_Send cfg reg tel wok rnd now req w = (res, w')"
    and "w_tcp w' \<noteq> w_tcp w"
  shows "\<exists>s. tel w (dv_ID (rq_Device req)) = Inr s \<and> sn_HasPosition s
    \<and> time_sub now (sn_Timestamp s) \<le> cc_EngineCutMaxPositionAge cfg
    \<and> \<not> sn_SpeedKmh s > cc_EngineCutMaxSpeedKmh cfg"
proof -
  have "engineCutBlocked cfg (tel w (dv_ID (rq_Device req))) now = None"
  proof (rule ccontr)
    assume "engineCutBlocked cfg (tel w (dv_ID (rq_Device req))) now \<noteq> None"
    then have "w_tcp (snd (cmd_Send cfg reg tel wok rnd now req w)) = w_tcp w"
      using assms(1) by (auto simp: cmd_Send_def reject_tcp split: option.split)
    with assms(2,3) show False by simp
  qed
  then show ?thesis
    by (auto simp: engineCutBlocked_def Let_def split: sum.splits if_splits)
qed

text \<open>Property C1: a request to cut the engine puts bytes on the wire only when the backend knows that
  the vehicle stands still.  Whatever the protocol, the state of the sessions, the random key, the
  faults of the database and the answer of the telemetry, if a request of the type ENGINE_CUT
  changes what has been written to any tracker, then the telemetry of the device was readable, it
  has a position, the position is not older than the configured limit and its speed is not above
  the configured one.\<close>

theorem engine_cut_safe:
  assumes "rq_Type req = CommandEngineCut" and "cmd_Send cfg reg tel wok rnd now req w = (res, w')"
    and "w_tcp w' \<noteq> w_tcp w"
  shows "\<exists>s. tel w (dv_ID (rq_Device req)) = Inr s \<and> sn_HasPosition s
    \<and> time_sub now (sn_Timestamp s) \<le> cc_EngineCutMaxPositionAge cfg
    \<and> \<not> sn_SpeedKmh s > cc_EngineCutMaxSpeedKmh cfg"
  using assms by (rule engine_cut_rule)

text \<open>A vehicle that stands still, with its tracker connected.\<close>

definition sample_snapshot :: snapshot where
  "sample_snapshot = \<lparr> sn_HasPosition = True, sn_SpeedKmh = Fin 0, sn_Timestamp = 0 \<rparr>"

definition sample_config :: cmd_config where
  "sample_config = \<lparr> cc_AckTimeout = 30 * second, cc_EngineCutMaxSpeedKmh = Fin 5,
     cc_EngineCutMaxPositionAge = 120 * second \<rparr>"

definition sample_request :: cmd_request where
  "sample_request = \<lparr> rq_Device = sample_device\<lparr>dv_Protocol := ''tkstar_v1''\<rparr>, rq_VehicleID = None,
     rq_Type = ''ENGINE_CUT'', rq_Params = Map.empty, rq_RawOverride = '''', rq_UserID = Some 9,
     rq_IP = '''' \<rparr>"

definition sample_tcp :: tcp_state where
  "sample_tcp = \<lparr> ts_conns = (\<lambda>_. (newConnection 0)\<lparr>dc_imei := ''869247061234567''\<rparr>),
     ts_manager = [(''869247061234567'', 0)], ts_notified = [] \<rparr>"

definition sample_cmd_world :: cmd_world where
  "sample_cmd_world = \<lparr> w_faults = [], w_nextid = 7, w_audit = [], w_events = [], w_published = [],
     w_devices = [sample_device], w_commands = [], w_tcp = sample_tcp, w_serial = 0 \<rparr>"

abbreviation sample_tel :: "cmd_world \<Rightarrow> uuid \<Rightarrow> db_error + snapshot" where
  "sample_tel \<equiv> \<lambda>_ _. Inr sample_snapshot"

lemma sample_relay: "v1_EncodeCommand (proto_command sample_request key) = Inr (bytes_of_str ''RELAY,1#'')"
  by (simp add: v1_EncodeCommand_def tk_encodeCommand_def tk_commandText_def proto_command_def
      sample_request_def sample_device_def blank_device_def rawFor_def required_def defaultCommands_def
      sample_trims has_suffix_def re_safe_text_def printable_char_def)

section \<open>The outcome of a request\<close>

definition cmd_wf :: "'x cmd_world_scheme \<Rightarrow> bool" where
  "cmd_wf w \<longleftrightarrow> distinct (map cr_ID (w_commands w)) \<and> list_all (\<lambda>r. cr_ID r < w_nextid w) (w_commands w)"

lemma open_update_ids:
  assumes "open_update rs rs'"
  shows "map cr_ID rs' = map cr_ID rs"
proof -
  obtain P f where "rs' = map (\<lambda>r. if P r then f r else r) rs" and "\<forall>r. P r \<longrightarrow> same_order r (f r)"
    using assms unfolding open_update_def by blast
  then show ?thesis by (simp add: same_order_def)
qed

lemma cmd_step_wf:
  assumes "cmd_step w w'" and "cmd_wf w"
  shows "cmd_wf w'"
  using assms(1)
proof (cases rule: step_rows)
  case (new c)
  then show ?thesis using assms(2) by (auto simp: cmd_wf_def list_all_iff)
next
  case update
  have "list_all (\<lambda>r. cr_ID r < n) rs = list_all (\<lambda>i. i < n) (map cr_ID rs)" for n rs
    by (simp add: list.pred_map comp_def)
  then show ?thesis using assms(2) update(2) open_update_ids[OF update(1)]
    unfolding cmd_wf_def by metis
qed

lemma quiet_effects [simp]:
  assumes "w_faults w = []"
  shows "w_faults (cmd_audit now u a v d r ip md w) = []" "w_faults (recordEngineEvent now c e w) = []"
    "w_faults (publish_command t v c w) = []"
  using assms by (simp_all add: cmd_audit_def audit_Record_def audit_Create_def db_call_def
      recordEngineEvent_def event_Record_def event_Create_def publish_command_def publish_for_def Let_def)

lemma update_row_last:
  assumes "w_commands w = rs @ [r]" and "cr_ID r = k" and "list_all (\<lambda>q. cr_ID q \<noteq> k) rs" and "P r"
  shows "update_row k P f w = (Inr (f r), w\<lparr>w_commands := rs @ [f r]\<rparr>)"
proof -
  have "find (\<lambda>r. cr_ID r = k \<and> P r) (rs @ [r]) = Some r"
    using assms(2-4) by (induction rs) auto
  moreover have "map (\<lambda>r. if cr_ID r = k \<and> P r then f r else r) rs = rs"
    using assms(3) by (induction rs) auto
  ultimately show ?thesis using assms by (simp add: update_row_def)
qed

lemma update_last:
  assumes "w_faults w = []" and "w_commands w = rs @ [r]" and "cr_ID r = k"
    and "list_all (\<lambda>q. cr_ID q \<noteq> k) rs" and "P r"
  shows "repo_update k P f w = (Inr (f r), w\<lparr>w_commands := rs @ [f r]\<rparr>)"
  using update_row_last[of w rs r k P f] assms by (simp add: repo_update_def db_call_def)

lemma dispatch_outcome:
  assumes "w_faults w = []" and "w_commands w = rs @ [r]" and "cr_ID r = cr_ID c" and "cr_Status r = PENDING"
    and "list_all (\<lambda>q. cr_ID q \<noteq> cr_ID c) rs"
    and send: "mgr_Send wok (dv_IMEI (rq_Device req)) payload (w_tcp w) = (e, t)"
  shows "\<exists>row w'. cmd_dispatch cfg wok now req c payload w = ((Some row, None), w')
    \<and> w_commands w' = rs @ [row] \<and> w_tcp w' = t \<and> w_nextid w' = w_nextid w
    \<and> row = (case e of
         None \<Rightarrow> r\<lparr>cr_Status := SENT, cr_SentAt := Some now, cr_TimeoutAt := Some (now + cc_AckTimeout cfg)\<rparr>
       | Some se \<Rightarrow> r\<lparr>cr_Status := FAILED, cr_Error := SendFailed se\<rparr>)"
proof -
  let ?r1 = "r\<lparr>cr_Status := SENDING\<rparr>"
  define w2 where "w2 = w\<lparr>w_commands := rs @ [?r1], w_tcp := t\<rparr>"
  have m: "MarkSending (cr_ID c) w = (Inr ?r1, w\<lparr>w_commands := rs @ [?r1]\<rparr>)"
    unfolding MarkSending_def by (rule update_last) (use assms in simp_all)
  have s: "sender_Send wok (dv_IMEI (rq_Device req)) payload (w\<lparr>w_commands := rs @ [?r1]\<rparr>) = (e, w2)"
    using send by (simp add: sender_Send_def w2_def)
  have f: "MarkFinal (cr_ID c) FAILED reason w2 = (Inr (?r1\<lparr>cr_Status := FAILED, cr_Error := reason\<rparr>),
      w2\<lparr>w_commands := rs @ [?r1\<lparr>cr_Status := FAILED, cr_Error := reason\<rparr>]\<rparr>)" for reason
    unfolding MarkFinal_def by (rule update_last) (use assms in \<open>simp_all add: w2_def\<close>)
  have d: "MarkSent now (cr_ID c) x w2 =
     (Inr (?r1\<lparr>cr_Status := SENT, cr_SentAt := Some now, cr_TimeoutAt := Some x\<rparr>),
      w2\<lparr>w_commands := rs @ [?r1\<lparr>cr_Status := SENT, cr_SentAt := Some now, cr_TimeoutAt := Some x\<rparr>]\<rparr>)" for x
    unfolding MarkSent_def by (rule update_last) (use assms in \<open>simp_all add: w2_def\<close>)
  show ?thesis using assms(3)
    by (cases e; simp add: cmd_dispatch_def m s f d Let_def) (simp_all add: w2_def)
qed

lemma quiet_create:
  assumes "w_faults w = []"
  obtains c' w' where "repo_Create now c w = (Inr c', w')" "w_faults w' = []"
  using assms that by (simp add: repo_Create_def db_call_def insert_row_def fresh_id_def Let_def)

lemma submit_outcome:
  assumes "cmd_wf w" and "w_faults w = []"
    and send: "mgr_Send wok (dv_IMEI (rq_Device req)) payload (w_tcp w) = (e, t)"
  shows "\<exists>row w'. cmd_submit cfg wok now req name key payload w = ((Some row, None), w')
    \<and> w_commands w' = w_commands w @ [row] \<and> w_tcp w' = t
    \<and> cr_ID row = w_nextid w \<and> cr_DeviceID row = dv_ID (rq_Device req) \<and> cr_Command row = rq_Type req
    \<and> cr_Payload row = printable payload \<and> cr_CorrelationKey row = key \<and> cr_AcknowledgedAt row = None
    \<and> (case e of
         None \<Rightarrow> cr_Status row = SENT \<and> cr_TimeoutAt row = Some (now + cc_AckTimeout cfg)
       | Some se \<Rightarrow> cr_Status row = FAILED \<and> cr_Error row = SendFailed se)"
proof -
  let ?c = "blank_command\<lparr>cr_DeviceID := dv_ID (rq_Device req), cr_Command := rq_Type req,
     cr_Payload := printable payload, cr_Status := PENDING, cr_CorrelationKey := key,
     cr_RequestedBy := rq_UserID req\<rparr>"
  obtain c w1 where c: "repo_Create now ?c w = (Inr c, w1)" and q: "w_faults w1 = []"
    using quiet_create[OF assms(2)] by metis
  note run = repo_Create_run[OF c]
  define w2 where "w2 = recordEngineEvent now c (requestedEvent (cr_Command c))
    (cmd_audit now (rq_UserID req) ''COMMAND_REQUESTED'' (rq_VehicleID req) (dv_ID (rq_Device req))
      ''PENDING'' (rq_IP req) [(''command'', MStr (cr_Command c)), (''payload'', MStr (cr_Payload c)),
        (''commandId'', MId (cr_ID c)), (''protocol'', MStr name)] w1)"
  define r where "r = c\<lparr>cr_SentAt := None, cr_AcknowledgedAt := None,
       cr_TimeoutAt := None, cr_Response := '''', cr_Error := NoFault\<rparr>"
  have "\<exists>row w'. cmd_dispatch cfg wok now req c payload w2 = ((Some row, None), w')
    \<and> w_commands w' = w_commands w @ [row] \<and> w_tcp w' = t \<and> w_nextid w' = w_nextid w2
    \<and> row = (case e of
         None \<Rightarrow> r\<lparr>cr_Status := SENT, cr_SentAt := Some now, cr_TimeoutAt := Some (now + cc_AckTimeout cfg)\<rparr>
       | Some se \<Rightarrow> r\<lparr>cr_Status := FAILED, cr_Error := SendFailed se\<rparr>)"
  proof (rule dispatch_outcome)
    show "list_all (\<lambda>q. cr_ID q \<noteq> cr_ID c) (w_commands w)"
      using assms(1) run(1) by (auto simp: cmd_wf_def list_all_iff)
    show "mgr_Send wok (dv_IMEI (rq_Device req)) payload (w_tcp w2) = (e, t)"
      using send run(2) by (simp add: w2_def)
    show "w_commands w2 = w_commands w @ [r]" using run(4) by (simp add: w2_def r_def)
    show "cr_Status r = PENDING" using run(5) by (simp add: r_def)
  qed (simp_all add: w2_def q r_def)
  then show ?thesis
    using c run(1,5) by (cases e) (auto simp: cmd_submit_def w2_def r_def)
qed


lemma sample_facts:
  "cmd_wf sample_cmd_world" "w_faults sample_cmd_world = []" "command_valid (rq_Type sample_request)"
  "rq_Type sample_request = ''ENGINE_CUT''"
  "reg_ByName (server_registry False 0 False) (dv_Protocol (rq_Device sample_request)) = Some (TKStarV1 False)"
  "engineCutBlocked sample_config (Inr sample_snapshot) 0 = None"
  "mgr_Send True (dv_IMEI (rq_Device sample_request)) (bytes_of_str ''RELAY,1#'') (w_tcp sample_cmd_world)
     = (None, upd_conn 0 (\<lambda>d. d\<lparr>dc_written := dc_written d @ [bytes_of_str ''RELAY,1#'']\<rparr>) sample_tcp)"
  using server_names[of "TKStarV1 False" False 0 False]
  by (simp_all add: cmd_wf_def sample_cmd_world_def sample_request_def command_valid_def AllCommandTypes_def
      server_registry_def v1_Name_def engineCutBlocked_def sample_config_def sample_snapshot_def
      time_sub_def second_def mgr_Send_def mgr_Get_def conn_Send_def sample_tcp_def sample_device_def
      blank_device_def newConnection_def)

lemmas sample_outcome = submit_outcome[OF sample_facts(1,2,7)]


theorem engine_cut_safe_witness:
  "\<exists>s. (Inr sample_snapshot :: db_error + snapshot) = Inr s \<and> sn_HasPosition s
    \<and> time_sub 0 (sn_Timestamp s) \<le> cc_EngineCutMaxPositionAge sample_config
    \<and> \<not> sn_SpeedKmh s > cc_EngineCutMaxSpeedKmh sample_config"
proof -
  let ?run = "cmd_Send sample_config (server_registry False 0 False) sample_tel True None 0 sample_request
      sample_cmd_world"
  have "?run = cmd_submit sample_config True 0 sample_request ''tkstar_v1'' (newCorrelationKey None 0)
       (bytes_of_str ''RELAY,1#'') (sample_cmd_world\<lparr>w_serial := w_serial sample_cmd_world\<rparr>)"
    by (simp add: cmd_Send_def sample_facts sample_relay v1_Name_def command_valid_def AllCommandTypes_def)
  then obtain row w' where run: "?run = ((Some row, None), w')"
    and t: "w_tcp w' = upd_conn 0 (\<lambda>d. d\<lparr>dc_written := dc_written d @ [bytes_of_str ''RELAY,1#'']\<rparr>) sample_tcp"
    using sample_outcome[of sample_config 0 "''tkstar_v1''" "newCorrelationKey None 0"] by auto
  have "dc_written (ts_conns (w_tcp w') 0) \<noteq> dc_written (ts_conns (w_tcp sample_cmd_world) 0)"
    by (simp add: t upd_conn_def sample_cmd_world_def sample_tcp_def newConnection_def)
  then have "w_tcp w' \<noteq> w_tcp sample_cmd_world" by metis
  from engine_cut_safe[OF sample_facts(4) run this] show ?thesis by simp
qed

section \<open>Answers\<close>

lemma newest_mem: "newest rs = Some r \<Longrightarrow> r \<in> set rs"
  unfolding newest_def find_Some_iff by (metis nth_mem set_rev)

lemma oldest_mem: "oldest rs = Some r \<Longrightarrow> r \<in> set rs"
  by (auto simp: oldest_def find_Some_iff)

lemma find_row:
  assumes "db_call (\<lambda>w. case F (w_commands w) of None \<Rightarrow> (Inl ErrNotFound, w) | Some r \<Rightarrow> (Inr r, w)) w = (res, w')"
  shows "w_commands w' = w_commands w" "res = Inr r \<Longrightarrow> F (w_commands w) = Some r"
proof -
  let ?f = "\<lambda>w. case F (w_commands w) of None \<Rightarrow> (Inl ErrNotFound, w) | Some r \<Rightarrow> (Inr r, w)"
  have "w_commands w' = w_commands w \<and> (res = Inr r \<longrightarrow> F (w_commands w) = Some r)"
    using assms by (cases rule: db_call_cases[of ?f w]) (auto split: option.splits)
  then show "w_commands w' = w_commands w" "res = Inr r \<Longrightarrow> F (w_commands w) = Some r" by auto
qed

text \<open>The command an answer is matched with is open and belongs to the device that answered.\<close>

lemma ack_target_row:
  assumes "ack_target d key w = (res, w')"
  shows "w_commands w' = w_commands w"
    "res = Inr c \<Longrightarrow> c \<in> set (w_commands w) \<and> cr_DeviceID c = d \<and> \<not> Terminal (cr_Status c)"
proof -
  have key: "w_commands w1 = w_commands w0 \<and> (r = Inr c \<longrightarrow> c \<in> set (w_commands w0) \<and> cr_DeviceID c = d
      \<and> \<not> Terminal (cr_Status c))" if "FindOpenByCorrelation d key w0 = (r, w1)" for w0 w1 r
    using find_row(1)[OF that[unfolded FindOpenByCorrelation_def]] find_row(2)[OF that[unfolded FindOpenByCorrelation_def], where r = c]
      newest_mem
    by (fastforce simp: Terminal_def)
  have old: "w_commands w1 = w_commands w0 \<and> (r = Inr c \<longrightarrow> c \<in> set (w_commands w0) \<and> cr_DeviceID c = d
      \<and> \<not> Terminal (cr_Status c))" if "FindOldestOpen d w0 = (r, w1)" for w0 w1 r
    using find_row(1)[OF that[unfolded FindOldestOpen_def]] find_row(2)[OF that[unfolded FindOldestOpen_def], where r = c]
      oldest_mem
    by (fastforce simp: Terminal_def)
  have "w_commands w' = w_commands w \<and> (res = Inr c \<longrightarrow> c \<in> set (w_commands w) \<and> cr_DeviceID c = d
      \<and> \<not> Terminal (cr_Status c))"
  proof (cases "key = 0")
    case True
    then show ?thesis using assms old by (simp add: ack_target_def)
  next
    case False
    obtain r w1 where f: "FindOpenByCorrelation d key w = (r, w1)" by fastforce
    then show ?thesis using assms False key[OF f] old[of w1 res w']
      by (cases r) (auto simp: ack_target_def)
  qed
  then show "w_commands w' = w_commands w"
    "res = Inr c \<Longrightarrow> c \<in> set (w_commands w) \<and> cr_DeviceID c = d \<and> \<not> Terminal (cr_Status c)" by auto
qed

lemma distinct_ids_eq:
  "distinct (map cr_ID rs) \<Longrightarrow> r \<in> set rs \<Longrightarrow> q \<in> set rs \<Longrightarrow> cr_ID r = cr_ID q \<Longrightarrow> r = q"
  by (auto simp: distinct_map inj_on_def)

lemma ack_close_row:
  assumes "distinct (map cr_ID (w_commands w))" and "c \<in> set (w_commands w)" and "r \<in> set (w_commands w)"
    and "r \<noteq> c"
  shows "r \<in> set (w_commands (snd (ack_close now (cr_ID c) resp success w)))"
proof -
  have "cr_ID r \<noteq> cr_ID c" using distinct_ids_eq[OF assms(1,3,2)] assms(4) by blast
  then have "r \<in> set (w_commands (snd (repo_update (cr_ID c) P f w)))" for P f
    using update_rows[of "cr_ID c" P f w] assms(3) by force
  then show ?thesis by (simp add: ack_close_def mark_defs)
qed

text \<open>Property C7: an answer of one tracker never touches the commands of another, nor more than one
  of its own.  Whatever key and text the tracker sends, every row of another device is still there,
  unchanged; and at most one row changes at all, an open one of the device that answered.\<close>

theorem ack_isolated:
  assumes "cmd_wf w"
  shows "\<exists>c. set (w_commands w) - set (w_commands (HandleAck now d v key resp success w))
    \<subseteq> {r. r = c \<and> cr_DeviceID r = d \<and> \<not> Terminal (cr_Status r)}"
proof -
  obtain res w1 where t: "ack_target d key w = (res, w1)" by fastforce
  note w1 = ack_target_row(1)[OF t]
  show ?thesis
  proof (cases res)
    case (Inl e)
    then show ?thesis using t w1 by (simp add: HandleAck_def)
  next
    case (Inr c)
    note row = ack_target_row(2)[OF t Inr]
    have "r = c" if "r \<in> set (w_commands w)" "r \<notin> set (w_commands (HandleAck now d v key resp success w))" for r
    proof (rule ccontr)
      let ?resp = "if key \<noteq> 0 then resp else order_prefix @ resp"
      assume "r \<noteq> c"
      then have keep: "r \<in> set (w_commands (snd (ack_close now (cr_ID c) ?resp success w1)))"
        using that(1) row assms w1 by (intro ack_close_row) (simp_all add: cmd_wf_def)
      obtain u w2 where "ack_close now (cr_ID c) ?resp success w1 = (u, w2)" by fastforce
      with keep t Inr that(2) show False
        by (cases u) (auto simp: HandleAck_def Let_def split: if_splits)
    qed
    then show ?thesis using row by blast
  qed
qed

lemma quiet_update:
  assumes "cmd_wf w" and "w_faults w = []" and "c \<in> set (w_commands w)" and "P c"
  shows "repo_update (cr_ID c) P f w =
    (Inr (f c), w\<lparr>w_commands := map (\<lambda>r. if r = c then f c else r) (w_commands w)\<rparr>)"
proof -
  have only: "r = c" if "r \<in> set (w_commands w)" "cr_ID r = cr_ID c" for r
    using assms(1,3) that distinct_ids_eq unfolding cmd_wf_def by blast
  have "find (\<lambda>r. cr_ID r = cr_ID c \<and> P r) (w_commands w) = Some c"
  proof (cases "find (\<lambda>r. cr_ID r = cr_ID c \<and> P r) (w_commands w)")
    case None
    then show ?thesis using assms(3,4) by (auto simp: find_None_iff)
  next
    case (Some r)
    then have "r \<in> set (w_commands w)" "cr_ID r = cr_ID c" by (auto simp: find_Some_iff)
    then show ?thesis using Some only by simp
  qed
  moreover have "map (\<lambda>r. if cr_ID r = cr_ID c \<and> P r then f r else r) (w_commands w)
      = map (\<lambda>r. if r = c then f c else r) (w_commands w)"
    using only assms(4) by (intro map_cong) auto
  ultimately show ?thesis using assms(2) by (simp add: repo_update_def update_row_def db_call_def)
qed

definition open_with_key :: "uuid \<Rightarrow> 32 word \<Rightarrow> cmd_row list \<Rightarrow> cmd_row list" where
  "open_with_key d key = filter (\<lambda>r. cr_DeviceID r = d \<and> cr_CorrelationKey r = key
     \<and> cr_Status r \<in> {PENDING, SENDING, SENT})"

definition waiting_rows :: "uuid \<Rightarrow> cmd_row list \<Rightarrow> cmd_row list" where
  "waiting_rows d = filter (\<lambda>r. cr_DeviceID r = d \<and> cr_Status r \<in> {SENDING, SENT})"

lemma quiet_target:
  assumes "w_faults w = []"
  shows "ack_target d key w =
    (case (if key = 0 then None else newest (open_with_key d key (w_commands w))) of
       Some c \<Rightarrow> (Inr c, w)
     | None \<Rightarrow> (case oldest (waiting_rows d (w_commands w)) of Some c \<Rightarrow> (Inr c, w) | None \<Rightarrow> (Inl ErrNotFound, w)))"
  using assms
  by (simp add: ack_target_def FindOpenByCorrelation_def FindOldestOpen_def db_call_def
      open_with_key_def waiting_rows_def split: option.split)

text \<open>What a successful answer does to the table, once its command is found.\<close>

lemma ack_run:
  assumes "cmd_wf w" and "w_faults w = []" and "ack_target d key w = (Inr c, w)"
  shows "w_commands (HandleAck now d v key resp True w) =
    map (\<lambda>r. if r = c then c\<lparr>cr_Status := ACKNOWLEDGED, cr_AcknowledgedAt := Some now,
       cr_Response := (if key = 0 then order_prefix @ resp else resp)\<rparr> else r) (w_commands w)"
proof -
  have c: "c \<in> set (w_commands w)" "cr_Status c \<in> {PENDING, SENDING, SENT}"
    using ack_target_row(2)[OF assms(3) refl] by (cases "cr_Status c"; simp add: Terminal_def)+
  show ?thesis
    using quiet_update[OF assms(1,2) c(1), of "\<lambda>r. cr_Status r \<in> {PENDING, SENDING, SENT}"] c(2) assms(3)
    by (simp add: HandleAck_def ack_close_def MarkAcknowledged_def Let_def)
qed

text \<open>Property C6: an answer that carries the key of an open command acknowledges exactly that
  command, with the text of the answer, and changes no other row.\<close>

theorem ack_exact:
  assumes "cmd_wf w" and "w_faults w = []" and "key \<noteq> 0" and "open_with_key d key (w_commands w) = [c]"
  shows "w_commands (HandleAck now d v key resp True w) =
    map (\<lambda>r. if r = c then c\<lparr>cr_Status := ACKNOWLEDGED, cr_AcknowledgedAt := Some now, cr_Response := resp\<rparr>
      else r) (w_commands w)"
  using ack_run[OF assms(1,2), of d key c now v resp] assms(3,4)
  by (simp add: quiet_target[OF assms(2)] newest_def)

text \<open>Property C37: an answer whose key matches nothing is taken for another command.  The key of the
  answer belongs to no open command of the device; the service then takes the oldest one that
  waits, acknowledges it with the text of the answer, and since the key was not zero the text does
  not get the mark that tells a match by order from an exact one.\<close>

theorem unmatched_key_closes_oldest:
  assumes "cmd_wf w" and "w_faults w = []" and "key \<noteq> 0" and "open_with_key d key (w_commands w) = []"
    and "oldest (waiting_rows d (w_commands w)) = Some c"
  shows "cr_CorrelationKey c \<noteq> key \<and> w_commands (HandleAck now d v key resp True w) =
    map (\<lambda>r. if r = c then c\<lparr>cr_Status := ACKNOWLEDGED, cr_AcknowledgedAt := Some now, cr_Response := resp\<rparr>
      else r) (w_commands w)"
proof
  have "c \<in> set (waiting_rows d (w_commands w))" by (rule oldest_mem[OF assms(5)])
  then show "cr_CorrelationKey c \<noteq> key"
    using assms(4) by (auto simp: waiting_rows_def open_with_key_def filter_empty_conv)
  show "w_commands (HandleAck now d v key resp True w) = map (\<lambda>r. if r = c
      then c\<lparr>cr_Status := ACKNOWLEDGED, cr_AcknowledgedAt := Some now, cr_Response := resp\<rparr> else r) (w_commands w)"
    using ack_run[OF assms(1,2), of d key c now v resp] assms(3-5)
    by (simp add: quiet_target[OF assms(2)] newest_def)
qed

definition sample_row :: cmd_row where
  "sample_row = blank_command\<lparr>cr_ID := 3, cr_DeviceID := 1, cr_Command := ''REQUEST_STATUS'',
     cr_Status := SENT, cr_CorrelationKey := 77, cr_SentAt := Some 0, cr_TimeoutAt := Some (30 * second)\<rparr>"

lemma sample_row_world:
  "cmd_wf (sample_cmd_world\<lparr>w_commands := [sample_row]\<rparr>)"
  "w_faults (sample_cmd_world\<lparr>w_commands := [sample_row]\<rparr>) = []"
  "w_commands (sample_cmd_world\<lparr>w_commands := [sample_row]\<rparr>) = [sample_row]"
  by (simp_all add: cmd_wf_def sample_cmd_world_def sample_row_def)

theorem ack_exact_witness:
  "w_commands (HandleAck 5 1 None 77 ''OK'' True (sample_cmd_world\<lparr>w_commands := [sample_row]\<rparr>))
     = [sample_row\<lparr>cr_Status := ACKNOWLEDGED, cr_AcknowledgedAt := Some 5, cr_Response := ''OK''\<rparr>]"
  using ack_exact[OF sample_row_world(1,2), of 77 1 sample_row 5 None "''OK''"]
  by (simp add: sample_row_world(3) open_with_key_def) (simp add: sample_row_def)

theorem unmatched_key_closes_oldest_witness:
  "w_commands (HandleAck 5 1 None 78 ''OK'' True (sample_cmd_world\<lparr>w_commands := [sample_row]\<rparr>))
     = [sample_row\<lparr>cr_Status := ACKNOWLEDGED, cr_AcknowledgedAt := Some 5, cr_Response := ''OK''\<rparr>]"
  using unmatched_key_closes_oldest[OF sample_row_world(1,2), of 78 1 sample_row 5 None "''OK''"]
  by (simp add: sample_row_world(3) open_with_key_def waiting_rows_def oldest_def) (simp add: sample_row_def)

theorem ack_isolated_witness:
  "\<exists>c. set (w_commands (sample_cmd_world\<lparr>w_commands := [sample_row]\<rparr>))
       - set (w_commands (HandleAck 0 1 None 77 ''OK'' True (sample_cmd_world\<lparr>w_commands := [sample_row]\<rparr>)))
     \<subseteq> {r. r = c \<and> cr_DeviceID r = 1 \<and> \<not> Terminal (cr_Status r)}"
  by (rule ack_isolated[OF sample_row_world(1)])

section \<open>Interleavings and deadlines\<close>


text \<open>Property C2: a closed command is final.  Under every interleaving of statements a row that is
  acknowledged, failed, timed out or refused stays in the table exactly as it is: a late answer, a
  late sweep or a late mark of a slow request cannot reopen or rewrite it.\<close>

theorem closed_commands_stay:
  assumes "cmd_step\<^sup>*\<^sup>* w w'" and "r \<in> set (w_commands w)" and "Terminal (cr_Status r)"
  shows "r \<in> set (w_commands w')"
  using assms by (rule repo.closed_forever)

theorem closed_commands_stay_witness:
  "sample_row\<lparr>cr_Status := TIMEOUT\<rparr> \<in> set (w_commands (snd (MarkAcknowledged 9 3 ''OK''
     (sample_cmd_world\<lparr>w_commands := [sample_row\<lparr>cr_Status := TIMEOUT\<rparr>]\<rparr>))))"
  by (rule closed_commands_stay[OF r_into_rtranclp[of cmd_step, OF cmd_step.acknowledged]])
     (simp_all add: Terminal_def)



lemma expire_not_expired: "\<not> expired now (expire r)"
  by (simp add: expired_def expire_def)



text \<open>Property C38: a command can be sent and never get a deadline.  When the write to the tracker
  succeeds and the statement that records it fails, the caller gets an error although the bytes
  are on the wire, the row stays SENDING without a deadline, and no sweep, however late, closes
  it.\<close>

theorem sent_without_deadline:
  assumes "w_faults w = [False, True]" and "w_commands w = rs @ [r]" and "cr_ID r = cr_ID c"
    and "cr_Status r = PENDING" and "cr_TimeoutAt r = None" and "list_all (\<lambda>q. cr_ID q \<noteq> cr_ID c) rs"
    and "mgr_Send wok (dv_IMEI (rq_Device req)) payload (w_tcp w) = (None, t)"
  shows "\<exists>w'. cmd_dispatch cfg wok now req c payload w = ((None, Some (StoreError ErrDB)), w')
    \<and> w_tcp w' = t \<and> w_commands w' = rs @ [r\<lparr>cr_Status := SENDING\<rparr>]
    \<and> (\<forall>later. r\<lparr>cr_Status := SENDING\<rparr> \<in> set (w_commands (SweepTimeouts later w')))"
proof -
  let ?r = "r\<lparr>cr_Status := SENDING\<rparr>"
  define w1 where "w1 = w\<lparr>w_faults := [True], w_commands := rs @ [?r]\<rparr>"
  define w2 where "w2 = w\<lparr>w_faults := [], w_commands := rs @ [?r], w_tcp := t\<rparr>"
  have "update_row (cr_ID c) (\<lambda>r. cr_Status r = PENDING) (\<lambda>r. r\<lparr>cr_Status := SENDING\<rparr>) (w\<lparr>w_faults := [True]\<rparr>)
      = (Inr ?r, w1)"
    unfolding w1_def by (rule update_row_last[THEN trans]) (use assms in simp_all)
  then have "MarkSending (cr_ID c) w = (Inr ?r, w1)"
    using assms(1) by (simp add: MarkSending_def repo_update_def db_call_def)
  moreover have "sender_Send wok (dv_IMEI (rq_Device req)) payload w1 = (None, w1\<lparr>w_tcp := t\<rparr>)"
    using assms(7) by (simp add: sender_Send_def w1_def)
  moreover have "MarkSent now (cr_ID c) x (w1\<lparr>w_tcp := t\<rparr>) = (Inl ErrDB, w2)" for x
    by (simp add: MarkSent_def repo_update_def db_call_def w1_def w2_def)
  moreover have "?r \<in> set (w_commands (SweepTimeouts later w2))" for later
    using assms(5) by (auto simp: SweepTimeouts_def ExpireTimedOut_def db_call_def expire_rows_def w2_def
      expired_def)
  ultimately show ?thesis using assms(3) by (simp add: cmd_dispatch_def w2_def)
qed

definition sample_pending :: cmd_row where
  "sample_pending = sample_row\<lparr>cr_Status := PENDING, cr_SentAt := None, cr_TimeoutAt := None\<rparr>"

lemma sample_faulty_send:
  "mgr_Send True (dv_IMEI (rq_Device sample_request)) (bytes_of_str ''RELAY,1#'')
     (w_tcp (sample_cmd_world\<lparr>w_faults := [False, True], w_commands := [sample_pending]\<rparr>))
   = (None, upd_conn 0 (\<lambda>d. d\<lparr>dc_written := dc_written d @ [bytes_of_str ''RELAY,1#'']\<rparr>) sample_tcp)"
  using sample_facts(7) by simp

theorem sent_without_deadline_witness:
  "\<exists>w'. cmd_dispatch sample_config True 0 sample_request sample_pending (bytes_of_str ''RELAY,1#'')
       (sample_cmd_world\<lparr>w_faults := [False, True], w_commands := [sample_pending]\<rparr>)
     = ((None, Some (StoreError ErrDB)), w')
     \<and> (\<forall>later. sample_pending\<lparr>cr_Status := SENDING\<rparr> \<in> set (w_commands (SweepTimeouts later w')))"
  using sent_without_deadline[OF _ _ _ _ _ _ sample_faulty_send, of "[]" sample_pending sample_pending
      sample_config 0] by (auto simp: sample_pending_def)

text \<open>A speed that is not a number passes the rule of the engine cut.  The comparison
  with the limit is false for NaN, so a snapshot with a fresh position and the speed NaN blocks
  nothing.\<close>

theorem nan_speed_not_blocked:
  "engineCutBlocked cfg (Inr \<lparr> sn_HasPosition = True, sn_SpeedKmh = NaN, sn_Timestamp = now \<rparr>) now
     = (if 0 \<le> cc_EngineCutMaxPositionAge cfg then None else Some (PositionTooOld 0))"
  by (cases "cc_EngineCutMaxSpeedKmh cfg")
     (auto simp: engineCutBlocked_def time_sub_def less_f64_def Let_def)

text \<open>The reason of a refusal is not stored.  The row of a refused command is inserted as REJECTED;
  the update that should add the reason skips closed rows.\<close>

theorem reject_reason_lost:
  assumes "cmd_wf w" and "w_faults w = []"
  shows "\<exists>row w'. snd (cmd_reject rnd now req reason w) = w' \<and> w_commands w' = w_commands w @ [row]
    \<and> cr_Status row = REJECTED \<and> cr_Error row = NoFault"
proof -
  let ?c = "blank_command\<lparr>cr_DeviceID := dv_ID (rq_Device req), cr_Command := rq_Type req,
     cr_Status := REJECTED, cr_CorrelationKey := newCorrelationKey rnd now,
     cr_RequestedBy := rq_UserID req, cr_Error := Blocked reason\<rparr>"
  obtain c w1 where c: "repo_Create now ?c w = (Inr c, w1)" and q: "w_faults w1 = []"
    using quiet_create[OF assms(2)] by metis
  note run = repo_Create_run[OF c]
  have "\<not> (cr_ID r = cr_ID c \<and> cr_Status r \<notin> {ACKNOWLEDGED, FAILED, TIMEOUT, REJECTED})"
    if "r \<in> set (w_commands w1)" for r
    using that run(1,4,5) assms(1) by (auto simp: cmd_wf_def list_all_iff)
  then have "MarkFinal (cr_ID c) REJECTED (Blocked reason) w1 = (Inl ErrNotFound, w1)"
    using q by (auto simp: MarkFinal_def repo_update_def db_call_def update_row_def find_None_iff
        split: option.splits dest: find_Some_iff[THEN iffD1])
  then show ?thesis using c run(4,5) by (simp add: cmd_reject_def)
qed

end
