(* ===== verification/Fleet.thy ===== *)
theory Fleet
  imports Commands
begin

text \<open>
  The packages \<^verbatim>\<open>internal/vehicles\<close> and \<^verbatim>\<open>internal/geofences\<close>: the vehicles with the tracker each
  carries, and the circular fences with the copy of the active ones that the service keeps in
  memory.  The constraints of the tables (the plate and the tracker of a vehicle are unique, the
  tracker exists) give the errors that \<^verbatim>\<open>MapError\<close> returns.

  Go does not fix the last bits of \<^verbatim>\<open>math.Sin\<close> and its like, so these functions are a parameter of
  the model, the record \<open>go_math\<close>; the arithmetic around them is the arithmetic of \<^verbatim>\<open>float64\<close>.
\<close>

section \<open>vehicle.go\<close>

record vehicle =
  ve_ID :: uuid
  ve_Name :: string
  ve_Plate :: string
  ve_Brand :: string
  ve_Model :: string
  ve_Year :: "int option"
  ve_Color :: string
  ve_SpeedLimitKmh :: "f64 option"
  ve_DeviceID :: "uuid option"
  ve_CreatedAt :: time
  ve_UpdatedAt :: time

record vehicle_input =
  vi_Name :: string
  vi_Plate :: string
  vi_Brand :: string
  vi_Model :: string
  vi_Year :: "int option"
  vi_Color :: string
  vi_SpeedLimitKmh :: "f64 option"
  vi_DeviceID :: "uuid option"

record geofence =
  gf_ID :: uuid
  gf_Name :: string
  gf_Latitude :: f64
  gf_Longitude :: f64
  gf_RadiusMeters :: f64
  gf_Active :: bool
  gf_CreatedAt :: time
  gf_UpdatedAt :: time

record fence_input =
  fi_Name :: string
  fi_Latitude :: f64
  fi_Longitude :: f64
  fi_RadiusMeters :: f64
  fi_Active :: "bool option"

record fleet_world = cmd_world +
  w_vehicles :: "vehicle list"
  w_geofences :: "geofence list"
  w_fence_cache :: "geofence list"

definition vehicle_plate :: "vehicle_input \<Rightarrow> string" where
  "vehicle_plate i = to_upper (trim_space (vi_Plate i))"

definition vehicle_of :: "vehicle_input \<Rightarrow> uuid \<Rightarrow> time \<Rightarrow> time \<Rightarrow> vehicle" where
  "vehicle_of i k created updated = \<lparr> ve_ID = k, ve_Name = vi_Name i, ve_Plate = vehicle_plate i,
     ve_Brand = vi_Brand i, ve_Model = vi_Model i, ve_Year = vi_Year i, ve_Color = vi_Color i,
     ve_SpeedLimitKmh = vi_SpeedLimitKmh i, ve_DeviceID = vi_DeviceID i,
     ve_CreatedAt = created, ve_UpdatedAt = updated \<rparr>"

text \<open>What the constraints of the table say of a row beside the others.\<close>

definition vehicle_clash :: "vehicle_input \<Rightarrow> vehicle list \<Rightarrow> bool" where
  "vehicle_clash i vs \<longleftrightarrow>
     list_ex (\<lambda>v. vehicle_plate i \<noteq> '''' \<and> ve_Plate v = vehicle_plate i
       \<or> vi_DeviceID i \<noteq> None \<and> ve_DeviceID v = vi_DeviceID i) vs"

definition tracker_missing :: "vehicle_input \<Rightarrow> device list \<Rightarrow> bool" where
  "tracker_missing i ds = (case vi_DeviceID i of None \<Rightarrow> False | Some k \<Rightarrow> \<not> list_ex (\<lambda>d. dv_ID d = k) ds)"

definition veh_insert ::
  "time \<Rightarrow> vehicle_input \<Rightarrow> 'x fleet_world_scheme \<Rightarrow> (db_error + vehicle) \<times> 'x fleet_world_scheme" where
  "veh_insert now i w =
     (if vehicle_clash i (w_vehicles w) then (Inl ErrConflict, w)
      else if tracker_missing i (w_devices w) then (Inl ErrForeignKey, w)
      else
        let (k, w) = fresh_id w; v = vehicle_of i k now now
        in (Inr v, w\<lparr>w_vehicles := w_vehicles w @ [v]\<rparr>))"

definition veh_Create ::
  "time \<Rightarrow> vehicle_input \<Rightarrow> 'x fleet_world_scheme \<Rightarrow> (db_error + vehicle) \<times> 'x fleet_world_scheme" where
  "veh_Create now i = db_call (veh_insert now i)"

definition veh_replace ::
  "time \<Rightarrow> uuid \<Rightarrow> vehicle_input \<Rightarrow> 'x fleet_world_scheme \<Rightarrow> (db_error + vehicle) \<times> 'x fleet_world_scheme" where
  "veh_replace now k i w =
     (case find (\<lambda>v. ve_ID v = k) (w_vehicles w) of
        None \<Rightarrow> (Inl ErrNotFound, w)
      | Some old \<Rightarrow>
          if vehicle_clash i (filter (\<lambda>v. ve_ID v \<noteq> k) (w_vehicles w)) then (Inl ErrConflict, w)
          else if tracker_missing i (w_devices w) then (Inl ErrForeignKey, w)
          else
            let v = vehicle_of i k (ve_CreatedAt old) now
            in (Inr v, w\<lparr>w_vehicles := map (\<lambda>u. if ve_ID u = k then v else u) (w_vehicles w)\<rparr>))"

definition veh_Update ::
  "time \<Rightarrow> uuid \<Rightarrow> vehicle_input \<Rightarrow> 'x fleet_world_scheme \<Rightarrow> (db_error + vehicle) \<times> 'x fleet_world_scheme" where
  "veh_Update now k i = db_call (veh_replace now k i)"

definition veh_remove :: "uuid \<Rightarrow> 'x fleet_world_scheme \<Rightarrow> (db_error + unit) \<times> 'x fleet_world_scheme" where
  "veh_remove k w =
     (if find (\<lambda>v. ve_ID v = k) (w_vehicles w) = None then (Inl ErrNotFound, w)
      else (Inr (), w\<lparr>w_vehicles := filter (\<lambda>v. ve_ID v \<noteq> k) (w_vehicles w)\<rparr>))"

definition veh_Delete :: "uuid \<Rightarrow> 'x fleet_world_scheme \<Rightarrow> (db_error + unit) \<times> 'x fleet_world_scheme" where
  "veh_Delete k = db_call (veh_remove k)"

definition veh_GetByID :: "uuid \<Rightarrow> 'x fleet_world_scheme \<Rightarrow> (db_error + vehicle) \<times> 'x fleet_world_scheme" where
  "veh_GetByID k = db_call (\<lambda>w.
     case find (\<lambda>v. ve_ID v = k) (w_vehicles w) of None \<Rightarrow> (Inl ErrNotFound, w) | Some v \<Rightarrow> (Inr v, w))"

definition veh_GetByDeviceID ::
  "uuid \<Rightarrow> 'x fleet_world_scheme \<Rightarrow> (db_error + vehicle) \<times> 'x fleet_world_scheme" where
  "veh_GetByDeviceID d = db_call (\<lambda>w.
     case find (\<lambda>v. ve_DeviceID v = Some d) (w_vehicles w) of
       None \<Rightarrow> (Inl ErrNotFound, w) | Some v \<Rightarrow> (Inr v, w))"

datatype vehicle_error = VehicleNameMissing | VehicleNameLong | VehicleYear | VehicleSpeedLimit
  | VehicleStore db_error

definition veh_validate :: "time \<Rightarrow> vehicle_input \<Rightarrow> vehicle_error option" where
  "veh_validate now i =
     (let this_year = fst (time_civil now) in
      if trim_space (vi_Name i) = '''' then Some VehicleNameMissing
      else if length (vi_Name i) > 100 then Some VehicleNameLong
      else if (case vi_Year i of None \<Rightarrow> False | Some y \<Rightarrow> y < 1900 \<or> y > this_year + 1) then Some VehicleYear
      else if (case vi_SpeedLimitKmh i of None \<Rightarrow> False | Some s \<Rightarrow> s < Fin 0 \<or> s > Fin 300)
        then Some VehicleSpeedLimit
      else None)"

definition vehicle_result :: "(db_error + 'a) \<times> 'w \<Rightarrow> (vehicle_error + 'a) \<times> 'w" where
  "vehicle_result r = (case r of (Inl e, w) \<Rightarrow> (Inl (VehicleStore e), w) | (Inr v, w) \<Rightarrow> (Inr v, w))"

definition vehicles_Create ::
  "time \<Rightarrow> vehicle_input \<Rightarrow> 'x fleet_world_scheme \<Rightarrow> (vehicle_error + vehicle) \<times> 'x fleet_world_scheme" where
  "vehicles_Create now i w =
     (case veh_validate now i of Some e \<Rightarrow> (Inl e, w) | None \<Rightarrow> vehicle_result (veh_Create now i w))"

definition vehicles_Update ::
  "time \<Rightarrow> uuid \<Rightarrow> vehicle_input \<Rightarrow> 'x fleet_world_scheme \<Rightarrow> (vehicle_error + vehicle) \<times> 'x fleet_world_scheme" where
  "vehicles_Update now k i w =
     (case veh_validate now i of Some e \<Rightarrow> (Inl e, w) | None \<Rightarrow> vehicle_result (veh_Update now k i w))"

section \<open>geofences.go\<close>

record go_math =
  gm_Sin :: "f64 \<Rightarrow> f64"
  gm_Cos :: "f64 \<Rightarrow> f64"
  gm_Atan2 :: "f64 \<Rightarrow> f64 \<Rightarrow> f64"
  gm_Sqrt :: "f64 \<Rightarrow> f64"
  gm_Hypot :: "f64 \<Rightarrow> f64 \<Rightarrow> f64"

text \<open>The constant \<^verbatim>\<open>math.Pi\<close> as a \<^verbatim>\<open>float64\<close>, and twice the radius of the earth.\<close>

definition go_pi :: f64 where "go_pi = Fin (884279719003555 / 281474976710656)"

definition DistanceMeters :: "go_math \<Rightarrow> f64 \<Rightarrow> f64 \<Rightarrow> f64 \<Rightarrow> f64 \<Rightarrow> f64" where
  "DistanceMeters gm lat1 lon1 lat2 lon2 =
     (let phi1 = lat1 * go_pi / Fin 180; phi2 = lat2 * go_pi / Fin 180;
          dPhi = (lat2 - lat1) * go_pi / Fin 180; dLambda = (lon2 - lon1) * go_pi / Fin 180;
          a = gm_Sin gm (dPhi / Fin 2) * gm_Sin gm (dPhi / Fin 2)
            + gm_Cos gm phi1 * gm_Cos gm phi2 * gm_Sin gm (dLambda / Fin 2) * gm_Sin gm (dLambda / Fin 2)
      in Fin 12742000 * gm_Atan2 gm (gm_Sqrt gm a) (gm_Sqrt gm (Fin 1 - a)))"

definition fence_active :: "fence_input \<Rightarrow> bool" where
  "fence_active i = (case fi_Active i of None \<Rightarrow> True | Some b \<Rightarrow> b)"

definition fence_of :: "fence_input \<Rightarrow> uuid \<Rightarrow> time \<Rightarrow> time \<Rightarrow> geofence" where
  "fence_of i k created updated = \<lparr> gf_ID = k, gf_Name = fi_Name i, gf_Latitude = fi_Latitude i,
     gf_Longitude = fi_Longitude i, gf_RadiusMeters = fi_RadiusMeters i, gf_Active = fence_active i,
     gf_CreatedAt = created, gf_UpdatedAt = updated \<rparr>"

definition fence_Create ::
  "time \<Rightarrow> fence_input \<Rightarrow> 'x fleet_world_scheme \<Rightarrow> (db_error + geofence) \<times> 'x fleet_world_scheme" where
  "fence_Create now i = db_call (\<lambda>w.
     let (k, w) = fresh_id w; g = fence_of i k now now
     in (Inr g, w\<lparr>w_geofences := w_geofences w @ [g]\<rparr>))"

definition fence_Update ::
  "time \<Rightarrow> uuid \<Rightarrow> fence_input \<Rightarrow> 'x fleet_world_scheme \<Rightarrow> (db_error + geofence) \<times> 'x fleet_world_scheme" where
  "fence_Update now k i = db_call (\<lambda>w.
     case find (\<lambda>g. gf_ID g = k) (w_geofences w) of
       None \<Rightarrow> (Inl ErrNotFound, w)
     | Some old \<Rightarrow>
         let g = fence_of i k (gf_CreatedAt old) now
         in (Inr g, w\<lparr>w_geofences := map (\<lambda>h. if gf_ID h = k then g else h) (w_geofences w)\<rparr>))"

definition fence_Delete :: "uuid \<Rightarrow> 'x fleet_world_scheme \<Rightarrow> (db_error + unit) \<times> 'x fleet_world_scheme" where
  "fence_Delete k = db_call (\<lambda>w.
     if find (\<lambda>g. gf_ID g = k) (w_geofences w) = None then (Inl ErrNotFound, w)
     else (Inr (), w\<lparr>w_geofences := filter (\<lambda>g. gf_ID g \<noteq> k) (w_geofences w)\<rparr>))"

text \<open>The list is ordered by name in the source; the order plays no part in what the service does
  with it, and is left to the table.\<close>

definition fence_List :: "'x fleet_world_scheme \<Rightarrow> (db_error + geofence list) \<times> 'x fleet_world_scheme" where
  "fence_List = db_call (\<lambda>w. (Inr (w_geofences w), w))"

definition fences_Refresh :: "'x fleet_world_scheme \<Rightarrow> (db_error + unit) \<times> 'x fleet_world_scheme" where
  "fences_Refresh w =
     (case fence_List w of
        (Inl e, w) \<Rightarrow> (Inl e, w)
      | (Inr gs, w) \<Rightarrow> (Inr (), w\<lparr>w_fence_cache := filter gf_Active gs\<rparr>))"

datatype fence_error = FenceNameMissing | FenceCoordinates | FenceRadius | FenceStore db_error

definition fence_validate :: "fence_input \<Rightarrow> fence_error option" where
  "fence_validate i =
     (if trim_space (fi_Name i) = '''' then Some FenceNameMissing
      else if fi_Latitude i < Fin (- 90) \<or> fi_Latitude i > Fin 90
        \<or> fi_Longitude i < Fin (- 180) \<or> fi_Longitude i > Fin 180 then Some FenceCoordinates
      else if fi_RadiusMeters i < Fin 20 \<or> fi_RadiusMeters i > Fin 200000 then Some FenceRadius
      else None)"

definition fences_Create ::
  "time \<Rightarrow> fence_input \<Rightarrow> 'x fleet_world_scheme \<Rightarrow> (fence_error + geofence) \<times> 'x fleet_world_scheme" where
  "fences_Create now i w =
     (case fence_validate i of
        Some e \<Rightarrow> (Inl e, w)
      | None \<Rightarrow>
          (case fence_Create now i w of
             (Inl e, w) \<Rightarrow> (Inl (FenceStore e), w)
           | (Inr g, w) \<Rightarrow> (Inr g, snd (fences_Refresh w))))"

definition fences_Update ::
  "time \<Rightarrow> uuid \<Rightarrow> fence_input \<Rightarrow> 'x fleet_world_scheme \<Rightarrow> (fence_error + geofence) \<times> 'x fleet_world_scheme" where
  "fences_Update now k i w =
     (case fence_validate i of
        Some e \<Rightarrow> (Inl e, w)
      | None \<Rightarrow>
          (case fence_Update now k i w of
             (Inl e, w) \<Rightarrow> (Inl (FenceStore e), w)
           | (Inr g, w) \<Rightarrow> (Inr g, snd (fences_Refresh w))))"

definition fences_Delete :: "uuid \<Rightarrow> 'x fleet_world_scheme \<Rightarrow> (fence_error + unit) \<times> 'x fleet_world_scheme" where
  "fences_Delete k w =
     (case fence_Delete k w of
        (Inl e, w) \<Rightarrow> (Inl (FenceStore e), w)
      | (Inr _, w) \<Rightarrow>
          (case fences_Refresh w of
             (Inl e, w) \<Rightarrow> (Inl (FenceStore e), w) | (Inr _, w) \<Rightarrow> (Inr (), w)))"

definition fences_Inside :: "go_math \<Rightarrow> f64 \<Rightarrow> f64 \<Rightarrow> 'x fleet_world_scheme \<Rightarrow> uuid list" where
  "fences_Inside gm lat lon w =
     map gf_ID (filter (\<lambda>g. DistanceMeters gm lat lon (gf_Latitude g) (gf_Longitude g) \<le> gf_RadiusMeters g)
       (w_fence_cache w))"

definition fences_Name :: "uuid \<Rightarrow> 'x fleet_world_scheme \<Rightarrow> string" where
  "fences_Name k w = (case find (\<lambda>g. gf_ID g = k) (w_fence_cache w) of None \<Rightarrow> '''' | Some g \<Rightarrow> gf_Name g)"

section \<open>One vehicle for a tracker\<close>

definition veh_wf :: "'x fleet_world_scheme \<Rightarrow> bool" where
  "veh_wf w \<longleftrightarrow> distinct (map ve_ID (w_vehicles w)) \<and> list_all (\<lambda>v. ve_ID v < w_nextid w) (w_vehicles w)
     \<and> distinct (filter (\<lambda>d. d \<noteq> None) (map ve_DeviceID (w_vehicles w)))"

end
