(* ===== verification/Tracking.thy ===== *)
theory Tracking
  imports Fleet TCP_Session "HOL-Library.Product_Lexorder"
begin

text \<open>
  The stores of the package \<^verbatim>\<open>internal/tracking\<close>: positions and the history
  (\<^verbatim>\<open>position.go\<close>), the simplification of a track (\<^verbatim>\<open>simplify.go\<close>), the state of a device
  (\<^verbatim>\<open>state.go\<close>), captured packets (\<^verbatim>\<open>raw.go\<close>) and the telemetry that the command service asks for
  (\<^verbatim>\<open>snapshot.go\<close>).
\<close>

section \<open>position.go\<close>

abbreviation (input) SourceGPS :: string where "SourceGPS \<equiv> ''gps''"

record position =
  ps_ID :: nat
  ps_DeviceID :: uuid
  ps_GPSTimestamp :: time
  ps_ReceivedAt :: time
  ps_Latitude :: f64
  ps_Longitude :: f64
  ps_SpeedKmh :: f64
  ps_Heading :: "f64 option"
  ps_Altitude :: "f64 option"
  ps_GPSValid :: "bool option"
  ps_Satellites :: "int option"
  ps_HDOP :: "f64 option"
  ps_ACC :: "bool option"
  ps_BatteryVoltage :: "f64 option"
  ps_BatteryPercent :: "int option"
  ps_GSMLevel :: "int option"
  ps_RelayOn :: "bool option"
  ps_Protocol :: string
  ps_Source :: string
  ps_RawPayload :: string

record dev_state =
  st_DeviceID :: uuid
  st_Overspeed :: bool
  st_ACC :: "bool option"
  st_GPSValid :: "bool option"
  st_RelayOn :: "bool option"
  st_BatteryPercent :: "int option"
  st_BatteryVoltage :: "f64 option"
  st_GSMLevel :: "int option"
  st_InsideFences :: "uuid list"
  st_LastHeartbeatAt :: "time option"
  st_UpdatedAt :: time

record raw_packet =
  rp_ID :: nat
  rp_IMEI :: string
  rp_Protocol :: string
  rp_Reason :: invalid_reason
  rp_PayloadHex :: string
  rp_PayloadASCII :: string
  rp_ByteCount :: nat
  rp_ReceivedAt :: time

text \<open>The states live in memory (\<open>w_states\<close>) and are saved by goroutines: \<open>w_saving\<close> holds the
  copies that are on their way to the table \<open>w_saved\<close>.  The positions and the captured packets have
  a sequence of their own for their identifiers.\<close>

record track_world = fleet_world +
  w_positions :: "position list"
  w_nextpos :: nat
  w_states :: "uuid \<rightharpoonup> dev_state"
  w_saving :: "dev_state list"
  w_saved :: "uuid \<rightharpoonup> dev_state"
  w_raw :: "raw_packet list"
  w_nextraw :: nat
  w_devcache :: "string \<rightharpoonup> device \<times> time"
  w_vehcache :: "uuid \<rightharpoonup> vehicle option \<times> time"
  w_lastTouch :: "uuid \<rightharpoonup> time"

definition insert_position ::
  "time \<Rightarrow> position \<Rightarrow> 'x track_world_scheme \<Rightarrow> (db_error + position) \<times> 'x track_world_scheme" where
  "insert_position now p w =
     (if \<not> list_ex (\<lambda>d. dv_ID d = ps_DeviceID p) (w_devices w) then (Inl ErrForeignKey, w)
      else
        let p = p\<lparr>ps_ID := w_nextpos w, ps_ReceivedAt := now,
              ps_Source := (if ps_Source p = '''' then SourceGPS else ps_Source p)\<rparr>
        in (Inr p, w\<lparr>w_nextpos := Suc (w_nextpos w), w_positions := w_positions w @ [p]\<rparr>))"

definition pos_Insert ::
  "time \<Rightarrow> position \<Rightarrow> 'x track_world_scheme \<Rightarrow> (db_error + position) \<times> 'x track_world_scheme" where
  "pos_Insert now p = db_call (insert_position now p)"

text \<open>\<^verbatim>\<open>ORDER BY gps_timestamp DESC, id DESC LIMIT 1\<close>\<close>

definition pos_key :: "position \<Rightarrow> time \<times> nat" where
  "pos_key p = (ps_GPSTimestamp p, ps_ID p)"

definition latest :: "position list \<Rightarrow> position option" where
  "latest ps = find (\<lambda>p. list_all (\<lambda>q. pos_key q \<le> pos_key p) ps) ps"

definition select_one :: "(position list \<Rightarrow> position option) \<Rightarrow>
   'x track_world_scheme \<Rightarrow> (db_error + position) \<times> 'x track_world_scheme" where
  "select_one F = db_call (\<lambda>w. case F (w_positions w) of None \<Rightarrow> (Inl ErrNotFound, w) | Some p \<Rightarrow> (Inr p, w))"

definition pos_Latest :: "uuid \<Rightarrow> 'x track_world_scheme \<Rightarrow> (db_error + position) \<times> 'x track_world_scheme" where
  "pos_Latest d = select_one (\<lambda>ps. latest (filter (\<lambda>p. ps_DeviceID p = d) ps))"

definition pos_LatestWithLocation ::
  "uuid \<Rightarrow> 'x track_world_scheme \<Rightarrow> (db_error + position) \<times> 'x track_world_scheme" where
  "pos_LatestWithLocation d =
     select_one (\<lambda>ps. latest (filter (\<lambda>p. ps_DeviceID p = d \<and> ps_Source p = SourceGPS) ps))"

text \<open>The listings read every column but the payload (\<^verbatim>\<open>lightColumns\<close>).\<close>

definition scanLight :: "position \<Rightarrow> position" where
  "scanLight p = p\<lparr>ps_RawPayload := []\<rparr>"

definition pos_LatestForAll ::
  "'x track_world_scheme \<Rightarrow> (db_error + (uuid \<rightharpoonup> position)) \<times> 'x track_world_scheme" where
  "pos_LatestForAll = db_call (\<lambda>w. (Inr (\<lambda>d. map_option scanLight (latest (filter (\<lambda>p. ps_DeviceID p = d) (w_positions w)))), w))"

section \<open>simplify.go\<close>

definition f64_min :: "f64 \<Rightarrow> f64 \<Rightarrow> f64" where
  "f64_min x y =
     (if x = Inf True \<or> y = Inf True then Inf True else if x = NaN \<or> y = NaN then NaN
      else if x < y then x else y)"

definition f64_max :: "f64 \<Rightarrow> f64 \<Rightarrow> f64" where
  "f64_max x y =
     (if x = Inf False \<or> y = Inf False then Inf False else if x = NaN \<or> y = NaN then NaN
      else if x > y then x else y)"

definition perpendicularDistance :: "go_math \<Rightarrow> position \<Rightarrow> position \<Rightarrow> position \<Rightarrow> f64" where
  "perpendicularDistance gm p a b =
     (let latRef = (ps_Latitude a + ps_Latitude b) / Fin 2;
          metersPerDegLat = Fin 111132;
          metersPerDegLon = Fin 111320 * gm_Cos gm (latRef * go_pi / Fin 180);
          px = (ps_Longitude p - ps_Longitude a) * metersPerDegLon;
          py = (ps_Latitude p - ps_Latitude a) * metersPerDegLat;
          bx = (ps_Longitude b - ps_Longitude a) * metersPerDegLon;
          by' = (ps_Latitude b - ps_Latitude a) * metersPerDegLat;
          segmentLenSq = bx * bx + by' * by' in
      if segmentLenSq = Fin 0 then gm_Hypot gm px py
      else
        let t = (px * bx + py * by') / segmentLenSq;
            t = f64_max (Fin 0) (f64_min (Fin 1) t)
        in gm_Hypot gm (px - t * bx) (py - t * by'))"

text \<open>The loop that looks for the point farthest from the segment.\<close>

definition farther ::
  "(position \<Rightarrow> position \<Rightarrow> position \<Rightarrow> f64) \<Rightarrow> position list \<Rightarrow> nat \<Rightarrow> nat \<Rightarrow> f64 \<times> nat \<Rightarrow> nat \<Rightarrow> f64 \<times> nat" where
  "farther pd ps first lst best i =
     (let d = pd (ps ! i) (ps ! first) (ps ! lst) in if d > fst best then (d, i) else best)"

definition farthest ::
  "(position \<Rightarrow> position \<Rightarrow> position \<Rightarrow> f64) \<Rightarrow> position list \<Rightarrow> nat \<Rightarrow> nat \<Rightarrow> f64 \<times> nat" where
  "farthest pd ps first lst = foldl (farther pd ps first lst) (Fin 0, first) [first + 1..<lst]"

text \<open>The recursion need not end for every tolerance, so not returning is the value \<open>None\<close>.\<close>

partial_function (option) simplifySegment ::
  "(position \<Rightarrow> position \<Rightarrow> position \<Rightarrow> f64) \<Rightarrow> position list \<Rightarrow> nat \<Rightarrow> nat \<Rightarrow> f64 \<Rightarrow> bool list \<Rightarrow> bool list option" where
  "simplifySegment pd ps first lst tol keep =
     (if lst \<le> first + 1 then Some keep
      else if fst (farthest pd ps first lst) \<le> tol then Some keep
      else Option.bind
        (simplifySegment pd ps first (snd (farthest pd ps first lst)) tol
          (keep[snd (farthest pd ps first lst) := True]))
        (\<lambda>keep. simplifySegment pd ps (snd (farthest pd ps first lst)) lst tol keep))"

declare simplifySegment.simps [code]

definition kept :: "bool list \<Rightarrow> 'a list \<Rightarrow> 'a list" where
  "kept keep xs = map snd (filter fst (zip keep xs))"

definition Simplify :: "go_math \<Rightarrow> position list \<Rightarrow> f64 \<Rightarrow> position list option" where
  "Simplify gm ps tol =
     (if length ps < 3 \<or> tol \<le> Fin 0 then Some ps
      else map_option (\<lambda>keep. kept keep ps)
        (simplifySegment (perpendicularDistance gm) ps 0 (length ps - 1) tol
          ((replicate (length ps) False)[0 := True, length ps - 1 := True])))"

section \<open>The history\<close>

record history_query =
  hq_DeviceID :: uuid
  hq_From :: time
  hq_To :: time
  hq_Limit :: int
  hq_OnlyValid :: bool
  hq_Simplify :: bool
  hq_ToleranceMeters :: f64

record history_result =
  hr_Positions :: "position list"
  hr_Total :: nat
  hr_Returned :: nat
  hr_Sampled :: bool
  hr_SampleStep :: nat
  hr_Simplified :: bool

definition in_history :: "history_query \<Rightarrow> position \<Rightarrow> bool" where
  "in_history q p \<longleftrightarrow> ps_DeviceID p = hq_DeviceID q \<and> hq_From q \<le> ps_GPSTimestamp p
     \<and> ps_GPSTimestamp p \<le> hq_To q \<and> ps_Source p = SourceGPS
     \<and> (hq_OnlyValid q \<longrightarrow> ps_GPSValid p = Some True)"

text \<open>\<^verbatim>\<open>int(math.Ceil(float64(total) / float64(limit)))\<close>\<close>

definition ceil_quot :: "nat \<Rightarrow> int \<Rightarrow> nat" where
  "ceil_quot n limit =
     (case f64_of_int (int n) / f64_of_int limit of Fin r \<Rightarrow> nat \<lceil>r\<rceil> | _ \<Rightarrow> 0)"

definition sample_rows :: "nat \<Rightarrow> 'a list \<Rightarrow> 'a list" where
  "sample_rows step xs = map snd (filter (\<lambda>(rn, _). step = 1 \<or> rn mod step = 1 \<or> rn = length xs)
     (zip [1..<Suc (length xs)] xs))"

definition history_limit :: "history_query \<Rightarrow> int" where
  "history_limit q = (if hq_Limit q \<le> 0 then 2000 else hq_Limit q)"

definition history_step :: "history_query \<Rightarrow> nat \<Rightarrow> nat" where
  "history_step q n = (if int n > history_limit q then ceil_quot n (history_limit q) else 1)"

text \<open>The last step of the query: the result, \<open>None\<close> when the simplification does not return.\<close>

definition history_finish :: "go_math \<Rightarrow> history_query \<Rightarrow> history_result \<Rightarrow> history_result option" where
  "history_finish gm q r =
     map_option (\<lambda>r. r\<lparr>hr_Returned := length (hr_Positions r)\<rparr>)
      (if hq_Simplify q \<and> length (hr_Positions r) > 2 then
         let tolerance = (if hq_ToleranceMeters q \<le> Fin 0 then Fin 5 else hq_ToleranceMeters q);
             before = length (hr_Positions r)
         in map_option (\<lambda>ps. r\<lparr>hr_Positions := ps, hr_Simplified := length ps < before\<rparr>)
              (Simplify gm (hr_Positions r) tolerance)
       else Some r)"

definition pos_History ::
  "go_math \<Rightarrow> history_query \<Rightarrow> 'x track_world_scheme \<Rightarrow> (db_error + history_result option) \<times> 'x track_world_scheme" where
  "pos_History gm q w =
     (case db_call (\<lambda>w. (Inr (length (filter (in_history q) (w_positions w))), w)) w of
        (Inl e, w) \<Rightarrow> (Inl e, w)
      | (Inr n, w) \<Rightarrow>
          let r = \<lparr> hr_Positions = [], hr_Total = n, hr_Returned = 0, hr_Sampled = False,
                hr_SampleStep = 0, hr_Simplified = False \<rparr> in
          if n = 0 then (Inr (Some r), w)
          else
            let step = history_step q n;
                r = r\<lparr>hr_Sampled := (int n > history_limit q), hr_SampleStep := step\<rparr> in
            (case db_call (\<lambda>w. (Inr (map scanLight (sample_rows step
                 (sort_key pos_key (filter (in_history q) (w_positions w))))), w)) w of
               (Inl e, w) \<Rightarrow> (Inl e, w)
             | (Inr ps, w) \<Rightarrow> (Inr (history_finish gm q (r\<lparr>hr_Positions := ps\<rparr>)), w)))"

record page_query =
  pq_DeviceID :: uuid
  pq_From :: time
  pq_To :: time
  pq_Limit :: int
  pq_AfterID :: nat

definition page_limit :: "page_query \<Rightarrow> nat" where
  "page_limit q = (if pq_Limit q \<le> 0 \<or> pq_Limit q > 1000 then 500 else nat (pq_Limit q))"

definition in_page :: "page_query \<Rightarrow> position \<Rightarrow> bool" where
  "in_page q p \<longleftrightarrow> ps_DeviceID p = pq_DeviceID q \<and> pq_From q \<le> ps_GPSTimestamp p
     \<and> ps_GPSTimestamp p \<le> pq_To q"

definition pos_Page :: "page_query \<Rightarrow>
   'x track_world_scheme \<Rightarrow> (db_error + position list \<times> nat option) \<times> 'x track_world_scheme" where
  "pos_Page q = db_call (\<lambda>w.
     let ps = map scanLight (take (page_limit q + 1) (sort_key ps_ID
            (filter (\<lambda>p. in_page q p \<and> ps_ID p > pq_AfterID q) (w_positions w)))) in
     (Inr (if length ps > page_limit q
           then let page = take (page_limit q) ps in (page, Some (ps_ID (last page)))
           else (ps, None)), w))"

section \<open>state.go\<close>

definition fresh_state :: "uuid \<Rightarrow> dev_state" where
  "fresh_state d = \<lparr> st_DeviceID = d, st_Overspeed = False, st_ACC = None, st_GPSValid = None,
     st_RelayOn = None, st_BatteryPercent = None, st_BatteryVoltage = None, st_GSMLevel = None,
     st_InsideFences = [], st_LastHeartbeatAt = None, st_UpdatedAt = zero_time \<rparr>"

definition states_Get :: "uuid \<Rightarrow> 'x track_world_scheme \<Rightarrow> dev_state option" where
  "states_Get d w = w_states w d"

definition states_Update :: "time \<Rightarrow> uuid \<Rightarrow> (dev_state \<Rightarrow> dev_state) \<Rightarrow>
   'x track_world_scheme \<Rightarrow> (dev_state \<times> dev_state) \<times> 'x track_world_scheme" where
  "states_Update now d mutate w =
     (let current = (case w_states w d of None \<Rightarrow> fresh_state d | Some s \<Rightarrow> s);
          next = (mutate current)\<lparr>st_DeviceID := d, st_UpdatedAt := now\<rparr>
      in ((current, next), w\<lparr>w_states := (w_states w)(d \<mapsto> next), w_saving := w_saving w @ [next]\<rparr>))"

definition state_Save :: "time \<Rightarrow> dev_state \<Rightarrow> 'x track_world_scheme \<Rightarrow> (db_error + unit) \<times> 'x track_world_scheme" where
  "state_Save now s = db_call (\<lambda>w.
     if \<not> list_ex (\<lambda>d. dv_ID d = st_DeviceID s) (w_devices w) then (Inl ErrForeignKey, w)
     else (Inr (), w\<lparr>w_saved := (w_saved w)(st_DeviceID s \<mapsto> s\<lparr>st_UpdatedAt := now\<rparr>)\<rparr>))"

text \<open>One of the goroutines that wait runs: any of them, in any order.\<close>

definition save_one :: "time \<Rightarrow> nat \<Rightarrow> 'x track_world_scheme \<Rightarrow> 'x track_world_scheme" where
  "save_one now i w =
     (if i < length (w_saving w)
      then snd (state_Save now (w_saving w ! i)
        (w\<lparr>w_saving := take i (w_saving w) @ drop (Suc i) (w_saving w)\<rparr>))
      else w)"

definition states_Load :: "'x track_world_scheme \<Rightarrow> (db_error + unit) \<times> 'x track_world_scheme" where
  "states_Load = db_call (\<lambda>w. (Inr (), w\<lparr>w_states := w_saved w\<rparr>))"

section \<open>raw.go\<close>

definition ToASCII :: "bytes \<Rightarrow> string" where
  "ToASCII bs = map (\<lambda>b. if 0x20 \<le> b \<and> b \<le> 0x7E then char_of (unat b) else CHR ''.'') bs"

definition ToHex :: "bytes \<Rightarrow> string" where
  "ToHex bs = hex_encode True bs"

definition raw_Insert ::
  "time \<Rightarrow> raw_packet \<Rightarrow> 'x track_world_scheme \<Rightarrow> (db_error + raw_packet) \<times> 'x track_world_scheme" where
  "raw_Insert now p = db_call (\<lambda>w.
     let p = p\<lparr>rp_ID := w_nextraw w, rp_ReceivedAt := now\<rparr>
     in (Inr p, w\<lparr>w_nextraw := Suc (w_nextraw w), w_raw := w_raw w @ [p]\<rparr>))"

definition raw_List :: "int \<Rightarrow> 'x track_world_scheme \<Rightarrow> (db_error + raw_packet list) \<times> 'x track_world_scheme" where
  "raw_List limit = db_call (\<lambda>w.
     (Inr (take (if limit \<le> 0 \<or> limit > 500 then 100 else nat limit)
       (rev (sort_key rp_ReceivedAt (w_raw w)))), w))"

definition raw_DeleteOlderThan :: "time \<Rightarrow> 'x track_world_scheme \<Rightarrow> (db_error + nat) \<times> 'x track_world_scheme" where
  "raw_DeleteOlderThan cutoff = db_call (\<lambda>w.
     (Inr (length (filter (\<lambda>p. rp_ReceivedAt p < cutoff) (w_raw w))),
      w\<lparr>w_raw := filter (\<lambda>p. \<not> rp_ReceivedAt p < cutoff) (w_raw w)\<rparr>))"

section \<open>snapshot.go\<close>

definition Snapshot :: "'x track_world_scheme \<Rightarrow> uuid \<Rightarrow> db_error + snapshot" where
  "Snapshot w d =
     (case fst (pos_LatestWithLocation d w) of
        Inl ErrNotFound \<Rightarrow> Inr \<lparr> sn_HasPosition = False, sn_SpeedKmh = Fin 0, sn_Timestamp = zero_time \<rparr>
      | Inl e \<Rightarrow> Inl e
      | Inr p \<Rightarrow> Inr \<lparr> sn_HasPosition = True, sn_SpeedKmh = ps_SpeedKmh p, sn_Timestamp = ps_ReceivedAt p \<rparr>)"

end
