(* ===== verification/Ingest.thy ===== *)
theory Ingest
  imports Tracking
begin

text \<open>
  \<^verbatim>\<open>internal/tracking/ingestor.go\<close>: the pipeline that turns a decoded message into the state of the
  device, a position, events and messages to the browsers.  It implements the interface that the
  TCP package calls: \<open>tracking_ingestor\<close> is its record of methods.

  The source keeps pointers to devices in its cache and changes the status and the protocol
  through them; after every such change it stores the pointer in the cache again, so a value that
  is passed on and stored again says the same.  The address of the peer, which only appears in
  metadata, is left out.  A position or a state that is published is represented by its identifier.
\<close>

record track_config =
  tc_StaleAfter :: duration
  tc_OfflineAfter :: duration
  tc_DefaultSpeedLimitKmh :: f64
  tc_OverspeedHysteresisKmh :: f64

definition touchInterval :: duration where "touchInterval = 15 * second"
definition cacheTTL :: duration where "cacheTTL = 60 * second"

abbreviation (input) TypePositionUpdated :: string where "TypePositionUpdated \<equiv> ''position.updated''"
abbreviation (input) TypeDeviceOnline :: string where "TypeDeviceOnline \<equiv> ''device.online''"
abbreviation (input) TypeDeviceOffline :: string where "TypeDeviceOffline \<equiv> ''device.offline''"
abbreviation (input) TypeDeviceStale :: string where "TypeDeviceStale \<equiv> ''device.stale''"
abbreviation (input) TypeEngineStatusChanged :: string where "TypeEngineStatusChanged \<equiv> ''engine.status.changed''"

section \<open>Caches\<close>

definition cacheDevice :: "time \<Rightarrow> device \<Rightarrow> 'x track_world_scheme \<Rightarrow> 'x track_world_scheme" where
  "cacheDevice now dev w = w\<lparr>w_devcache := (w_devcache w)(dv_IMEI dev \<mapsto> (dev, now))\<rparr>"

definition resolveDevice ::
  "time \<Rightarrow> string \<Rightarrow> 'x track_world_scheme \<Rightarrow> (db_error + device) \<times> 'x track_world_scheme" where
  "resolveDevice now imei w =
     (case w_devcache w imei of
        Some (dev, ts) \<Rightarrow>
          if time_sub now ts < cacheTTL then (Inr dev, w)
          else (case dev_GetByIMEI imei w of
                  (Inl e, w) \<Rightarrow> (Inl e, w) | (Inr dev, w) \<Rightarrow> (Inr dev, cacheDevice now dev w))
      | None \<Rightarrow> (case dev_GetByIMEI imei w of
                  (Inl e, w) \<Rightarrow> (Inl e, w) | (Inr dev, w) \<Rightarrow> (Inr dev, cacheDevice now dev w)))"

definition invalidateDevice :: "string \<Rightarrow> 'x track_world_scheme \<Rightarrow> 'x track_world_scheme" where
  "invalidateDevice imei w = w\<lparr>w_devcache := (w_devcache w)(imei := None)\<rparr>"

definition InvalidateVehicles :: "'x track_world_scheme \<Rightarrow> 'x track_world_scheme" where
  "InvalidateVehicles w = w\<lparr>w_vehcache := Map.empty\<rparr>"

definition fetch_vehicle ::
  "time \<Rightarrow> uuid \<Rightarrow> 'x track_world_scheme \<Rightarrow> vehicle option \<times> 'x track_world_scheme" where
  "fetch_vehicle now d w =
     (case veh_GetByDeviceID d w of
        (Inl ErrNotFound, w) \<Rightarrow> (None, w\<lparr>w_vehcache := (w_vehcache w)(d \<mapsto> (None, now))\<rparr>)
      | (Inl _, w) \<Rightarrow> (None, w)
      | (Inr v, w) \<Rightarrow> (Some v, w\<lparr>w_vehcache := (w_vehcache w)(d \<mapsto> (Some v, now))\<rparr>))"

definition vehicleFor ::
  "time \<Rightarrow> uuid \<Rightarrow> 'x track_world_scheme \<Rightarrow> vehicle option \<times> 'x track_world_scheme" where
  "vehicleFor now d w =
     (case w_vehcache w d of
        Some (v, ts) \<Rightarrow> if time_sub now ts < cacheTTL then (v, w) else fetch_vehicle now d w
      | None \<Rightarrow> fetch_vehicle now d w)"

definition vehicleIDFor ::
  "time \<Rightarrow> uuid \<Rightarrow> 'x track_world_scheme \<Rightarrow> uuid option \<times> 'x track_world_scheme" where
  "vehicleIDFor now d w = (case vehicleFor now d w of (v, w) \<Rightarrow> (map_option ve_ID v, w))"

definition ingest_touch :: "time \<Rightarrow> device \<Rightarrow> 'x track_world_scheme \<Rightarrow> 'x track_world_scheme" where
  "ingest_touch now dev w =
     (let fresh = (case w_lastTouch w (dv_ID dev) of None \<Rightarrow> False | Some t \<Rightarrow> time_sub now t < touchInterval);
          w = (if fresh then w else w\<lparr>w_lastTouch := (w_lastTouch w)(dv_ID dev \<mapsto> now)\<rparr>) in
      if fresh \<and> dv_Status dev = ONLINE then w
      else case dev_Touch now (dv_ID dev) now w of
        (Inl _, w) \<Rightarrow> w
      | (Inr _, w) \<Rightarrow>
          if dv_Status dev \<noteq> ONLINE then
            let w = cacheDevice now (dev\<lparr>dv_Status := ONLINE\<rparr>) w;
                (v, w) = vehicleIDFor now (dv_ID dev) w
            in publish_for TypeDeviceOnline v (Some (dv_ID dev))
                 [(''deviceId'', MId (dv_ID dev)), (''status'', MStr ''ONLINE'')] w
          else w)"

section \<open>Events\<close>

definition changedBool :: "bool option \<Rightarrow> bool option \<Rightarrow> bool" where
  "changedBool before after =
     (case after of None \<Rightarrow> False | Some a \<Rightarrow> (case before of None \<Rightarrow> True | Some b \<Rightarrow> b \<noteq> a))"

definition failedResponse :: "string \<Rightarrow> bool" where
  "failedResponse response =
     (let lowered = to_lower response in
      list_ex (contains_str lowered) [''fail'', ''error'', ''invalid'', ''password err'', ''not support''])"

definition recordEvent ::
  "time \<Rightarrow> device \<Rightarrow> string \<Rightarrow> time \<Rightarrow> tracker_message \<Rightarrow> (string \<times> meta) list \<Rightarrow>
   'x track_world_scheme \<Rightarrow> 'x track_world_scheme" where
  "recordEvent now dev eventType ts msg metadata w =
     (let ts = (if is_zero_time ts then now else ts);
          some = (\<lambda>x. if tm_HasLocation msg then Some x else None)
      in event_Record now \<lparr> ev_DeviceID = dv_ID dev, ev_Type = eventType, ev_Timestamp = ts,
           ev_Latitude = some (tm_Latitude msg), ev_Longitude = some (tm_Longitude msg),
           ev_SpeedKmh = some (tm_SpeedKmh msg),
           ev_Metadata = AList.update ''protocol'' (MStr (tm_Protocol msg)) metadata \<rparr> w)"

definition emitStateEvents ::
  "time \<Rightarrow> device \<Rightarrow> uuid option \<Rightarrow> dev_state \<Rightarrow> dev_state \<Rightarrow> tracker_message \<Rightarrow>
   'x track_world_scheme \<Rightarrow> 'x track_world_scheme" where
  "emitStateEvents now dev v before after msg w =
     (let ts = (if is_zero_time (tm_Timestamp msg) then now else tm_Timestamp msg);
          w = (if changedBool (st_ACC before) (st_ACC after)
               then recordEvent now dev (if st_ACC after = Some True then ''IGNITION_ON'' else ''IGNITION_OFF'')
                 ts msg [] w
               else w);
          w = (if changedBool (st_RelayOn before) (st_RelayOn after)
               then publish_for TypeEngineStatusChanged v (Some (dv_ID dev))
                 [(''deviceId'', MId (dv_ID dev)), (''relayOn'', MBool (st_RelayOn after = Some True))] w
               else w);
          w = (if changedBool (st_GPSValid before) (st_GPSValid after)
               then recordEvent now dev (if st_GPSValid after = Some True then ''GPS_RECOVERED'' else ''GPS_LOST'')
                 ts msg [] w
               else w)
      in case (st_GSMLevel before, st_GSMLevel after) of
           (Some b, Some a) \<Rightarrow>
             if b > 0 \<and> a = 0 then recordEvent now dev ''GSM_LOST'' ts msg [(''gsmLevel'', MInt 0)] w
             else if b = 0 \<and> a > 0 then recordEvent now dev ''GSM_RECOVERED'' ts msg [(''gsmLevel'', MInt a)] w
             else w
         | _ \<Rightarrow> w)"

definition alarm_event :: "string \<Rightarrow> string" where
  "alarm_event alarm =
     (if alarm \<in> {''SOS'', ''POWER_LOSS'', ''LOW_BATTERY'', ''VIBRATION'', ''OVERSPEED'', ''IGNITION_ON'',
        ''IGNITION_OFF''} then alarm else ''DEVICE_ALARM'')"

definition recordAlarm ::
  "time \<Rightarrow> device \<Rightarrow> tracker_message \<Rightarrow> 'x track_world_scheme \<Rightarrow> 'x track_world_scheme" where
  "recordAlarm now dev msg w =
     (let eventType = alarm_event (tm_Alarm msg);
          metadata = [(''alarm'', MStr (tm_Alarm msg)), (''protocol'', MStr (tm_Protocol msg))]
            @ (if eventType = ''DEVICE_ALARM'' then [(''unmapped'', MBool True)] else [])
      in recordEvent now dev eventType (tm_Timestamp msg) msg metadata w)"

definition opt_id :: "uuid option \<Rightarrow> meta" where
  "opt_id v = (case v of None \<Rightarrow> MNull | Some k \<Rightarrow> MId k)"

text \<open>The transition of the detector of excess speed, the argument of \<^verbatim>\<open>states.Update\<close>.\<close>

definition overspeed_next :: "f64 \<Rightarrow> f64 \<Rightarrow> f64 \<Rightarrow> bool \<Rightarrow> bool" where
  "overspeed_next limit hysteresis speed over =
     (if over then \<not> speed \<le> limit - hysteresis else speed > limit)"

definition speed_limit :: "track_config \<Rightarrow> vehicle option \<Rightarrow> f64" where
  "speed_limit cfg v =
     (case v of None \<Rightarrow> tc_DefaultSpeedLimitKmh cfg
      | Some ve \<Rightarrow> (case ve_SpeedLimitKmh ve of None \<Rightarrow> tc_DefaultSpeedLimitKmh cfg | Some l \<Rightarrow> l))"

definition evaluateOverspeed ::
  "track_config \<Rightarrow> time \<Rightarrow> device \<Rightarrow> vehicle option \<Rightarrow> position \<Rightarrow>
   'x track_world_scheme \<Rightarrow> 'x track_world_scheme" where
  "evaluateOverspeed cfg now dev vehicle pos w =
     (let limit = speed_limit cfg vehicle in
      if limit \<le> Fin 0 then w
      else
        let ((before, after), w) = states_Update now (dv_ID dev) (\<lambda>st. st\<lparr>st_Overspeed :=
              overspeed_next limit (tc_OverspeedHysteresisKmh cfg) (ps_SpeedKmh pos) (st_Overspeed st)\<rparr>) w in
        if st_Overspeed before = st_Overspeed after then w
        else event_Record now \<lparr> ev_DeviceID = dv_ID dev,
          ev_Type = (if st_Overspeed after then ''OVERSPEED'' else ''OVERSPEED_END''),
          ev_Timestamp = ps_GPSTimestamp pos, ev_Latitude = Some (ps_Latitude pos),
          ev_Longitude = Some (ps_Longitude pos), ev_SpeedKmh = Some (ps_SpeedKmh pos),
          ev_Metadata = [(''limitKmh'', MFloat limit), (''vehicleId'', opt_id (map_option ve_ID vehicle))] \<rparr> w)"

definition fence_event ::
  "time \<Rightarrow> device \<Rightarrow> uuid option \<Rightarrow> position \<Rightarrow> string \<Rightarrow> uuid \<Rightarrow> 'x track_world_scheme \<Rightarrow> 'x track_world_scheme" where
  "fence_event now dev v pos eventType fence w =
     event_Record now \<lparr> ev_DeviceID = dv_ID dev, ev_Type = eventType, ev_Timestamp = ps_GPSTimestamp pos,
       ev_Latitude = Some (ps_Latitude pos), ev_Longitude = Some (ps_Longitude pos),
       ev_SpeedKmh = Some (ps_SpeedKmh pos),
       ev_Metadata = [(''geofenceId'', MId fence), (''geofenceName'', MStr (fences_Name fence w)),
         (''vehicleId'', opt_id v)] \<rparr> w"

definition evaluateGeofences ::
  "go_math \<Rightarrow> time \<Rightarrow> device \<Rightarrow> uuid option \<Rightarrow> position \<Rightarrow> 'x track_world_scheme \<Rightarrow> 'x track_world_scheme" where
  "evaluateGeofences gm now dev v pos w =
     (if ps_GPSValid pos = Some False then w
      else
        let current = fences_Inside gm (ps_Latitude pos) (ps_Longitude pos) w;
            ((before, _), w) = states_Update now (dv_ID dev) (\<lambda>st. st\<lparr>st_InsideFences := current\<rparr>) w;
            w = fold (fence_event now dev v pos ''GEOFENCE_ENTER'')
                  (filter (\<lambda>f. f \<notin> set (st_InsideFences before)) current) w
        in fold (fence_event now dev v pos ''GEOFENCE_EXIT'')
             (filter (\<lambda>f. f \<notin> set current) (st_InsideFences before)) w)"

section \<open>Telemetry\<close>

definition merge_telemetry :: "time \<Rightarrow> tracker_message \<Rightarrow> dev_state \<Rightarrow> dev_state" where
  "merge_telemetry now msg st =
     (let st = (if tm_ACC msg \<noteq> None then st\<lparr>st_ACC := tm_ACC msg\<rparr> else st);
          st = (if tm_RelayOn msg \<noteq> None then st\<lparr>st_RelayOn := tm_RelayOn msg\<rparr> else st);
          st = (if tm_BatteryPercent msg \<noteq> None then st\<lparr>st_BatteryPercent := tm_BatteryPercent msg\<rparr> else st);
          st = (if tm_BatteryVoltage msg \<noteq> None then st\<lparr>st_BatteryVoltage := tm_BatteryVoltage msg\<rparr> else st);
          st = (if tm_GSMLevel msg \<noteq> None then st\<lparr>st_GSMLevel := tm_GSMLevel msg\<rparr> else st);
          st = (if tm_HasLocation msg then st\<lparr>st_GPSValid := Some (tm_GPSValid msg)\<rparr> else st)
      in if tm_Kind msg = KindHeartbeat then st\<lparr>st_LastHeartbeatAt := Some now\<rparr> else st)"

definition buildPosition :: "time \<Rightarrow> device \<Rightarrow> tracker_message \<Rightarrow> position" where
  "buildPosition now dev msg = \<lparr> ps_ID = 0, ps_DeviceID = dv_ID dev,
     ps_GPSTimestamp = (if is_zero_time (tm_Timestamp msg) then now else tm_Timestamp msg),
     ps_ReceivedAt = zero_time, ps_Latitude = tm_Latitude msg, ps_Longitude = tm_Longitude msg,
     ps_SpeedKmh = tm_SpeedKmh msg, ps_Heading = Some (tm_Heading msg), ps_Altitude = tm_Altitude msg,
     ps_GPSValid = Some (tm_GPSValid msg), ps_Satellites = tm_Satellites msg, ps_HDOP = tm_HDOP msg,
     ps_ACC = tm_ACC msg, ps_BatteryVoltage = tm_BatteryVoltage msg,
     ps_BatteryPercent = tm_BatteryPercent msg, ps_GSMLevel = tm_GSMLevel msg,
     ps_RelayOn = tm_RelayOn msg, ps_Protocol = tm_Protocol msg, ps_Source = SourceGPS,
     ps_RawPayload = tm_RawPayload msg \<rparr>"

definition store_position ::
  "track_config \<Rightarrow> go_math \<Rightarrow> time \<Rightarrow> device \<Rightarrow> vehicle option \<Rightarrow> tracker_message \<Rightarrow>
   'x track_world_scheme \<Rightarrow> 'x track_world_scheme" where
  "store_position cfg gm now dev vehicle msg w =
     (case pos_Insert now (buildPosition now dev msg) w of
        (Inl _, w) \<Rightarrow> w
      | (Inr pos, w) \<Rightarrow>
          let w = evaluateOverspeed cfg now dev vehicle pos w;
              w = evaluateGeofences gm now dev (map_option ve_ID vehicle) pos w
          in publish_for TypePositionUpdated (map_option ve_ID vehicle) (Some (dv_ID dev))
               [(''id'', MInt (int (ps_ID pos)))] w)"

definition processTelemetry ::
  "track_config \<Rightarrow> go_math \<Rightarrow> time \<Rightarrow> device \<Rightarrow> tracker_message \<Rightarrow>
   'x track_world_scheme \<Rightarrow> 'x track_world_scheme" where
  "processTelemetry cfg gm now dev msg w =
     (let ((before, after), w) = states_Update now (dv_ID dev) (merge_telemetry now msg) w;
          (vehicle, w) = vehicleFor now (dv_ID dev) w;
          v = map_option ve_ID vehicle;
          w = emitStateEvents now dev v before after msg w;
          w = (if tm_Alarm msg \<noteq> '''' then recordAlarm now dev msg w else w) in
      if \<not> tm_HasLocation msg
      then publish_for TypeDeviceOnline v (Some (dv_ID dev)) [(''deviceId'', MId (dv_ID dev))] w
      else store_position cfg gm now dev vehicle msg w)"

section \<open>The interface of the TCP package\<close>

definition onConnected ::
  "time \<Rightarrow> device \<Rightarrow> string \<Rightarrow> 'x track_world_scheme \<Rightarrow> device \<times> 'x track_world_scheme" where
  "onConnected now dev name w =
     (let w = event_Record now \<lparr> ev_DeviceID = dv_ID dev, ev_Type = ''DEVICE_CONNECTED'', ev_Timestamp = now,
            ev_Latitude = None, ev_Longitude = None, ev_SpeedKmh = None,
            ev_Metadata = [(''protocol'', MStr name)] \<rparr> w in
      if name \<noteq> '''' \<and> dv_Protocol dev \<noteq> name then
        (case dev_SetProtocol now (dv_ID dev) name w of
           (Inl _, w) \<Rightarrow> (dev, w)
         | (Inr _, w) \<Rightarrow> let dev = dev\<lparr>dv_Protocol := name\<rparr> in (dev, cacheDevice now dev w))
      else (dev, w))"

definition HandleMessage ::
  "track_config \<Rightarrow> go_math \<Rightarrow> time \<Rightarrow> conn_ptr \<Rightarrow> tracker_message \<Rightarrow>
   tcp_state \<times> 'x track_world_scheme \<Rightarrow> handle_error option \<times> (tcp_state \<times> 'x track_world_scheme)" where
  "HandleMessage cfg gm now c msg = (\<lambda>(t, w).
     if tm_IMEI msg = '''' then (Some OtherError, (t, w))
     else case resolveDevice now (tm_IMEI msg) w of
       (Inl ErrNotFound, w) \<Rightarrow> (Some RejectSession, (t, w))
     | (Inl _, w) \<Rightarrow> (Some OtherError, (t, w))
     | (Inr dev, w) \<Rightarrow>
         let firstMessage = (dc_deviceID (ts_conns t c) = 0);
             t = Identify c (dv_IMEI dev) (dv_ID dev) t;
             (dev, w) = (if firstMessage then onConnected now dev (tm_Protocol msg) w else (dev, w));
             w = ingest_touch now dev w in
         if tm_Kind msg = KindLogin then (None, (t, w))
         else if tm_Kind msg = KindCommandAck then
           let (v, w) = vehicleIDFor now (dv_ID dev) w
           in (None, (t, HandleAck now (dv_ID dev) v (tm_CorrelationKey msg) (tm_Response msg)
                (\<not> failedResponse (tm_Response msg)) w))
         else (None, (t, processTelemetry cfg gm now dev msg w)))"

definition HandleInvalid ::
  "time \<Rightarrow> conn_ptr \<Rightarrow> bytes \<Rightarrow> string \<Rightarrow> invalid_reason \<Rightarrow>
   tcp_state \<times> 'x track_world_scheme \<Rightarrow> tcp_state \<times> 'x track_world_scheme" where
  "HandleInvalid now c payload name reason = (\<lambda>(t, w).
     (t, snd (raw_Insert now \<lparr> rp_ID = 0, rp_IMEI = conn_IMEI t c, rp_Protocol = name, rp_Reason = reason,
        rp_PayloadHex = ToHex payload, rp_PayloadASCII = ToASCII payload, rp_ByteCount = length payload,
        rp_ReceivedAt = zero_time \<rparr> w)))"

definition HandleDisconnect ::
  "time \<Rightarrow> conn_ptr \<Rightarrow> tcp_state \<times> 'x track_world_scheme \<Rightarrow> tcp_state \<times> 'x track_world_scheme" where
  "HandleDisconnect now c = (\<lambda>(t, w).
     let d = dc_deviceID (ts_conns t c) in
     if d = 0 then (t, w)
     else (t, event_Record now \<lparr> ev_DeviceID = d, ev_Type = ''DEVICE_DISCONNECTED'', ev_Timestamp = now,
       ev_Latitude = None, ev_Longitude = None, ev_SpeedKmh = None,
       ev_Metadata = [(''protocol'', MStr (ProtocolName t c)),
         (''connectedAt'', MInt (dc_ConnectedAt (ts_conns t c)))] \<rparr> w))"

definition tracking_ingestor ::
  "track_config \<Rightarrow> go_math \<Rightarrow> time \<Rightarrow> ('x track_world_scheme) ingestor" where
  "tracking_ingestor cfg gm now = \<lparr> ig_message = HandleMessage cfg gm now,
     ig_invalid = HandleInvalid now, ig_disconnect = HandleDisconnect now \<rparr>"

section \<open>The sweep of the statuses\<close>

definition status_text :: "dev_status \<Rightarrow> string" where
  "status_text s = (case s of ONLINE \<Rightarrow> ''ONLINE'' | STALE \<Rightarrow> ''STALE'' | OFFLINE \<Rightarrow> ''OFFLINE'')"

definition status_topic :: "dev_status \<Rightarrow> string" where
  "status_topic s = (case s of ONLINE \<Rightarrow> TypeDeviceOnline | STALE \<Rightarrow> TypeDeviceStale | OFFLINE \<Rightarrow> TypeDeviceOffline)"

definition no_packets :: string where
  "no_packets = ''sem pacotes al'' @ [CHR 0xC3, CHR 0xA9] @ ''m do limite''"

definition announce_change :: "time \<Rightarrow> status_change \<Rightarrow> 'x track_world_scheme \<Rightarrow> 'x track_world_scheme" where
  "announce_change now ch w =
     (let w = invalidateDevice (sc_IMEI ch) w;
          (v, w) = vehicleIDFor now (sc_DeviceID ch) w;
          w = publish_for (status_topic (sc_To ch)) v (Some (sc_DeviceID ch))
            [(''deviceId'', MId (sc_DeviceID ch)), (''status'', MStr (status_text (sc_To ch))),
             (''previous'', MStr (status_text (sc_From ch)))] w;
          event = (\<lambda>name md. event_Record now \<lparr> ev_DeviceID = sc_DeviceID ch, ev_Type = name,
            ev_Timestamp = now, ev_Latitude = None, ev_Longitude = None, ev_SpeedKmh = None,
            ev_Metadata = md \<rparr>) in
      case sc_To ch of
        OFFLINE \<Rightarrow> event ''DEVICE_DISCONNECTED'' [(''reason'', MStr no_packets),
          (''previous'', MStr (status_text (sc_From ch)))] w
      | STALE \<Rightarrow> event ''DEVICE_STALE'' [(''previous'', MStr (status_text (sc_From ch)))] w
      | ONLINE \<Rightarrow> w)"

definition ingest_SweepStatuses :: "track_config \<Rightarrow> time \<Rightarrow> 'x track_world_scheme \<Rightarrow> 'x track_world_scheme" where
  "ingest_SweepStatuses cfg now w =
     (case dev_SweepStatuses now (tc_StaleAfter cfg) (tc_OfflineAfter cfg) w of
        (Inl _, w) \<Rightarrow> w
      | (Inr changes, w) \<Rightarrow> snd (dev_CountOnline (fold (announce_change now) changes w)))"

end
