(* ===== verification/Tracking_Props.thy ===== *)
theory Tracking_Props
  imports Ingest Commands_Props
begin

text \<open>
  The properties of the tracking package: the telemetry behind the engine cut, the events of the
  speed detector and of the fences, the history and its pages, and the simplification of a track.
\<close>

section \<open>A concrete fleet\<close>

definition sample_position :: position where
  "sample_position = \<lparr> ps_ID = 1, ps_DeviceID = dv_ID sample_device, ps_GPSTimestamp = 0, ps_ReceivedAt = 0,
     ps_Latitude = Fin 0, ps_Longitude = Fin 0, ps_SpeedKmh = Fin 0, ps_Heading = None, ps_Altitude = None,
     ps_GPSValid = Some True, ps_Satellites = None, ps_HDOP = None, ps_ACC = None, ps_BatteryVoltage = None,
     ps_BatteryPercent = None, ps_GSMLevel = None, ps_RelayOn = None, ps_Protocol = ''tkstar_v1'',
     ps_Source = SourceGPS, ps_RawPayload = [] \<rparr>"

definition sample_track :: track_world where
  "sample_track = \<lparr> w_faults = [], w_nextid = 7, w_audit = [], w_events = [], w_published = [],
     w_devices = [sample_device], w_commands = [], w_tcp = sample_tcp, w_serial = 0, w_vehicles = [],
     w_geofences = [], w_fence_cache = [], w_positions = [sample_position], w_nextpos = 2,
     w_states = Map.empty, w_saving = [], w_saved = Map.empty, w_raw = [], w_nextraw = 1,
     w_devcache = Map.empty, w_vehcache = Map.empty, w_lastTouch = Map.empty \<rparr>"

lemma sample_track_facts [simp]:
  "w_faults sample_track = []" "w_positions sample_track = [sample_position]" "w_tcp sample_track = sample_tcp"
  "w_events sample_track = []" "w_serial sample_track = 0" "w_states sample_track = Map.empty"
  "w_devices sample_track = [sample_device]" "w_nextpos sample_track = 2"
  by (simp_all add: sample_track_def)

definition flat_math :: go_math where
  "flat_math = \<lparr> gm_Sin = (\<lambda>x. x), gm_Cos = (\<lambda>_. Fin 1), gm_Atan2 = (\<lambda>x _. x), gm_Sqrt = (\<lambda>x. x),
     gm_Hypot = (\<lambda>x y. f64_max x y) \<rparr>"

definition sample_tracking :: track_config where
  "sample_tracking = \<lparr> tc_StaleAfter = 120 * second, tc_OfflineAfter = 600 * second,
     tc_DefaultSpeedLimitKmh = Fin 110, tc_OverspeedHysteresisKmh = Fin 5 \<rparr>"

section \<open>What an event touches\<close>

lemma track_more:
  fixes w w' :: "'x track_world_scheme"
  assumes "base_world.more w' = base_world.more w"
  shows "w_states w' = w_states w" "w_fence_cache w' = w_fence_cache w" "w_positions w' = w_positions w"
  using assms by (cases w; cases w'; simp)+

lemma event_Record_track [simp]:
  fixes w :: "'x track_world_scheme"
  shows "w_states (event_Record now e w) = w_states w"
    "w_fence_cache (event_Record now e w) = w_fence_cache w"
    "w_positions (event_Record now e w) = w_positions w"
proof -
  have m: "base_world.more (event_Record now e w) = base_world.more w"
    using event_Record_side unfolding side_effect_def by blast
  show "w_states (event_Record now e w) = w_states w"
    "w_fence_cache (event_Record now e w) = w_fence_cache w"
    "w_positions (event_Record now e w) = w_positions w"
    by (rule track_more[OF m])+
qed

lemma event_Record_quiet:
  assumes "w_faults w = []"
  shows "w_faults (event_Record now e w) = []"
    "w_events (event_Record now e w) = w_events w @
       [if is_zero_time (ev_Timestamp e) then e\<lparr>ev_Timestamp := now\<rparr> else e]"
  using assms by (simp_all add: event_Record_def event_Create_def db_call_def publish_for_def Let_def)

definition state_of :: "'x track_world_scheme \<Rightarrow> uuid \<Rightarrow> dev_state" where
  "state_of w d = (case w_states w d of None \<Rightarrow> fresh_state d | Some s \<Rightarrow> s)"

lemma states_Update_run:
  "states_Update now d f w =
     ((state_of w d, (f (state_of w d))\<lparr>st_DeviceID := d, st_UpdatedAt := now\<rparr>),
      w\<lparr>w_states := (w_states w)(d \<mapsto> (f (state_of w d))\<lparr>st_DeviceID := d, st_UpdatedAt := now\<rparr>),
        w_saving := w_saving w @ [(f (state_of w d))\<lparr>st_DeviceID := d, st_UpdatedAt := now\<rparr>]\<rparr>)"
  by (simp add: states_Update_def state_of_def Let_def)

lemma state_of_simps [simp]:
  "state_of (w\<lparr>w_states := (w_states w)(d \<mapsto> s), w_saving := x\<rparr>) d = s"
  "state_of (event_Record now e w) d = state_of w d"
  by (simp_all add: state_of_def)

section \<open>The engine cut, end to end\<close>

lemma latest_Some:
  "latest ps = Some p \<Longrightarrow> p \<in> set ps \<and> (\<forall>q \<in> set ps. pos_key q \<le> pos_key p)"
  by (auto simp: latest_def find_Some_iff list_all_iff)

lemma Snapshot_row:
  assumes "Snapshot w d = Inr s" and "sn_HasPosition s"
  obtains p where "latest (filter (\<lambda>p. ps_DeviceID p = d \<and> ps_Source p = SourceGPS) (w_positions w)) = Some p"
    "sn_SpeedKmh s = ps_SpeedKmh p" "sn_Timestamp s = ps_ReceivedAt p"
proof -
  let ?F = "\<lambda>ps. latest (filter (\<lambda>p. ps_DeviceID p = d \<and> ps_Source p = SourceGPS) ps)"
  let ?f = "\<lambda>w. case ?F (w_positions w) of None \<Rightarrow> (Inl ErrNotFound, w) | Some p \<Rightarrow> (Inr p, w)"
  obtain p where p: "fst (pos_LatestWithLocation d w) = Inr p"
    and s: "sn_SpeedKmh s = ps_SpeedKmh p" "sn_Timestamp s = ps_ReceivedAt p"
    using assms by (auto simp: Snapshot_def split: sum.splits db_error.splits)
  from p have "?F (w_positions w) = Some p"
    unfolding pos_LatestWithLocation_def select_one_def
    by (cases rule: db_call_cases[of ?f w]) (auto split: option.splits)
  then show ?thesis using that s by blast
qed

text \<open>Property C19: what stands behind an engine cut.  With the telemetry of the tracking package, a
  request to cut the engine writes to a tracker only if the table holds a position of this device,
  the one with the latest clock of the device, that the server received within the configured time
  and whose speed is not above the configured one.\<close>

theorem cut_rests_on_a_position:
  assumes "rq_Type req = CommandEngineCut" and "cmd_Send cfg reg Snapshot wok rnd now req w = (res, w')"
    and "w_tcp w' \<noteq> w_tcp w"
  shows "\<exists>p. p \<in> set (w_positions w) \<and> ps_DeviceID p = dv_ID (rq_Device req)
    \<and> list_all (\<lambda>q. ps_DeviceID q = ps_DeviceID p \<and> ps_Source q = SourceGPS \<longrightarrow> pos_key q \<le> pos_key p) (w_positions w)
    \<and> time_sub now (ps_ReceivedAt p) \<le> cc_EngineCutMaxPositionAge cfg
    \<and> \<not> ps_SpeedKmh p > cc_EngineCutMaxSpeedKmh cfg"
proof -
  obtain s where s: "Snapshot w (dv_ID (rq_Device req)) = Inr s" "sn_HasPosition s"
    "time_sub now (sn_Timestamp s) \<le> cc_EngineCutMaxPositionAge cfg"
    "\<not> sn_SpeedKmh s > cc_EngineCutMaxSpeedKmh cfg"
    using engine_cut_rule[OF assms] by blast
  obtain p where p: "latest (filter (\<lambda>p. ps_DeviceID p = dv_ID (rq_Device req) \<and> ps_Source p = SourceGPS)
      (w_positions w)) = Some p" "sn_SpeedKmh s = ps_SpeedKmh p" "sn_Timestamp s = ps_ReceivedAt p"
    using Snapshot_row[OF s(1,2)] by blast
  then show ?thesis using s(3,4) latest_Some[OF p(1)] by (intro exI[of _ p]) (auto simp: list_all_iff)
qed

theorem cut_rests_on_a_position_witness:
  "\<exists>p. p \<in> set (w_positions sample_track) \<and> ps_DeviceID p = dv_ID (rq_Device sample_request)
    \<and> time_sub 0 (ps_ReceivedAt p) \<le> cc_EngineCutMaxPositionAge sample_config
    \<and> \<not> ps_SpeedKmh p > cc_EngineCutMaxSpeedKmh sample_config"
proof -
  let ?run = "cmd_Send sample_config (server_registry False 0 False) Snapshot True None 0 sample_request sample_track"
  have snap: "Snapshot sample_track (dv_ID (rq_Device sample_request)) = Inr sample_snapshot"
    by (simp add: Snapshot_def pos_LatestWithLocation_def select_one_def db_call_def latest_def
        sample_request_def sample_position_def sample_snapshot_def)
  have wf: "cmd_wf sample_track" by (simp add: cmd_wf_def sample_track_def)
  have "?run = cmd_submit sample_config True 0 sample_request ''tkstar_v1'' (newCorrelationKey None 0)
       (bytes_of_str ''RELAY,1#'') (sample_track\<lparr>w_serial := w_serial sample_track\<rparr>)"
    by (simp add: cmd_Send_def sample_facts sample_relay snap v1_Name_def command_valid_def AllCommandTypes_def)
  then have sub: "?run = cmd_submit sample_config True 0 sample_request ''tkstar_v1'' (newCorrelationKey None 0)
       (bytes_of_str ''RELAY,1#'') sample_track" by (simp add: sample_track_def)
  have send: "mgr_Send True (dv_IMEI (rq_Device sample_request)) (bytes_of_str ''RELAY,1#'') (w_tcp sample_track)
     = (None, upd_conn 0 (\<lambda>d. d\<lparr>dc_written := dc_written d @ [bytes_of_str ''RELAY,1#'']\<rparr>) sample_tcp)"
    using sample_facts(7) by (simp add: sample_cmd_world_def)
  obtain res w' where run: "?run = (res, w')"
    and t: "w_tcp w' = upd_conn 0 (\<lambda>d. d\<lparr>dc_written := dc_written d @ [bytes_of_str ''RELAY,1#'']\<rparr>) sample_tcp"
    unfolding sub using submit_outcome[OF wf sample_track_facts(1) send, of sample_config 0 "''tkstar_v1''"
        "newCorrelationKey None 0"] by blast
  have "dc_written (ts_conns (w_tcp w') 0) \<noteq> dc_written (ts_conns (w_tcp sample_track) 0)"
    by (simp add: t upd_conn_def sample_tcp_def newConnection_def)
  then have "w_tcp w' \<noteq> w_tcp sample_track" by metis
  from cut_rests_on_a_position[OF sample_facts(4) run this] show ?thesis by blast
qed

section \<open>The detector of excess speed\<close>

fun alternates :: "bool \<Rightarrow> string list \<Rightarrow> bool" where
  "alternates over [] = True"
| "alternates over (t # ts) = (t = (if over then ''OVERSPEED_END'' else ''OVERSPEED'') \<and> alternates (\<not> over) ts)"

definition overspeed_sound :: "track_config \<Rightarrow> event \<Rightarrow> bool" where
  "overspeed_sound cfg e \<longleftrightarrow> (\<exists>s l. ev_SpeedKmh e = Some s \<and> hd (ev_Metadata e) = (''limitKmh'', MFloat l)
     \<and> (if ev_Type e = ''OVERSPEED'' then s > l else s \<le> l - tc_OverspeedHysteresisKmh cfg))"

lemma evaluateOverspeed_step:
  assumes "w_faults w = []"
  shows "\<exists>es. w_events (evaluateOverspeed cfg now dev v pos w) = w_events w @ es
    \<and> w_faults (evaluateOverspeed cfg now dev v pos w) = []
    \<and> alternates (st_Overspeed (state_of w (dv_ID dev))) (map ev_Type es)
    \<and> st_Overspeed (state_of (evaluateOverspeed cfg now dev v pos w) (dv_ID dev)) =
        (st_Overspeed (state_of w (dv_ID dev)) = even (length es))
    \<and> list_all (overspeed_sound cfg) es"
proof (cases "speed_limit cfg v \<le> Fin 0")
  case True
  then show ?thesis using assms by (intro exI[of _ "[]"]) (simp add: evaluateOverspeed_def Let_def)
next
  case False
  let ?o = "st_Overspeed (state_of w (dv_ID dev))"
  let ?n = "overspeed_next (speed_limit cfg v) (tc_OverspeedHysteresisKmh cfg) (ps_SpeedKmh pos) ?o"
  show ?thesis
  proof (cases "?o = ?n")
    case True
    then show ?thesis using assms False
      by (intro exI[of _ "[]"]) (simp add: evaluateOverspeed_def states_Update_run Let_def)
  next
    case ne: False
    then show ?thesis using assms False
      by (cases ?o) (auto simp: evaluateOverspeed_def states_Update_run Let_def event_Record_quiet
          overspeed_sound_def overspeed_next_def)
  qed
qed

lemma alternates_append:
  "alternates over (xs @ ys) \<longleftrightarrow> alternates over xs \<and> alternates (over = even (length xs)) ys"
  by (induction xs arbitrary: over) auto

definition overspeed_run ::
  "track_config \<Rightarrow> device \<Rightarrow> (time \<times> vehicle option \<times> position) list \<Rightarrow> 'x track_world_scheme \<Rightarrow> 'x track_world_scheme" where
  "overspeed_run cfg dev = fold (\<lambda>(now, v, pos). evaluateOverspeed cfg now dev v pos)"



section \<open>The fences\<close>

text \<open>What an observer of the events knows of where the vehicle is.\<close>

definition apply_fence :: "event \<Rightarrow> uuid set \<Rightarrow> uuid set" where
  "apply_fence e inside =
     (case hd (ev_Metadata e) of
        (_, MId f) \<Rightarrow> if ev_Type e = ''GEOFENCE_ENTER'' then insert f inside else inside - {f}
      | _ \<Rightarrow> inside)"

lemma fence_fold:
  assumes "w_faults w = []"
  shows "\<exists>es. w_events (fold (fence_event now dev v pos t) fs w) = w_events w @ es
    \<and> w_faults (fold (fence_event now dev v pos t) fs w) = []
    \<and> state_of (fold (fence_event now dev v pos t) fs w) d = state_of w d
    \<and> fold apply_fence es A = (if t = ''GEOFENCE_ENTER'' then A \<union> set fs else A - set fs)"
  using assms
proof (induction fs arbitrary: w A)
  case Nil
  show ?case by (intro exI[of _ "[]"]) (simp add: Nil)
next
  case (Cons f fs)
  let ?w = "fence_event now dev v pos t f w"
  obtain e where e: "w_events ?w = w_events w @ [e]" "w_faults ?w = []" "state_of ?w d = state_of w d"
    "apply_fence e A = (if t = ''GEOFENCE_ENTER'' then insert f A else A - {f})"
    using Cons.prems by (simp add: fence_event_def event_Record_quiet apply_fence_def)
  from Cons.IH[OF e(2), of "apply_fence e A"] show ?case
    using e by (auto intro!: exI[of _ "e # _"])
qed

definition fence_run ::
  "go_math \<Rightarrow> device \<Rightarrow> (time \<times> uuid option \<times> position) list \<Rightarrow> 'x track_world_scheme \<Rightarrow> 'x track_world_scheme" where
  "fence_run gm dev = fold (\<lambda>(now, v, pos). evaluateGeofences gm now dev v pos)"

lemma evaluateGeofences_step:
  assumes "w_faults w = []"
  shows "\<exists>es. w_events (evaluateGeofences gm now dev v pos w) = w_events w @ es
    \<and> w_faults (evaluateGeofences gm now dev v pos w) = []
    \<and> st_InsideFences (state_of (evaluateGeofences gm now dev v pos w) (dv_ID dev)) =
        (if ps_GPSValid pos = Some False then st_InsideFences (state_of w (dv_ID dev))
         else fences_Inside gm (ps_Latitude pos) (ps_Longitude pos) w)
    \<and> fold apply_fence es (set (st_InsideFences (state_of w (dv_ID dev)))) =
        set (st_InsideFences (state_of (evaluateGeofences gm now dev v pos w) (dv_ID dev)))"
proof (cases "ps_GPSValid pos = Some False")
  case True
  then show ?thesis using assms by (intro exI[of _ "[]"]) (simp add: evaluateGeofences_def)
next
  case False
  let ?d = "dv_ID dev" and ?cur = "fences_Inside gm (ps_Latitude pos) (ps_Longitude pos) w"
  let ?before = "st_InsideFences (state_of w ?d)"
  let ?s = "(state_of w ?d)\<lparr>st_InsideFences := ?cur, st_DeviceID := ?d, st_UpdatedAt := now\<rparr>"
  let ?w1 = "w\<lparr>w_states := (w_states w)(?d \<mapsto> ?s), w_saving := w_saving w @ [?s]\<rparr>"
  let ?new = "filter (\<lambda>f. f \<notin> set ?before) ?cur" and ?gone = "filter (\<lambda>f. f \<notin> set ?cur) ?before"
  let ?w2 = "fold (fence_event now dev v pos ''GEOFENCE_ENTER'') ?new ?w1"
  have "w_faults ?w1 = []" using assms by simp
  from fence_fold[OF this, of now dev v pos "''GEOFENCE_ENTER''" ?new ?d "set ?before"]
  obtain es where es: "w_events ?w2 = w_events w @ es" "w_faults ?w2 = []" "state_of ?w2 ?d = ?s"
    "fold apply_fence es (set ?before) = set ?before \<union> set ?new" by auto
  from fence_fold[OF es(2), of now dev v pos "''GEOFENCE_EXIT''" ?gone ?d "set ?before \<union> set ?new"]
  obtain fs where fs: "w_events (fold (fence_event now dev v pos ''GEOFENCE_EXIT'') ?gone ?w2) = w_events ?w2 @ fs"
    "w_faults (fold (fence_event now dev v pos ''GEOFENCE_EXIT'') ?gone ?w2) = []"
    "state_of (fold (fence_event now dev v pos ''GEOFENCE_EXIT'') ?gone ?w2) ?d = ?s"
    "fold apply_fence fs (set ?before \<union> set ?new) = set ?before \<union> set ?new - set ?gone" using es(3) by auto
  have run: "evaluateGeofences gm now dev v pos w = fold (fence_event now dev v pos ''GEOFENCE_EXIT'') ?gone ?w2"
    using False by (simp add: evaluateGeofences_def states_Update_run Let_def)
  show ?thesis unfolding run using es fs False by (intro exI[of _ "es @ fs"]) auto
qed

lemma fence_run_replays:
  assumes "w_faults w = []"
  shows "\<exists>es. w_events (fence_run gm dev xs w) = w_events w @ es
    \<and> fold apply_fence es (set (st_InsideFences (state_of w (dv_ID dev)))) =
        set (st_InsideFences (state_of (fence_run gm dev xs w) (dv_ID dev)))"
  using assms
proof (induction xs arbitrary: w)
  case Nil
  show ?case by (intro exI[of _ "[]"]) (simp add: fence_run_def)
next
  case (Cons x xs)
  obtain now v pos where x: "x = (now, v, pos)" by (cases x)
  let ?w = "evaluateGeofences gm now dev v pos w"
  obtain es where es: "w_events ?w = w_events w @ es" "w_faults ?w = []"
    "fold apply_fence es (set (st_InsideFences (state_of w (dv_ID dev)))) = set (st_InsideFences (state_of ?w (dv_ID dev)))"
    using evaluateGeofences_step[OF Cons.prems] by blast
  obtain fs where "w_events (fence_run gm dev xs ?w) = w_events ?w @ fs"
    "fold apply_fence fs (set (st_InsideFences (state_of ?w (dv_ID dev)))) =
        set (st_InsideFences (state_of (fence_run gm dev xs ?w) (dv_ID dev)))"
    using Cons.IH[OF es(2)] by blast
  moreover have "fence_run gm dev (x # xs) w = fence_run gm dev xs ?w" by (simp add: fence_run_def x)
  ultimately show ?case using es by (intro exI[of _ "es @ fs"]) auto
qed

text \<open>Property C21: the fence events are a faithful log.  Over any sequence of positions, with or
  without a valid fix, an observer who starts from the fences the vehicle was in and follows the
  ENTER and EXIT events ends with exactly the fences stored for the device; and one evaluation leaves
  there the active fences that contain the position, or, without a valid fix, what was there.\<close>

theorem fence_log_replays:
  assumes "w_faults w = []"
  shows "(\<exists>es. w_events (fence_run gm dev xs w) = w_events w @ es
      \<and> fold apply_fence es (set (st_InsideFences (state_of w (dv_ID dev)))) =
          set (st_InsideFences (state_of (fence_run gm dev xs w) (dv_ID dev))))
    \<and> st_InsideFences (state_of (evaluateGeofences gm now dev v pos w) (dv_ID dev)) =
        (if ps_GPSValid pos = Some False then st_InsideFences (state_of w (dv_ID dev))
         else fences_Inside gm (ps_Latitude pos) (ps_Longitude pos) w)"
  using fence_run_replays[OF assms, of gm dev xs] evaluateGeofences_step[OF assms, of gm now dev v pos] by blast

theorem fence_log_replays_witness:
  "st_InsideFences (state_of (evaluateGeofences flat_math 7 sample_device None sample_position sample_track)
     (dv_ID sample_device)) = []"
  using fence_log_replays[OF sample_track_facts(1), of flat_math sample_device "[]" 7 None sample_position]
  by (simp add: sample_position_def fences_Inside_def) (simp add: sample_track_def)

section \<open>A position from the buffer\<close>

lemma fence_events_positions:
  "w_positions (fold (fence_event now dev v pos t) fs w) = w_positions w"
  by (induction fs arbitrary: w) (simp_all add: fence_event_def)

lemma store_position_quiet:
  assumes "w_faults w = []" and "list_ex (\<lambda>d. dv_ID d = dv_ID dev) (w_devices w)"
  shows "w_faults (store_position cfg gm now dev v msg w) = []"
    "w_positions (store_position cfg gm now dev v msg w) = w_positions w @
       [(buildPosition now dev msg)\<lparr>ps_ID := w_nextpos w, ps_ReceivedAt := now\<rparr>]"
proof -
  let ?p = "(buildPosition now dev msg)\<lparr>ps_ID := w_nextpos w, ps_ReceivedAt := now\<rparr>"
  let ?w = "w\<lparr>w_nextpos := Suc (w_nextpos w), w_positions := w_positions w @ [?p]\<rparr>"
  let ?o = "evaluateOverspeed cfg now dev v ?p ?w"
  let ?g = "evaluateGeofences gm now dev (map_option ve_ID v) ?p ?o"
  have ins: "pos_Insert now (buildPosition now dev msg) w = (Inr ?p, ?w)"
    using assms by (simp add: pos_Insert_def db_call_def insert_position_def Let_def buildPosition_def)
  have run: "store_position cfg gm now dev v msg w =
      publish_for TypePositionUpdated (map_option ve_ID v) (Some (dv_ID dev)) [(''id'', MInt (int (w_nextpos w)))] ?g"
    by (simp add: store_position_def ins Let_def)
  have "w_faults ?w = []" using assms(1) by simp
  then have "w_faults ?o = []" using evaluateOverspeed_step by blast
  then have "w_faults ?g = []" using evaluateGeofences_step by blast
  then show "w_faults (store_position cfg gm now dev v msg w) = []" by (simp add: run publish_for_def)
  have "w_positions ?o = w_positions ?w" by (simp add: evaluateOverspeed_def states_Update_run Let_def)
  moreover have "w_positions ?g = w_positions ?o"
    by (simp add: evaluateGeofences_def states_Update_run Let_def fence_events_positions)
  ultimately show "w_positions (store_position cfg gm now dev v msg w) = w_positions w @ [?p]"
    by (simp add: run publish_for_def)
qed

lemma latest_snoc:
  assumes "\<forall>q \<in> set ps. pos_key q < pos_key p"
  shows "latest (ps @ [p]) = Some p"
proof -
  have "\<not> list_all (\<lambda>q. pos_key q \<le> pos_key (ps ! j)) (ps @ [p])" if "j < length ps" for j
    using assms that nth_mem[of j ps] by (auto simp: not_le)
  moreover have "list_all (\<lambda>q. pos_key q \<le> pos_key p) (ps @ [p])"
    using assms by (auto simp: list_all_iff intro: less_imp_le)
  ultimately show ?thesis unfolding latest_def find_Some_iff
    by (intro exI[of _ "length ps"]) (simp add: nth_append)
qed

text \<open>Property C39: a position from the buffer of the device passes for a fresh one.  The rule measures
  the age by the instant of reception.  A device that was out of coverage delivers what it stored: a
  position is received now and authorises the cut, however old the clock in it is, when no stored
  position has a later clock.  The comment in the source says that such a packet cannot pass for
  fresh information.\<close>

theorem buffered_position_passes:
  assumes "w_faults w = []" and "list_ex (\<lambda>d. dv_ID d = dv_ID dev) (w_devices w)"
    and "list_all (\<lambda>q. ps_GPSTimestamp q \<le> tm_Timestamp msg \<and> ps_ID q < w_nextpos w) (w_positions w)"
    and "\<not> is_zero_time (tm_Timestamp msg)"
    and "\<not> tm_SpeedKmh msg > cc_EngineCutMaxSpeedKmh cfg" and "0 \<le> cc_EngineCutMaxPositionAge cfg"
  shows "engineCutBlocked cfg (Snapshot (store_position tcfg gm now dev v msg w) (dv_ID dev)) now = None"
proof -
  let ?w = "store_position tcfg gm now dev v msg w"
  let ?p = "(buildPosition now dev msg)\<lparr>ps_ID := w_nextpos w, ps_ReceivedAt := now\<rparr>"
  let ?P = "\<lambda>p. ps_DeviceID p = dv_ID dev \<and> ps_Source p = SourceGPS"
  have "?P ?p" by (simp add: buildPosition_def)
  moreover have "latest (filter ?P (w_positions w) @ [?p]) = Some ?p"
    by (rule latest_snoc) (use assms(3,4) in \<open>auto simp: pos_key_def buildPosition_def list_all_iff less_le_not_le\<close>)
  ultimately have "latest (filter ?P (w_positions ?w)) = Some ?p"
    by (simp add: store_position_quiet(2)[OF assms(1,2)])
  then have "Snapshot ?w (dv_ID dev) =
      Inr \<lparr> sn_HasPosition = True, sn_SpeedKmh = tm_SpeedKmh msg, sn_Timestamp = now \<rparr>"
    by (simp add: Snapshot_def pos_LatestWithLocation_def select_one_def db_call_def
        store_position_quiet(1)[OF assms(1,2)] buildPosition_def)
  then show ?thesis using assms(5,6) by (simp add: engineCutBlocked_def time_sub_def)
qed

theorem buffered_position_passes_witness:
  "engineCutBlocked sample_config (Snapshot (store_position sample_tracking flat_math (3600 * second) sample_device
     None (zero_message\<lparr>tm_Timestamp := 60, tm_HasLocation := True\<rparr>) sample_track) (dv_ID sample_device))
     (3600 * second) = None"
  by (rule buffered_position_passes)
    (simp_all add: sample_position_def is_zero_time_def zero_time_def second_def sample_config_def
      zero_message_def f64_ops)

section \<open>The simplification of a track\<close>

lemma f64_less_trans: "a < b \<Longrightarrow> b < c \<Longrightarrow> a < (c :: f64)"
  by (cases a; cases b; cases c) (auto simp: less_f64_def)

lemma f64_le_less_trans: "a \<le> b \<Longrightarrow> b < c \<Longrightarrow> a < (c :: f64)"
  by (cases a; cases b; cases c) (auto simp: f64_ops)

lemma f64_chain: "a = b \<or> a < b \<Longrightarrow> b = c \<or> b < c \<Longrightarrow> a = c \<or> a < (c :: f64)"
  by (auto dest: f64_less_trans)

lemma farther_step:
  "fst best = fst (farther pd ps a b best j) \<or> fst best < fst (farther pd ps a b best j)"
  "farther pd ps a b best j = best \<or> snd (farther pd ps a b best j) = j"
  "\<not> fst (farther pd ps a b best j) < pd (ps ! j) (ps ! a) (ps ! b)"
  by (cases "pd (ps ! j) (ps ! a) (ps ! b)"; auto simp: farther_def Let_def less_f64_def)+

lemma farther_grows:
  "fst best = fst (foldl (farther pd ps a b) best is) \<or> fst best < fst (foldl (farther pd ps a b) best is)"
proof (induction "is" arbitrary: best)
  case (Cons j js)
  show ?case using f64_chain[OF farther_step(1) Cons.IH] by simp
qed simp

lemma farther_index:
  "foldl (farther pd ps a b) best is = best \<or> snd (foldl (farther pd ps a b) best is) \<in> set is"
proof (induction "is" arbitrary: best)
  case (Cons j js)
  show ?case using farther_step(2)[of pd ps a b best j] Cons.IH[of "farther pd ps a b best j"] by auto
qed simp

lemma farther_max:
  "i \<in> set is \<Longrightarrow> \<not> fst (foldl (farther pd ps a b) best is) < pd (ps ! i) (ps ! a) (ps ! b)"
proof (induction "is" arbitrary: best)
  case (Cons j js)
  show ?case
  proof (cases "i = j")
    case True
    then show ?thesis
      using farther_step(3)[of pd ps a b best j] farther_grows[of "farther pd ps a b best j" pd ps a b js]
      by (auto dest: f64_less_trans)
  qed (use Cons in auto)
qed simp

text \<open>The farthest point is inside the segment as soon as it is farther than a positive tolerance;
  and when it is not, no point is.\<close>

lemma farthest_inside:
  assumes "Fin 0 < tol" and "\<not> fst (farthest pd ps a b) \<le> tol"
  shows "a < snd (farthest pd ps a b)" "snd (farthest pd ps a b) < b"
proof -
  have "farthest pd ps a b \<noteq> (Fin 0, a)" using assms by (auto simp: less_eq_f64_def less_f64_def)
  then have "snd (farthest pd ps a b) \<in> set [a + 1..<b]"
    using farther_index[of pd ps a b "(Fin 0, a)" "[a + 1..<b]"] by (auto simp: farthest_def)
  then show "a < snd (farthest pd ps a b)" "snd (farthest pd ps a b) < b" by auto
qed

lemma farthest_within:
  assumes "fst (farthest pd ps a b) \<le> tol" and "a < i" and "i < b"
  shows "\<not> pd (ps ! i) (ps ! a) (ps ! b) > tol"
  using farther_max[of i "[a + 1..<b]" pd ps a b "(Fin 0, a)"] assms f64_le_less_trans
  by (auto simp: farthest_def)

text \<open>Every point between \<open>a\<close> and \<open>b\<close> that is not kept lies between two kept neighbours, and is
  no farther than the tolerance from the segment that joins them.\<close>

definition covered ::
  "(position \<Rightarrow> position \<Rightarrow> position \<Rightarrow> f64) \<Rightarrow> position list \<Rightarrow> f64 \<Rightarrow> bool list \<Rightarrow> nat \<Rightarrow> nat \<Rightarrow> bool" where
  "covered pd ps tol keep a b \<longleftrightarrow> (\<forall>i. a < i \<and> i < b \<and> \<not> keep ! i \<longrightarrow>
     (\<exists>x y. a \<le> x \<and> x < i \<and> i < y \<and> y \<le> b \<and> (x = a \<or> keep ! x) \<and> (y = b \<or> keep ! y)
        \<and> (\<forall>j. x < j \<and> j < y \<longrightarrow> \<not> keep ! j) \<and> \<not> pd (ps ! i) (ps ! x) (ps ! y) > tol))"

lemma covered_cong:
  assumes "\<And>i. a < i \<Longrightarrow> i < b \<Longrightarrow> keep ! i = keep' ! i" and "covered pd ps tol keep a b"
  shows "covered pd ps tol keep' a b"
  unfolding covered_def
proof (intro allI impI)
  fix i
  assume i: "a < i \<and> i < b \<and> \<not> keep' ! i"
  then have "\<not> keep ! i" using assms(1) by blast
  with i assms(2) obtain x y where xy: "a \<le> x" "x < i" "i < y" "y \<le> b" "x = a \<or> keep ! x" "y = b \<or> keep ! y"
    "\<forall>j. x < j \<and> j < y \<longrightarrow> \<not> keep ! j" "\<not> pd (ps ! i) (ps ! x) (ps ! y) > tol"
    unfolding covered_def by blast
  moreover have "\<forall>j. x < j \<and> j < y \<longrightarrow> \<not> keep' ! j" using xy assms(1) by (metis le_less_trans less_le_trans)
  moreover have "x = a \<or> keep' ! x" using xy assms(1)[of x] i by fastforce
  moreover have "y = b \<or> keep' ! y" using xy assms(1)[of y] i by fastforce
  ultimately show "\<exists>x y. a \<le> x \<and> x < i \<and> i < y \<and> y \<le> b \<and> (x = a \<or> keep' ! x) \<and> (y = b \<or> keep' ! y)
      \<and> (\<forall>j. x < j \<and> j < y \<longrightarrow> \<not> keep' ! j) \<and> \<not> pd (ps ! i) (ps ! x) (ps ! y) > tol" by blast
qed

lemma covered_join:
  assumes "covered pd ps tol keep a k" and "covered pd ps tol keep k b" and "keep ! k" and "a < k" "k < b"
  shows "covered pd ps tol keep a b"
  unfolding covered_def
proof (intro allI impI)
  fix i
  assume i: "a < i \<and> i < b \<and> \<not> keep ! i"
  then have "i \<noteq> k" using assms(3) by auto
  then consider "i < k" | "k < i" by linarith
  then show "\<exists>x y. a \<le> x \<and> x < i \<and> i < y \<and> y \<le> b \<and> (x = a \<or> keep ! x) \<and> (y = b \<or> keep ! y)
      \<and> (\<forall>j. x < j \<and> j < y \<longrightarrow> \<not> keep ! j) \<and> \<not> pd (ps ! i) (ps ! x) (ps ! y) > tol"
  proof cases
    case 1
    then obtain x y where "a \<le> x" "x < i" "i < y" "y \<le> k" "x = a \<or> keep ! x" "y = k \<or> keep ! y"
      "\<forall>j. x < j \<and> j < y \<longrightarrow> \<not> keep ! j" "\<not> pd (ps ! i) (ps ! x) (ps ! y) > tol"
      using assms(1) i unfolding covered_def by blast
    moreover have "y \<le> b" "keep ! y" using calculation assms(3,5) by auto
    ultimately show ?thesis by blast
  next
    case 2
    then obtain x y where "k \<le> x" "x < i" "i < y" "y \<le> b" "x = k \<or> keep ! x" "y = b \<or> keep ! y"
      "\<forall>j. x < j \<and> j < y \<longrightarrow> \<not> keep ! j" "\<not> pd (ps ! i) (ps ! x) (ps ! y) > tol"
      using assms(2) i unfolding covered_def by blast
    moreover have "a \<le> x" "keep ! x" using calculation assms(3,4) by auto
    ultimately show ?thesis by blast
  qed
qed

lemma simplifySegment_ok:
  assumes "Fin 0 < tol" and "b < length keep" and "a < b" and "\<And>i. a < i \<Longrightarrow> i < b \<Longrightarrow> \<not> keep ! i"
  shows "\<exists>keep'. simplifySegment pd ps a b tol keep = Some keep' \<and> length keep' = length keep
    \<and> (\<forall>i. i \<le> a \<or> b \<le> i \<longrightarrow> keep' ! i = keep ! i) \<and> covered pd ps tol keep' a b"
  using assms(2-4)
proof (induction "b - a" arbitrary: a b keep rule: less_induct)
  case less
  let ?k = "snd (farthest pd ps a b)"
  consider "b \<le> a + 1" | "a + 1 < b" "fst (farthest pd ps a b) \<le> tol"
    | "a + 1 < b" "\<not> fst (farthest pd ps a b) \<le> tol" by linarith
  then show ?case
  proof cases
    case 1
    then show ?thesis by (intro exI[of _ keep]) (subst simplifySegment.simps, auto simp: covered_def)
  next
    case 2
    have "covered pd ps tol keep a b"
      unfolding covered_def using farthest_within[OF 2(2)] less.prems(3) less_imp_le by blast
    then show ?thesis using 2 by (intro exI[of _ keep]) (subst simplifySegment.simps, auto)
  next
    case 3
    note k = farthest_inside[OF assms(1) 3(2)]
    have "\<exists>keep'. simplifySegment pd ps a ?k tol (keep[?k := True]) = Some keep' \<and> length keep' = length (keep[?k := True])
      \<and> (\<forall>i. i \<le> a \<or> ?k \<le> i \<longrightarrow> keep' ! i = keep[?k := True] ! i) \<and> covered pd ps tol keep' a ?k"
      by (rule less.hyps) (use k less.prems in auto)
    then obtain k1 where k1: "simplifySegment pd ps a ?k tol (keep[?k := True]) = Some k1"
      "length k1 = length keep" "\<forall>i. i \<le> a \<or> ?k \<le> i \<longrightarrow> k1 ! i = keep[?k := True] ! i" "covered pd ps tol k1 a ?k"
      by auto
    have "\<exists>keep'. simplifySegment pd ps ?k b tol k1 = Some keep' \<and> length keep' = length k1
      \<and> (\<forall>i. i \<le> ?k \<or> b \<le> i \<longrightarrow> keep' ! i = k1 ! i) \<and> covered pd ps tol keep' ?k b"
      by (rule less.hyps) (use k less.prems k1(2,3) in auto)
    then obtain k2 where k2: "simplifySegment pd ps ?k b tol k1 = Some k2"
      "length k2 = length k1" "\<forall>i. i \<le> ?k \<or> b \<le> i \<longrightarrow> k2 ! i = k1 ! i" "covered pd ps tol k2 ?k b"
      by blast
    have "k2 ! ?k" using k1(3) k2(3) k less.prems(1) by simp
    then have "covered pd ps tol k2 a b"
      using covered_join[OF covered_cong[OF _ k1(4), of k2] k2(4)] k k2(3) by simp
    moreover have "simplifySegment pd ps a b tol keep = Some k2"
      using 3 k1(1) k2(1) by (subst simplifySegment.simps) simp
    moreover have "k2 ! i = keep ! i" if "i \<le> a \<or> b \<le> i" for i
      using that k1(3) k2(3) k by (metis le_trans less_imp_le nth_list_update_neq not_less)
    ultimately show ?thesis using k1(2) k2(2) by auto
  qed
qed

lemma simplify_shape:
  assumes "Fin 0 < tol" and "3 \<le> length ps"
  shows "\<exists>keep. Simplify gm ps tol = Some (kept keep ps) \<and> length keep = length ps
    \<and> keep ! 0 \<and> keep ! (length ps - 1) \<and> covered (perpendicularDistance gm) ps tol keep 0 (length ps - 1)"
proof -
  let ?k = "(replicate (length ps) False)[0 := True, length ps - 1 := True]"
  have "\<exists>keep. simplifySegment (perpendicularDistance gm) ps 0 (length ps - 1) tol ?k = Some keep
    \<and> length keep = length ?k \<and> (\<forall>i. i \<le> 0 \<or> length ps - 1 \<le> i \<longrightarrow> keep ! i = ?k ! i)
    \<and> covered (perpendicularDistance gm) ps tol keep 0 (length ps - 1)"
    by (rule simplifySegment_ok[OF assms(1)]) (use assms(2) in auto)
  then obtain keep where "simplifySegment (perpendicularDistance gm) ps 0 (length ps - 1) tol ?k = Some keep"
    "length keep = length ps" "\<forall>i. i \<le> 0 \<or> length ps - 1 \<le> i \<longrightarrow> keep ! i = ?k ! i"
    "covered (perpendicularDistance gm) ps tol keep 0 (length ps - 1)" by auto
  moreover have "\<not> tol \<le> Fin 0" using assms(1) by (cases tol) (auto simp: f64_ops)
  moreover have "ps \<noteq> []" using assms(2) by auto
  then have "?k ! 0" "?k ! (length ps - 1)" using assms(2) by (simp_all add: nth_list_update)
  ultimately show ?thesis using assms(2) by (intro exI[of _ keep]) (auto simp: Simplify_def)
qed

text \<open>Property C22: the simplification of a track ends and keeps its shape.  For a positive tolerance
  the recursion returns; the first and the last point are kept, the result is the track less some
  points, in the same order, and every point that is left out lies between two neighbours of the
  result and is not farther than the tolerance from the segment between them.\<close>

theorem simplify_keeps_shape:
  assumes "Fin 0 < tol" and "3 \<le> length ps"
  shows "\<exists>keep. Simplify gm ps tol = Some (kept keep ps) \<and> length keep = length ps
    \<and> keep ! 0 \<and> keep ! (length ps - 1) \<and> covered (perpendicularDistance gm) ps tol keep 0 (length ps - 1)"
  using assms by (rule simplify_shape)

theorem simplify_keeps_shape_witness:
  "\<exists>keep. Simplify flat_math [sample_position, sample_position, sample_position] (Fin 5) =
      Some (kept keep [sample_position, sample_position, sample_position]) \<and> keep ! 0 \<and> keep ! 2"
  using simplify_keeps_shape[of "Fin 5" "[sample_position, sample_position, sample_position]" flat_math]
  by (simp add: f64_ops numeral_2_eq_2) blast

section \<open>The history\<close>

lemma count_residue:
  assumes "2 \<le> s"
  shows "length (filter (\<lambda>rn. rn mod s = 1) [1..<Suc n]) = (n + s - 1) div s"
proof (induction n)
  case 0
  show ?case using assms by simp
next
  case (Suc n)
  have "Suc n mod s = 1 \<longleftrightarrow> n mod s = 0" using assms by (auto simp: mod_Suc)
  moreover have "(Suc n + s - 1) div s = (if n mod s = 0 then Suc ((n + s - 1) div s) else (n + s - 1) div s)"
    using div_Suc[of "n + s - 1" s] assms by simp
  ultimately show ?case using Suc by simp
qed

lemma length_sample_rows:
  "length (sample_rows s xs) = length (filter (\<lambda>rn. s = 1 \<or> rn mod s = 1 \<or> rn = length xs) [1..<Suc (length xs)])"
proof -
  have "length (filter (\<lambda>(rn, _). P rn) (zip rs ys)) = length (filter P rs)" if "length rs = length ys"
    for P and rs :: "nat list" and ys :: "'a list"
    using that by (induction rs ys rule: list_induct2) auto
  then show ?thesis by (simp add: sample_rows_def)
qed

lemma sample_rows_le:
  assumes "2 \<le> s"
  shows "length (sample_rows s xs) \<le> (length xs + s - 1) div s + 1"
proof -
  let ?rs = "[1..<Suc (length xs)]"
  have two: "length (filter (\<lambda>rn. P rn \<or> rn = k) rs) \<le> length (filter P rs) + length (filter (\<lambda>rn. rn = k) rs)"
    for P and k :: nat and rs by (induction rs) auto
  have one: "distinct rs \<Longrightarrow> length (filter (\<lambda>rn. rn = k) rs) \<le> 1" for k :: nat and rs
    by (induction rs) (auto simp: filter_empty_conv)
  have "length (sample_rows s xs) = length (filter (\<lambda>rn. rn mod s = 1 \<or> rn = length xs) ?rs)"
    unfolding length_sample_rows using assms by (intro arg_cong[of _ _ length] filter_cong) auto
  then show ?thesis
    using two[of "\<lambda>rn. rn mod s = 1" "length xs" ?rs] one[OF distinct_upt, of "length xs" 1 "Suc (length xs)"]
      count_residue[OF assms, of "length xs"] by linarith
qed

lemma ceil_quot_enough:
  assumes "0 < limit" and "limit < int n" and "n < 2 ^ 53"
  shows "int n \<le> int (ceil_quot n limit) * limit"
proof -
  define q :: rat where "q = of_int (int n) / of_int limit"
  have l: "(0::rat) < of_int limit" using assms(1) by simp
  have q1: "1 < q" using assms(1,2) by (simp add: q_def)
  define k where "k = Suc (nat (expo2 q))"
  have "0 \<le> expo2 q"
  proof (rule ccontr)
    assume "\<not> 0 \<le> expo2 q"
    then have "rpow 2 (expo2 q + 1) \<le> rpow 2 0" by (intro rpow2_mono) simp
    then show False using expo2_bounds(2)[of q] q1 by (simp add: rpow_def)
  qed
  then have e: "expo2 q = int (nat (expo2 q))" by simp
  have lo: "2 ^ nat (expo2 q) \<le> q" using expo2_bounds(1)[of q] q1 rpow2_nat[of "nat (expo2 q)"] e by simp
  have "expo2 q + 1 = int k" using e by (simp add: k_def)
  then have "rpow 2 (expo2 q + 1) = 2 ^ k" by (simp only: rpow2_nat)
  then have hi: "q < 2 ^ k" using expo2_bounds(2)[of q] q1 by simp
  have "int n < 2 ^ 53" using assms(3) by (metis of_nat_less_iff of_nat_numeral of_nat_power)
  then have "(of_int (int n) :: rat) < of_int (2 ^ 53)" by (simp only: of_int_less_iff)
  then have "of_int (int n) < (2 ^ 53 :: rat)" by simp
  moreover have "q \<le> of_int (int n)"
    using assms(1) by (simp add: q_def divide_le_eq mult_le_cancel_left1)
  ultimately have "(2::rat) ^ nat (expo2 q) < 2 ^ 53" using lo by linarith
  then have "nat (expo2 q) < 53" by (rule power_less_imp_less_exp [rotated]) simp
  then have "k \<le> 1023" by (simp add: k_def)
  with hi q1 obtain y where y: "f64_round q = Fin y" "\<bar>y - q\<bar> \<le> 2 ^ k / 2 ^ 54"
    using f64_round_error[of q k] by auto
  have "2 ^ k / 2 ^ 54 \<le> q / 2 ^ 53" using lo by (simp add: k_def)
  also have "\<dots> < 1 / of_int limit"
    using \<open>of_int (int n) < (2 ^ 53 :: rat)\<close> l by (simp add: q_def field_simps)
  finally have "q - 1 / of_int limit < y" using y(2) by linarith
  moreover have "y \<le> of_int \<lceil>y\<rceil>" by simp
  ultimately have "q - 1 / of_int limit < of_int \<lceil>y\<rceil>" by linarith
  then have "of_int (int n) - 1 < of_int \<lceil>y\<rceil> * (of_int limit :: rat)"
    using l by (simp add: q_def field_simps)
  then have "of_int (int n - 1) < (of_int (\<lceil>y\<rceil> * limit) :: rat)" by simp
  then have main: "int n \<le> \<lceil>y\<rceil> * limit" by (simp only: of_int_less_iff)
  then have "0 < \<lceil>y\<rceil>" using assms(1,2) by (metis less_le_trans less_trans zero_less_mult_pos2)
  moreover have "ceil_quot n limit = nat \<lceil>y\<rceil>"
  proof -
    have "f64_of_int (int n) = Fin (of_int (int n))" "f64_of_int limit = Fin (of_int limit)"
      using assms \<open>int n < 2 ^ 53\<close> by (intro f64_of_int_exact; simp)+
    then show ?thesis using y(1) l by (simp add: ceil_quot_def f64_ops q_def)
  qed
  ultimately show ?thesis using main by simp
qed

lemma sample_bounded:
  assumes "length xs < 2 ^ 53"
  shows "length (sample_rows (history_step q (length xs)) xs) \<le> nat (history_limit q) + 1"
    "int (length xs) \<le> history_limit q \<Longrightarrow> sample_rows (history_step q (length xs)) xs = xs"
proof -
  have "length (sample_rows (history_step q (length xs)) xs) \<le> nat (history_limit q) + 1
    \<and> (if int (length xs) \<le> history_limit q then sample_rows (history_step q (length xs)) xs = xs else True)"
  proof (cases "int (length xs) \<le> history_limit q")
    case True
    then have "history_step q (length xs) = 1" by (simp add: history_step_def)
    moreover have "map snd (filter (\<lambda>(rn, _). True) (zip [1..<Suc (length xs)] xs)) = xs"
      by (simp del: upt_Suc)
    ultimately show ?thesis using True by (simp add: sample_rows_def del: upt_Suc)
  next
    case False
    let ?n = "length xs" and ?l = "history_limit q"
    let ?s = "history_step q ?n"
    have l: "0 < ?l" by (simp add: history_limit_def)
    have s: "?s = ceil_quot ?n ?l" using False by (simp add: history_step_def)
    have e: "int ?n \<le> int ?s * ?l" using ceil_quot_enough[OF l _ assms] False by (simp add: s)
    then have n: "?n \<le> ?s * nat ?l" using l by (metis nat_int nat_le_iff of_nat_mult nat_0_le less_imp_le of_nat_le_iff)
    have "2 \<le> ?s"
    proof (rule ccontr)
      assume "\<not> 2 \<le> ?s"
      then have "int ?s * ?l \<le> 1 * ?l" using l by (intro mult_right_mono) auto
      then show False using e False by simp
    qed
    then have "length (sample_rows ?s xs) \<le> (?n + ?s - 1) div ?s + 1" by (rule sample_rows_le)
    also have "(?n + ?s - 1) div ?s \<le> nat ?l"
    proof -
      have "?n + ?s - 1 < Suc (nat ?l) * ?s" using n \<open>2 \<le> ?s\<close> by (simp add: mult.commute)
      then show ?thesis using less_mult_imp_div_less by (metis less_Suc_eq_le)
    qed
    finally show ?thesis using False by simp
  qed
  then show "length (sample_rows (history_step q (length xs)) xs) \<le> nat (history_limit q) + 1"
    "int (length xs) \<le> history_limit q \<Longrightarrow> sample_rows (history_step q (length xs)) xs = xs" by auto
qed

lemma length_kept_le: "length (kept keep xs) \<le> length xs"
  unfolding kept_def using length_filter_le[of fst "zip keep xs"] by simp

lemma set_kept: "set (kept keep xs) \<subseteq> set xs"
  by (auto simp: kept_def dest: set_zip_rightD)

lemma Simplify_returns:
  assumes "tol \<noteq> NaN"
  shows "\<exists>out. Simplify gm ps tol = Some out \<and> length out \<le> length ps \<and> set out \<subseteq> set ps"
proof (cases "length ps < 3 \<or> tol \<le> Fin 0")
  case True
  then show ?thesis by (simp add: Simplify_def)
next
  case False
  then have t: "Fin 0 < tol" using assms by (cases tol) (auto simp: f64_ops)
  have "3 \<le> length ps" using False by simp
  then obtain keep where "Simplify gm ps tol = Some (kept keep ps)"
    using simplify_shape[OF t, of ps gm] by blast
  then show ?thesis by (intro exI[of _ "kept keep ps"]) (simp add: length_kept_le set_kept)
qed

lemma history_finish_returns:
  assumes "hq_ToleranceMeters q \<noteq> NaN"
  shows "\<exists>r'. history_finish gm q r = Some r' \<and> hr_Total r' = hr_Total r
    \<and> hr_Returned r' = length (hr_Positions r') \<and> length (hr_Positions r') \<le> length (hr_Positions r)
    \<and> set (hr_Positions r') \<subseteq> set (hr_Positions r)"
proof -
  let ?t = "if hq_ToleranceMeters q \<le> Fin 0 then Fin 5 else hq_ToleranceMeters q"
  have "?t \<noteq> NaN" using assms by simp
  then obtain out where "Simplify gm (hr_Positions r) ?t = Some out"
    "length out \<le> length (hr_Positions r)" "set out \<subseteq> set (hr_Positions r)"
    using Simplify_returns by blast
  then show ?thesis by (auto simp: history_finish_def Let_def)
qed

text \<open>Property C23: the history is answered and bounded.  Whatever the number of positions in the period
  (up to \<open>2 ^ 53\<close>, where the quotient is computed in floating point) and whatever the mathematical
  functions return, a query whose tolerance is a number is answered; what comes back are positions of
  the device in the period, and never more than one above the limit: the last point is added to a
  sample that may already be full.\<close>

theorem history_bounded:
  assumes "w_faults w = []" and "length (filter (in_history q) (w_positions w)) < 2 ^ 53"
    and "hq_ToleranceMeters q \<noteq> NaN"
  shows "\<exists>r. fst (pos_History gm q w) = Inr (Some r)
    \<and> hr_Total r = length (filter (in_history q) (w_positions w))
    \<and> hr_Returned r = length (hr_Positions r) \<and> hr_Returned r \<le> nat (history_limit q) + 1
    \<and> set (hr_Positions r) \<subseteq> scanLight ` set (filter (in_history q) (w_positions w))"
proof (cases "length (filter (in_history q) (w_positions w)) = 0")
  case True
  then show ?thesis using assms(1) by (simp add: pos_History_def db_call_def)
next
  case False
  let ?xs = "sort_key pos_key (filter (in_history q) (w_positions w))"
  let ?n = "length (filter (in_history q) (w_positions w))"
  let ?ps = "map scanLight (sample_rows (history_step q ?n) ?xs)"
  let ?r = "\<lparr> hr_Positions = ?ps, hr_Total = ?n, hr_Returned = 0, hr_Sampled = (int ?n > history_limit q),
    hr_SampleStep = history_step q ?n, hr_Simplified = False \<rparr>"
  obtain r where r: "history_finish gm q ?r = Some r" "hr_Total r = ?n" "hr_Returned r = length (hr_Positions r)"
    "length (hr_Positions r) \<le> length ?ps" "set (hr_Positions r) \<subseteq> set ?ps"
    using history_finish_returns[OF assms(3), of gm ?r] by auto
  have "length ?ps \<le> nat (history_limit q) + 1"
    using sample_bounded(1)[of ?xs q] assms(2) by simp
  moreover have "set (sample_rows s ys) \<subseteq> set ys" for s and ys :: "position list"
    by (auto simp: sample_rows_def dest: set_zip_rightD)
  then have "set ?ps \<subseteq> scanLight ` set (filter (in_history q) (w_positions w))"
    by (metis image_mono list.set_map set_sort)
  moreover have "fst (pos_History gm q w) = Inr (Some r)"
    using assms(1) False r(1) by (simp add: pos_History_def db_call_def Let_def)
  ultimately show ?thesis using r by (intro exI[of _ r]) auto
qed

theorem history_bounded_witness:
  "\<exists>r. fst (pos_History flat_math \<lparr> hq_DeviceID = dv_ID sample_device, hq_From = 0, hq_To = 9, hq_Limit = 10,
      hq_OnlyValid = True, hq_Simplify = True, hq_ToleranceMeters = Fin 5 \<rparr> sample_track) = Inr (Some r)
    \<and> hr_Total r = 1 \<and> hr_Returned r \<le> 11"
  using history_bounded[OF sample_track_facts(1), of "\<lparr> hq_DeviceID = dv_ID sample_device, hq_From = 0, hq_To = 9,
      hq_Limit = 10, hq_OnlyValid = True, hq_Simplify = True, hq_ToleranceMeters = Fin 5 \<rparr>" flat_math]
  by (auto simp: in_history_def sample_position_def history_limit_def)

section \<open>The pages of the export\<close>

text \<open>A client that follows the cursors, with fuel for the number of pages.\<close>

fun export_pages :: "nat \<Rightarrow> page_query \<Rightarrow> 'x track_world_scheme \<Rightarrow> position list option" where
  "export_pages 0 q w = None"
| "export_pages (Suc n) q w =
     (case fst (pos_Page q w) of
        Inl _ \<Rightarrow> None
      | Inr (ps, None) \<Rightarrow> Some ps
      | Inr (ps, Some c) \<Rightarrow> map_option ((@) ps) (export_pages n (q\<lparr>pq_AfterID := c\<rparr>) w))"

definition page_rows :: "page_query \<Rightarrow> position list \<Rightarrow> position list" where
  "page_rows q ps = sort_key ps_ID (filter (\<lambda>p. in_page q p \<and> ps_ID p > pq_AfterID q) ps)"

lemma filter_above_drop:
  assumes "sorted (map f xs)" and "distinct (map f xs)" and "0 < n" and "n \<le> length xs"
  shows "filter (\<lambda>x. f (xs ! (n - 1)) < f x) xs = drop n xs"
proof -
  have "\<not> f (xs ! (n - 1)) < f x" if "x \<in> set (take n xs)" for x
  proof -
    from that obtain i where "i < n" "i < length xs" "x = xs ! i" by (auto simp: in_set_conv_nth)
    then show ?thesis using sorted_nth_mono[OF assms(1), of i "n - 1"] assms(3,4) by (simp add: not_less)
  qed
  moreover have "f (xs ! (n - 1)) < f x" if x: "x \<in> set (drop n xs)" for x
  proof -
    from x obtain i where "i < length (drop n xs)" "x = drop n xs ! i" by (metis in_set_conv_nth)
    then have i: "n + i < length xs" "x = xs ! (n + i)" using assms(4) by auto
    have "f (xs ! (n - 1)) \<le> f x" using sorted_nth_mono[OF assms(1), of "n - 1" "n + i"] i by simp
    moreover have "f (xs ! (n - 1)) \<noteq> f x"
      using nth_eq_iff_index_eq[OF assms(2), of "n - 1" "n + i"] i assms(3) by simp
    ultimately show ?thesis by simp
  qed
  moreover have "filter P xs = filter P (take n xs) @ filter P (drop n xs)" for P
    by (metis append_take_drop_id filter_append)
  ultimately show ?thesis by (simp add: filter_empty_conv filter_id_conv)
qed

lemma page_rows_next:
  assumes "distinct (map ps_ID ps)" and "0 < n" and "n \<le> length (page_rows q ps)"
  shows "page_rows (q\<lparr>pq_AfterID := ps_ID (page_rows q ps ! (n - 1))\<rparr>) ps = drop n (page_rows q ps)"
proof -
  let ?c = "ps_ID (page_rows q ps ! (n - 1))"
  have "page_rows q ps ! (n - 1) \<in> set (page_rows q ps)" using assms(2,3) by simp
  then have "pq_AfterID q < ?c" by (auto simp: page_rows_def)
  then have "page_rows (q\<lparr>pq_AfterID := ?c\<rparr>) ps = filter (\<lambda>p. ?c < ps_ID p) (page_rows q ps)"
    unfolding page_rows_def filter_sort by (auto simp: in_page_def intro!: arg_cong[of _ _ "sort_key ps_ID"] filter_cong)
  also have "\<dots> = drop n (page_rows q ps)"
  proof (rule filter_above_drop)
    show "sorted (map ps_ID (page_rows q ps))" by (simp add: page_rows_def)
    have "distinct (map ps_ID (filter P ps))" for P using assms(1) by (simp add: distinct_map_filter)
    then show "distinct (map ps_ID (page_rows q ps))"
      by (simp add: page_rows_def distinct_map)
  qed (use assms in auto)
  finally show ?thesis .
qed

lemma page_limit_pos: "0 < page_limit q"
  by (simp add: page_limit_def)

lemma pos_Page_quiet:
  assumes "w_faults w = []"
  shows "fst (pos_Page q w) = Inr (let rs = page_rows q (w_positions w); n = page_limit q in
     if length rs > n then (map scanLight (take n rs), Some (ps_ID (rs ! (n - 1)))) else (map scanLight rs, None))"
proof -
  have cursor: "ps_ID (last (map scanLight (take n rs))) = ps_ID (rs ! (n - 1))"
    if "0 < n" "n < length rs" for n rs
  proof -
    have "take n rs \<noteq> []" using that by auto
    then show ?thesis using that by (simp add: last_map last_conv_nth scanLight_def min_def)
  qed
  show ?thesis using assms cursor[OF page_limit_pos, of q]
    by (auto simp: pos_Page_def db_call_def Let_def page_rows_def[symmetric] take_map min_def)
qed

lemma export_pages_all:
  assumes "w_faults w = []" and "distinct (map ps_ID (w_positions w))"
  shows "length (page_rows q (w_positions w)) < fuel \<Longrightarrow>
    export_pages fuel q w = Some (map scanLight (page_rows q (w_positions w)))"
proof (induction fuel arbitrary: q)
  case (Suc fuel)
  let ?rs = "page_rows q (w_positions w)" and ?n = "page_limit q"
  show ?case
  proof (cases "length ?rs > ?n")
    case True
    let ?q = "q\<lparr>pq_AfterID := ps_ID (?rs ! (?n - 1))\<rparr>"
    have rest: "page_rows ?q (w_positions w) = drop ?n ?rs"
      using page_rows_next[OF assms(2) page_limit_pos] True by simp
    then have "export_pages fuel ?q w = Some (map scanLight (drop ?n ?rs))"
      using Suc.IH[of ?q] Suc.prems page_limit_pos[of q] True by simp
    then show ?thesis using True
      by (simp add: pos_Page_quiet[OF assms(1)] Let_def flip: map_append)
  next
    case False
    then show ?thesis by (simp add: pos_Page_quiet[OF assms(1)] Let_def)
  qed
qed simp

text \<open>Property C24: following the cursors exports everything once.  A client that asks for the next
  page as long as it gets a cursor comes to an end and has, in the order of the identifiers, every
  position of the period after the cursor it started from, each once, whatever limit it asked for.\<close>

theorem pages_enumerate:
  assumes "w_faults w = []" and "distinct (map ps_ID (w_positions w))"
    and "length (w_positions w) < fuel"
  shows "\<exists>out. export_pages fuel q w = Some out \<and> sorted (map ps_ID out) \<and> distinct (map ps_ID out)
    \<and> set out = {scanLight p | p. p \<in> set (w_positions w) \<and> in_page q p \<and> ps_ID p > pq_AfterID q}"
proof -
  have "length (page_rows q (w_positions w)) < fuel"
    using le_less_trans[OF length_filter_le assms(3)] by (simp add: page_rows_def)
  then have out: "export_pages fuel q w = Some (map scanLight (page_rows q (w_positions w)))"
    using export_pages_all[OF assms(1,2)] by blast
  have ids: "map ps_ID (map scanLight ps) = map ps_ID ps" for ps by (simp add: scanLight_def comp_def)
  have "distinct (map ps_ID (page_rows q (w_positions w)))"
    using assms(2) by (simp add: page_rows_def distinct_map inj_on_def)
  then show ?thesis using out unfolding ids
    by (intro exI[of _ "map scanLight (page_rows q (w_positions w))"]) (auto simp: ids page_rows_def simp del: map_map)
qed

theorem pages_enumerate_witness:
  "\<exists>out. export_pages 2 \<lparr> pq_DeviceID = dv_ID sample_device, pq_From = 0, pq_To = 9, pq_Limit = 1, pq_AfterID = 0 \<rparr>
      sample_track = Some out \<and> set out = {scanLight sample_position}"
  using pages_enumerate[OF sample_track_facts(1), of 2 "\<lparr> pq_DeviceID = dv_ID sample_device, pq_From = 0, pq_To = 9,
      pq_Limit = 1, pq_AfterID = 0 \<rparr>"]
  by (auto simp: in_page_def sample_position_def)

end
