(* ===== verification/Auth.thy ===== *)
theory Auth
  imports Tracking Go_Crypto
begin

text \<open>
  The package \<^verbatim>\<open>internal/auth\<close>: the users and the refresh tokens (\<^verbatim>\<open>user.go\<close>), the service that
  logs in, rotates tokens and creates users (\<^verbatim>\<open>service.go\<close>), and the middleware that turns a request
  into a principal and checks its role (\<^verbatim>\<open>middleware.go\<close>).

  Three packages that the service calls are not part of the program: \<^verbatim>\<open>golang.org/x/crypto/bcrypt\<close>,
  \<^verbatim>\<open>github.com/golang-jwt/jwt\<close> and \<^verbatim>\<open>github.com/google/uuid\<close>.  They are the record \<open>auth_lib\<close>, a
  parameter; what is assumed of them is written where it is used (\<open>jwt_ok\<close>, \<open>uuid_ok\<close>).  The bytes of
  \<^verbatim>\<open>crypto/rand\<close> and the identifier of a token are inputs of the operations that draw them.
\<close>

section \<open>user.go\<close>

abbreviation (input) RoleAdmin :: string where "RoleAdmin \<equiv> ''admin''"
abbreviation (input) RoleOperator :: string where "RoleOperator \<equiv> ''operator''"
abbreviation (input) RoleViewer :: string where "RoleViewer \<equiv> ''viewer''"

definition ValidRole :: "string \<Rightarrow> bool" where
  "ValidRole role \<longleftrightarrow> role = RoleAdmin \<or> role = RoleOperator \<or> role = RoleViewer"

record user =
  us_ID :: uuid
  us_Email :: string
  us_Name :: string
  us_Role :: string
  us_PasswordHash :: string
  us_Active :: bool
  us_CreatedAt :: time
  us_UpdatedAt :: time

record refresh_row =
  rt_ID :: uuid
  rt_UserID :: uuid
  rt_Hash :: string
  rt_ExpiresAt :: time
  rt_RevokedAt :: "time option"
  rt_UserAgent :: string

record auth_world = track_world +
  w_users :: "user list"
  w_refresh :: "refresh_row list"

text \<open>The index on \<^verbatim>\<open>lower(email)\<close> is unique and the role is checked by the table.\<close>

definition user_insert ::
  "time \<Rightarrow> user \<Rightarrow> 'x auth_world_scheme \<Rightarrow> (db_error + user) \<times> 'x auth_world_scheme" where
  "user_insert now u w =
     (if \<not> ValidRole (us_Role u) then (Inl ErrDB, w)
      else if list_ex (\<lambda>v. to_lower (us_Email v) = to_lower (trim_space (us_Email u))) (w_users w)
        then (Inl ErrConflict, w)
      else
        let (k, w) = fresh_id w;
            stored = \<lparr> us_ID = k, us_Email = trim_space (us_Email u), us_Name = us_Name u, us_Role = us_Role u,
              us_PasswordHash = us_PasswordHash u, us_Active = True, us_CreatedAt = now, us_UpdatedAt = now \<rparr>
        in (Inr (u\<lparr>us_ID := k, us_CreatedAt := now, us_UpdatedAt := now\<rparr>),
            w\<lparr>w_users := w_users w @ [stored]\<rparr>))"

definition user_Create ::
  "time \<Rightarrow> user \<Rightarrow> 'x auth_world_scheme \<Rightarrow> (db_error + user) \<times> 'x auth_world_scheme" where
  "user_Create now u = db_call (user_insert now u)"

definition user_GetByEmail ::
  "string \<Rightarrow> 'x auth_world_scheme \<Rightarrow> (db_error + user) \<times> 'x auth_world_scheme" where
  "user_GetByEmail email = db_call (\<lambda>w.
     case find (\<lambda>u. to_lower (us_Email u) = to_lower (trim_space email)) (w_users w) of
       None \<Rightarrow> (Inl ErrNotFound, w) | Some u \<Rightarrow> (Inr u, w))"

definition user_GetByID :: "uuid \<Rightarrow> 'x auth_world_scheme \<Rightarrow> (db_error + user) \<times> 'x auth_world_scheme" where
  "user_GetByID k = db_call (\<lambda>w.
     case find (\<lambda>u. us_ID u = k) (w_users w) of None \<Rightarrow> (Inl ErrNotFound, w) | Some u \<Rightarrow> (Inr u, w))"

definition user_List :: "'x auth_world_scheme \<Rightarrow> (db_error + user list) \<times> 'x auth_world_scheme" where
  "user_List = db_call (\<lambda>w. (Inr (sort_key us_CreatedAt (w_users w)), w))"

definition user_Count :: "'x auth_world_scheme \<Rightarrow> (db_error + nat) \<times> 'x auth_world_scheme" where
  "user_Count = db_call (\<lambda>w. (Inr (length (w_users w)), w))"

section \<open>Refresh tokens\<close>

definition refresh_insert :: "uuid \<Rightarrow> string \<Rightarrow> time \<Rightarrow> string \<Rightarrow>
   'x auth_world_scheme \<Rightarrow> (db_error + unit) \<times> 'x auth_world_scheme" where
  "refresh_insert k h expires agent w =
     (if list_ex (\<lambda>r. rt_Hash r = h) (w_refresh w) then (Inl ErrConflict, w)
      else if \<not> list_ex (\<lambda>u. us_ID u = k) (w_users w) then (Inl ErrForeignKey, w)
      else
        let (i, w) = fresh_id w
        in (Inr (), w\<lparr>w_refresh := w_refresh w @ [\<lparr> rt_ID = i, rt_UserID = k, rt_Hash = h, rt_ExpiresAt = expires,
             rt_RevokedAt = None, rt_UserAgent = agent \<rparr>]\<rparr>))"

definition StoreRefreshToken :: "uuid \<Rightarrow> string \<Rightarrow> time \<Rightarrow> string \<Rightarrow>
   'x auth_world_scheme \<Rightarrow> (db_error + unit) \<times> 'x auth_world_scheme" where
  "StoreRefreshToken k h expires agent = db_call (refresh_insert k h expires agent)"

text \<open>The condition of the statement that consumes, and the revocation of the rows that satisfy a
  condition.\<close>

definition live_token :: "time \<Rightarrow> string \<Rightarrow> refresh_row \<Rightarrow> bool" where
  "live_token now h r \<longleftrightarrow> rt_Hash r = h \<and> rt_RevokedAt r = None \<and> rt_ExpiresAt r > now"

definition revoke_rows :: "time \<Rightarrow> (refresh_row \<Rightarrow> bool) \<Rightarrow> refresh_row list \<Rightarrow> refresh_row list" where
  "revoke_rows now P rs = map (\<lambda>r. if P r then r\<lparr>rt_RevokedAt := Some now\<rparr> else r) rs"

definition refresh_consume ::
  "time \<Rightarrow> string \<Rightarrow> 'x auth_world_scheme \<Rightarrow> (db_error + uuid) \<times> 'x auth_world_scheme" where
  "refresh_consume now h w =
     (case find (live_token now h) (w_refresh w) of
        None \<Rightarrow> (Inl ErrNotFound, w)
      | Some r \<Rightarrow> (Inr (rt_UserID r), w\<lparr>w_refresh := revoke_rows now (live_token now h) (w_refresh w)\<rparr>))"

definition ConsumeRefreshToken ::
  "time \<Rightarrow> string \<Rightarrow> 'x auth_world_scheme \<Rightarrow> (db_error + uuid) \<times> 'x auth_world_scheme" where
  "ConsumeRefreshToken now h = db_call (refresh_consume now h)"

definition refresh_revoke :: "time \<Rightarrow> (refresh_row \<Rightarrow> bool) \<Rightarrow>
   'x auth_world_scheme \<Rightarrow> (db_error + unit) \<times> 'x auth_world_scheme" where
  "refresh_revoke now P w =
     (Inr (), w\<lparr>w_refresh := revoke_rows now (\<lambda>r. P r \<and> rt_RevokedAt r = None) (w_refresh w)\<rparr>)"

definition RevokeRefreshToken ::
  "time \<Rightarrow> string \<Rightarrow> 'x auth_world_scheme \<Rightarrow> (db_error + unit) \<times> 'x auth_world_scheme" where
  "RevokeRefreshToken now h = db_call (refresh_revoke now (\<lambda>r. rt_Hash r = h))"

definition RevokeAllForUser ::
  "time \<Rightarrow> uuid \<Rightarrow> 'x auth_world_scheme \<Rightarrow> (db_error + unit) \<times> 'x auth_world_scheme" where
  "RevokeAllForUser now k = db_call (refresh_revoke now (\<lambda>r. rt_UserID r = k))"

definition old_token :: "time \<Rightarrow> refresh_row \<Rightarrow> bool" where
  "old_token now r \<longleftrightarrow> rt_ExpiresAt r < now - 30 * 86400 * second"

definition refresh_purge :: "time \<Rightarrow> 'x auth_world_scheme \<Rightarrow> (db_error + nat) \<times> 'x auth_world_scheme" where
  "refresh_purge now w =
     (Inr (length (filter (old_token now) (w_refresh w))),
      w\<lparr>w_refresh := filter (\<lambda>r. \<not> old_token now r) (w_refresh w)\<rparr>)"

definition DeleteExpiredRefreshTokens ::
  "time \<Rightarrow> 'x auth_world_scheme \<Rightarrow> (db_error + nat) \<times> 'x auth_world_scheme" where
  "DeleteExpiredRefreshTokens now = db_call (refresh_purge now)"

section \<open>service.go\<close>

datatype auth_error = ErrInvalidCredentials | ErrInvalidToken | ErrInactiveUser
  | BadEmail | BadRole string | ShortPassword | HashFailed | SignFailed | RandFailed | AuthStore db_error

abbreviation (input) issuer :: string where "issuer \<equiv> ''tracker-platform''"

record claims =
  cl_Role :: string
  cl_Email :: string
  cl_Subject :: string
  cl_Issuer :: string
  cl_IssuedAt :: time
  cl_ExpiresAt :: time
  cl_ID :: string

record tokens =
  tk_AccessToken :: string
  tk_RefreshToken :: string
  tk_ExpiresAt :: time
  tk_User :: user

record auth_config =
  ac_JWTSecret :: bytes
  ac_AccessTokenTTL :: duration
  ac_RefreshTokenTTL :: duration
  ac_BcryptCost :: int

text \<open>\<open>al_parse\<close> is \<^verbatim>\<open>jwt.ParseWithClaims\<close>: its first argument is the function that gives the key, from
  whether the method of the token is an HMAC, then the issuer and the methods it accepts.\<close>

record auth_lib =
  al_hash :: "int \<Rightarrow> string \<Rightarrow> string option"
  al_compare :: "string \<Rightarrow> string \<Rightarrow> bool"
  al_sign :: "bytes \<Rightarrow> claims \<Rightarrow> string option"
  al_parse :: "(bool \<Rightarrow> bytes option) \<Rightarrow> string \<Rightarrow> string list \<Rightarrow> time \<Rightarrow> string \<Rightarrow> claims option"
  al_uuid_str :: "uuid \<Rightarrow> string"
  al_uuid_parse :: "string \<Rightarrow> uuid option"

text \<open>\<^verbatim>\<open>NewService\<close>: a cost outside the range of bcrypt becomes the default one.\<close>

definition bcrypt_cost :: "auth_config \<Rightarrow> int" where
  "bcrypt_cost cfg = (if ac_BcryptCost cfg < 4 \<or> ac_BcryptCost cfg > 31 then 10 else ac_BcryptCost cfg)"

definition HashPassword :: "auth_lib \<Rightarrow> auth_config \<Rightarrow> string \<Rightarrow> string option" where
  "HashPassword lib cfg pass = al_hash lib (bcrypt_cost cfg) pass"

definition newOpaqueToken :: "bytes option \<Rightarrow> string option" where
  "newOpaqueToken rnd = map_option b64_url rnd"

definition hashToken :: "string \<Rightarrow> string" where
  "hashToken token = hex_encode False (Sum256 (bytes_of_str token))"

text \<open>\<^verbatim>\<open>jwt.NewNumericDate\<close> keeps whole seconds.\<close>

definition numeric_date :: "time \<Rightarrow> time" where
  "numeric_date t = t div second * second"

definition claims_for :: "auth_lib \<Rightarrow> auth_config \<Rightarrow> time \<Rightarrow> string \<Rightarrow> user \<Rightarrow> claims" where
  "claims_for lib cfg now jti u = \<lparr> cl_Role = us_Role u, cl_Email = us_Email u,
     cl_Subject = al_uuid_str lib (us_ID u), cl_Issuer = issuer, cl_IssuedAt = numeric_date now,
     cl_ExpiresAt = numeric_date (now + ac_AccessTokenTTL cfg), cl_ID = jti \<rparr>"

definition auth_issue :: "auth_lib \<Rightarrow> auth_config \<Rightarrow> time \<Rightarrow> string \<Rightarrow> bytes option \<Rightarrow> user \<Rightarrow> string \<Rightarrow>
   'x auth_world_scheme \<Rightarrow> (auth_error + tokens) \<times> 'x auth_world_scheme" where
  "auth_issue lib cfg now jti rnd u agent w =
     (case al_sign lib (ac_JWTSecret cfg) (claims_for lib cfg now jti u) of
        None \<Rightarrow> (Inl SignFailed, w)
      | Some access \<Rightarrow>
          (case newOpaqueToken rnd of
             None \<Rightarrow> (Inl RandFailed, w)
           | Some refresh \<Rightarrow>
               (case StoreRefreshToken (us_ID u) (hashToken refresh) (now + ac_RefreshTokenTTL cfg) agent w of
                  (Inl e, w) \<Rightarrow> (Inl (AuthStore e), w)
                | (Inr _, w) \<Rightarrow> (Inr \<lparr> tk_AccessToken = access, tk_RefreshToken = refresh,
                    tk_ExpiresAt = now + ac_AccessTokenTTL cfg, tk_User = u \<rparr>, w))))"

text \<open>The comparison with the fixed hash when the address is unknown costs time and has no other
  effect.\<close>

definition auth_Login :: "auth_lib \<Rightarrow> auth_config \<Rightarrow> time \<Rightarrow> string \<Rightarrow> bytes option \<Rightarrow> string \<Rightarrow> string \<Rightarrow> string \<Rightarrow>
   'x auth_world_scheme \<Rightarrow> (auth_error + tokens) \<times> 'x auth_world_scheme" where
  "auth_Login lib cfg now jti rnd email password agent w =
     (case user_GetByEmail email w of
        (Inl ErrNotFound, w) \<Rightarrow> (Inl ErrInvalidCredentials, w)
      | (Inl e, w) \<Rightarrow> (Inl (AuthStore e), w)
      | (Inr u, w) \<Rightarrow>
          if \<not> us_Active u then (Inl ErrInactiveUser, w)
          else if \<not> al_compare lib (us_PasswordHash u) password then (Inl ErrInvalidCredentials, w)
          else auth_issue lib cfg now jti rnd u agent w)"

definition auth_Refresh :: "auth_lib \<Rightarrow> auth_config \<Rightarrow> time \<Rightarrow> string \<Rightarrow> bytes option \<Rightarrow> string \<Rightarrow> string \<Rightarrow>
   'x auth_world_scheme \<Rightarrow> (auth_error + tokens) \<times> 'x auth_world_scheme" where
  "auth_Refresh lib cfg now jti rnd token agent w =
     (case ConsumeRefreshToken now (hashToken token) w of
        (Inl ErrNotFound, w) \<Rightarrow> (Inl ErrInvalidToken, w)
      | (Inl e, w) \<Rightarrow> (Inl (AuthStore e), w)
      | (Inr k, w) \<Rightarrow>
          (case user_GetByID k w of
             (Inl _, w) \<Rightarrow> (Inl ErrInvalidToken, w)
           | (Inr u, w) \<Rightarrow>
               if \<not> us_Active u then (Inl ErrInactiveUser, w)
               else auth_issue lib cfg now jti rnd u agent w))"

definition auth_Logout :: "time \<Rightarrow> string \<Rightarrow>
   'x auth_world_scheme \<Rightarrow> (db_error + unit) \<times> 'x auth_world_scheme" where
  "auth_Logout now token w =
     (if trim_space token = '''' then (Inr (), w) else RevokeRefreshToken now (hashToken token) w)"

definition auth_Parse :: "auth_lib \<Rightarrow> auth_config \<Rightarrow> time \<Rightarrow> string \<Rightarrow> auth_error + claims" where
  "auth_Parse lib cfg now token =
     (case al_parse lib (\<lambda>hmac. if hmac then Some (ac_JWTSecret cfg) else None) issuer [''HS256''] now token of
        None \<Rightarrow> Inl ErrInvalidToken | Some c \<Rightarrow> Inr c)"

definition CreateUser :: "auth_lib \<Rightarrow> auth_config \<Rightarrow> time \<Rightarrow> string \<Rightarrow> string \<Rightarrow> string \<Rightarrow> string \<Rightarrow>
   'x auth_world_scheme \<Rightarrow> (auth_error + user) \<times> 'x auth_world_scheme" where
  "CreateUser lib cfg now email name role password w =
     (let email = trim_space (to_lower email) in
      if \<not> contains_str email ''@'' then (Inl BadEmail, w)
      else if \<not> ValidRole role then (Inl (BadRole role), w)
      else if length password < 10 then (Inl ShortPassword, w)
      else case HashPassword lib cfg password of
        None \<Rightarrow> (Inl HashFailed, w)
      | Some h \<Rightarrow>
          (case user_Create now \<lparr> us_ID = 0, us_Email = email, us_Name = name, us_Role = role,
               us_PasswordHash = h, us_Active = True, us_CreatedAt = zero_time, us_UpdatedAt = zero_time \<rparr> w of
             (Inl e, w) \<Rightarrow> (Inl (AuthStore e), w)
           | (Inr u, w) \<Rightarrow> (Inr u, w)))"

definition EnsureBootstrapUser :: "auth_lib \<Rightarrow> auth_config \<Rightarrow> time \<Rightarrow> string \<Rightarrow> string \<Rightarrow> string \<Rightarrow>
   'x auth_world_scheme \<Rightarrow> auth_error option \<times> 'x auth_world_scheme" where
  "EnsureBootstrapUser lib cfg now adminEmail adminName adminPassword w =
     (case user_Count w of
        (Inl e, w) \<Rightarrow> (Some (AuthStore e), w)
      | (Inr n, w) \<Rightarrow>
          if n > 0 then (None, w)
          else if adminEmail = '''' \<or> adminPassword = '''' then (None, w)
          else (case CreateUser lib cfg now adminEmail adminName RoleAdmin adminPassword w of
                  (Inl e, w) \<Rightarrow> (Some e, w) | (Inr _, w) \<Rightarrow> (None, w)))"

definition CleanupExpiredTokens :: "time \<Rightarrow> 'x auth_world_scheme \<Rightarrow> 'x auth_world_scheme" where
  "CleanupExpiredTokens now w = snd (DeleteExpiredRefreshTokens now w)"

section \<open>middleware.go\<close>

record principal =
  pr_UserID :: uuid
  pr_Email :: string
  pr_Role :: string

definition principal_Is :: "principal \<Rightarrow> string list \<Rightarrow> bool" where
  "principal_Is p roles \<longleftrightarrow> pr_Role p \<in> set roles"

definition CanSendCommands :: "principal \<Rightarrow> bool" where
  "CanSendCommands p \<longleftrightarrow> principal_Is p [RoleAdmin, RoleOperator]"

definition CanManage :: "principal \<Rightarrow> bool" where
  "CanManage p \<longleftrightarrow> principal_Is p [RoleAdmin]"

text \<open>What the program reads of a request: the header, the parameter \<^verbatim>\<open>token\<close> of the query, and the
  addresses that name the client.\<close>

record http_request =
  hr_Authorization :: string
  hr_QueryToken :: string
  hr_ForwardedFor :: string
  hr_RealIP :: string
  hr_RemoteAddr :: string
  hr_UserAgent :: string

definition bearerToken :: "http_request \<Rightarrow> string" where
  "bearerToken r =
     (if has_prefix (hr_Authorization r) ''Bearer '' then trim_space (trim_prefix (hr_Authorization r) ''Bearer '')
      else trim_space (hr_QueryToken r))"

datatype refusal = TokenMissing | TokenInvalid | TokenMalformed | LoginRequired | RoleForbidden

definition auth_Middleware :: "auth_lib \<Rightarrow> auth_config \<Rightarrow> time \<Rightarrow> http_request \<Rightarrow> refusal + principal" where
  "auth_Middleware lib cfg now r =
     (let token = bearerToken r in
      if token = '''' then Inl TokenMissing
      else case auth_Parse lib cfg now token of
        Inl _ \<Rightarrow> Inl TokenInvalid
      | Inr c \<Rightarrow>
          (case al_uuid_parse lib (cl_Subject c) of
             None \<Rightarrow> Inl TokenMalformed
           | Some k \<Rightarrow> Inr \<lparr> pr_UserID = k, pr_Email = cl_Email c, pr_Role = cl_Role c \<rparr>))"

definition RequireRole :: "string list \<Rightarrow> principal option \<Rightarrow> refusal + principal" where
  "RequireRole roles p =
     (case p of None \<Rightarrow> Inl LoginRequired
      | Some p \<Rightarrow> if principal_Is p roles then Inr p else Inl RoleForbidden)"

text \<open>The status of a refusal.\<close>

definition refusal_status :: "refusal \<Rightarrow> nat" where
  "refusal_status f = (if f = RoleForbidden then 403 else 401)"

end
