(* ===== verification/Api.thy ===== *)
theory Api
  imports Ingest Auth
begin

text \<open>
  The package \<^verbatim>\<open>internal/api\<close>: the gates of the routes, the limit by address, and the handlers that
  change state or send commands.  A reply is a status with a value, a refusal or nothing; the
  Portuguese texts are the constructors of \<open>api_error\<close>.  The decoding of a body and of an identifier
  in the path (\<^verbatim>\<open>encoding/json\<close>, \<^verbatim>\<open>uuid.Parse\<close>) gives an option, \<open>None\<close> for a malformed one, which is
  the argument of the handler.

  A device or a vehicle that is deleted takes rows of other tables with it (\<^verbatim>\<open>ON DELETE CASCADE\<close> and
  \<^verbatim>\<open>SET NULL\<close> in \<^verbatim>\<open>migrations/0001_init.sql\<close>), and a row of the audit trail must refer to rows that
  exist; both are part of the statements here.
\<close>

section \<open>response.go\<close>

datatype api_error = BodyInvalid | IdInvalid | VehicleMissing | DeviceMissing | FenceMissing | UserMissing
  | TokenNotFound | NoTracker | TrackerGone | TrackerMissing | CommandsMissing | HistoryMissing | PositionMissing
  | RecordExists | BadReference | InternalError | BadCredentials | SessionExpired | LoginNeeded | UserExists
  | UserInvalid auth_error | VehicleInvalid vehicle_error | DeviceInvalid val_error | FenceInvalid fence_error
  | CommandUnknown string | CustomAdminOnly | SafetyRefused "cmd_row option" | CommandFailed cmd_error
  | TooManyRequests | PeriodOrder | PeriodTooLong | BadDate string
  | CoordinatesInvalid | CoordinatesOutOfRange | AddressUnavailable | QueryIdInvalid string
  | VehiclesMissing | DevicesMissing | PositionsMissing | UsersMissing | EventsMissing | CaptureMissing | AuditMissing

datatype 'a reply = Reply nat 'a | Fail nat api_error | Empty nat

definition handleStoreError :: "db_error \<Rightarrow> api_error \<Rightarrow> 'a reply" where
  "handleStoreError e missing =
     (case e of ErrNotFound \<Rightarrow> Fail 404 missing | ErrConflict \<Rightarrow> Fail 409 RecordExists
      | ErrForeignKey \<Rightarrow> Fail 400 BadReference | ErrDB \<Rightarrow> Fail 500 InternalError)"

text \<open>A parameter of the query is the empty text when it is absent.\<close>

definition queryInt :: "string \<Rightarrow> int \<Rightarrow> int" where
  "queryInt raw def = (if raw = '''' then def else case atoi raw of None \<Rightarrow> def | Some v \<Rightarrow> v)"

definition queryBool :: "string \<Rightarrow> bool \<Rightarrow> bool" where
  "queryBool raw def =
     (if raw = '''' then def
      else if raw \<in> {''1'', ''t'', ''T'', ''true'', ''TRUE'', ''True''} then True
      else if raw \<in> {''0'', ''f'', ''F'', ''false'', ''FALSE'', ''False''} then False
      else def)"

definition queryTime :: "(string \<Rightarrow> time option) \<Rightarrow> string \<Rightarrow> string \<Rightarrow> time \<Rightarrow> api_error + time" where
  "queryTime rfc3339 name raw def =
     (if raw = '''' then Inr def
      else case rfc3339 raw of
        Some t \<Rightarrow> Inr t
      | None \<Rightarrow> (case atoi raw of Some n \<Rightarrow> Inr (n * second) | None \<Rightarrow> Inl (BadDate name)))"

section \<open>middleware.go\<close>

fun trimSpace_left :: "string \<Rightarrow> string" where
  "trimSpace_left (c # cs) = (if c = CHR '' '' \<or> c = CHR 0x09 then trimSpace_left cs else c # cs)"
| "trimSpace_left [] = []"

definition api_trimSpace :: "string \<Rightarrow> string" where
  "api_trimSpace s = rev (trimSpace_left (rev (trimSpace_left s)))"

text \<open>The host of \<^verbatim>\<open>net.SplitHostPort\<close>.\<close>

definition split_host :: "string \<Rightarrow> string option" where
  "split_host s =
     (case index_where (\<lambda>c. c = CHR '':'') (rev s) of
        None \<Rightarrow> None
      | Some j \<Rightarrow>
          let i = length s - 1 - j in
          if hd s = CHR ''['' then
            (case index_where (\<lambda>c. c = CHR '']'') s of
               None \<Rightarrow> None
             | Some e \<Rightarrow>
                 if e + 1 \<noteq> i then None
                 else if CHR ''['' \<in> set (drop 1 s) \<or> CHR '']'' \<in> set (drop (e + 1) s) then None
                 else Some (drop 1 (take e s)))
          else if CHR '':'' \<in> set (take i s) then None
          else if CHR ''['' \<in> set s \<or> CHR '']'' \<in> set s then None
          else Some (take i s))"

definition clientIP :: "http_request \<Rightarrow> string" where
  "clientIP r =
     (if hr_ForwardedFor r \<noteq> '''' then api_trimSpace (takeWhile (\<lambda>c. c \<noteq> CHR '','') (hr_ForwardedFor r))
      else if hr_RealIP r \<noteq> '''' then api_trimSpace (hr_RealIP r)
      else case split_host (hr_RemoteAddr r) of None \<Rightarrow> hr_RemoteAddr r | Some h \<Rightarrow> h)"

text \<open>The limiter of \<^verbatim>\<open>golang.org/x/time/rate\<close> is a parameter: a new one, and its answer at an
  instant with what it becomes.\<close>

record 'l limiter_lib =
  ll_new :: 'l
  ll_allow :: "time \<Rightarrow> 'l \<Rightarrow> bool \<times> 'l"

type_synonym 'l visitors = "string \<rightharpoonup> 'l \<times> time"

definition limiter_allow :: "'l limiter_lib \<Rightarrow> time \<Rightarrow> string \<Rightarrow> 'l visitors \<Rightarrow> bool \<times> 'l visitors" where
  "limiter_allow lib now ip vs =
     (let l = (case vs ip of None \<Rightarrow> ll_new lib | Some (l, _) \<Rightarrow> l); (ok, l) = ll_allow lib now l
      in (ok, vs(ip \<mapsto> (l, now))))"

definition limiter_cleanup :: "time \<Rightarrow> 'l visitors \<Rightarrow> 'l visitors" where
  "limiter_cleanup now vs = (\<lambda>ip. case vs ip of None \<Rightarrow> None
     | Some (l, seen) \<Rightarrow> if time_sub now seen > 600 * second then None else Some (l, seen))"

definition limiter_middleware ::
  "'l limiter_lib \<Rightarrow> time \<Rightarrow> http_request \<Rightarrow> 'l visitors \<Rightarrow> api_error option \<times> 'l visitors" where
  "limiter_middleware lib now r vs =
     (case limiter_allow lib now (clientIP r) vs of (ok, vs) \<Rightarrow> (if ok then None else Some TooManyRequests, vs))"

section \<open>server.go: the routes and their gates\<close>

datatype gate = Open | LoggedIn | Roles "string list"

definition routes :: "(string \<times> string \<times> gate) list" where
  "routes = [
     (''GET'', ''/health'', Open), (''GET'', ''/ready'', Open), (''ANY'', ''/metrics'', Open),
     (''POST'', ''/api/auth/login'', Open), (''POST'', ''/api/auth/refresh'', Open),
     (''POST'', ''/api/auth/logout'', Open), (''GET'', ''/api/auth/me'', LoggedIn),
     (''GET'', ''/api/protocols'', LoggedIn), (''GET'', ''/api/geocoding/reverse'', LoggedIn),
     (''GET'', ''/api/vehicles/'', LoggedIn), (''POST'', ''/api/vehicles/'', Roles [RoleAdmin]),
     (''GET'', ''/api/vehicles/{id}/'', LoggedIn), (''PATCH'', ''/api/vehicles/{id}/'', Roles [RoleAdmin]),
     (''DELETE'', ''/api/vehicles/{id}/'', Roles [RoleAdmin]),
     (''GET'', ''/api/vehicles/{id}/position'', LoggedIn), (''GET'', ''/api/vehicles/{id}/positions'', LoggedIn),
     (''GET'', ''/api/vehicles/{id}/events'', LoggedIn), (''GET'', ''/api/vehicles/{id}/commands'', LoggedIn),
     (''POST'', ''/api/vehicles/{id}/commands/engine-cut'', Roles [RoleAdmin, RoleOperator]),
     (''POST'', ''/api/vehicles/{id}/commands/engine-resume'', Roles [RoleAdmin, RoleOperator]),
     (''POST'', ''/api/vehicles/{id}/commands/request-position'', Roles [RoleAdmin, RoleOperator]),
     (''POST'', ''/api/vehicles/{id}/commands/request-status'', Roles [RoleAdmin, RoleOperator]),
     (''POST'', ''/api/vehicles/{id}/commands'', Roles [RoleAdmin, RoleOperator]),
     (''GET'', ''/api/devices/'', LoggedIn), (''POST'', ''/api/devices/'', Roles [RoleAdmin]),
     (''GET'', ''/api/devices/{id}/'', LoggedIn), (''PATCH'', ''/api/devices/{id}/'', Roles [RoleAdmin]),
     (''DELETE'', ''/api/devices/{id}/'', Roles [RoleAdmin]),
     (''GET'', ''/api/devices/{id}/status'', LoggedIn), (''GET'', ''/api/devices/{id}/provisioning'', LoggedIn),
     (''GET'', ''/api/devices/{id}/commands'', LoggedIn),
     (''GET'', ''/api/geofences/'', LoggedIn), (''POST'', ''/api/geofences/'', Roles [RoleAdmin]),
     (''PATCH'', ''/api/geofences/{id}'', Roles [RoleAdmin]), (''DELETE'', ''/api/geofences/{id}'', Roles [RoleAdmin]),
     (''GET'', ''/api/events'', LoggedIn),
     (''GET'', ''/api/users/'', Roles [RoleAdmin]), (''POST'', ''/api/users/'', Roles [RoleAdmin]),
     (''GET'', ''/api/diagnostics/connections'', Roles [RoleAdmin]),
     (''GET'', ''/api/diagnostics/raw-packets'', Roles [RoleAdmin]),
     (''GET'', ''/api/diagnostics/audit-logs'', Roles [RoleAdmin]),
     (''ANY'', ''/ws'', LoggedIn)]"

text \<open>What a gate lets through: nobody in particular, or a principal.\<close>

definition pass_gate ::
  "auth_lib \<Rightarrow> auth_config \<Rightarrow> time \<Rightarrow> http_request \<Rightarrow> gate \<Rightarrow> refusal + principal option" where
  "pass_gate lib cfg now r g =
     (case g of
        Open \<Rightarrow> Inr None
      | LoggedIn \<Rightarrow> (case auth_Middleware lib cfg now r of Inl f \<Rightarrow> Inl f | Inr p \<Rightarrow> Inr (Some p))
      | Roles rs \<Rightarrow>
          (case auth_Middleware lib cfg now r of
             Inl f \<Rightarrow> Inl f
           | Inr p \<Rightarrow> (case RequireRole rs (Some p) of Inl f \<Rightarrow> Inl f | Inr p \<Rightarrow> Inr (Some p))))"

section \<open>The audit trail\<close>

definition reference_missing :: "uuid option \<Rightarrow> uuid list \<Rightarrow> bool" where
  "reference_missing k ks = (case k of None \<Rightarrow> False | Some k \<Rightarrow> k \<notin> set ks)"

definition audit_insert ::
  "time \<Rightarrow> audit_entry \<Rightarrow> 'x auth_world_scheme \<Rightarrow> (db_error + unit) \<times> 'x auth_world_scheme" where
  "audit_insert now e w =
     (if reference_missing (ae_UserID e) (map us_ID (w_users w))
        \<or> reference_missing (ae_VehicleID e) (map ve_ID (w_vehicles w))
        \<or> reference_missing (ae_DeviceID e) (map dv_ID (w_devices w))
      then (Inl ErrForeignKey, w)
      else (Inr (), w\<lparr>w_audit := w_audit w @ [e\<lparr>ae_CreatedAt := now\<rparr>]\<rparr>))"

definition audit_log :: "time \<Rightarrow> audit_entry \<Rightarrow> 'x auth_world_scheme \<Rightarrow> 'x auth_world_scheme" where
  "audit_log now e w = snd (db_call (audit_insert now e) w)"

definition recordAudit :: "time \<Rightarrow> http_request \<Rightarrow> principal option \<Rightarrow> string \<Rightarrow> uuid option \<Rightarrow> uuid option \<Rightarrow>
   (string \<times> meta) list \<Rightarrow> 'x auth_world_scheme \<Rightarrow> 'x auth_world_scheme" where
  "recordAudit now r p action v d metadata =
     audit_log now \<lparr> ae_UserID = map_option pr_UserID p, ae_Action = action, ae_VehicleID = v, ae_DeviceID = d,
       ae_Result = ''OK'', ae_IPAddress = clientIP r, ae_Metadata = metadata, ae_CreatedAt = zero_time \<rparr>"

definition audit_List :: "uuid option \<Rightarrow> uuid option \<Rightarrow> int \<Rightarrow>
   'x auth_world_scheme \<Rightarrow> (db_error + audit_entry list) \<times> 'x auth_world_scheme" where
  "audit_List d v limit = db_call (\<lambda>w.
     (Inr (take (if limit \<le> 0 \<or> limit > 500 then 100 else nat limit)
       (rev (sort_key ae_CreatedAt (filter (\<lambda>e. (d = None \<or> ae_DeviceID e = d) \<and> (v = None \<or> ae_VehicleID e = v))
         (w_audit w))))), w))"

section \<open>handlers_auth.go\<close>

definition handleLogin :: "auth_lib \<Rightarrow> auth_config \<Rightarrow> time \<Rightarrow> string \<Rightarrow> bytes option \<Rightarrow> http_request \<Rightarrow>
   (string \<times> string) option \<Rightarrow> 'x auth_world_scheme \<Rightarrow> tokens reply \<times> 'x auth_world_scheme" where
  "handleLogin lib cfg now jti rnd r body w =
     (case body of
        None \<Rightarrow> (Fail 400 BodyInvalid, w)
      | Some (email, password) \<Rightarrow>
          (case auth_Login lib cfg now jti rnd email password (hr_UserAgent r) w of
             (Inl e, w) \<Rightarrow>
               if e = ErrInvalidCredentials \<or> e = ErrInactiveUser then
                 (Fail 401 BadCredentials, audit_log now \<lparr> ae_UserID = None, ae_Action = ''AUTH_LOGIN_FAILED'',
                    ae_VehicleID = None, ae_DeviceID = None, ae_Result = ''DENIED'', ae_IPAddress = clientIP r,
                    ae_Metadata = [(''email'', MStr email)], ae_CreatedAt = zero_time \<rparr> w)
               else (handleStoreError (case e of AuthStore d \<Rightarrow> d | _ \<Rightarrow> ErrDB) UserMissing, w)
           | (Inr t, w) \<Rightarrow>
               (Reply 200 t, audit_log now \<lparr> ae_UserID = Some (us_ID (tk_User t)), ae_Action = ''AUTH_LOGIN'',
                  ae_VehicleID = None, ae_DeviceID = None, ae_Result = ''OK'', ae_IPAddress = clientIP r,
                  ae_Metadata = [], ae_CreatedAt = zero_time \<rparr> w)))"

definition handleRefresh :: "auth_lib \<Rightarrow> auth_config \<Rightarrow> time \<Rightarrow> string \<Rightarrow> bytes option \<Rightarrow> http_request \<Rightarrow>
   string option \<Rightarrow> 'x auth_world_scheme \<Rightarrow> tokens reply \<times> 'x auth_world_scheme" where
  "handleRefresh lib cfg now jti rnd r body w =
     (case body of
        None \<Rightarrow> (Fail 400 BodyInvalid, w)
      | Some token \<Rightarrow>
          (case auth_Refresh lib cfg now jti rnd token (hr_UserAgent r) w of
             (Inl _, w) \<Rightarrow> (Fail 401 SessionExpired, w) | (Inr t, w) \<Rightarrow> (Reply 200 t, w)))"

definition handleLogout ::
  "time \<Rightarrow> string option \<Rightarrow> 'x auth_world_scheme \<Rightarrow> unit reply \<times> 'x auth_world_scheme" where
  "handleLogout now body w =
     (case body of
        None \<Rightarrow> (Fail 400 BodyInvalid, w)
      | Some token \<Rightarrow>
          (case auth_Logout now token w of
             (Inl e, w) \<Rightarrow> (handleStoreError e TokenNotFound, w) | (Inr _, w) \<Rightarrow> (Empty 204, w)))"

definition handleMe :: "principal option \<Rightarrow> 'x auth_world_scheme \<Rightarrow> user reply \<times> 'x auth_world_scheme" where
  "handleMe p w =
     (case p of
        None \<Rightarrow> (Fail 401 LoginNeeded, w)
      | Some p \<Rightarrow>
          (case user_GetByID (pr_UserID p) w of
             (Inl e, w) \<Rightarrow> (handleStoreError e UserMissing, w) | (Inr u, w) \<Rightarrow> (Reply 200 u, w)))"

definition handleCreateUser :: "auth_lib \<Rightarrow> auth_config \<Rightarrow> time \<Rightarrow> (string \<times> string \<times> string \<times> string) option \<Rightarrow>
   'x auth_world_scheme \<Rightarrow> user reply \<times> 'x auth_world_scheme" where
  "handleCreateUser lib cfg now body w =
     (case body of
        None \<Rightarrow> (Fail 400 BodyInvalid, w)
      | Some (email, name, role, password) \<Rightarrow>
          (case CreateUser lib cfg now email name role password w of
             (Inl e, w) \<Rightarrow> (if e = AuthStore ErrConflict then Fail 409 UserExists else Fail 400 (UserInvalid e), w)
           | (Inr u, w) \<Rightarrow> (Reply 201 u, w)))"

section \<open>handlers_vehicles.go\<close>

definition vehicleFromURL :: "uuid option \<Rightarrow>
   'x auth_world_scheme \<Rightarrow> (unit reply + vehicle \<times> device) \<times> 'x auth_world_scheme" where
  "vehicleFromURL k w =
     (case k of
        None \<Rightarrow> (Inl (Fail 400 IdInvalid), w)
      | Some k \<Rightarrow>
          (case veh_GetByID k w of
             (Inl e, w) \<Rightarrow> (Inl (handleStoreError e VehicleMissing), w)
           | (Inr v, w) \<Rightarrow>
               (case ve_DeviceID v of
                  None \<Rightarrow> (Inl (Fail 409 NoTracker), w)
                | Some d \<Rightarrow>
                    (case dev_GetByID d w of
                       (Inl ErrNotFound, w) \<Rightarrow> (Inl (Fail 409 TrackerGone), w)
                     | (Inl e, w) \<Rightarrow> (Inl (handleStoreError e TrackerMissing), w)
                     | (Inr dev, w) \<Rightarrow> (Inr (v, dev), w)))))"

definition vehicle_failure :: "vehicle_error \<Rightarrow> 'a reply" where
  "vehicle_failure e = (case e of VehicleStore d \<Rightarrow> handleStoreError d VehicleMissing | _ \<Rightarrow> Fail 400 (VehicleInvalid e))"

definition handleCreateVehicle :: "time \<Rightarrow> http_request \<Rightarrow> principal option \<Rightarrow> vehicle_input option \<Rightarrow>
   'x auth_world_scheme \<Rightarrow> vehicle reply \<times> 'x auth_world_scheme" where
  "handleCreateVehicle now r p body w =
     (case body of
        None \<Rightarrow> (Fail 400 BodyInvalid, w)
      | Some i \<Rightarrow>
          (case vehicles_Create now i w of
             (Inl e, w) \<Rightarrow> (vehicle_failure e, w)
           | (Inr v, w) \<Rightarrow>
               (Reply 201 v, recordAudit now r p ''VEHICLE_CREATED'' (Some (ve_ID v)) (ve_DeviceID v)
                  [(''name'', MStr (ve_Name v)), (''plate'', MStr (ve_Plate v))] (InvalidateVehicles w))))"

definition handleUpdateVehicle :: "time \<Rightarrow> http_request \<Rightarrow> principal option \<Rightarrow> uuid option \<Rightarrow> vehicle_input option \<Rightarrow>
   'x auth_world_scheme \<Rightarrow> vehicle reply \<times> 'x auth_world_scheme" where
  "handleUpdateVehicle now r p k body w =
     (case k of
        None \<Rightarrow> (Fail 400 IdInvalid, w)
      | Some k \<Rightarrow>
          (case body of
             None \<Rightarrow> (Fail 400 BodyInvalid, w)
           | Some i \<Rightarrow>
               (case vehicles_Update now k i w of
                  (Inl e, w) \<Rightarrow> (vehicle_failure e, w)
                | (Inr v, w) \<Rightarrow>
                    (Reply 200 v, recordAudit now r p ''VEHICLE_UPDATED'' (Some (ve_ID v)) (ve_DeviceID v)
                       [(''name'', MStr (ve_Name v))] (InvalidateVehicles w)))))"

text \<open>The rows of the audit trail lose their reference to a vehicle that is deleted.\<close>

definition vehicle_cascade :: "uuid \<Rightarrow> 'x auth_world_scheme \<Rightarrow> 'x auth_world_scheme" where
  "vehicle_cascade k w = w\<lparr>w_audit := map (\<lambda>e. if ae_VehicleID e = Some k then e\<lparr>ae_VehicleID := None\<rparr> else e) (w_audit w)\<rparr>"

definition handleDeleteVehicle :: "time \<Rightarrow> http_request \<Rightarrow> principal option \<Rightarrow> uuid option \<Rightarrow>
   'x auth_world_scheme \<Rightarrow> unit reply \<times> 'x auth_world_scheme" where
  "handleDeleteVehicle now r p k w =
     (case k of
        None \<Rightarrow> (Fail 400 IdInvalid, w)
      | Some k \<Rightarrow>
          (case veh_Delete k w of
             (Inl e, w) \<Rightarrow> (handleStoreError e VehicleMissing, w)
           | (Inr _, w) \<Rightarrow>
               (Empty 204, recordAudit now r p ''VEHICLE_DELETED'' (Some k) None []
                  (InvalidateVehicles (vehicle_cascade k w)))))"

section \<open>handlers_commands.go\<close>

definition command_request :: "http_request \<Rightarrow> principal option \<Rightarrow> vehicle \<Rightarrow> device \<Rightarrow> command_type \<Rightarrow>
   ((string \<rightharpoonup> string) \<times> string) option \<Rightarrow> cmd_request" where
  "command_request r p v dev cmdType extra = \<lparr> rq_Device = dev, rq_VehicleID = Some (ve_ID v), rq_Type = cmdType,
     rq_Params = (case extra of None \<Rightarrow> Map.empty | Some (params, _) \<Rightarrow> params),
     rq_RawOverride = (case extra of None \<Rightarrow> '''' | Some (_, raw) \<Rightarrow> raw),
     rq_UserID = map_option pr_UserID p, rq_IP = clientIP r \<rparr>"

definition sendCommand :: "cmd_config \<Rightarrow> registry \<Rightarrow> bool \<Rightarrow> (byte \<times> byte \<times> byte \<times> byte) option \<Rightarrow> time \<Rightarrow>
   http_request \<Rightarrow> principal option \<Rightarrow> uuid option \<Rightarrow> command_type \<Rightarrow> ((string \<rightharpoonup> string) \<times> string) option \<Rightarrow>
   'x auth_world_scheme \<Rightarrow> cmd_row option reply \<times> 'x auth_world_scheme" where
  "sendCommand ccfg reg wok rnd now r p k cmdType extra w =
     (case vehicleFromURL k w of
        (Inl (Fail c e), w) \<Rightarrow> (Fail c e, w)
      | (Inl _, w) \<Rightarrow> (Fail 500 InternalError, w)
      | (Inr (v, dev), w) \<Rightarrow>
          (case cmd_Send ccfg reg Snapshot wok rnd now (command_request r p v dev cmdType extra) w of
             ((row, Some (Refused reason)), w) \<Rightarrow> (Fail 409 (SafetyRefused row), w)
           | ((_, Some e), w) \<Rightarrow> (Fail 400 (CommandFailed e), w)
           | ((row, None), w) \<Rightarrow> (Reply 202 row, w)))"

definition handleEngineCut where
  "handleEngineCut ccfg reg wok rnd now r p k = sendCommand ccfg reg wok rnd now r p k CommandEngineCut None"

definition handleEngineResume where
  "handleEngineResume ccfg reg wok rnd now r p k = sendCommand ccfg reg wok rnd now r p k CommandEngineResume None"

definition handleRequestPosition where
  "handleRequestPosition ccfg reg wok rnd now r p k = sendCommand ccfg reg wok rnd now r p k CommandRequestPosition None"

definition handleRequestStatus where
  "handleRequestStatus ccfg reg wok rnd now r p k = sendCommand ccfg reg wok rnd now r p k CommandRequestStatus None"

definition handleGenericCommand :: "cmd_config \<Rightarrow> registry \<Rightarrow> bool \<Rightarrow> (byte \<times> byte \<times> byte \<times> byte) option \<Rightarrow> time \<Rightarrow>
   http_request \<Rightarrow> principal option \<Rightarrow> uuid option \<Rightarrow> (string \<times> (string \<rightharpoonup> string) \<times> string) option \<Rightarrow>
   'x auth_world_scheme \<Rightarrow> cmd_row option reply \<times> 'x auth_world_scheme" where
  "handleGenericCommand ccfg reg wok rnd now r p k body w =
     (case body of
        None \<Rightarrow> (Fail 400 BodyInvalid, w)
      | Some (cmdType, params, raw) \<Rightarrow>
          if \<not> command_valid cmdType then (Fail 400 (CommandUnknown cmdType), w)
          else if cmdType = CommandCustom \<and> (case p of None \<Rightarrow> True | Some p \<Rightarrow> \<not> CanManage p)
            then (Fail 403 CustomAdminOnly, w)
          else sendCommand ccfg reg wok rnd now r p k cmdType (Some (params, raw)) w)"

definition handleVehicleCommands ::
  "uuid option \<Rightarrow> string \<Rightarrow> 'x auth_world_scheme \<Rightarrow> cmd_row list reply \<times> 'x auth_world_scheme" where
  "handleVehicleCommands k limit w =
     (case vehicleFromURL k w of
        (Inl (Fail c e), w) \<Rightarrow> (Fail c e, w)
      | (Inl _, w) \<Rightarrow> (Fail 500 InternalError, w)
      | (Inr (_, dev), w) \<Rightarrow>
          (case repo_ListByDevice (dv_ID dev) (queryInt limit 50) w of
             (Inl e, w) \<Rightarrow> (handleStoreError e CommandsMissing, w) | (Inr rs, w) \<Rightarrow> (Reply 200 rs, w)))"

definition handleDeviceCommands ::
  "uuid option \<Rightarrow> string \<Rightarrow> 'x auth_world_scheme \<Rightarrow> cmd_row list reply \<times> 'x auth_world_scheme" where
  "handleDeviceCommands k limit w =
     (case k of
        None \<Rightarrow> (Fail 400 IdInvalid, w)
      | Some k \<Rightarrow>
          (case repo_ListByDevice k (queryInt limit 50) w of
             (Inl e, w) \<Rightarrow> (handleStoreError e CommandsMissing, w) | (Inr rs, w) \<Rightarrow> (Reply 200 rs, w)))"

section \<open>handlers_devices.go\<close>

definition handleGetDevice :: "uuid option \<Rightarrow> 'x auth_world_scheme \<Rightarrow> device reply \<times> 'x auth_world_scheme" where
  "handleGetDevice k w =
     (case k of
        None \<Rightarrow> (Fail 400 IdInvalid, w)
      | Some k \<Rightarrow>
          (case dev_GetByID k w of
             (Inl e, w) \<Rightarrow> (handleStoreError e DeviceMissing, w) | (Inr d, w) \<Rightarrow> (Reply 200 d, w)))"

definition device_failure :: "val_error \<Rightarrow> 'a reply" where
  "device_failure e = (case e of VStore d \<Rightarrow> handleStoreError d DeviceMissing | _ \<Rightarrow> Fail 400 (DeviceInvalid e))"

definition handleCreateDevice :: "registry \<Rightarrow> time \<Rightarrow> http_request \<Rightarrow> principal option \<Rightarrow> dev_input option \<Rightarrow>
   'x auth_world_scheme \<Rightarrow> device reply \<times> 'x auth_world_scheme" where
  "handleCreateDevice reg now r p body w =
     (case body of
        None \<Rightarrow> (Fail 400 BodyInvalid, w)
      | Some i \<Rightarrow>
          (case svc_Create reg now i w of
             (Inl e, w) \<Rightarrow> (device_failure e, w)
           | (Inr d, w) \<Rightarrow>
               (Reply 201 d, recordAudit now r p ''DEVICE_CREATED'' None (Some (dv_ID d))
                  [(''imei'', MStr (dv_IMEI d)), (''protocol'', MStr (dv_Protocol d))]
                  (invalidateDevice (dv_IMEI d) w))))"

definition handleUpdateDevice :: "registry \<Rightarrow> time \<Rightarrow> http_request \<Rightarrow> principal option \<Rightarrow> uuid option \<Rightarrow>
   dev_input option \<Rightarrow> 'x auth_world_scheme \<Rightarrow> device reply \<times> 'x auth_world_scheme" where
  "handleUpdateDevice reg now r p k body w =
     (case k of
        None \<Rightarrow> (Fail 400 IdInvalid, w)
      | Some k \<Rightarrow>
          (case dev_GetByID k w of
             (Inl e, w) \<Rightarrow> (handleStoreError e DeviceMissing, w)
           | (Inr previous, w) \<Rightarrow>
               (case body of
                  None \<Rightarrow> (Fail 400 BodyInvalid, w)
                | Some i \<Rightarrow>
                    (case svc_Update reg now k i w of
                       (Inl e, w) \<Rightarrow> (device_failure e, w)
                     | (Inr d, w) \<Rightarrow>
                         (Reply 200 d, recordAudit now r p ''DEVICE_UPDATED'' None (Some (dv_ID d))
                            [(''imei'', MStr (dv_IMEI d))]
                            (invalidateDevice (dv_IMEI d) (invalidateDevice (dv_IMEI previous) w)))))))"

text \<open>The positions, events, commands and the stored state of a device go with it; a vehicle loses
  its tracker and the audit trail its reference.\<close>

definition device_cascade :: "uuid \<Rightarrow> 'x auth_world_scheme \<Rightarrow> 'x auth_world_scheme" where
  "device_cascade k w = w\<lparr>
     w_positions := filter (\<lambda>p. ps_DeviceID p \<noteq> k) (w_positions w),
     w_events := filter (\<lambda>e. ev_DeviceID e \<noteq> k) (w_events w),
     w_commands := filter (\<lambda>c. cr_DeviceID c \<noteq> k) (w_commands w),
     w_saved := (w_saved w)(k := None),
     w_vehicles := map (\<lambda>v. if ve_DeviceID v = Some k then v\<lparr>ve_DeviceID := None\<rparr> else v) (w_vehicles w),
     w_audit := map (\<lambda>e. if ae_DeviceID e = Some k then e\<lparr>ae_DeviceID := None\<rparr> else e) (w_audit w)\<rparr>"

definition handleDeleteDevice :: "time \<Rightarrow> http_request \<Rightarrow> principal option \<Rightarrow> uuid option \<Rightarrow>
   'x auth_world_scheme \<Rightarrow> unit reply \<times> 'x auth_world_scheme" where
  "handleDeleteDevice now r p k w =
     (case k of
        None \<Rightarrow> (Fail 400 IdInvalid, w)
      | Some k \<Rightarrow>
          (case dev_GetByID k w of
             (Inl e, w) \<Rightarrow> (handleStoreError e DeviceMissing, w)
           | (Inr d, w) \<Rightarrow>
               (case dev_Delete k w of
                  (Inl e, w) \<Rightarrow> (handleStoreError e DeviceMissing, w)
                | (Inr _, w) \<Rightarrow>
                    (Empty 204, recordAudit now r p ''DEVICE_DELETED'' None (Some k) [(''imei'', MStr (dv_IMEI d))]
                       (InvalidateVehicles (invalidateDevice (dv_IMEI d) (device_cascade k w)))))))"

section \<open>handlers_geofences.go\<close>

definition fence_failure :: "fence_error \<Rightarrow> 'a reply" where
  "fence_failure e = (case e of FenceStore d \<Rightarrow> handleStoreError d FenceMissing | _ \<Rightarrow> Fail 400 (FenceInvalid e))"

definition handleCreateGeofence :: "time \<Rightarrow> http_request \<Rightarrow> principal option \<Rightarrow> fence_input option \<Rightarrow>
   'x auth_world_scheme \<Rightarrow> geofence reply \<times> 'x auth_world_scheme" where
  "handleCreateGeofence now r p body w =
     (case body of
        None \<Rightarrow> (Fail 400 BodyInvalid, w)
      | Some i \<Rightarrow>
          (case fences_Create now i w of
             (Inl e, w) \<Rightarrow> (fence_failure e, w)
           | (Inr g, w) \<Rightarrow>
               (Reply 201 g, recordAudit now r p ''GEOFENCE_CHANGED'' None None [(''action'', MStr ''create''),
                  (''geofenceId'', MId (gf_ID g)), (''name'', MStr (gf_Name g))] w)))"

definition handleUpdateGeofence :: "time \<Rightarrow> http_request \<Rightarrow> principal option \<Rightarrow> uuid option \<Rightarrow> fence_input option \<Rightarrow>
   'x auth_world_scheme \<Rightarrow> geofence reply \<times> 'x auth_world_scheme" where
  "handleUpdateGeofence now r p k body w =
     (case k of
        None \<Rightarrow> (Fail 400 IdInvalid, w)
      | Some k \<Rightarrow>
          (case body of
             None \<Rightarrow> (Fail 400 BodyInvalid, w)
           | Some i \<Rightarrow>
               (case fences_Update now k i w of
                  (Inl e, w) \<Rightarrow> (fence_failure e, w)
                | (Inr g, w) \<Rightarrow>
                    (Reply 200 g, recordAudit now r p ''GEOFENCE_CHANGED'' None None [(''action'', MStr ''update''),
                       (''geofenceId'', MId (gf_ID g))] w))))"

definition handleDeleteGeofence :: "time \<Rightarrow> http_request \<Rightarrow> principal option \<Rightarrow> uuid option \<Rightarrow>
   'x auth_world_scheme \<Rightarrow> unit reply \<times> 'x auth_world_scheme" where
  "handleDeleteGeofence now r p k w =
     (case k of
        None \<Rightarrow> (Fail 400 IdInvalid, w)
      | Some k \<Rightarrow>
          (case fences_Delete k w of
             (Inl e, w) \<Rightarrow> (fence_failure e, w)
           | (Inr _, w) \<Rightarrow>
               (Empty 204, recordAudit now r p ''GEOFENCE_CHANGED'' None None [(''action'', MStr ''delete''),
                  (''geofenceId'', MId k)] w)))"

section \<open>handlers_tracking.go\<close>

record positions_query =
  qp_to :: string
  qp_from :: string
  qp_limit :: string
  qp_after :: string
  qp_raw :: string
  qp_onlyValid :: string
  qp_simplify :: string

datatype positions_reply = PageOf "position list" "nat option" | HistoryOf "history_result option"

definition handleVehiclePositions :: "(string \<Rightarrow> time option) \<Rightarrow> go_math \<Rightarrow> int \<Rightarrow> f64 \<Rightarrow> time \<Rightarrow> uuid option \<Rightarrow>
   positions_query \<Rightarrow> 'x auth_world_scheme \<Rightarrow> positions_reply reply \<times> 'x auth_world_scheme" where
  "handleVehiclePositions rfc3339 gm maxPoints tolerance now k q w =
     (case vehicleFromURL k w of
        (Inl (Fail c e), w) \<Rightarrow> (Fail c e, w)
      | (Inl _, w) \<Rightarrow> (Fail 500 InternalError, w)
      | (Inr (_, dev), w) \<Rightarrow>
          (case queryTime rfc3339 ''to'' (qp_to q) now of
             Inl e \<Rightarrow> (Fail 400 e, w)
           | Inr to \<Rightarrow>
               (case queryTime rfc3339 ''from'' (qp_from q) (to - 86400 * second) of
                  Inl e \<Rightarrow> (Fail 400 e, w)
                | Inr from \<Rightarrow>
                    if \<not> from < to then (Fail 400 PeriodOrder, w)
                    else if time_sub to from > 366 * 86400 * second then (Fail 400 PeriodTooLong, w)
                    else
                      let limit = min (queryInt (qp_limit q) maxPoints) maxPoints;
                          cursor = queryInt (qp_after q) 0 in
                      if cursor > 0 \<or> queryBool (qp_raw q) False then
                        (case pos_Page \<lparr> pq_DeviceID = dv_ID dev, pq_From = from, pq_To = to, pq_Limit = limit,
                             pq_AfterID = nat cursor \<rparr> w of
                           (Inl e, w) \<Rightarrow> (handleStoreError e HistoryMissing, w)
                         | (Inr (ps, next), w) \<Rightarrow> (Reply 200 (PageOf ps next), w))
                      else
                        (case pos_History gm \<lparr> hq_DeviceID = dv_ID dev, hq_From = from, hq_To = to, hq_Limit = limit,
                             hq_OnlyValid = queryBool (qp_onlyValid q) False,
                             hq_Simplify = queryBool (qp_simplify q) True, hq_ToleranceMeters = tolerance \<rparr> w of
                           (Inl e, w) \<Rightarrow> (handleStoreError e HistoryMissing, w)
                         | (Inr h, w) \<Rightarrow> (Reply 200 (HistoryOf h), w)))))"

end
