(* ===== verification/Auth_Props.thy ===== *)
theory Auth_Props
  imports Auth Tracking_Props
begin

text \<open>
  The properties of the authentication: a refresh token is good for one exchange whatever happens
  between the statements of the requests, and the session that a login opens is the session of the
  user whose password was given.
\<close>

section \<open>The statements on the table of tokens\<close>

datatype token_op = TStore uuid string time string | TConsume time string | TRevoke time string
  | TRevokeAll time uuid | TPurge time | TRead | TUser time user

text \<open>One statement, and whether it granted an exchange.\<close>

fun token_step :: "token_op \<Rightarrow> 'x auth_world_scheme \<Rightarrow> bool \<times> 'x auth_world_scheme" where
  "token_step (TStore k h t a) w = (False, snd (StoreRefreshToken k h t a w))"
| "token_step (TConsume now h) w =
     (case ConsumeRefreshToken now h w of (r, w) \<Rightarrow> (case r of Inl _ \<Rightarrow> False | Inr _ \<Rightarrow> True, w))"
| "token_step (TRevoke now h) w = (False, snd (RevokeRefreshToken now h w))"
| "token_step (TRevokeAll now k) w = (False, snd (RevokeAllForUser now k w))"
| "token_step (TPurge now) w = (False, snd (DeleteExpiredRefreshTokens now w))"
| "token_step TRead w = (False, snd (user_Count w))"
| "token_step (TUser now u) w = (False, snd (user_Create now u w))"

fun consumes :: "string \<Rightarrow> token_op \<Rightarrow> bool" where
  "consumes h (TConsume _ h') = (h' = h)"
| "consumes h _ = False"

fun stores :: "string \<Rightarrow> token_op \<Rightarrow> bool" where
  "stores h (TStore _ h' _ _) = (h' = h)"
| "stores h _ = False"

fun grants :: "string \<Rightarrow> token_op list \<Rightarrow> 'x auth_world_scheme \<Rightarrow> nat" where
  "grants h [] w = 0"
| "grants h (x # xs) w =
     (if consumes h x \<and> fst (token_step x w) then 1 else 0) + grants h xs (snd (token_step x w))"

definition tokens_wf :: "'x auth_world_scheme \<Rightarrow> bool" where
  "tokens_wf w \<longleftrightarrow> distinct (map rt_Hash (w_refresh w))"

definition spent :: "string \<Rightarrow> 'x auth_world_scheme \<Rightarrow> bool" where
  "spent h w \<longleftrightarrow> (\<forall>r \<in> set (w_refresh w). rt_Hash r = h \<longrightarrow> rt_RevokedAt r \<noteq> None)"

lemma refresh_faults [simp]:
  "w_refresh (w\<lparr>w_faults := bs\<rparr>) = w_refresh w" "w_users (w\<lparr>w_faults := bs\<rparr>) = w_users w"
  by (cases w; simp)+

lemma revoke_rows_hash [simp]: "map rt_Hash (revoke_rows now P rs) = map rt_Hash rs"
  by (simp add: revoke_rows_def comp_def if_distrib cong: if_cong)

lemma list_ex_revoke [simp]:
  "list_ex (\<lambda>r. rt_Hash r = h) (revoke_rows now P rs) = list_ex (\<lambda>r. rt_Hash r = h) rs"
  by (induction rs) (auto simp: revoke_rows_def)

text \<open>What the rows may become in one statement.\<close>

lemma token_step_rows:
  obtains (same) "w_refresh (snd (token_step x w)) = w_refresh w" "\<not> fst (token_step x w)"
  | (new) k h t a i where "x = TStore k h t a" "\<not> list_ex (\<lambda>r. rt_Hash r = h) (w_refresh w)"
      "w_refresh (snd (token_step x w)) = w_refresh w @ [\<lparr> rt_ID = i, rt_UserID = k, rt_Hash = h, rt_ExpiresAt = t,
         rt_RevokedAt = None, rt_UserAgent = a \<rparr>]"
  | (consumed) now h r where "x = TConsume now h" "find (live_token now h) (w_refresh w) = Some r"
      "w_refresh (snd (token_step x w)) = revoke_rows now (live_token now h) (w_refresh w)"
  | (revoked) now P where "w_refresh (snd (token_step x w)) = revoke_rows now P (w_refresh w)" "\<not> fst (token_step x w)"
  | (purged) P where "w_refresh (snd (token_step x w)) = filter P (w_refresh w)" "\<not> fst (token_step x w)"
proof (cases x)
  case (TStore k h t a)
  show ?thesis
    by (cases rule: db_call_cases[of "refresh_insert k h t a" w])
      (auto simp: TStore StoreRefreshToken_def refresh_insert_def fresh_id_def Let_def intro: same new split: if_splits)
next
  case (TConsume now h)
  show ?thesis
    by (cases rule: db_call_cases[of "refresh_consume now h" w])
      (auto simp: TConsume ConsumeRefreshToken_def refresh_consume_def intro: same consumed split: option.splits)
next
  case (TRevoke now h)
  show ?thesis
    by (cases rule: db_call_cases[of "refresh_revoke now (\<lambda>r. rt_Hash r = h)" w])
      (auto simp: TRevoke RevokeRefreshToken_def refresh_revoke_def intro: same revoked)
next
  case (TRevokeAll now k)
  show ?thesis
    by (cases rule: db_call_cases[of "refresh_revoke now (\<lambda>r. rt_UserID r = k)" w])
      (auto simp: TRevokeAll RevokeAllForUser_def refresh_revoke_def intro: same revoked)
next
  case (TPurge now)
  show ?thesis
    by (cases rule: db_call_cases[of "refresh_purge now" w])
      (auto simp: TPurge DeleteExpiredRefreshTokens_def refresh_purge_def intro: same purged)
next
  case TRead
  show ?thesis
    by (cases rule: db_call_cases[of "\<lambda>w. (Inr (length (w_users w)), w)" w])
      (auto simp: TRead user_Count_def intro: same)
next
  case (TUser now u)
  show ?thesis
    by (cases rule: db_call_cases[of "user_insert now u" w])
      (auto simp: TUser user_Create_def user_insert_def fresh_id_def Let_def intro: same split: if_splits)
qed

lemma token_step_wf:
  assumes "tokens_wf w"
  shows "tokens_wf (snd (token_step x w))"
  using assms
  by (cases rule: token_step_rows[of x w])
    (auto simp: tokens_wf_def list_ex_iff distinct_map_filter)

lemma token_step_spent:
  assumes "spent h w" and "\<not> stores h x"
  shows "spent h (snd (token_step x w))" "\<not> (consumes h x \<and> fst (token_step x w))"
proof -
  show "spent h (snd (token_step x w))"
    using assms by (cases rule: token_step_rows[of x w]) (auto simp: spent_def revoke_rows_def)
  show "\<not> (consumes h x \<and> fst (token_step x w))"
  proof
    assume *: "consumes h x \<and> fst (token_step x w)"
    then show False
    proof (cases rule: token_step_rows[of x w])
      case (consumed now h' r)
      then have "h' = h" using * by simp
      then have "r \<in> set (w_refresh w)" "rt_Hash r = h" "rt_RevokedAt r = None"
        using consumed(2) by (auto simp: find_Some_iff live_token_def)
      then show ?thesis using assms(1) by (auto simp: spent_def)
    qed auto
  qed
qed

lemma granted_spent:
  assumes "tokens_wf w" and "consumes h x" and "fst (token_step x w)"
  shows "spent h (snd (token_step x w))"
  using assms
proof (cases rule: token_step_rows[of x w])
  case (consumed now h' r)
  then have h: "h' = h" using assms(2) by simp
  then have r: "r \<in> set (w_refresh w)" "live_token now h r" using consumed(2) by (auto simp: find_Some_iff)
  have "q = r" if "q \<in> set (w_refresh w)" "rt_Hash q = h" for q
    using assms(1) r that unfolding tokens_wf_def live_token_def distinct_map by (auto dest: inj_onD)
  then show ?thesis using consumed(3) r(2) by (auto simp: spent_def revoke_rows_def h)
qed auto

lemma grants_spent:
  "spent h w \<Longrightarrow> list_all (\<lambda>x. \<not> stores h x) xs \<Longrightarrow> grants h xs w = 0"
proof (induction xs arbitrary: w)
  case (Cons x xs)
  then show ?case using token_step_spent[of h w x] by auto
qed simp

lemma grants_le_one:
  "tokens_wf w \<Longrightarrow> list_all (\<lambda>x. \<not> stores h x) xs \<Longrightarrow> grants h xs w \<le> 1"
proof (induction xs arbitrary: w)
  case (Cons x xs)
  show ?case
  proof (cases "consumes h x \<and> fst (token_step x w)")
    case True
    then show ?thesis using granted_spent[OF Cons.prems(1)] grants_spent Cons.prems(2) by fastforce
  next
    case False
    then show ?thesis using Cons token_step_wf[OF Cons.prems(1)] by auto
  qed
qed simp

section \<open>A refresh token is good for one exchange\<close>

text \<open>A table with one token of the user 1.\<close>

definition sample_user :: user where
  "sample_user = \<lparr> us_ID = 1, us_Email = ''ana@farbo.br'', us_Name = ''Ana'', us_Role = ''operator'',
     us_PasswordHash = ''h'', us_Active = True, us_CreatedAt = 0, us_UpdatedAt = 0 \<rparr>"

definition sample_auth :: auth_world where
  "sample_auth = track_world.extend sample_track \<lparr> w_users = [sample_user],
     w_refresh = [\<lparr> rt_ID = 2, rt_UserID = 1, rt_Hash = ''aa'', rt_ExpiresAt = 90, rt_RevokedAt = None,
       rt_UserAgent = [] \<rparr>] \<rparr>"

text \<open>Property C25: a refresh token is exchanged at most once.  Whatever statements of whatever
  requests run on the tables, in whatever order, with whatever clock and whatever failures of the
  database, of all the attempts to consume one token at most one succeeds, as long as the same token
  is not stored again.\<close>

theorem refresh_once:
  assumes "tokens_wf w" and "list_all (\<lambda>x. \<not> stores h x) xs"
  shows "grants h xs w \<le> 1"
  using assms by (rule grants_le_one)

theorem refresh_once_witness:
  "grants ''aa'' [TConsume 5 ''aa'', TRead, TConsume 6 ''aa''] sample_auth \<le> 1"
  by (rule refresh_once) (simp_all add: tokens_wf_def sample_auth_def track_world.defs)

section \<open>The rotation of a token\<close>

lemma auth_issue_quiet:
  assumes "w_faults w = []" and "al_sign lib (ac_JWTSecret cfg) (claims_for lib cfg now jti u) = Some access"
    and "\<not> list_ex (\<lambda>r. rt_Hash r = hashToken (b64_url bs)) (w_refresh w)"
    and "list_ex (\<lambda>v. us_ID v = us_ID u) (w_users w)"
  shows "\<exists>w'. auth_issue lib cfg now jti (Some bs) u agent w =
      (Inr \<lparr> tk_AccessToken = access, tk_RefreshToken = b64_url bs, tk_ExpiresAt = now + ac_AccessTokenTTL cfg,
         tk_User = u \<rparr>, w')
    \<and> w_faults w' = [] \<and> w_users w' = w_users w
    \<and> w_refresh w' = w_refresh w @ [\<lparr> rt_ID = w_nextid w, rt_UserID = us_ID u, rt_Hash = hashToken (b64_url bs),
         rt_ExpiresAt = now + ac_RefreshTokenTTL cfg, rt_RevokedAt = None, rt_UserAgent = agent \<rparr>]"
  using assms by (simp add: auth_issue_def newOpaqueToken_def StoreRefreshToken_def db_call_def
      refresh_insert_def fresh_id_def Let_def)

lemma consume_spent:
  assumes "spent h w" and "w_faults w = []"
  shows "ConsumeRefreshToken now h w = (Inl ErrNotFound, w)"
proof -
  have "find (live_token now h) (w_refresh w) = None"
    using assms(1) by (auto simp: find_None_iff spent_def live_token_def)
  then show ?thesis using assms(2) by (simp add: ConsumeRefreshToken_def db_call_def refresh_consume_def)
qed

text \<open>Property C27: an exchange gives a new pair and spends the old token.  For a live token of an
  active user the service answers with a new access token for that user and a new refresh token, and
  the new one is stored for the same user with its own deadline; only if the digest of the new token
  is already in the table the answer is the conflict.  In every case the old token, presented again
  at any time, is refused.\<close>

theorem refresh_rotates:
  assumes "w_faults w = []" and "tokens_wf w"
    and "find (live_token now (hashToken token)) (w_refresh w) = Some r"
    and "find (\<lambda>u. us_ID u = rt_UserID r) (w_users w) = Some u" and "us_Active u"
    and "al_sign lib (ac_JWTSecret cfg) (claims_for lib cfg now jti u) = Some access"
  shows "\<exists>w' k. auth_Refresh lib cfg now jti (Some bs) token agent w =
      (if list_ex (\<lambda>r. rt_Hash r = hashToken (b64_url bs)) (w_refresh w) then Inl (AuthStore ErrConflict)
       else Inr \<lparr> tk_AccessToken = access, tk_RefreshToken = b64_url bs,
         tk_ExpiresAt = now + ac_AccessTokenTTL cfg, tk_User = u \<rparr>, w')
    \<and> (if list_ex (\<lambda>r. rt_Hash r = hashToken (b64_url bs)) (w_refresh w) then True
       else \<lparr> rt_ID = k, rt_UserID = rt_UserID r, rt_Hash = hashToken (b64_url bs),
         rt_ExpiresAt = now + ac_RefreshTokenTTL cfg, rt_RevokedAt = None, rt_UserAgent = agent \<rparr> \<in> set (w_refresh w'))
    \<and> fst (auth_Refresh lib cfg now' jti' rnd' token agent' w') = Inl ErrInvalidToken"
proof -
  let ?h = "hashToken token" and ?n = "hashToken (b64_url bs)"
  let ?old = "list_ex (\<lambda>r. rt_Hash r = ?n) (w_refresh w)"
  define w1 where "w1 = w\<lparr>w_refresh := revoke_rows now (live_token now ?h) (w_refresh w)\<rparr>"
  have step: "token_step (TConsume now ?h) w = (True, w1)" and c: "ConsumeRefreshToken now ?h w = (Inr (rt_UserID r), w1)"
    using assms(1,3) by (simp_all add: ConsumeRefreshToken_def db_call_def refresh_consume_def w1_def)
  have sp: "spent ?h w1"
    using granted_spent[OF assms(2), of ?h "TConsume now ?h"] by (simp add: step del: token_step.simps)
  have again: "fst (auth_Refresh lib cfg now' jti' rnd' token agent' v) = Inl ErrInvalidToken"
    if "spent ?h v" "w_faults v = []" for v :: "'a auth_world_scheme"
    by (simp add: auth_Refresh_def consume_spent[OF that])
  have u: "us_ID u = rt_UserID r" "u \<in> set (w_users w)" using assms(4) by (auto simp: find_Some_iff)
  have w1: "w_faults w1 = []" "w_users w1 = w_users w" "list_ex (\<lambda>r. rt_Hash r = ?n) (w_refresh w1) = ?old"
    using assms(1) by (simp_all add: w1_def)
  have run: "auth_Refresh lib cfg now jti (Some bs) token agent w = auth_issue lib cfg now jti (Some bs) u agent w1"
    using assms(4,5) w1(1,2) by (simp add: auth_Refresh_def c user_GetByID_def db_call_def)
  show ?thesis
  proof (cases ?old)
    case True
    then have "auth_issue lib cfg now jti (Some bs) u agent w1 = (Inl (AuthStore ErrConflict), w1)"
      using assms(6) w1 by (simp add: auth_issue_def newOpaqueToken_def StoreRefreshToken_def db_call_def refresh_insert_def)
    then show ?thesis using run True again[OF sp w1(1)] by simp
  next
    case False
    have "list_ex (\<lambda>v. us_ID v = us_ID u) (w_users w1)" using u w1(2) by (auto simp: list_ex_iff)
    from auth_issue_quiet[OF w1(1) assms(6) _ this, of bs agent] w1(3) False obtain w' where
      w': "auth_issue lib cfg now jti (Some bs) u agent w1 =
        (Inr \<lparr> tk_AccessToken = access, tk_RefreshToken = b64_url bs, tk_ExpiresAt = now + ac_AccessTokenTTL cfg,
           tk_User = u \<rparr>, w')" "w_faults w' = []"
        "w_refresh w' = w_refresh w1 @ [\<lparr> rt_ID = w_nextid w1, rt_UserID = us_ID u, rt_Hash = ?n,
           rt_ExpiresAt = now + ac_RefreshTokenTTL cfg, rt_RevokedAt = None, rt_UserAgent = agent \<rparr>]" by blast
    have "?n \<noteq> ?h" using assms(3) False by (auto simp: find_Some_iff live_token_def list_ex_iff)
    then have "spent ?h w'" using sp w'(3) by (auto simp: spent_def)
    then show ?thesis using run w'(1,3) again[OF _ w'(2)] u(1) False
      by (intro exI[of _ w'] exI[of _ "w_nextid w1"]) simp
  qed
qed

section \<open>The session of a login\<close>

text \<open>What the documentation of the packages promises: a token signed with a key is a word without
  blanks, and is accepted with its claims when it is read with that key, its issuer, its method and
  before its deadline; the text of an identifier is read back.\<close>

definition jwt_ok :: "auth_lib \<Rightarrow> bool" where
  "jwt_ok lib \<longleftrightarrow> (\<forall>key c tok. al_sign lib key c = Some tok \<longrightarrow> tok \<noteq> [] \<and> trim_space tok = tok
     \<and> (\<forall>kf methods now. kf True = Some key \<and> ''HS256'' \<in> set methods \<and> now < cl_ExpiresAt c \<longrightarrow>
          al_parse lib kf (cl_Issuer c) methods now tok = Some c))"

definition uuid_ok :: "auth_lib \<Rightarrow> bool" where
  "uuid_ok lib \<longleftrightarrow> (\<forall>k. al_uuid_parse lib (al_uuid_str lib k) = Some k)"

lemma Login_user:
  assumes "auth_Login lib cfg now jti rnd email password agent w = (Inr t, w')"
  obtains u where "u \<in> set (w_users w)" "to_lower (us_Email u) = to_lower (trim_space email)" "us_Active u"
    "al_compare lib (us_PasswordHash u) password"
    "al_sign lib (ac_JWTSecret cfg) (claims_for lib cfg now jti u) = Some (tk_AccessToken t)"
proof -
  let ?f = "\<lambda>w. case find (\<lambda>u. to_lower (us_Email u) = to_lower (trim_space email)) (w_users w) of
     None \<Rightarrow> (Inl ErrNotFound, w) | Some u \<Rightarrow> (Inr u, w)"
  obtain u w1 where u: "user_GetByEmail email w = (Inr u, w1)" "us_Active u"
    "al_compare lib (us_PasswordHash u) password" "auth_issue lib cfg now jti rnd u agent w1 = (Inr t, w')"
    using assms by (auto simp: auth_Login_def split: prod.splits sum.splits db_error.splits if_splits)
  from u(1) have "find (\<lambda>u. to_lower (us_Email u) = to_lower (trim_space email)) (w_users w) = Some u"
    unfolding user_GetByEmail_def
    by (cases rule: db_call_cases[of ?f w]) (auto split: option.splits)
  then have "u \<in> set (w_users w)" "to_lower (us_Email u) = to_lower (trim_space email)"
    by (auto simp: find_Some_iff)
  moreover have "al_sign lib (ac_JWTSecret cfg) (claims_for lib cfg now jti u) = Some (tk_AccessToken t)"
    using u(4) by (auto simp: auth_issue_def split: option.splits prod.splits sum.splits)
  ultimately show ?thesis using that u by blast
qed

text \<open>Property C26: the session of a login is the session of that user.  If a login answers with
  tokens, there is an active user with that address whose password matches; and every request that
  carries the access token in its header before the deadline is let through as that user, with the
  role of the user.\<close>

theorem login_session:
  assumes "jwt_ok lib" and "uuid_ok lib"
    and "auth_Login lib cfg now jti rnd email password agent w = (Inr t, w')"
    and "hr_Authorization r = ''Bearer '' @ tk_AccessToken t"
    and "now' < numeric_date (now + ac_AccessTokenTTL cfg)"
  shows "\<exists>u. u \<in> set (w_users w) \<and> to_lower (us_Email u) = to_lower (trim_space email) \<and> us_Active u
    \<and> al_compare lib (us_PasswordHash u) password
    \<and> auth_Middleware lib cfg now' r = Inr \<lparr> pr_UserID = us_ID u, pr_Email = us_Email u, pr_Role = us_Role u \<rparr>"
proof -
  obtain u where u: "u \<in> set (w_users w)" "to_lower (us_Email u) = to_lower (trim_space email)" "us_Active u"
    "al_compare lib (us_PasswordHash u) password"
    "al_sign lib (ac_JWTSecret cfg) (claims_for lib cfg now jti u) = Some (tk_AccessToken t)"
    using Login_user[OF assms(3)] by blast
  let ?c = "claims_for lib cfg now jti u" and ?kf = "\<lambda>hmac. if hmac then Some (ac_JWTSecret cfg) else None"
  from assms(1) u(5) have tok: "tk_AccessToken t \<noteq> []" "trim_space (tk_AccessToken t) = tk_AccessToken t"
    and parse: "\<forall>kf methods now. kf True = Some (ac_JWTSecret cfg) \<and> ''HS256'' \<in> set methods \<and> now < cl_ExpiresAt ?c \<longrightarrow>
      al_parse lib kf (cl_Issuer ?c) methods now (tk_AccessToken t) = Some ?c"
    unfolding jwt_ok_def by blast+
  have "auth_Parse lib cfg now' (tk_AccessToken t) = Inr ?c"
    using parse[rule_format, of ?kf "[''HS256'']" now'] assms(5) by (simp add: auth_Parse_def claims_for_def)
  moreover have "bearerToken r = tk_AccessToken t"
    using tok(2) assms(4) has_prefix_append[of "''Bearer ''" "tk_AccessToken t"]
    by (simp add: bearerToken_def trim_prefix_def)
  ultimately have "auth_Middleware lib cfg now' r =
      Inr \<lparr> pr_UserID = us_ID u, pr_Email = us_Email u, pr_Role = us_Role u \<rparr>"
    using tok(1) assms(2) by (simp add: auth_Middleware_def claims_for_def uuid_ok_def)
  then show ?thesis using u by blast
qed

section \<open>A library for the examples\<close>

definition sample_auth_config :: auth_config where
  "sample_auth_config = \<lparr> ac_JWTSecret = [7], ac_AccessTokenTTL = 900 * second,
     ac_RefreshTokenTTL = 86400 * second, ac_BcryptCost = 12 \<rparr>"

definition sample_claims :: claims where
  "sample_claims = \<lparr> cl_Role = ''operator'', cl_Email = ''ana@farbo.br'', cl_Subject = show_nat 1, cl_Issuer = issuer,
     cl_IssuedAt = 0, cl_ExpiresAt = 900 * second, cl_ID = ''j'' \<rparr>"

text \<open>It signs one set of claims with one key, and refuses the others.\<close>

definition sample_lib :: auth_lib where
  "sample_lib = \<lparr> al_hash = (\<lambda>_ p. Some p), al_compare = (\<lambda>h p. p = ''senha-secreta''),
     al_sign = (\<lambda>key c. if key = [7] \<and> c = sample_claims then Some ''t'' else None),
     al_parse = (\<lambda>kf iss methods now tok. if tok = ''t'' \<and> kf True = Some [7] \<and> iss = issuer
       \<and> ''HS256'' \<in> set methods \<and> now < 900 * second then Some sample_claims else None),
     al_uuid_str = show_nat, al_uuid_parse = (\<lambda>s. Some (nat_of_digits s)) \<rparr>"

lemma trim_t: "trim_space ''t'' = ''t''" by (rule trim_space_all_plain) (simp add: plain_def)

lemma sample_lib_ok: "jwt_ok sample_lib" "uuid_ok sample_lib"
  by (auto simp: jwt_ok_def uuid_ok_def sample_lib_def sample_claims_def trim_t)

lemma sample_sign:
  "al_sign sample_lib (ac_JWTSecret sample_auth_config) (claims_for sample_lib sample_auth_config 0 ''j'' sample_user) = Some ''t''"
  by (simp add: sample_lib_def claims_for_def sample_claims_def sample_auth_config_def sample_user_def
      numeric_date_def second_def)

lemma sample_auth_fields [simp]:
  "w_faults sample_auth = []" "w_users sample_auth = [sample_user]"
  "w_refresh sample_auth = [\<lparr> rt_ID = 2, rt_UserID = 1, rt_Hash = ''aa'', rt_ExpiresAt = 90, rt_RevokedAt = None,
       rt_UserAgent = [] \<rparr>]"
  by (simp_all add: sample_auth_def track_world.defs sample_track_def)

theorem login_session_witness:
  "\<exists>u. u \<in> set (w_users sample_auth) \<and> us_Active u \<and> al_compare sample_lib (us_PasswordHash u) ''senha-secreta''
    \<and> auth_Middleware sample_lib sample_auth_config (60 * second)
        \<lparr> hr_Authorization = ''Bearer t'', hr_QueryToken = [], hr_ForwardedFor = [], hr_RealIP = [],
          hr_RemoteAddr = [], hr_UserAgent = [] \<rparr>
      = Inr \<lparr> pr_UserID = us_ID u, pr_Email = us_Email u, pr_Role = us_Role u \<rparr>"
proof -
  have fresh: "\<not> list_ex (\<lambda>r. rt_Hash r = hashToken (b64_url [])) (w_refresh sample_auth)"
  proof -
    have len: "length (concat (map be32 ws)) = 4 * length ws" for ws by (induction ws) auto
    have "8 * n \<noteq> Suc (Suc 0)" for n by presburger
    then have "length (hashToken x) \<noteq> length ''aa''" for x
      by (simp add: hashToken_def Sum256_def len)
    then have "hashToken x \<noteq> ''aa''" for x by metis
    then show ?thesis by (simp add: eq_commute)
  qed
  have u: "list_ex (\<lambda>v. us_ID v = us_ID sample_user) (w_users sample_auth)" by simp
  obtain w' where "auth_issue sample_lib sample_auth_config 0 ''j'' (Some []) sample_user [] sample_auth =
      (Inr \<lparr> tk_AccessToken = ''t'', tk_RefreshToken = b64_url [], tk_ExpiresAt = 0 + ac_AccessTokenTTL sample_auth_config,
         tk_User = sample_user \<rparr>, w')"
    using auth_issue_quiet[OF sample_auth_fields(1) sample_sign fresh u] by blast
  moreover have "trim_space ''ana@farbo.br'' = ''ana@farbo.br''"
    by (rule trim_space_all_plain) (simp add: plain_def)
  ultimately have "auth_Login sample_lib sample_auth_config 0 ''j'' (Some []) ''ana@farbo.br'' ''senha-secreta'' [] sample_auth =
      (Inr \<lparr> tk_AccessToken = ''t'', tk_RefreshToken = b64_url [], tk_ExpiresAt = 0 + ac_AccessTokenTTL sample_auth_config,
         tk_User = sample_user \<rparr>, w')"
    by (simp add: auth_Login_def user_GetByEmail_def db_call_def sample_lib_def) (simp add: sample_user_def)
  from login_session[OF sample_lib_ok this, of "\<lparr> hr_Authorization = ''Bearer t'', hr_QueryToken = [],
      hr_ForwardedFor = [], hr_RealIP = [], hr_RemoteAddr = [], hr_UserAgent = [] \<rparr>" "60 * second"]
  show ?thesis by (simp add: numeric_date_def second_def sample_auth_config_def)
qed

theorem refresh_rotates_witness:
  "\<exists>w'. snd (auth_Refresh sample_lib sample_auth_config 0 ''j'' (Some [1, 2]) ''velho'' []
       (sample_auth\<lparr>w_refresh := [\<lparr> rt_ID = 2, rt_UserID = 1, rt_Hash = hashToken ''velho'', rt_ExpiresAt = 90,
          rt_RevokedAt = None, rt_UserAgent = [] \<rparr>]\<rparr>)) = w'
    \<and> fst (auth_Refresh sample_lib sample_auth_config 5 ''j'' (Some [3]) ''velho'' [] w') = Inl ErrInvalidToken"
proof -
  let ?r = "\<lparr> rt_ID = 2, rt_UserID = 1, rt_Hash = hashToken ''velho'', rt_ExpiresAt = 90, rt_RevokedAt = None,
    rt_UserAgent = [] \<rparr>"
  let ?w = "sample_auth\<lparr>w_refresh := [?r]\<rparr>"
  have hyps: "w_faults ?w = []" "tokens_wf ?w" "find (live_token 0 (hashToken ''velho'')) (w_refresh ?w) = Some ?r"
    "find (\<lambda>u. us_ID u = rt_UserID ?r) (w_users ?w) = Some sample_user" "us_Active sample_user"
    by (simp_all add: tokens_wf_def live_token_def sample_user_def)
  from refresh_rotates[OF hyps sample_sign, of "[1, 2]" "[]" 5 "''j''" "Some [3]" "[]"]
  show ?thesis by (metis snd_conv)
qed

end
