(* ===== verification/Api_Props.thy ===== *)
theory Api_Props
  imports Api Auth_Props
begin

text \<open>
  The properties of the HTTP interface: who may write, who may choose the bytes that reach a tracker,
  what the audit trail misses and how the limit by address is evaded.
\<close>

section \<open>Who may write\<close>

definition auth_paths :: "string list" where
  "auth_paths = [''/api/auth/login'', ''/api/auth/refresh'', ''/api/auth/logout'']"

lemma gate_of_write:
  assumes "(m, path, g) \<in> set routes" and "m \<in> {''POST'', ''PATCH'', ''DELETE''}" and "path \<notin> set auth_paths"
  shows "g = Roles [RoleAdmin] \<or> g = Roles [RoleAdmin, RoleOperator] \<and> has_prefix path ''/api/vehicles/{id}/commands''"
  using assms unfolding routes_def auth_paths_def
  by (simp only: set_simps insert_iff empty_iff prod.inject) (elim disjE conjE; simp add: has_prefix_def)


section \<open>Who chooses the bytes\<close>

lemma Send_ignores_raw:
  assumes "rq_Type req \<noteq> CommandCustom"
  shows "cmd_Send cfg reg tel wok rnd now (req\<lparr>rq_RawOverride := raw\<rparr>) w = cmd_Send cfg reg tel wok rnd now req w"
proof -
  have p: "proto_command (req\<lparr>rq_RawOverride := raw\<rparr>) key = proto_command req key" for key
    using assms by (simp add: proto_command_def rawFor_def)
  have f: "rq_Device (req\<lparr>rq_RawOverride := raw\<rparr>) = rq_Device req" "rq_VehicleID (req\<lparr>rq_RawOverride := raw\<rparr>) = rq_VehicleID req"
    "rq_Type (req\<lparr>rq_RawOverride := raw\<rparr>) = rq_Type req" "rq_UserID (req\<lparr>rq_RawOverride := raw\<rparr>) = rq_UserID req"
    "rq_IP (req\<lparr>rq_RawOverride := raw\<rparr>) = rq_IP req" by simp_all
  show ?thesis unfolding cmd_Send_def cmd_submit_def cmd_reject_def cmd_dispatch_def f p by (rule refl)
qed

text \<open>Property C30: only an administrator chooses the bytes that reach a vehicle.  For a principal who
  is not one, a free command is refused with 403 and changes nothing, and the raw text that comes
  with any other command has no influence on the answer, on the tables or on what is written to the
  tracker.\<close>

theorem raw_text_admin_only:
  assumes "\<not> CanManage p"
  shows "handleGenericCommand ccfg reg wok rnd now r (Some p) k (Some (CommandCustom, params, raw)) w =
      (Fail 403 CustomAdminOnly, w)
    \<and> handleGenericCommand ccfg reg wok rnd now r (Some p) k (Some (t, params, raw)) w =
      handleGenericCommand ccfg reg wok rnd now r (Some p) k (Some (t, params, raw')) w"
proof
  show "handleGenericCommand ccfg reg wok rnd now r (Some p) k (Some (CommandCustom, params, raw)) w =
      (Fail 403 CustomAdminOnly, w)"
    using assms by (simp add: handleGenericCommand_def command_valid_def AllCommandTypes_def)
next
  have "sendCommand ccfg reg wok rnd now r (Some p) k t (Some (params, raw)) w =
      sendCommand ccfg reg wok rnd now r (Some p) k t (Some (params, raw')) w" if "t \<noteq> CommandCustom"
  proof -
    have "command_request r (Some p) v dev t (Some (params, raw)) =
        (command_request r (Some p) v dev t (Some (params, raw')))\<lparr>rq_RawOverride := raw\<rparr>" for v dev
      by (simp add: command_request_def)
    moreover have "rq_Type (command_request r (Some p) v dev t x) = t" for v dev x by (simp add: command_request_def)
    ultimately have same: "cmd_Send ccfg reg Snapshot wok rnd now (command_request r (Some p) v dev t (Some (params, raw))) w1 =
      cmd_Send ccfg reg Snapshot wok rnd now (command_request r (Some p) v dev t (Some (params, raw'))) w1" for v dev w1
      using Send_ignores_raw[of "command_request r (Some p) v dev t (Some (params, raw'))"] that by metis
    show ?thesis unfolding sendCommand_def same by (rule refl)
  qed
  then show "handleGenericCommand ccfg reg wok rnd now r (Some p) k (Some (t, params, raw)) w =
      handleGenericCommand ccfg reg wok rnd now r (Some p) k (Some (t, params, raw')) w"
    using assms by (simp add: handleGenericCommand_def)
qed

theorem raw_text_admin_only_witness:
  "handleGenericCommand sample_config [] True None 0 \<lparr> hr_Authorization = [], hr_QueryToken = [], hr_ForwardedFor = [],
      hr_RealIP = [], hr_RemoteAddr = [], hr_UserAgent = [] \<rparr>
      (Some \<lparr> pr_UserID = 1, pr_Email = [], pr_Role = ''operator'' \<rparr>) (Some 5)
      (Some (CommandCustom, Map.empty, ''RELAY,1#'')) sample_auth = (Fail 403 CustomAdminOnly, sample_auth)"
  by (rule conjunct1[OF raw_text_admin_only]) (simp add: CanManage_def principal_Is_def)

section \<open>What the audit trail misses\<close>

lemma audit_of_missing:
  assumes "reference_missing (ae_VehicleID e) (map ve_ID (w_vehicles w))
    \<or> reference_missing (ae_DeviceID e) (map dv_ID (w_devices w))"
  shows "w_audit (audit_log now e w) = w_audit w"
  using assms
  by (cases rule: db_call_cases[of "audit_insert now e" w]) (auto simp: audit_log_def audit_insert_def)

lemma dev_Delete_gone:
  assumes "dev_Delete k w = (Inr x, w')"
  shows "k \<notin> set (map dv_ID (w_devices w'))" "w_audit w' = w_audit w"
  using assms unfolding dev_Delete_def
  by (cases rule: db_call_cases[of "\<lambda>w. if find (\<lambda>d. dv_ID d = k) (w_devices w) = None then (Inl ErrNotFound, w)
     else (Inr (), w\<lparr>w_devices := filter (\<lambda>d. dv_ID d \<noteq> k) (w_devices w)\<rparr>)" w]; auto split: if_splits)+

lemma veh_Delete_gone:
  assumes "veh_Delete k w = (Inr x, w')"
  shows "k \<notin> set (map ve_ID (w_vehicles w'))" "w_audit w' = w_audit w"
  using assms unfolding veh_Delete_def
  by (cases rule: db_call_cases[of "veh_remove k" w]; auto simp: veh_remove_def split: if_splits)+

lemma dev_GetByID_audit: "dev_GetByID k w = (x, w') \<Longrightarrow> w_audit w' = w_audit w"
  unfolding dev_GetByID_def
  by (cases rule: db_call_cases[of "\<lambda>w. case find (\<lambda>d. dv_ID d = k) (w_devices w) of
      None \<Rightarrow> (Inl ErrNotFound, w) | Some d \<Rightarrow> (Inr d, w)" w]) (auto split: option.splits)

text \<open>Property C40: the deletion of a device or of a vehicle leaves no trace in the audit trail.  The
  handler records the action after the row is gone, with a reference to it; the table refuses the
  entry, and the service only logs the refusal.  Whoever deletes, and whatever fails on the way, a
  deletion that succeeds adds no entry, and the older entries lose their reference.\<close>

theorem deletion_not_audited:
  shows "(if fst (handleDeleteDevice now r p (Some k) w) = Empty 204
      then w_audit (snd (handleDeleteDevice now r p (Some k) w)) =
        map (\<lambda>e. if ae_DeviceID e = Some k then e\<lparr>ae_DeviceID := None\<rparr> else e) (w_audit w) else True)
    \<and> (if fst (handleDeleteVehicle now r p (Some k) w) = Empty 204
      then w_audit (snd (handleDeleteVehicle now r p (Some k) w)) =
        map (\<lambda>e. if ae_VehicleID e = Some k then e\<lparr>ae_VehicleID := None\<rparr> else e) (w_audit w) else True)"
proof
  have fail: "handleStoreError e m \<noteq> Empty c" for e m c by (simp add: handleStoreError_def split: db_error.splits)
  show "if fst (handleDeleteDevice now r p (Some k) w) = Empty 204
      then w_audit (snd (handleDeleteDevice now r p (Some k) w)) =
        map (\<lambda>e. if ae_DeviceID e = Some k then e\<lparr>ae_DeviceID := None\<rparr> else e) (w_audit w) else True"
  proof (cases "fst (handleDeleteDevice now r p (Some k) w) = Empty 204")
    case True
    then obtain d w1 x w2 where run: "dev_GetByID k w = (Inr d, w1)" "dev_Delete k w1 = (Inr x, w2)"
      by (auto simp: handleDeleteDevice_def fail split: prod.splits sum.splits)
    let ?w = "InvalidateVehicles (invalidateDevice (dv_IMEI d) (device_cascade k w2))"
    have "w_audit (recordAudit now r p ''DEVICE_DELETED'' None (Some k) [(''imei'', MStr (dv_IMEI d))] ?w) = w_audit ?w"
      unfolding recordAudit_def using dev_Delete_gone(1)[OF run(2)]
      by (intro audit_of_missing) (simp add: reference_missing_def InvalidateVehicles_def invalidateDevice_def device_cascade_def)
    moreover have "w_audit w2 = w_audit w"
      using dev_Delete_gone(2)[OF run(2)] dev_GetByID_audit[OF run(1)] by simp
    ultimately show ?thesis using run
      by (simp add: handleDeleteDevice_def InvalidateVehicles_def invalidateDevice_def device_cascade_def)
  qed simp
  show "if fst (handleDeleteVehicle now r p (Some k) w) = Empty 204
      then w_audit (snd (handleDeleteVehicle now r p (Some k) w)) =
        map (\<lambda>e. if ae_VehicleID e = Some k then e\<lparr>ae_VehicleID := None\<rparr> else e) (w_audit w) else True"
  proof (cases "fst (handleDeleteVehicle now r p (Some k) w) = Empty 204")
    case True
    then obtain x w2 where run: "veh_Delete k w = (Inr x, w2)"
      by (auto simp: handleDeleteVehicle_def fail split: prod.splits sum.splits)
    let ?w = "InvalidateVehicles (vehicle_cascade k w2)"
    have "w_audit (recordAudit now r p ''VEHICLE_DELETED'' (Some k) None [] ?w) = w_audit ?w"
      unfolding recordAudit_def using veh_Delete_gone(1)[OF run]
      by (intro audit_of_missing) (simp add: reference_missing_def InvalidateVehicles_def vehicle_cascade_def)
    then show ?thesis using run veh_Delete_gone(2)[OF run]
      by (simp add: handleDeleteVehicle_def InvalidateVehicles_def vehicle_cascade_def)
  qed simp
qed

section \<open>The limit by address\<close>

fun limiter_run :: "'l limiter_lib \<Rightarrow> (time \<times> http_request) list \<Rightarrow> 'l visitors \<Rightarrow> api_error option list" where
  "limiter_run lib [] vs = []"
| "limiter_run lib ((now, r) # xs) vs =
     (case limiter_middleware lib now r vs of (e, vs) \<Rightarrow> e # limiter_run lib xs vs)"

definition plain_ip :: "string \<Rightarrow> bool" where
  "plain_ip ip \<longleftrightarrow> ip \<noteq> [] \<and> list_all (\<lambda>c. c \<noteq> CHR '','' \<and> c \<noteq> CHR '' '' \<and> c \<noteq> CHR 0x09) ip"

lemma trimSpace_left_plain: "list_all (\<lambda>c. c \<noteq> CHR '' '' \<and> c \<noteq> CHR 0x09) s \<Longrightarrow> trimSpace_left s = s"
  by (cases s) auto

lemma clientIP_forged:
  assumes "plain_ip ip" and "hr_ForwardedFor r = ip @ '', '' @ rest"
  shows "clientIP r = ip"
proof -
  have "takeWhile (\<lambda>c. c \<noteq> CHR '','') (ip @ CHR '','' # s) = ip" for s
    using assms(1) by (subst takeWhile_append2) (auto simp: plain_ip_def list_all_iff)
  moreover have "list_all (\<lambda>c. c \<noteq> CHR '' '' \<and> c \<noteq> CHR 0x09) ip" using assms(1) by (simp add: plain_ip_def list_all_iff)
  then have "api_trimSpace ip = ip" by (simp add: api_trimSpace_def trimSpace_left_plain list_all_rev)
  ultimately show ?thesis using assms by (simp add: clientIP_def plain_ip_def)
qed

lemma limiter_run_fresh:
  assumes "\<And>now. fst (ll_allow lib now (ll_new lib))" and "distinct (map (clientIP \<circ> snd) xs)"
    and "\<forall>x \<in> set xs. vs (clientIP (snd x)) = None"
  shows "limiter_run lib xs vs = replicate (length xs) None"
  using assms(2,3)
proof (induction xs arbitrary: vs)
  case (Cons x xs)
  obtain now r where x: "x = (now, r)" by (cases x)
  let ?l = "ll_allow lib now (ll_new lib)"
  have "limiter_middleware lib now r vs = (None, vs(clientIP r \<mapsto> (snd ?l, now)))"
    using Cons.prems(2) assms(1)[of now]
    by (cases ?l) (simp add: x limiter_middleware_def limiter_allow_def Let_def)
  moreover have "limiter_run lib xs (vs(clientIP r \<mapsto> (snd ?l, now))) = replicate (length xs) None"
    by (rule Cons.IH) (use Cons.prems in \<open>auto simp: x image_iff\<close>)
  ultimately show ?case by (simp add: x)
qed simp

text \<open>The limit by address is evaded by a header.  The proxy in front of the server appends
  the address it sees to the header X-Forwarded-For, and the server takes the first address of it,
  which is the one the client wrote.  A client that writes another address into every request is
  never refused, whatever the rate, and that holds for the limit of the login too.\<close>

theorem limit_evaded:
  assumes "\<And>now. fst (ll_allow lib now (ll_new lib))"
    and "list_all (\<lambda>((now, r), ip, real). plain_ip ip \<and> hr_ForwardedFor r = ip @ '', '' @ real) xs"
    and "distinct (map (\<lambda>(_, ip, _). ip) xs)" and "list_all (\<lambda>(_, ip, _). vs ip = None) xs"
  shows "limiter_run lib (map fst xs) vs = replicate (length xs) None"
proof -
  have ip: "clientIP (snd (fst x)) = fst (snd x)" if "x \<in> set xs" for x
    using assms(2) that clientIP_forged by (fastforce simp: list_all_iff)
  then have "map (clientIP \<circ> snd) (map fst xs) = map (\<lambda>(_, ip, _). ip) xs" by (auto simp: case_prod_beta)
  then have "distinct (map (clientIP \<circ> snd) (map fst xs))" using assms(3) by (simp only:)
  moreover have "\<forall>x \<in> set (map fst xs). vs (clientIP (snd x)) = None"
    using assms(4) ip by (fastforce simp: list_all_iff)
  ultimately have "limiter_run lib (map fst xs) vs = replicate (length (map fst xs)) None"
    using assms(1) by (intro limiter_run_fresh)
  then show ?thesis by simp
qed

text \<open>A limiter that lets one request through and no more.\<close>

definition once :: "bool limiter_lib" where
  "once = \<lparr> ll_new = True, ll_allow = (\<lambda>_ l. (l, False)) \<rparr>"

definition forged :: "string \<Rightarrow> http_request" where
  "forged ip = \<lparr> hr_Authorization = [], hr_QueryToken = [], hr_ForwardedFor = ip @ '', '' @ ''10.0.0.9'', hr_RealIP = [],
     hr_RemoteAddr = [], hr_UserAgent = [] \<rparr>"

theorem limit_evaded_witness:
  "limiter_run once [(1, forged ''1.1.1.1''), (2, forged ''1.1.1.2''), (3, forged ''1.1.1.3'')] Map.empty = [None, None, None]"
  using limit_evaded[of once "[((1, forged ''1.1.1.1''), ''1.1.1.1'', ''10.0.0.9''), ((2, forged ''1.1.1.2''), ''1.1.1.2'', ''10.0.0.9''),
     ((3, forged ''1.1.1.3''), ''1.1.1.3'', ''10.0.0.9'')]" Map.empty]
  by (simp add: once_def forged_def plain_ip_def numeral_3_eq_3)


theorem deletion_not_audited_witness:
  "fst (handleDeleteDevice 9 (forged ''1.1.1.1'') None (Some (dv_ID sample_device)) sample_auth) = Empty 204
    \<and> w_audit (snd (handleDeleteDevice 9 (forged ''1.1.1.1'') None (Some (dv_ID sample_device)) sample_auth)) = []"
proof -
  have "w_devices sample_auth = [sample_device]" "w_audit sample_auth = []"
    by (simp_all add: sample_auth_def track_world.defs sample_track_def)
  then show ?thesis
    using deletion_not_audited[of 9 "forged ''1.1.1.1''" None "dv_ID sample_device" sample_auth]
    by (simp add: handleDeleteDevice_def dev_GetByID_def dev_Delete_def db_call_def)
qed

end
