(* ===== verification/Hub.thy ===== *)
theory Hub
  imports Store
begin

text \<open>
  The package \<^verbatim>\<open>internal/websocket\<close>: the hub that distributes messages to the browsers
  (\<^verbatim>\<open>hub.go\<close>), the check of the origin (\<^verbatim>\<open>handler.go\<close>) and the replication between instances
  (\<^verbatim>\<open>redis.go\<close>).  A client is a pointer; its channel is a queue of at most 256 payloads that can be
  closed once.  A send on a closed channel and a second close panic: they are the error of the
  operations.  The iteration over the map of clients has no fixed order, so a broadcast takes the
  order as an argument.  The encoding to JSON is an argument too.
\<close>

type_synonym ws_client = nat

record ws_message =
  wm_Type :: string
  wm_VehicleID :: "uuid option"
  wm_DeviceID :: "uuid option"
  wm_Timestamp :: time
  wm_Data :: "(string \<times> meta) list"
  wm_origin :: string

record ws_hub =
  hb_clients :: "ws_client list"
  hb_queue :: "ws_client \<Rightarrow> string list"
  hb_closed :: "ws_client \<Rightarrow> bool"
  hb_originID :: string
  hb_counts :: "nat list"
  hb_forward :: bool
  hb_forwarded :: "ws_message list"

datatype panic = SendOnClosed | CloseOfClosed

definition sendBuffer :: nat where "sendBuffer = 256"

definition NewHub :: "string \<Rightarrow> ws_hub" where
  "NewHub origin = \<lparr> hb_clients = [], hb_queue = (\<lambda>_. []), hb_closed = (\<lambda>_. False), hb_originID = origin,
     hb_counts = [], hb_forward = False, hb_forwarded = [] \<rparr>"

definition SetForwarder :: "ws_hub \<Rightarrow> ws_hub" where
  "SetForwarder h = h\<lparr>hb_forward := True\<rparr>"

definition hub_Count :: "ws_hub \<Rightarrow> nat" where
  "hub_Count h = length (hb_clients h)"

definition hub_notify :: "nat \<Rightarrow> ws_hub \<Rightarrow> ws_hub" where
  "hub_notify n h = h\<lparr>hb_counts := hb_counts h @ [n]\<rparr>"

definition hub_add :: "ws_client \<Rightarrow> ws_hub \<Rightarrow> ws_hub" where
  "hub_add c h =
     (let h = h\<lparr>hb_clients := (if c \<in> set (hb_clients h) then hb_clients h else hb_clients h @ [c])\<rparr>
      in hub_notify (length (hb_clients h)) h)"

definition hub_remove :: "ws_client \<Rightarrow> ws_hub \<Rightarrow> panic + ws_hub" where
  "hub_remove c h =
     (if c \<in> set (hb_clients h) then
        if hb_closed h c then Inl CloseOfClosed
        else
          let h = h\<lparr>hb_clients := removeAll c (hb_clients h), hb_closed := (hb_closed h)(c := True)\<rparr>
          in Inr (hub_notify (length (hb_clients h)) h)
      else Inr h)"

text \<open>The \<^verbatim>\<open>select\<close> with a default: \<open>False\<close> when the buffer is full.\<close>

definition hub_send :: "string \<Rightarrow> ws_client \<Rightarrow> ws_hub \<Rightarrow> panic + bool \<times> ws_hub" where
  "hub_send p c h =
     (if hb_closed h c then Inl SendOnClosed
      else if length (hb_queue h c) < sendBuffer
      then Inr (True, h\<lparr>hb_queue := (hb_queue h)(c := hb_queue h c @ [p])\<rparr>)
      else Inr (False, h))"

fun send_all :: "string \<Rightarrow> ws_client list \<Rightarrow> ws_hub \<Rightarrow> panic + ws_client list \<times> ws_hub" where
  "send_all p [] h = Inr ([], h)"
| "send_all p (c # cs) h =
     (case hub_send p c h of
        Inl e \<Rightarrow> Inl e
      | Inr (ok, h) \<Rightarrow>
          (case send_all p cs h of Inl e \<Rightarrow> Inl e | Inr (stale, h) \<Rightarrow> Inr (if ok then stale else c # stale, h)))"

fun remove_all :: "ws_client list \<Rightarrow> ws_hub \<Rightarrow> panic + ws_hub" where
  "remove_all [] h = Inr h"
| "remove_all (c # cs) h = (case hub_remove c h of Inl e \<Rightarrow> Inl e | Inr h \<Rightarrow> remove_all cs h)"

definition hub_broadcast ::
  "(ws_message \<Rightarrow> string option) \<Rightarrow> ws_client list \<Rightarrow> ws_message \<Rightarrow> ws_hub \<Rightarrow> panic + ws_hub" where
  "hub_broadcast marshal order msg h =
     (case marshal msg of
        None \<Rightarrow> Inr h
      | Some p \<Rightarrow>
          (case send_all p order h of Inl e \<Rightarrow> Inl e | Inr (stale, h) \<Rightarrow> remove_all stale h))"

definition PublishFor :: "(ws_message \<Rightarrow> string option) \<Rightarrow> ws_client list \<Rightarrow> time \<Rightarrow>
   string \<Rightarrow> uuid option \<Rightarrow> uuid option \<Rightarrow> (string \<times> meta) list \<Rightarrow> ws_hub \<Rightarrow> panic + ws_hub" where
  "PublishFor marshal order now t v d data h =
     (let msg = \<lparr> wm_Type = t, wm_VehicleID = v, wm_DeviceID = d, wm_Timestamp = now, wm_Data = data,
            wm_origin = hb_originID h \<rparr> in
      case hub_broadcast marshal order msg h of
        Inl e \<Rightarrow> Inl e
      | Inr h \<Rightarrow> Inr (if hb_forward h then h\<lparr>hb_forwarded := hb_forwarded h @ [msg]\<rparr> else h))"

definition hub_Deliver ::
  "(ws_message \<Rightarrow> string option) \<Rightarrow> ws_client list \<Rightarrow> ws_message \<Rightarrow> ws_hub \<Rightarrow> panic + ws_hub" where
  "hub_Deliver marshal order msg h =
     (if wm_origin msg = hb_originID h then Inr h else hub_broadcast marshal order msg h)"

text \<open>The form in which a message travels between the instances: the fields of \<^verbatim>\<open>Message\<close> with the
  origin among those that are encoded.\<close>

record wire_message =
  wi_Type :: string
  wi_VehicleID :: "uuid option"
  wi_DeviceID :: "uuid option"
  wi_Timestamp :: time
  wi_Data :: "(string \<times> meta) list"
  wi_Origin :: string

definition encodeForWire :: "(wire_message \<Rightarrow> string option) \<Rightarrow> ws_message \<Rightarrow> string option" where
  "encodeForWire marshal msg = marshal \<lparr> wi_Type = wm_Type msg, wi_VehicleID = wm_VehicleID msg,
     wi_DeviceID = wm_DeviceID msg, wi_Timestamp = wm_Timestamp msg, wi_Data = wm_Data msg,
     wi_Origin = wm_origin msg \<rparr>"

definition decodeFromWire :: "(string \<Rightarrow> wire_message option) \<Rightarrow> string \<Rightarrow> ws_message option" where
  "decodeFromWire unmarshal payload = map_option (\<lambda>w. \<lparr> wm_Type = wi_Type w, wm_VehicleID = wi_VehicleID w,
     wm_DeviceID = wi_DeviceID w, wm_Timestamp = wi_Timestamp w, wm_Data = wi_Data w,
     wm_origin = wi_Origin w \<rparr>) (unmarshal payload)"

text \<open>One turn of \<^verbatim>\<open>Bridge.Run\<close>: a payload from the channel.\<close>

definition bridge_receive :: "(string \<Rightarrow> wire_message option) \<Rightarrow> (ws_message \<Rightarrow> string option) \<Rightarrow>
   ws_client list \<Rightarrow> string \<Rightarrow> ws_hub \<Rightarrow> panic + ws_hub" where
  "bridge_receive unmarshal marshal order payload h =
     (case decodeFromWire unmarshal payload of None \<Rightarrow> Inr h | Some msg \<Rightarrow> hub_Deliver marshal order msg h)"

definition check_origin :: "string list \<Rightarrow> string \<Rightarrow> bool" where
  "check_origin allowed origin = (if origin = '''' then True else origin \<in> set allowed)"

section \<open>Interleavings\<close>

text \<open>The steps that the lock makes atomic: a browser connects with a new channel, anyone removes a
  client, a broadcast sends to a client that is in the map, the writer of a client takes a payload.\<close>

inductive hub_step :: "ws_hub \<Rightarrow> ws_hub \<Rightarrow> bool" where
  add: "\<not> hb_closed h c \<Longrightarrow> hub_step h (hub_add c h)"
| remove: "hub_remove c h = Inr h' \<Longrightarrow> hub_step h h'"
| send: "c \<in> set (hb_clients h) \<Longrightarrow> hub_send p c h = Inr (ok, h') \<Longrightarrow> hub_step h h'"
| receive: "hb_queue h c = p # ps \<Longrightarrow> hub_step h (h\<lparr>hb_queue := (hb_queue h)(c := ps)\<rparr>)"
| forwarded: "hub_step h (h\<lparr>hb_forwarded := ms\<rparr>)"

definition hub_inv :: "ws_hub \<Rightarrow> bool" where
  "hub_inv h \<longleftrightarrow> distinct (hb_clients h) \<and> (\<forall>c \<in> set (hb_clients h). \<not> hb_closed h c)
     \<and> (\<forall>c. length (hb_queue h c) \<le> sendBuffer)"

lemma hub_inv_new: "hub_inv (NewHub origin)"
  by (simp add: hub_inv_def NewHub_def)

lemma hub_step_inv:
  assumes "hub_step h h'" and "hub_inv h"
  shows "hub_inv h'"
  using assms
proof cases
  case (receive c p ps)
  have "length ps \<le> sendBuffer" using assms(2) receive(2) unfolding hub_inv_def
    by (metis Suc_leD length_Cons)
  then show ?thesis using assms(2) receive(1) by (simp add: hub_inv_def)
qed (auto simp: hub_inv_def hub_add_def hub_notify_def hub_remove_def hub_send_def Let_def distinct_removeAll
    split: if_splits)

lemma hub_reachable_inv: "hub_step\<^sup>*\<^sup>* h h' \<Longrightarrow> hub_inv h \<Longrightarrow> hub_inv h'"
  by (induction rule: rtranclp_induct) (auto intro: hub_step_inv)

text \<open>Property C28: the hub never panics.  Under every interleaving of connections, disconnections,
  sends and reads that starts with a new hub, no removal closes a channel twice, whoever asks for it
  and however often, no send to a client of the map finds its channel closed, and no buffer holds
  more than its 256 payloads.\<close>

theorem hub_never_panics:
  assumes "hub_step\<^sup>*\<^sup>* (NewHub origin) h" and "c \<in> set (hb_clients h)"
  shows "(\<exists>h'. hub_remove d h = Inr h') \<and> (\<exists>ok h'. hub_send p c h = Inr (ok, h')) \<and> length (hb_queue h c) \<le> sendBuffer"
proof -
  have "hub_inv h" using hub_reachable_inv[OF assms(1) hub_inv_new] .
  then show ?thesis using assms(2) by (auto simp: hub_inv_def hub_remove_def hub_send_def Let_def)
qed

theorem hub_never_panics_witness:
  "(\<exists>h'. hub_remove 4 (hub_add 3 (NewHub [])) = Inr h') \<and> length (hb_queue (hub_add 3 (NewHub [])) 3) \<le> sendBuffer"
  using hub_never_panics[of "[]" "hub_add 3 (NewHub [])" 3 4 "[]"]
    hub_step.add[of "NewHub []" 3]
  by (simp add: r_into_rtranclp NewHub_def) (simp add: hub_add_def hub_notify_def NewHub_def)

section \<open>What a broadcast does\<close>

definition has_room :: "ws_hub \<Rightarrow> ws_client \<Rightarrow> bool" where
  "has_room h c \<longleftrightarrow> length (hb_queue h c) < sendBuffer"

lemma send_all_ok:
  assumes "distinct cs" and "\<forall>c \<in> set cs. \<not> hb_closed h c"
  shows "send_all p cs h = Inr (filter (\<lambda>c. \<not> has_room h c) cs,
     h\<lparr>hb_queue := (\<lambda>c. if c \<in> set cs \<and> has_room h c then hb_queue h c @ [p] else hb_queue h c)\<rparr>)"
  using assms
proof (induction cs arbitrary: h)
  case (Cons c cs)
  define h1 where "h1 = h\<lparr>hb_queue := (hb_queue h)(c := hb_queue h c @ [p])\<rparr>"
  have h1: "h1\<lparr>hb_queue := X\<rparr> = h\<lparr>hb_queue := X\<rparr>" "hb_closed h1 = hb_closed h" for X by (simp_all add: h1_def)
  have q1: "hb_queue h1 d = hb_queue h d" "has_room h1 d = has_room h d" if "d \<in> set cs" for d
    using that Cons.prems(1) by (auto simp: has_room_def h1_def)
  have f: "filter (\<lambda>d. \<not> has_room h1 d) cs = filter (\<lambda>d. \<not> has_room h d) cs"
    using q1 by (intro filter_cong) auto
  show ?case
  proof (cases "has_room h c")
    case True
    have "(\<lambda>d. if d \<in> set cs \<and> has_room h1 d then hb_queue h1 d @ [p] else hb_queue h1 d) =
        (\<lambda>d. if d \<in> set (c # cs) \<and> has_room h d then hb_queue h d @ [p] else hb_queue h d)"
    proof
      fix d
      show "(if d \<in> set cs \<and> has_room h1 d then hb_queue h1 d @ [p] else hb_queue h1 d) =
        (if d \<in> set (c # cs) \<and> has_room h d then hb_queue h d @ [p] else hb_queue h d)"
        using q1[of d] True Cons.prems(1) by (cases "d = c") (auto simp: h1_def)
    qed
    moreover have "hub_send p c h = Inr (True, h1)"
      using True Cons.prems(2) by (simp add: hub_send_def has_room_def h1_def)
    ultimately show ?thesis using Cons.IH[of h1] Cons.prems True f by (simp add: h1)
  next
    case False
    then have "(\<lambda>d. if d \<in> set cs \<and> has_room h d then hb_queue h d @ [p] else hb_queue h d) =
        (\<lambda>d. if d \<in> set (c # cs) \<and> has_room h d then hb_queue h d @ [p] else hb_queue h d)"
      by (intro ext) auto
    moreover have "hub_send p c h = Inr (False, h)"
      using False Cons.prems(2) by (simp add: hub_send_def has_room_def)
    ultimately show ?thesis using Cons.IH[of h] False Cons.prems by simp
  qed
qed simp

lemma remove_all_ok:
  assumes "distinct cs" and "set cs \<subseteq> set (hb_clients h)" and "\<forall>c \<in> set (hb_clients h). \<not> hb_closed h c"
  shows "\<exists>h'. remove_all cs h = Inr h' \<and> set (hb_clients h') = set (hb_clients h) - set cs
    \<and> hb_queue h' = hb_queue h \<and> (\<forall>c. hb_closed h' c = (hb_closed h c \<or> c \<in> set cs))"
  using assms
proof (induction cs arbitrary: h)
  case (Cons c cs)
  obtain h1 where h1: "hub_remove c h = Inr h1" "set (hb_clients h1) = set (hb_clients h) - {c}"
    "hb_queue h1 = hb_queue h" "\<forall>d. hb_closed h1 d = (hb_closed h d \<or> d = c)"
    using Cons.prems by (auto simp: hub_remove_def hub_notify_def Let_def)
  have "\<exists>h'. remove_all cs h1 = Inr h' \<and> set (hb_clients h') = set (hb_clients h1) - set cs
    \<and> hb_queue h' = hb_queue h1 \<and> (\<forall>d. hb_closed h' d = (hb_closed h1 d \<or> d \<in> set cs))"
    by (rule Cons.IH) (use Cons.prems h1 in auto)
  then show ?case using h1 by auto
qed simp

lemma broadcast_ok:
  assumes "hub_inv h" and "distinct order" and "set order = set (hb_clients h)" and "marshal msg = Some p"
  shows "\<exists>h'. hub_broadcast marshal order msg h = Inr h'
    \<and> set (hb_clients h') = {c \<in> set (hb_clients h). has_room h c}
    \<and> (\<forall>c. hb_queue h' c = (if c \<in> set (hb_clients h) \<and> has_room h c then hb_queue h c @ [p] else hb_queue h c))
    \<and> (\<forall>c. hb_closed h' c = (hb_closed h c \<or> c \<in> set (hb_clients h) \<and> \<not> has_room h c))"
proof -
  let ?h = "h\<lparr>hb_queue := (\<lambda>c. if c \<in> set order \<and> has_room h c then hb_queue h c @ [p] else hb_queue h c)\<rparr>"
  let ?stale = "filter (\<lambda>c. \<not> has_room h c) order"
  have s: "send_all p order h = Inr (?stale, ?h)"
    by (rule send_all_ok) (use assms in \<open>auto simp: hub_inv_def\<close>)
  have "\<exists>h'. remove_all ?stale ?h = Inr h' \<and> set (hb_clients h') = set (hb_clients ?h) - set ?stale
    \<and> hb_queue h' = hb_queue ?h \<and> (\<forall>c. hb_closed h' c = (hb_closed ?h c \<or> c \<in> set ?stale))"
    by (rule remove_all_ok) (use assms in \<open>auto simp: hub_inv_def\<close>)
  then obtain h' where h': "remove_all ?stale ?h = Inr h'" "set (hb_clients h') = set (hb_clients ?h) - set ?stale"
    "hb_queue h' = hb_queue ?h" "\<forall>c. hb_closed h' c = (hb_closed ?h c \<or> c \<in> set ?stale)" by blast
  then show ?thesis using s assms(3,4)
    by (intro exI[of _ h']) (auto simp: hub_broadcast_def)
qed

text \<open>A broadcast reaches every client that keeps up and drops the others.  In every
  reachable state and for every order of the map, the payload is appended to the queue of each client
  with room, each of the others is removed and its channel closed, and no other channel changes.\<close>

theorem broadcast_delivers:
  assumes "hub_step\<^sup>*\<^sup>* (NewHub origin) h" and "distinct order" and "set order = set (hb_clients h)"
    and "marshal msg = Some p"
  shows "\<exists>h'. hub_broadcast marshal order msg h = Inr h'
    \<and> set (hb_clients h') = {c \<in> set (hb_clients h). has_room h c}
    \<and> (\<forall>c. hb_queue h' c = (if c \<in> set (hb_clients h) \<and> has_room h c then hb_queue h c @ [p] else hb_queue h c))
    \<and> (\<forall>c. hb_closed h' c = (hb_closed h c \<or> c \<in> set (hb_clients h) \<and> \<not> has_room h c))"
  using broadcast_ok[of h order marshal msg p, OF hub_reachable_inv[OF assms(1) hub_inv_new] assms(2-4)] .

text \<open>The replication does not echo.  A message that an instance publishes comes back from
  the channel with its origin and is not delivered a second time.\<close>

theorem own_message_not_echoed:
  assumes "\<And>w s. marshal w = Some s \<Longrightarrow> unmarshal s = Some w"
    and "wm_origin msg = hb_originID h" and "encodeForWire marshal msg = Some payload"
  shows "bridge_receive unmarshal js order payload h = Inr h"
  using assms(1)[OF assms(3)[unfolded encodeForWire_def]] assms(2)
  by (simp add: bridge_receive_def decodeFromWire_def hub_Deliver_def)

end
