(* ===== verification/Go_Calendar.thy ===== *)
theory Go_Calendar
  imports Go_Time
begin

text \<open>
  The two directions of the calendar in \<^verbatim>\<open>Go_Time\<close> are inverse: the date of a day number names that
  day again.  The year of an era of 400 years is found by a division that is monotone in the day, so
  it suffices to evaluate it at the first and the last day of each of the 400 years.
\<close>

text \<open>The first day of a year of the era, and the dividend that finds the year.\<close>

definition year_start :: "int \<Rightarrow> int" where
  "year_start y = 365 * y + y div 4 - y div 100"

definition year_end :: "int \<Rightarrow> int" where
  "year_end y = (if y = 399 then 146096 else year_start (y + 1) - 1)"

definition year_dividend :: "int \<Rightarrow> int" where
  "year_dividend d = d - d div 1460 + d div 36524 - d div 146096"

lemma year_dividend_step:
  assumes "0 \<le> d" and "d < 146096"
  shows "year_dividend d \<le> year_dividend (d + 1)"
proof -
  have "(d + 1) div 1460 \<le> d div 1460 + 1" "d div 36524 \<le> (d + 1) div 36524" by linarith+
  moreover have "(d + 1) div 146096 = 0 \<or> d + 1 = 146096" "d div 146096 = 0" using assms by auto
  ultimately show ?thesis
  proof (cases "d + 1 = 146096")
    case True
    then have "d = 146095" by simp
    then show ?thesis by (simp add: year_dividend_def)
  next
    case False
    then show ?thesis using \<open>(d + 1) div 146096 = 0 \<or> d + 1 = 146096\<close> \<open>d div 146096 = 0\<close>
      \<open>(d + 1) div 1460 \<le> d div 1460 + 1\<close> \<open>d div 36524 \<le> (d + 1) div 36524\<close>
      by (simp add: year_dividend_def)
  qed
qed

lemma year_dividend_mono:
  assumes "0 \<le> a" and "a \<le> b" and "b \<le> 146096"
  shows "year_dividend a \<le> year_dividend b"
proof -
  have "year_dividend a \<le> year_dividend (a + int n)" if "a + int n \<le> 146096" for n
    using that
  proof (induction n)
    case (Suc n)
    then have "year_dividend (a + int n) \<le> year_dividend (a + int n + 1)"
      using assms(1) by (intro year_dividend_step) simp_all
    moreover have "a + int n + 1 = a + int (Suc n)" by simp
    ultimately show ?case using Suc by simp
  qed simp
  from this[of "nat (b - a)"] show ?thesis using assms by simp
qed

lemma years_of_era:
  "list_all (\<lambda>y. 365 * y \<le> year_dividend (year_start y) \<and> year_dividend (year_end y) < 365 * (y + 1)
     \<and> year_end y \<le> year_start y + 365 \<and> year_end y \<le> 146096) [0..399]"
  by code_simp

lemma year_exists:
  assumes "0 \<le> d" and "d \<le> 146096"
  obtains y where "0 \<le> y" "y \<le> 399" "year_start y \<le> d" "d \<le> year_end y"
proof -
  have "\<exists>y. 0 \<le> y \<and> y \<le> 399 \<and> year_start y \<le> d \<and> d \<le> year_end y" if "d < year_start (int n) \<or> 399 < n" for n
    using that
  proof (induction n)
    case 0
    then show ?case using assms(1) by (simp add: year_start_def)
  next
    case (Suc n)
    show ?case
    proof (cases "d < year_start (int n) \<or> 399 < n")
      case True
      then show ?thesis by (rule Suc.IH)
    next
      case False
      then have "year_start (int n) \<le> d" "d \<le> year_end (int n)" "n \<le> 399"
        using Suc.prems assms(2) by (auto simp: year_end_def add.commute)
      then show ?thesis by (intro exI[of _ "int n"]) simp
    qed
  qed
  from this[of 400] show ?thesis using that by auto
qed

lemma year_of_day:
  assumes "0 \<le> d" and "d \<le> 146096"
  defines "y \<equiv> year_dividend d div 365"
  shows "0 \<le> y \<and> y \<le> 399 \<and> year_start y \<le> d \<and> d \<le> year_start y + 365"
proof -
  obtain z where z: "0 \<le> z" "z \<le> 399" "year_start z \<le> d" "d \<le> year_end z" using year_exists assms(1,2) by blast
  have e: "365 * z \<le> year_dividend (year_start z)" "year_dividend (year_end z) < 365 * (z + 1)" "year_end z \<le> year_start z + 365" "year_end z \<le> 146096"
    using years_of_era z(1,2) by (auto simp: list_all_iff)
  have "0 \<le> year_start z" using z(1) by (simp add: year_start_def)
  then have "365 * z \<le> year_dividend d" "year_dividend d < 365 * (z + 1)"
    using year_dividend_mono[of "year_start z" d] year_dividend_mono[of d "year_end z"] z e assms(1,2) by linarith+
  then have "y = z" unfolding y_def by (intro int_div_pos_eq[where r = "year_dividend d - 365 * z"]) simp_all
  then show ?thesis using z e by simp
qed

text \<open>The date of a day number.\<close>

lemma month_of_day:
  assumes "0 \<le> d" and "d \<le> 365"
  defines "mp \<equiv> (5 * d + 2) div 153 :: int"
  shows "0 \<le> mp \<and> mp \<le> 11 \<and> 0 \<le> d - (153 * mp + 2) div 5 \<and> d - (153 * mp + 2) div 5 \<le> 30"
proof -
  have "153 * mp \<le> 5 * d + 2" "5 * d + 2 < 153 * mp + 153" unfolding mp_def by linarith+
  then show ?thesis using assms(1,2) by linarith
qed

lemma civil_from_days_correct:
  assumes "civil_from_days z = (y, m, d)"
  shows "days_from_civil y m d = z \<and> 1 \<le> m \<and> m \<le> 12 \<and> 1 \<le> d \<and> d \<le> 31"
proof -
  define era where "era = (z + 719468) div 146097"
  define doe where "doe = z + 719468 - era * 146097"
  define yoe where "yoe = year_dividend doe div 365"
  define doy where "doy = doe - year_start yoe"
  define mp where "mp = (5 * doy + 2) div 153"
  have doe: "0 \<le> doe" "doe \<le> 146096" unfolding doe_def era_def by linarith+
  note yr = year_of_day[OF doe, folded yoe_def]
  then have "0 \<le> doy" "doy \<le> 365" by (simp_all add: doy_def)
  note mo = month_of_day[OF this, folded mp_def]
  have c: "civil_from_days z = (if (if mp < 10 then mp + 3 else mp - 9) \<le> 2 then yoe + era * 400 + 1 else yoe + era * 400,
      if mp < 10 then mp + 3 else mp - 9, doy - (153 * mp + 2) div 5 + 1)"
    by (simp only: civil_from_days_def Let_def era_def doe_def yoe_def doy_def mp_def year_dividend_def year_start_def)
  then have m: "m = (if mp < 10 then mp + 3 else mp - 9)" and d: "d = doy - (153 * mp + 2) div 5 + 1"
    and y: "(if m \<le> 2 then y - 1 else y) = yoe + era * 400" using assms by auto
  have "(yoe + era * 400) div 400 = era" using yr by simp
  moreover have "(if m > 2 then m - 3 else m + 9) = mp" using m mo by auto
  ultimately have "days_from_civil y m d = era * 146097 + (year_start yoe + doy) - 719468"
    unfolding days_from_civil_def y Let_def d by (simp add: year_start_def)
  then show ?thesis using m d mo by (auto simp: doy_def doe_def)
qed

text \<open>The date and the clock of an instant give back its second.\<close>

lemma time_date_civil_clock:
  assumes "time_civil t = (y, m, d)" and "time_clock t = (h, mi, s)"
  shows "time_date y m d h mi s = t div second * second"
proof -
  have c: "days_from_civil y m d = unix_seconds t div 86400" "1 \<le> m" "m \<le> 12"
    using civil_from_days_correct[of "unix_seconds t div 86400" y m d] assms(1) by (auto simp: time_civil_def)
  have "h * 3600 + mi * 60 + s = unix_seconds t mod 86400"
  proof -
    define r where "r = unix_seconds t mod 86400"
    have "h = r div 3600" "mi = r mod 3600 div 60" "s = r mod 60" using assms(2) by (auto simp: time_clock_def Let_def r_def)
    moreover have "r mod 3600 mod 60 = r mod 60" by (rule mod_mod_cancel) simp
    moreover have "r mod 3600 div 60 * 60 + r mod 3600 mod 60 = r mod 3600" "r div 3600 * 3600 + r mod 3600 = r" by simp_all
    ultimately show ?thesis unfolding r_def[symmetric] by linarith
  qed
  moreover have "(m - 1) mod 12 + 1 = m" "(m - 1) div 12 = 0" using c by auto
  moreover have "unix_seconds t div 86400 * 86400 + unix_seconds t mod 86400 = unix_seconds t" by simp
  ultimately have "days_from_civil y m d * 86400 + h * 3600 + mi * 60 + s = unix_seconds t" using c(1) by linarith
  then show ?thesis using \<open>(m - 1) mod 12 + 1 = m\<close> \<open>(m - 1) div 12 = 0\<close>
    by (simp add: time_date_def Let_def unix_seconds_def)
qed

lemma time_clock_range:
  assumes "time_clock t = (h, mi, s)"
  shows "0 \<le> h \<and> h < 24 \<and> 0 \<le> mi \<and> mi < 60 \<and> 0 \<le> s \<and> s < 60"
proof -
  define r where "r = unix_seconds t mod 86400"
  have "h = r div 3600" "mi = r mod 3600 div 60" "s = r mod 60" using assms by (auto simp: time_clock_def Let_def r_def)
  moreover have "0 \<le> r" "r < 86400" by (simp_all add: r_def)
  ultimately show ?thesis by auto
qed

end
