(* ===== verification/GT06_Position.thy ===== *)
theory GT06_Position
  imports GT06_Props Go_Calendar
begin

text \<open>
  The frames of positions and alarms of the device side (\<^verbatim>\<open>gt06/simulate.go\<close>), and the proof that
  the decoder reads back what they carry: the instant to the second, the coordinates to within
  \<open>3 / 10 ^ 7\<close> degrees, the speed and the course to the unit, the state of the terminal, the alarm.

  Go leaves the conversion of a floating-point number that the integer type cannot hold to the
  platform: the argument \<open>oor\<close> is what the platform gives.
\<close>

section \<open>math.Round, math.Abs and conversions to integers\<close>

fun f64_Abs :: "f64 \<Rightarrow> f64" where
  "f64_Abs NaN = NaN"
| "f64_Abs (Inf s) = Inf False"
| "f64_Abs (Fin r) = Fin \<bar>r\<bar>"

text \<open>Half-way cases away from zero.\<close>

fun f64_Round :: "f64 \<Rightarrow> f64" where
  "f64_Round NaN = NaN"
| "f64_Round (Inf s) = Inf s"
| "f64_Round (Fin r) = Fin (of_int (if r < 0 then - \<lfloor>- r + 1 / 2\<rfloor> else \<lfloor>r + 1 / 2\<rfloor>))"

definition f64_to_uint :: "(f64 \<Rightarrow> int) \<Rightarrow> nat \<Rightarrow> f64 \<Rightarrow> int" where
  "f64_to_uint oor w x =
     (case x of
        Fin r \<Rightarrow> let n = (if r < 0 then - \<lfloor>- r\<rfloor> else \<lfloor>r\<rfloor>) in if 0 \<le> n \<and> n < 2 ^ w then n else oor x
      | _ \<Rightarrow> oor x)"

section \<open>simulate.go: positions and alarms\<close>

record gps_fix =
  fx_Time :: time
  fx_Latitude :: f64
  fx_Longitude :: f64
  fx_SpeedKmh :: f64
  fx_CourseDeg :: f64
  fx_Satellites :: int
  fx_Valid :: bool

definition encodeGPSBlock :: "(f64 \<Rightarrow> int) \<Rightarrow> gps_fix \<Rightarrow> bytes" where
  "encodeGPSBlock oor fx =
     (let (y, mo, d) = time_civil (fx_Time fx);
          (h, mi, s) = time_clock (fx_Time fx);
          satellites = word_of_int (fx_Satellites fx) :: byte;
          satellites = (if satellites > 15 then 15 else satellites);
          out = [word_of_int (y - 2000), word_of_int mo, word_of_int d,
                 word_of_int h, word_of_int mi, word_of_int s, 0xC0 OR satellites];
          out = out @ be32 (word_of_int (f64_to_uint oor 32 (f64_Round (f64_Abs (fx_Latitude fx) * Fin 1800000))));
          out = out @ be32 (word_of_int (f64_to_uint oor 32 (f64_Round (f64_Abs (fx_Longitude fx) * Fin 1800000))));
          speed = fx_SpeedKmh fx;
          speed = (if speed < Fin 0 then Fin 0 else speed);
          speed = (if speed > Fin 255 then Fin 255 else speed);
          out = out @ [word_of_int (f64_to_uint oor 8 (f64_Round speed))];
          flags = (word_of_int (f64_to_uint oor 16 (f64_Round (fx_CourseDeg fx))) :: 16 word) AND 0x03FF;
          flags = (if fx_Valid fx then flags OR 0x1000 else flags);
          flags = (if fx_Latitude fx \<ge> Fin 0 then flags OR 0x0400 else flags);
          flags = (if fx_Longitude fx < Fin 0 then flags OR 0x0800 else flags)
      in out @ be16 flags)"

definition encodeLBSBlock :: bytes where
  "encodeLBSBlock = be16 724 @ [6] @ be16 0x1234 @ [0x00, 0xAB, 0xCD]"

definition BuildPositionFrame :: "(f64 \<Rightarrow> int) \<Rightarrow> gps_fix \<Rightarrow> device_status \<Rightarrow> 16 word \<Rightarrow> bytes" where
  "BuildPositionFrame oor fx status serial =
     (let content = encodeGPSBlock oor fx;
          content = content @ encodeLBSBlock;
          content = content @ [TerminalInfoByte status, clampLevel (dst_BatteryLevel status) 6, clampLevel (dst_GSMLevel status) 4]
      in buildFrame msgGPSLBSStatus content serial)"

definition BuildAlarmFrame :: "(f64 \<Rightarrow> int) \<Rightarrow> gps_fix \<Rightarrow> device_status \<Rightarrow> byte \<Rightarrow> 16 word \<Rightarrow> bytes" where
  "BuildAlarmFrame oor fx status alarmCode serial =
     (let content = encodeGPSBlock oor fx;
          content = content @ encodeLBSBlock;
          content = content @ [TerminalInfoByte status, clampLevel (dst_BatteryLevel status) 6, clampLevel (dst_GSMLevel status) 4,
                               alarmCode, 0x01]
      in buildFrame msgAlarmGPS content serial)"

section \<open>Numbers survive\<close>

lemma f64_to_uint_of_int: "0 \<le> n \<Longrightarrow> n < 2 ^ w \<Longrightarrow> f64_to_uint oor w (Fin (of_int n)) = n"
  by (simp add: f64_to_uint_def)

lemma coordinate_survives:
  assumes "0 \<le> x" and "x \<le> of_int b" and "0 \<le> b" and "b \<le> 180"
  obtains n q where "f64_Round (Fin x * Fin 1800000) = Fin (of_int n)" and "0 \<le> n" and "n < 2 ^ 32"
    and "f64_of_int n / Fin 1800000 = Fin q" and "0 \<le> q" and "q \<le> of_int b" and "\<bar>q - x\<bar> \<le> 3 / 10 ^ 7"
proof -
  have "x * 1800000 \<le> of_int b * 1800000" using assms(2) by simp
  moreover have "(of_int b :: rat) \<le> 180" using assms(4) by simp
  ultimately have "\<bar>x * 1800000\<bar> < 2 ^ 29" using assms(1) by simp
  then obtain p where p: "f64_round (x * 1800000) = Fin p" and pe: "\<bar>p - x * 1800000\<bar> \<le> 2 ^ 29 / 2 ^ 54"
    by (rule f64_round_error) simp
  define n where "n = (if p < 0 then - \<lfloor>- p + 1 / 2\<rfloor> else \<lfloor>p + 1 / 2\<rfloor>)"
  have "(2 :: rat) ^ 29 / 2 ^ 54 \<le> 1 / 10 ^ 6" by simp
  with pe have pe: "p \<le> x * 1800000 + 1 / 10 ^ 6" "x * 1800000 - 1 / 10 ^ 6 \<le> p" by linarith+
  then have "- (1 / 4) < p" using assms(1) by simp
  then have n0: "0 \<le> n" unfolding n_def by (auto simp: le_floor_iff floor_le_iff)
  have ne: "of_int n \<le> p + 1 / 2" "p - 1 / 2 \<le> of_int n"
    unfolding n_def using floor_correct[of "p + 1 / 2"] floor_correct[of "- p + 1 / 2"]
    by (cases "p < 0"; simp only: if_True if_False of_int_minus; linarith)+
  have "of_int n < (of_int (b * 1800000 + 1) :: rat)"
    using ne(1) pe(1) \<open>x * 1800000 \<le> of_int b * 1800000\<close> by simp
  then have nb: "n \<le> b * 1800000" by (simp only: of_int_less_iff)
  then have n53: "\<bar>n\<bar> < 2 ^ 53" "n < 2 ^ 32" using n0 assms(4) by simp_all
  have nb': "(of_int n :: rat) \<le> of_int b * 1800000"
    using nb by (metis of_int_le_iff of_int_mult of_int_numeral)
  have "\<bar>of_int n / 1800000\<bar> < (2 :: rat) ^ 8" using n0 nb' \<open>of_int b \<le> 180\<close> by simp
  then obtain q where q: "f64_round (of_int n / 1800000) = Fin q" and qe: "\<bar>q - of_int n / 1800000\<bar> \<le> 2 ^ 8 / 2 ^ 54"
    by (rule f64_round_error) simp
  have "(2 :: rat) ^ 8 / 2 ^ 54 \<le> 1 / 10 ^ 13" by simp
  with qe have qe: "q \<le> of_int n / 1800000 + 1 / 10 ^ 13" "of_int n / 1800000 - 1 / 10 ^ 13 \<le> q" by linarith+
  have small: "f64_round (of_int k) = Fin (of_int k)" if "\<bar>k\<bar> < 2 ^ 53" for k using that by (rule f64_round_int)
  have "0 \<le> q"
  proof (cases "n = 0")
    case True
    then show ?thesis using q by (simp add: f64_round_def)
  next
    case False
    then have "1 \<le> (of_int n :: rat)" using n0 by simp
    then show ?thesis using qe(2) by simp
  qed
  moreover have "q \<le> of_int b"
  proof (cases "n = b * 1800000")
    case True
    then have "(of_int n :: rat) / 1800000 = of_int b" by simp
    moreover have "\<bar>b\<bar> < 2 ^ 53" using assms(3,4) by simp
    ultimately show ?thesis using q small[of b] by simp
  next
    case False
    then have "n + 1 \<le> b * 1800000" using nb by simp
    then have "(of_int (n + 1) :: rat) \<le> of_int (b * 1800000)" by (simp only: of_int_le_iff)
    then show ?thesis using qe(1) by simp
  qed
  moreover have "\<bar>q - x\<bar> \<le> 3 / 10 ^ 7"
  proof -
    have "q - x \<le> 3 / 10000000" "x - q \<le> 3 / 10000000" using qe ne pe by simp_all
    moreover have "(3 :: rat) / 10 ^ 7 = 3 / 10000000" by simp
    ultimately show ?thesis by linarith
  qed
  moreover have "f64_Round (Fin x * Fin 1800000) = Fin (of_int n)" using p by (simp add: f64_ops n_def)
  moreover have "f64_of_int n / Fin 1800000 = Fin q" using q n53(1) by (simp add: f64_of_int_exact f64_ops)
  ultimately show ?thesis using that n0 n53(2) by blast
qed

lemma small_number_survives:
  assumes "0 \<le> r" and "r \<le> of_int b" and "b < 2 ^ w"
  shows "f64_to_uint oor w (f64_Round (Fin r)) = \<lfloor>r + 1 / 2\<rfloor>" and "0 \<le> \<lfloor>r + 1 / 2\<rfloor>" and "\<lfloor>r + 1 / 2\<rfloor> \<le> b"
proof -
  have "r + 1 / 2 < of_int b + 1" using assms(2) by simp
  then show b: "\<lfloor>r + 1 / 2\<rfloor> \<le> b" by (simp add: floor_le_iff)
  show z: "0 \<le> \<lfloor>r + 1 / 2\<rfloor>" using assms(1) by simp
  show "f64_to_uint oor w (f64_Round (Fin r)) = \<lfloor>r + 1 / 2\<rfloor>"
    using f64_to_uint_of_int[of "\<lfloor>r + 1 / 2\<rfloor>" w oor] b z assms(1,3) by simp
qed

section \<open>Bits of the course word\<close>

lemma course_flags:
  fixes c :: "16 word"
  defines "f \<equiv> \<lambda>v n w. (let flags = c AND 0x03FF; flags = (if v then flags OR 0x1000 else flags);
     flags = (if n then flags OR 0x0400 else flags) in if w then flags OR 0x0800 else flags)"
  shows "f v n w AND 0x03FF = c AND 0x03FF" and "(f v n w AND 0x1000 \<noteq> 0) = v"
    and "(f v n w AND 0x0400 = 0) = (\<not> n)" and "(f v n w AND 0x0800 \<noteq> 0) = w"
  unfolding f_def Let_def
  by (cases v; cases n; cases w; simp add: bit.conj_disj_distrib2 and.assoc)+

lemma satellites_nibble:
  fixes k :: byte
  defines "s \<equiv> if k > 15 then 15 else k"
  shows "int (unat ((0xC0 OR s) AND 0x0F)) = min 15 (uint k)"
proof -
  have "s \<le> 15" by (auto simp: s_def)
  have "s AND 0x0F = take_bit 4 s" by (simp add: take_bit_eq_mask mask_eq_exp_minus_1)
  also have "\<dots> = s" unfolding word_uint_eq_iff unsigned_take_bit_eq
    by (rule take_bit_int_eq_self) (use \<open>s \<le> 15\<close> in \<open>simp_all add: word_le_def\<close>)
  finally have "(0xC0 OR s) AND 0x0F = s" by (simp add: bit.conj_disj_distrib2)
  moreover have "uint s = min 15 (uint k)" by (auto simp: s_def word_less_def min_def)
  ultimately show ?thesis by simp
qed

section \<open>The decoder reads the block\<close>

lemma uint_byte: "0 \<le> k \<Longrightarrow> k < 256 \<Longrightarrow> uint (word_of_int k :: byte) = k"
  by (simp add: uint_word_of_int take_bit_int_eq_self)

lemma uint_course:
  assumes "0 \<le> k" and "k \<le> 1023"
  shows "uint ((word_of_int k :: 16 word) AND 0x03FF) = k"
proof -
  have "uint ((word_of_int k :: 16 word) AND 0x03FF) = k AND 1023"
    using assms by (simp add: uint_and uint_word_of_int take_bit_int_eq_self)
  also have "\<dots> = take_bit 10 k" by (simp add: take_bit_eq_mask mask_eq_exp_minus_1)
  finally show ?thesis using assms by (simp add: take_bit_int_eq_self)
qed

definition clamped_speed :: "rat \<Rightarrow> rat" where
  "clamped_speed v = max 0 (min 255 v)"

definition readable_fix :: "gps_fix \<Rightarrow> rat \<Rightarrow> rat \<Rightarrow> rat \<Rightarrow> rat \<Rightarrow> bool" where
  "readable_fix fx x y v c \<longleftrightarrow>
     fx_Latitude fx = Fin x \<and> fx_Longitude fx = Fin y \<and> fx_SpeedKmh fx = Fin v \<and> fx_CourseDeg fx = Fin c
     \<and> \<bar>x\<bar> \<le> 90 \<and> \<bar>y\<bar> \<le> 180 \<and> 0 \<le> c \<and> c \<le> 1023
     \<and> 2000 \<le> fst (time_civil (fx_Time fx)) \<and> fst (time_civil (fx_Time fx)) \<le> 2255"

text \<open>What the decoder makes of the block.\<close>

definition fix_read :: "gps_fix \<Rightarrow> rat \<Rightarrow> rat \<Rightarrow> tracker_message \<Rightarrow> tracker_message" where
  "fix_read fx x' y' msg = msg
     \<lparr>tm_Timestamp := fx_Time fx div second * second,
      tm_Satellites := Some (min 15 (fx_Satellites fx mod 256)),
      tm_SpeedKmh := (case fx_SpeedKmh fx of Fin v \<Rightarrow> f64_Round (Fin (clamped_speed v)) | z \<Rightarrow> z),
      tm_Heading := f64_Round (fx_CourseDeg fx),
      tm_GPSValid := fx_Valid fx, tm_Latitude := Fin x', tm_Longitude := Fin y', tm_HasLocation := True\<rparr>"

lemma decodeGPS_bytes:
  assumes "uint b1 = mo" and "uint b2 = d" and "1 \<le> mo" and "mo \<le> 12" and "1 \<le> d" and "d \<le> 31"
    and "(if fl AND 0x0400 = 0 then - (f64_of_int (uint la) / Fin 1800000) else f64_of_int (uint la) / Fin 1800000) = Fin x'"
    and "(if fl AND 0x0800 \<noteq> 0 then - (f64_of_int (uint lo) / Fin 1800000) else f64_of_int (uint lo) / Fin 1800000) = Fin y'"
    and "\<bar>x'\<bar> \<le> 90" and "\<bar>y'\<bar> \<le> 180"
  shows "decodeGPS msg ([b0, b1, b2, b3, b4, b5, b6] @ be32 la @ be32 lo @ [b15] @ be16 fl @ rest) = Inr (msg
     \<lparr>tm_Timestamp := time_date (2000 + uint b0) mo d (uint b3) (uint b4) (uint b5),
      tm_Satellites := Some (int (unat (b6 AND 0x0F))), tm_SpeedKmh := f64_of_int (uint b15),
      tm_Heading := f64_of_int (uint (fl AND 0x03FF)), tm_GPSValid := (fl AND 0x1000 \<noteq> 0),
      tm_Latitude := Fin x', tm_Longitude := Fin y', tm_HasLocation := True\<rparr>)"
proof -
  have "\<not> (b1 < 1 \<or> b1 > 12 \<or> b2 < 1 \<or> b2 > 31)" using assms(1-6) by (auto simp: word_less_def)
  moreover have "ValidCoordinates (Fin x') (Fin y')" using assms(9,10) by (simp add: ValidCoordinates_iff on_globe_def)
  ultimately show ?thesis
    using assms(1,2,7,8) by (simp add: decodeGPS_def gpsBlockSize_def be32_def be16_def bytes_simps Let_def)
qed

lemma decodeGPS_encodeGPSBlock:
  assumes "readable_fix fx x y v c"
  obtains x' y' where "\<And>msg rest. decodeGPS msg (encodeGPSBlock oor fx @ rest) = Inr (fix_read fx x' y' msg)"
    and "\<bar>x' - x\<bar> \<le> 3 / 10 ^ 7" and "\<bar>y' - y\<bar> \<le> 3 / 10 ^ 7"
proof -
  obtain yy mo d where civ: "time_civil (fx_Time fx) = (yy, mo, d)" by (metis prod_cases3)
  obtain h mi sec where clk: "time_clock (fx_Time fx) = (h, mi, sec)" by (metis prod_cases3)
  note fx = assms[unfolded readable_fix_def]
  have date: "2000 \<le> yy" "yy \<le> 2255" "1 \<le> mo" "mo \<le> 12" "1 \<le> d" "d \<le> 31"
    using fx civ civil_from_days_correct[of "unix_seconds (fx_Time fx) div 86400" yy mo d] by (auto simp: time_civil_def)
  define yr where "yr = yy - 2000"
  then have yr: "0 \<le> yr" "yr \<le> 255" "yy - 2000 = yr" using date by simp_all
  note clock = time_clock_range[OF clk]
  obtain n qx where n: "f64_Round (Fin \<bar>x\<bar> * Fin 1800000) = Fin (of_int n)" "0 \<le> n" "n < 2 ^ 32"
    "f64_of_int n / Fin 1800000 = Fin qx" "0 \<le> qx" "qx \<le> of_int 90" "\<bar>qx - \<bar>x\<bar>\<bar> \<le> 3 / 10 ^ 7"
    by (rule coordinate_survives[of "\<bar>x\<bar>" 90]) (use fx in auto)
  obtain m qy where m: "f64_Round (Fin \<bar>y\<bar> * Fin 1800000) = Fin (of_int m)" "0 \<le> m" "m < 2 ^ 32"
    "f64_of_int m / Fin 1800000 = Fin qy" "0 \<le> qy" "qy \<le> of_int 180" "\<bar>qy - \<bar>y\<bar>\<bar> \<le> 3 / 10 ^ 7"
    by (rule coordinate_survives[of "\<bar>y\<bar>" 180]) (use fx in auto)
  define sat where "sat = (let k = word_of_int (fx_Satellites fx) :: byte in if k > 15 then 15 else k)"
  define sp where "sp = \<lfloor>clamped_speed v + 1 / 2\<rfloor>"
  define co where "co = \<lfloor>c + 1 / 2\<rfloor>"
  define fl where "fl = (let flags = (word_of_int co :: 16 word) AND 0x03FF; flags = (if fx_Valid fx then flags OR 0x1000 else flags);
     flags = (if 0 \<le> x then flags OR 0x0400 else flags) in if y < 0 then flags OR 0x0800 else flags)"
  have "0 \<le> clamped_speed v" "clamped_speed v \<le> of_int 255" by (simp_all add: clamped_speed_def)
  then have sp: "f64_to_uint oor 8 (f64_Round (Fin (clamped_speed v))) = sp" "0 \<le> sp" "sp \<le> 255"
    using small_number_survives[of "clamped_speed v" 255 8] unfolding sp_def by simp_all
  have "0 \<le> c" "c \<le> of_int 1023" using fx by simp_all
  then have co: "f64_to_uint oor 16 (f64_Round (Fin c)) = co" "0 \<le> co" "co \<le> 1023"
    using small_number_survives[of c 1023 16] unfolding co_def by simp_all
  have block: "encodeGPSBlock oor fx = [word_of_int yr, word_of_int mo, word_of_int d, word_of_int h, word_of_int mi,
      word_of_int sec, 0xC0 OR sat] @ be32 (word_of_int n) @ be32 (word_of_int m) @ [word_of_int sp] @ be16 fl"
  proof -
    have "(if (if Fin v < Fin 0 then Fin 0 else Fin v) > Fin 255 then Fin 255 else (if Fin v < Fin 0 then Fin 0 else Fin v))
      = Fin (clamped_speed v)" by (auto simp: clamped_speed_def max_def min_def)
    then show ?thesis
      using fx civ clk n m sp(1) co(1) f64_to_uint_of_int[of n 32 oor] f64_to_uint_of_int[of m 32 oor]
      by (simp add: encodeGPSBlock_def Let_def sat_def fl_def yr_def)
  qed
  define x' where "x' = (if 0 \<le> x then qx else - qx)"
  define y' where "y' = (if y < 0 then - qy else qy)"
  have flags: "fl AND 0x03FF = (word_of_int co :: 16 word) AND 0x03FF" "(fl AND 0x1000 \<noteq> 0) = fx_Valid fx"
    "(fl AND 0x0400 = 0) = (\<not> 0 \<le> x)" "(fl AND 0x0800 \<noteq> 0) = (y < 0)"
    unfolding fl_def by (rule course_flags)+
  have words: "uint (word_of_int n :: 32 word) = n" "uint (word_of_int m :: 32 word) = m"
    using n m by (simp_all add: uint_word_of_int take_bit_int_eq_self)
  have "decodeGPS msg (encodeGPSBlock oor fx @ rest) = Inr (fix_read fx x' y' msg)" for msg rest
  proof -
    have "decodeGPS msg (encodeGPSBlock oor fx @ rest) = Inr (msg
     \<lparr>tm_Timestamp := time_date (2000 + yr) mo d h mi sec,
      tm_Satellites := Some (int (unat ((0xC0 OR sat) AND 0x0F))), tm_SpeedKmh := f64_of_int sp,
      tm_Heading := f64_of_int co, tm_GPSValid := fx_Valid fx,
      tm_Latitude := Fin x', tm_Longitude := Fin y', tm_HasLocation := True\<rparr>)"
      unfolding block append_assoc
      by (subst decodeGPS_bytes[of _ mo _ d _ _ x' _ y'])
        (use date yr(1,2) clock sp co n m flags words in \<open>simp_all add: uint_byte uint_course x'_def y'_def f64_ops\<close>)
    moreover have "int (unat ((0xC0 OR sat) AND 0x0F)) = min 15 (fx_Satellites fx mod 256)"
      unfolding sat_def Let_def satellites_nibble by (simp add: uint_word_of_int take_bit_eq_mod)
    moreover have "f64_of_int sp = f64_Round (Fin (clamped_speed v))" "f64_of_int co = f64_Round (Fin c)"
      using sp co \<open>0 \<le> clamped_speed v\<close> \<open>0 \<le> c\<close> by (simp_all add: f64_of_int_exact sp_def co_def)
    ultimately show ?thesis
      using fx time_date_civil_clock[OF civ clk] by (simp add: fix_read_def yr_def)
  qed
  moreover have "\<bar>x' - x\<bar> \<le> 3 / 10 ^ 7" "\<bar>y' - y\<bar> \<le> 3 / 10 ^ 7"
    using n(7) m(7) by (auto simp: x'_def y'_def abs_if split: if_splits)
  ultimately show ?thesis using that by blast
qed

section \<open>The frames are read back\<close>

lemma length_encodeGPSBlock [simp]: "length (encodeGPSBlock oor fx) = gpsBlockSize"
  by (simp add: encodeGPSBlock_def gpsBlockSize_def Let_def split: prod.splits)

lemma encodeLBSBlock_bytes: "encodeLBSBlock = [0x02, 0xD4, 6, 0x12, 0x34, 0x00, 0xAB, 0xCD]"
  by code_simp

lemma lbsBlockSize_encodeLBSBlock: "lbsBlockSize (encodeLBSBlock @ rest) = 8"
proof -
  have "uint16_be 0x02 0xD4 AND 0x8000 = 0" by code_simp
  then show ?thesis by (simp add: lbsBlockSize_def encodeLBSBlock_bytes)
qed

lemma batteryLevelPercent_clamp: "batteryLevelPercent (clampLevel l 6) = batteryLevelPercent l"
  by (simp add: batteryLevelPercent_def clampLevel_def Let_def)

lemma gsm_clamp: "uint (clampLevel l 4) = min 4 (uint l)"
  by (auto simp: clampLevel_def word_less_def)

text \<open>What the decoder makes of the state of the terminal.\<close>

definition status_read :: "device_status \<Rightarrow> tracker_message \<Rightarrow> bool" where
  "status_read st m \<longleftrightarrow> tm_ACC m = Some (dst_ACC st) \<and> tm_RelayOn m = Some (dst_RelayOn st)
     \<and> tm_Attributes m ''charging'' = Some (ABool (dst_Charging st))
     \<and> tm_BatteryPercent m = Some (batteryLevelPercent (dst_BatteryLevel st))
     \<and> tm_GSMLevel m = Some (min 4 (int (unat (dst_GSMLevel st))))"

text \<open>And of the whole fix: what a message says of it.\<close>

definition fix_told :: "gps_fix \<Rightarrow> rat \<Rightarrow> rat \<Rightarrow> rat \<Rightarrow> rat \<Rightarrow> tracker_message \<Rightarrow> bool" where
  "fix_told fx x y v c m \<longleftrightarrow>
     tm_HasLocation m \<and> tm_Timestamp m = fx_Time fx div second * second
     \<and> (case (tm_Latitude m, tm_Longitude m) of
          (Fin x', Fin y') \<Rightarrow> \<bar>x' - x\<bar> \<le> 3 / 10 ^ 7 \<and> \<bar>y' - y\<bar> \<le> 3 / 10 ^ 7
        | _ \<Rightarrow> False)
     \<and> tm_SpeedKmh m = f64_Round (Fin (clamped_speed v)) \<and> tm_Heading m = f64_Round (Fin c)
     \<and> tm_Satellites m = Some (min 15 (fx_Satellites fx mod 256)) \<and> tm_GPSValid m = fx_Valid fx"

lemma told_updates [simp]:
  "fix_told fx x y v c (m\<lparr>tm_Ack := a\<rparr>) = fix_told fx x y v c m"
  "fix_told fx x y v c (m\<lparr>tm_Alarm := l, tm_Kind := k\<rparr>) = fix_told fx x y v c m"
  "status_read st (m\<lparr>tm_Ack := a\<rparr>) = status_read st m"
  "status_read st (m\<lparr>tm_Alarm := l, tm_Kind := k\<rparr>) = status_read st m"
  by (simp_all add: fix_told_def status_read_def split: f64.split)

lemma decodeLocation_blocks:
  assumes "readable_fix fx x y v c"
  shows "\<exists>m. decodeLocation msg \<lparr> pkt_typ = typ', pkt_content = encodeGPSBlock oor fx @ encodeLBSBlock
        @ [TerminalInfoByte st, clampLevel (dst_BatteryLevel st) 6, clampLevel (dst_GSMLevel st) 4] @ rest, pkt_serial = serial \<rparr>
      = Inr (if isAlarm typ' \<and> 1 \<le> length rest \<and> alarmLabel (rest ! 0) \<noteq> ''''
             then m\<lparr>tm_Alarm := alarmLabel (rest ! 0), tm_Kind := KindAlarm\<rparr> else m)
      \<and> fix_told fx x y v c m \<and> status_read st m \<and> tm_Kind m = KindPosition \<and> tm_Alarm m = tm_Alarm msg
      \<and> tm_Ack m = tm_Ack msg"
proof -
  obtain x' y' where gps: "\<And>msg rest. decodeGPS msg (encodeGPSBlock oor fx @ rest) = Inr (fix_read fx x' y' msg)"
    and near: "\<bar>x' - x\<bar> \<le> 3 / 10 ^ 7" "\<bar>y' - y\<bar> \<le> 3 / 10 ^ 7"
    by (rule decodeGPS_encodeGPSBlock[OF assms, of oor]) (rule that; blast)
  let ?m = "(applyTerminalInfo ((fix_read fx x' y' msg)\<lparr>tm_Kind := KindPosition\<rparr>) (TerminalInfoByte st))
    \<lparr>tm_BatteryPercent := Some (batteryLevelPercent (clampLevel (dst_BatteryLevel st) 6)),
     tm_GSMLevel := Some (int (unat (clampLevel (dst_GSMLevel st) 4)))\<rparr>"
  have "length encodeLBSBlock = 8" by (simp add: encodeLBSBlock_bytes)
  then have "decodeLocation msg \<lparr> pkt_typ = typ', pkt_content = encodeGPSBlock oor fx @ encodeLBSBlock
        @ [TerminalInfoByte st, clampLevel (dst_BatteryLevel st) 6, clampLevel (dst_GSMLevel st) 4] @ rest, pkt_serial = serial \<rparr>
      = Inr (if isAlarm typ' \<and> 1 \<le> length rest \<and> alarmLabel (rest ! 0) \<noteq> ''''
             then ?m\<lparr>tm_Alarm := alarmLabel (rest ! 0), tm_Kind := KindAlarm\<rparr> else ?m)"
    by (simp add: decodeLocation_def gps lbsBlockSize_encodeLBSBlock Let_def)
  moreover have "fix_told fx x y v c ?m"
    using assms near by (simp add: fix_told_def fix_read_def readable_fix_def applyTerminalInfo_def TerminalInfoByte_bits set_attr_def Let_def)
  moreover have "status_read st ?m"
    by (simp add: status_read_def applyTerminalInfo_def TerminalInfoByte_bits set_attr_def Let_def batteryLevelPercent_clamp gsm_clamp)
  moreover have "tm_Kind ?m = KindPosition" "tm_Alarm ?m = tm_Alarm msg" "tm_Ack ?m = tm_Ack msg"
    by (simp_all add: fix_read_def applyTerminalInfo_def TerminalInfoByte_bits set_attr_def Let_def)
  ultimately show ?thesis by blast
qed

text \<open>A packet of a type that carries a location, with these blocks and \<open>rest\<close> after them.\<close>

lemma gt06_Parse_blocks:
  fixes oor st serial
  assumes "readable_fix fx x y v c" and "hasGPS t" and "length rest \<le> 2"
  defines "f \<equiv> buildFrame t (encodeGPSBlock oor fx @ encodeLBSBlock
    @ [TerminalInfoByte st, clampLevel (dst_BatteryLevel st) 6, clampLevel (dst_GSMLevel st) 4] @ rest) serial"
    and "alarm \<equiv> isAlarm t \<and> 1 \<le> length rest \<and> alarmLabel (rest ! 0) \<noteq> []"
  shows "gt06_NextFrame f = (Some f, length f, None)
    \<and> (\<exists>m. gt06_Parse ackGPS now f = Inr [m] \<and> tm_Kind m = (if alarm then KindAlarm else KindPosition)
      \<and> tm_Alarm m = (if alarm then alarmLabel (rest ! 0) else [])
      \<and> tm_Ack m = (if isAlarm t \<or> ackGPS then buildFrame t [] serial else [])
      \<and> fix_told fx x y v c m \<and> status_read st m)"
proof -
  let ?c = "encodeGPSBlock oor fx @ encodeLBSBlock
    @ [TerminalInfoByte st, clampLevel (dst_BatteryLevel st) 6, clampLevel (dst_GSMLevel st) 4] @ rest"
  let ?msg = "zero_message\<lparr>tm_Protocol := gt06_Name, tm_RawPayload := hexdump (buildFrame t ?c serial),
    tm_Attributes := [''packetType'' \<mapsto> AStr (''0x'' @ hex_byte True t)], tm_Kind := KindOther\<rparr>"
  obtain m where m: "decodeLocation ?msg \<lparr> pkt_typ = t, pkt_content = ?c, pkt_serial = serial \<rparr> =
      Inr (if alarm then m\<lparr>tm_Alarm := alarmLabel (rest ! 0), tm_Kind := KindAlarm\<rparr> else m)"
    "fix_told fx x y v c m" "status_read st m" "tm_Kind m = KindPosition" "tm_Alarm m = tm_Alarm ?msg" "tm_Ack m = tm_Ack ?msg"
    using decodeLocation_blocks[OF assms(1), of ?msg t oor st rest serial] unfolding alarm_def by blast
  let ?m = "if alarm then m\<lparr>tm_Alarm := alarmLabel (rest ! 0), tm_Kind := KindAlarm\<rparr> else m"
  have "t \<notin> {msgLogin, msgHeartbeat, msgStringInfo, msgTimeRequest}" using assms(2) by (auto simp: hasGPS_def)
  then have "gt06_Parse ackGPS now (buildFrame t ?c serial) =
      Inr [if isAlarm t \<or> ackGPS then ?m\<lparr>tm_Ack := buildFrame t [] serial\<rparr> else ?m]"
    using m(1) assms(2) unfolding gt06_Parse_def decodeFrame_buildFrame sum.case Let_def packet.simps by simp
  moreover have "gt06_NextFrame (buildFrame t ?c serial) =
      (Some (buildFrame t ?c serial), length (buildFrame t ?c serial), None)"
    unfolding length_buildFrame
    by (rule NextFrame_buildFrame) (use assms(3) in \<open>simp add: encodeLBSBlock_bytes gpsBlockSize_def\<close>)
  ultimately show ?thesis
    using m(2-6) unfolding f_def by (simp add: zero_message_def)
qed

text \<open>Property C32: a position survives the wire.  The frame that the device builds for a fix on the
  globe, with a course that fits its ten bits and a year from 2000 to 2255, is one frame for the
  framer and is parsed to one position with the instant of the fix to the second, coordinates that
  differ by at most \<open>3 / 10 ^ 7\<close> degrees, the speed clamped to 0..255 and rounded, the course rounded,
  and the ignition, the relay, the charging, the battery and the signal of the terminal.\<close>

theorem gt06_position_roundtrip:
  assumes "readable_fix fx x y v c"
  shows "gt06_NextFrame (BuildPositionFrame oor fx st serial) =
      (Some (BuildPositionFrame oor fx st serial), length (BuildPositionFrame oor fx st serial), None)
    \<and> (\<exists>m. gt06_Parse ackGPS now (BuildPositionFrame oor fx st serial) = Inr [m]
      \<and> tm_Kind m = KindPosition \<and> tm_Alarm m = '''' \<and> fix_told fx x y v c m \<and> status_read st m)"
  using gt06_Parse_blocks[OF assms, where t = msgGPSLBSStatus and rest = "[]" and oor = oor and st = st
      and serial = serial and ackGPS = ackGPS and now = now]
  by (auto simp: BuildPositionFrame_def Let_def hasGPS_def isAlarm_def)

definition sample_fix :: gps_fix where
  "sample_fix = \<lparr> fx_Time = 1700000000 * second, fx_Latitude = Fin (- 235505 / 10000), fx_Longitude = Fin (- 466333 / 10000),
     fx_SpeedKmh = Fin 42, fx_CourseDeg = Fin 90, fx_Satellites = 9, fx_Valid = True \<rparr>"

definition sample_status :: device_status where
  "sample_status = \<lparr> dst_ACC = True, dst_RelayOn = False, dst_Charging = True, dst_BatteryLevel = 5, dst_GSMLevel = 4 \<rparr>"

lemma sample_fix_readable: "readable_fix sample_fix (- 235505 / 10000) (- 466333 / 10000) 42 90"
  unfolding readable_fix_def by (intro conjI; code_simp)

theorem gt06_position_roundtrip_witness:
  "gt06_NextFrame (BuildPositionFrame (\<lambda>_. 0) sample_fix sample_status 7) =
      (Some (BuildPositionFrame (\<lambda>_. 0) sample_fix sample_status 7), length (BuildPositionFrame (\<lambda>_. 0) sample_fix sample_status 7), None)
    \<and> (\<exists>m. gt06_Parse False 0 (BuildPositionFrame (\<lambda>_. 0) sample_fix sample_status 7) = Inr [m]
      \<and> tm_Kind m = KindPosition \<and> tm_Alarm m = '''' \<and> fix_told sample_fix (- 235505 / 10000) (- 466333 / 10000) 42 90 m
      \<and> status_read sample_status m)"
  by (rule gt06_position_roundtrip[OF sample_fix_readable])

text \<open>An alarm survives the wire too, and is acknowledged with its serial number; a code without a
  label is a position.\<close>

theorem gt06_alarm_roundtrip:
  assumes "readable_fix fx x y v c"
  shows "gt06_NextFrame (BuildAlarmFrame oor fx st code serial) =
      (Some (BuildAlarmFrame oor fx st code serial), length (BuildAlarmFrame oor fx st code serial), None)
    \<and> (\<exists>m. gt06_Parse ackGPS now (BuildAlarmFrame oor fx st code serial) = Inr [m]
      \<and> tm_Kind m = (if code = 0 then KindPosition else KindAlarm) \<and> tm_Alarm m = alarmLabel code
      \<and> tm_Ack m = buildFrame msgAlarmGPS [] serial \<and> fix_told fx x y v c m \<and> status_read st m)"
proof -
  have "(alarmLabel code = []) = (code = 0)" by (simp add: alarmLabel_def)
  then show ?thesis
    using gt06_Parse_blocks[OF assms, where t = msgAlarmGPS and rest = "[code, 0x01]" and oor = oor and st = st
      and serial = serial and ackGPS = ackGPS and now = now]
    by (auto simp: BuildAlarmFrame_def Let_def hasGPS_def isAlarm_def)
qed

end
