(* ===== verification/Settings.thy ===== *)
theory Settings
  imports Auth Ingest
begin

text \<open>
  The package \<^verbatim>\<open>internal/config\<close>, which reads the settings from the environment, and the identifier in
  the logs (\<^verbatim>\<open>internal/telemetry/logging.go\<close>).  The environment is a function from names to texts, the
  empty text for a name that is not set.
\<close>

section \<open>time.ParseDuration\<close>

text \<open>The digits before the point; \<open>None\<close> when they exceed 63 bits.\<close>

fun leading_int :: "nat \<Rightarrow> string \<Rightarrow> (nat \<times> string) option" where
  "leading_int x [] = Some (x, [])"
| "leading_int x (c # s) =
     (if \<not> is_digit c then Some (x, c # s)
      else if x > 2 ^ 63 div 10 then None
      else let x = x * 10 + digit_val c in if x > 2 ^ 63 then None else leading_int x s)"

text \<open>The digits after the point, and how many of them count; those that would overflow do not.\<close>

fun leading_fraction :: "nat \<Rightarrow> nat \<Rightarrow> bool \<Rightarrow> string \<Rightarrow> nat \<times> nat \<times> string" where
  "leading_fraction x k full [] = (x, k, [])"
| "leading_fraction x k full (c # s) =
     (if \<not> is_digit c then (x, k, c # s)
      else if full then leading_fraction x k True s
      else if x > (2 ^ 63 - 1) div 10 then leading_fraction x k True s
      else let y = x * 10 + digit_val c in
           if y > 2 ^ 63 then leading_fraction x k True s else leading_fraction y (Suc k) False s)"

definition unit_of :: "string \<Rightarrow> nat option" where
  "unit_of u =
     (if u = ''ns'' then Some 1
      else if u \<in> {''us'', [CHR 0xC2, CHR 0xB5, CHR ''s''], [CHR 0xCE, CHR 0xBC, CHR ''s'']} then Some 1000
      else if u = ''ms'' then Some 1000000
      else if u = ''s'' then Some 1000000000
      else if u = ''m'' then Some 60000000000
      else if u = ''h'' then Some 3600000000000
      else None)"

definition f64_trunc :: "f64 \<Rightarrow> nat" where
  "f64_trunc x = (case x of Fin r \<Rightarrow> nat \<lfloor>r\<rfloor> | _ \<Rightarrow> 0)"

text \<open>One number with its unit: the value and the rest of the text.\<close>

definition duration_part :: "string \<Rightarrow> (nat \<times> string) option" where
  "duration_part s =
     (if \<not> (s \<noteq> [] \<and> (hd s = CHR ''.'' \<or> is_digit (hd s))) then None
      else case leading_int 0 s of
        None \<Rightarrow> None
      | Some (v, s1) \<Rightarrow>
          let pre = length s1 \<noteq> length s;
              (f, k, s2) = (if s1 \<noteq> [] \<and> hd s1 = CHR ''.'' then leading_fraction 0 0 False (tl s1) else (0, 0, s1));
              post = (s1 \<noteq> [] \<and> hd s1 = CHR ''.'' \<and> length s2 \<noteq> length (tl s1));
              u = takeWhile (\<lambda>c. c \<noteq> CHR ''.'' \<and> \<not> is_digit c) s2 in
          if \<not> pre \<and> \<not> post \<or> u = [] then None
          else case unit_of u of
            None \<Rightarrow> None
          | Some n \<Rightarrow>
              if v > 2 ^ 63 div n then None
              else
                let w = v * n + (if f > 0 then f64_trunc (f64_of_int (int f) * (f64_of_int (int n) / f64_of_int (10 ^ k))) else 0)
                in if f > 0 \<and> w > 2 ^ 63 then None else Some (w, drop (length u) s2))"

lemma leading_int_shrinks: "leading_int x s = Some (v, r) \<Longrightarrow> length r \<le> length s"
  by (induction x s rule: leading_int.induct) (auto simp: Let_def split: if_splits)

lemma leading_fraction_shrinks: "leading_fraction x k b s = (f, j, r) \<Longrightarrow> length r \<le> length s"
  by (induction x k b s rule: leading_fraction.induct) (auto simp: Let_def split: if_splits)

lemma duration_part_shrinks:
  assumes "duration_part s = Some (v, r)"
  shows "length r < length s"
proof -
  obtain x s1 where i: "leading_int 0 s = Some (x, s1)"
    using assms by (auto simp: duration_part_def split: if_splits option.splits)
  obtain f k s2 where f: "(if s1 \<noteq> [] \<and> hd s1 = CHR ''.'' then leading_fraction 0 0 False (tl s1) else (0, 0, s1)) = (f, k, s2)"
    by (metis prod_cases3)
  let ?u = "takeWhile (\<lambda>c. c \<noteq> CHR ''.'' \<and> \<not> is_digit c) s2"
  have "?u \<noteq> []" "r = drop (length ?u) s2"
    using assms i f by (auto simp: duration_part_def Let_def split: if_splits option.splits prod.splits)
  moreover have "length s2 \<le> length s1"
    using f leading_fraction_shrinks[of 0 0 False "tl s1" f k s2] by (cases s1) (auto split: if_splits)
  moreover have "s2 \<noteq> []" using \<open>?u \<noteq> []\<close> by auto
  ultimately show ?thesis using leading_int_shrinks[OF i] by (cases s2) auto
qed

function duration_sum :: "nat \<Rightarrow> string \<Rightarrow> nat option" where
  "duration_sum d s =
     (if s = [] then Some d
      else case duration_part s of
        None \<Rightarrow> None
      | Some (v, r) \<Rightarrow> let d = (d + v) mod 2 ^ 64 in if d > 2 ^ 63 then None else duration_sum d r)"
  by pat_completeness auto

termination
  by (relation "measure (length \<circ> snd)") (auto dest: duration_part_shrinks)

declare duration_sum.simps [simp del]

definition parse_duration :: "string \<Rightarrow> duration option" where
  "parse_duration s =
     (let neg = (s \<noteq> [] \<and> hd s = CHR ''-'');
          s = (if s \<noteq> [] \<and> (hd s = CHR ''-'' \<or> hd s = CHR ''+'') then tl s else s) in
      if s = ''0'' then Some 0
      else if s = [] then None
      else case duration_sum 0 s of
        None \<Rightarrow> None
      | Some d \<Rightarrow> if neg then Some (- int d) else if d > 2 ^ 63 - 1 then None else Some (int d))"

section \<open>config.go\<close>

type_synonym env = "string \<Rightarrow> string"

definition parse_bool :: "string \<Rightarrow> bool option" where
  "parse_bool raw =
     (if raw \<in> {''1'', ''t'', ''T'', ''true'', ''TRUE'', ''True''} then Some True
      else if raw \<in> {''0'', ''f'', ''F'', ''false'', ''FALSE'', ''False''} then Some False
      else None)"

definition env_str :: "env \<Rightarrow> string \<Rightarrow> string \<Rightarrow> string" where
  "env_str env key def = (let v = trim_space (env key) in if v \<noteq> '''' then v else def)"

definition env_num :: "env \<Rightarrow> string \<Rightarrow> int \<Rightarrow> int" where
  "env_num env key def = (case atoi (env_str env key '''') of Some v \<Rightarrow> v | None \<Rightarrow> def)"

definition env_flt :: "env \<Rightarrow> string \<Rightarrow> f64 \<Rightarrow> f64" where
  "env_flt env key def = (case parse_float (env_str env key '''') of Some v \<Rightarrow> v | None \<Rightarrow> def)"

definition env_bl :: "env \<Rightarrow> string \<Rightarrow> bool \<Rightarrow> bool" where
  "env_bl env key def = (case parse_bool (env_str env key '''') of Some v \<Rightarrow> v | None \<Rightarrow> def)"

definition env_dur :: "env \<Rightarrow> string \<Rightarrow> duration \<Rightarrow> duration" where
  "env_dur env key def = (case parse_duration (env_str env key '''') of Some v \<Rightarrow> v | None \<Rightarrow> def)"

definition env_csv :: "env \<Rightarrow> string \<Rightarrow> string \<Rightarrow> string list" where
  "env_csv env key def = filter (\<lambda>s. s \<noteq> '''') (map trim_space (split_on CHR '','' (env_str env key def)))"

record http_config =
  hc_Port :: int
  hc_ReadTimeout :: duration
  hc_WriteTimeout :: duration
  hc_ShutdownTimeout :: duration
  hc_CORSOrigins :: "string list"
  hc_RateLimitRPS :: f64
  hc_RateLimitBurst :: int

record tcp_config =
  tp_Port :: int
  tp_MaxPacketSize :: int
  tp_ReadTimeout :: duration
  tp_WriteTimeout :: duration
  tp_MaxConnections :: int
  tp_KeepAlive :: duration

record postgres_config =
  pc_Host :: string
  pc_Port :: int
  pc_Database :: string
  pc_User :: string
  pc_Password :: string
  pc_SSLMode :: string
  pc_MaxConns :: int

record redis_config =
  rc_Enabled :: bool
  rc_Host :: string
  rc_Port :: int
  rc_Password :: string
  rc_DB :: int

record tracking_config = track_config +
  tc_StatusSweepInterval :: duration
  tc_MaxHistoryPoints :: int
  tc_SimplifyToleranceMeters :: f64

record commands_config = cmd_config +
  cc_SweepInterval :: duration

record telemetry_config =
  te_ServiceName :: string
  te_LogLevel :: string
  te_LogFormat :: string
  te_OTLPEndpoint :: string
  te_TraceRatio :: f64
  te_MaskIMEI :: bool

record bootstrap_config =
  bc_AdminEmail :: string
  bc_AdminPassword :: string
  bc_AdminName :: string

record config =
  cf_Env :: string
  cf_HTTP :: http_config
  cf_TCP :: tcp_config
  cf_Postgres :: postgres_config
  cf_Redis :: redis_config
  cf_Auth :: auth_config
  cf_Tracking :: tracking_config
  cf_Commands :: commands_config
  cf_Telemetry :: telemetry_config
  cf_Bootstrap :: bootstrap_config

definition int32 :: "int \<Rightarrow> int" where
  "int32 n = sint (word_of_int n :: 32 word)"

definition config_of :: "env \<Rightarrow> config" where
  "config_of env = \<lparr>
     cf_Env = env_str env ''APP_ENV'' ''development'',
     cf_HTTP = \<lparr> hc_Port = env_num env ''HTTP_PORT'' 8080,
       hc_ReadTimeout = env_dur env ''HTTP_READ_TIMEOUT'' (15 * second),
       hc_WriteTimeout = env_dur env ''HTTP_WRITE_TIMEOUT'' (30 * second),
       hc_ShutdownTimeout = env_dur env ''HTTP_SHUTDOWN_TIMEOUT'' (20 * second),
       hc_CORSOrigins = env_csv env ''CORS_ORIGINS'' ''http://localhost:5173,http://localhost:3000'',
       hc_RateLimitRPS = env_flt env ''RATE_LIMIT_RPS'' (Fin 20),
       hc_RateLimitBurst = env_num env ''RATE_LIMIT_BURST'' 40 \<rparr>,
     cf_TCP = \<lparr> tp_Port = env_num env ''TCP_PORT'' 5000,
       tp_MaxPacketSize = env_num env ''TCP_MAX_PACKET_SIZE'' 8192,
       tp_ReadTimeout = env_dur env ''TCP_READ_TIMEOUT'' (600 * second),
       tp_WriteTimeout = env_dur env ''TCP_WRITE_TIMEOUT'' (10 * second),
       tp_MaxConnections = env_num env ''TCP_MAX_CONNECTIONS'' 10000,
       tp_KeepAlive = env_dur env ''TCP_KEEPALIVE'' (60 * second) \<rparr>,
     cf_Postgres = \<lparr> pc_Host = env_str env ''POSTGRES_HOST'' ''localhost'',
       pc_Port = env_num env ''POSTGRES_PORT'' 5432, pc_Database = env_str env ''POSTGRES_DB'' ''tracker'',
       pc_User = env_str env ''POSTGRES_USER'' ''tracker'', pc_Password = env_str env ''POSTGRES_PASSWORD'' '''',
       pc_SSLMode = env_str env ''POSTGRES_SSLMODE'' ''disable'',
       pc_MaxConns = int32 (env_num env ''POSTGRES_MAX_CONNS'' 15) \<rparr>,
     cf_Redis = \<lparr> rc_Enabled = env_bl env ''REDIS_ENABLED'' False, rc_Host = env_str env ''REDIS_HOST'' ''localhost'',
       rc_Port = env_num env ''REDIS_PORT'' 6379, rc_Password = env_str env ''REDIS_PASSWORD'' '''',
       rc_DB = env_num env ''REDIS_DB'' 0 \<rparr>,
     cf_Auth = \<lparr> ac_JWTSecret = bytes_of_str (env_str env ''JWT_SECRET'' ''''),
       ac_AccessTokenTTL = env_dur env ''JWT_ACCESS_TTL'' (900 * second),
       ac_RefreshTokenTTL = env_dur env ''JWT_REFRESH_TTL'' (720 * 3600 * second),
       ac_BcryptCost = env_num env ''BCRYPT_COST'' 12 \<rparr>,
     cf_Tracking = \<lparr> tc_StaleAfter = env_dur env ''DEVICE_STALE_AFTER'' (120 * second),
       tc_OfflineAfter = env_dur env ''DEVICE_OFFLINE_AFTER'' (300 * second),
       tc_DefaultSpeedLimitKmh = env_flt env ''DEFAULT_SPEED_LIMIT_KMH'' (Fin 0),
       tc_OverspeedHysteresisKmh = env_flt env ''OVERSPEED_HYSTERESIS_KMH'' (Fin 5),
       tc_StatusSweepInterval = env_dur env ''DEVICE_STATUS_SWEEP'' (30 * second),
       tc_MaxHistoryPoints = env_num env ''HISTORY_MAX_POINTS'' 5000,
       tc_SimplifyToleranceMeters = env_flt env ''HISTORY_SIMPLIFY_TOLERANCE_M'' (Fin 5) \<rparr>,
     cf_Commands = \<lparr> cc_AckTimeout = env_dur env ''COMMAND_ACK_TIMEOUT'' (15 * second),
       cc_EngineCutMaxSpeedKmh = env_flt env ''ENGINE_CUT_MAX_SPEED_KMH'' (Fin 5),
       cc_EngineCutMaxPositionAge = env_dur env ''ENGINE_CUT_MAX_POSITION_AGE'' (600 * second),
       cc_SweepInterval = env_dur env ''COMMAND_SWEEP_INTERVAL'' (5 * second) \<rparr>,
     cf_Telemetry = \<lparr> te_ServiceName = env_str env ''OTEL_SERVICE_NAME'' ''tracker-platform'',
       te_LogLevel = env_str env ''LOG_LEVEL'' ''info'', te_LogFormat = env_str env ''LOG_FORMAT'' ''json'',
       te_OTLPEndpoint = env_str env ''OTEL_EXPORTER_OTLP_ENDPOINT'' '''',
       te_TraceRatio = env_flt env ''OTEL_TRACE_SAMPLE_RATIO'' (Fin 1),
       te_MaskIMEI = env_bl env ''LOG_MASK_IMEI'' True \<rparr>,
     cf_Bootstrap = \<lparr> bc_AdminEmail = env_str env ''ADMIN_EMAIL'' '''',
       bc_AdminPassword = env_str env ''ADMIN_PASSWORD'' '''',
       bc_AdminName = env_str env ''ADMIN_NAME'' ''Administrador'' \<rparr> \<rparr>"

datatype config_error = SecretTooShort | PasswordMissing | PacketSizeOutOfRange

definition config_Load :: "env \<Rightarrow> config_error + config" where
  "config_Load env =
     (let cfg = config_of env in
      if length (ac_JWTSecret (cf_Auth cfg)) < 32 then Inl SecretTooShort
      else if pc_Password (cf_Postgres cfg) = '''' then Inl PasswordMissing
      else if tp_MaxPacketSize (cf_TCP cfg) < 512 \<or> tp_MaxPacketSize (cf_TCP cfg) > 2 ^ 20 then Inl PacketSizeOutOfRange
      else Inr cfg)"

text \<open>\<^verbatim>\<open>Redis.Addr\<close>\<close>

definition redis_Addr :: "redis_config \<Rightarrow> string" where
  "redis_Addr r = rc_Host r @ '':'' @ show_int (rc_Port r)"

section \<open>logging.go\<close>

datatype log_level = LevelDebug | LevelInfo | LevelWarn | LevelError

definition parseLevel :: "string \<Rightarrow> log_level" where
  "parseLevel level =
     (let l = to_lower (trim_space level) in
      if l = ''debug'' then LevelDebug
      else if l = ''warn'' \<or> l = ''warning'' then LevelWarn
      else if l = ''error'' then LevelError
      else LevelInfo)"

definition log_IMEI :: "bool \<Rightarrow> string \<Rightarrow> string" where
  "log_IMEI masked imei =
     (if \<not> masked then imei
      else if length imei < 9 then replicate (length imei) CHR ''*''
      else take 6 imei @ replicate (length imei - 9) CHR ''*'' @ drop (length imei - 3) imei)"

text \<open>What reaches the log depends on nothing but the ends of the identifier, and its length.\<close>

theorem masked_log_hides:
  assumes "length a = length b" and "take 6 a = take 6 b" and "drop (length a - 3) a = drop (length b - 3) b"
  shows "log_IMEI True a = log_IMEI True b"
  using assms by (simp add: log_IMEI_def)

section \<open>What loading guarantees\<close>

theorem config_Load_sound:
  assumes "config_Load env = Inr cfg"
  shows "32 \<le> length (ac_JWTSecret (cf_Auth cfg)) \<and> pc_Password (cf_Postgres cfg) \<noteq> ''''
    \<and> 512 \<le> tp_MaxPacketSize (cf_TCP cfg) \<and> tp_MaxPacketSize (cf_TCP cfg) \<le> 2 ^ 20"
  using assms by (auto simp: config_Load_def Let_def split: if_splits)

text \<open>The numbers are not checked: NaN is a number for \<^verbatim>\<open>strconv.ParseFloat\<close>, and with it as the limit no
  speed blocks the engine cut.\<close>

theorem nan_limit_disables_rule:
  assumes "parse_float (env_str env ''ENGINE_CUT_MAX_SPEED_KMH'' '''') = Some NaN"
    and "sn_HasPosition s" and "time_sub now (sn_Timestamp s) \<le> cc_EngineCutMaxPositionAge (cf_Commands (config_of env))"
  shows "engineCutBlocked (cmd_config.truncate (cf_Commands (config_of env))) (Inr s) now = None"
proof -
  have "cc_EngineCutMaxSpeedKmh (cf_Commands (config_of env)) = NaN"
    using assms(1) by (simp add: config_of_def env_flt_def)
  moreover have "\<not> x > NaN" for x by (cases x) (simp_all add: f64_ops)
  ultimately show ?thesis using assms(2,3)
    by (simp add: engineCutBlocked_def cmd_config.truncate_def Let_def)
qed

end
