(* ===== verification/Geocoding.thy ===== *)
theory Geocoding
  imports Api
begin

text \<open>
  The package \<^verbatim>\<open>internal/geocoding\<close>: an address for a coordinate, from the public service Nominatim
  behind a cache, and the handler of \<^verbatim>\<open>GET /api/geocoding/reverse\<close>.  The service is a parameter, a
  function from the query to what comes back: nothing, or a status with a body that may not decode.
  So is the answer of the limiter, whether the wait ended before the context did.  The clock is read
  twice, before the cache is looked up and when the address is stored.
\<close>

section \<open>Numbers with a fixed number of decimals\<close>

text \<open>\<^verbatim>\<open>strconv.FormatFloat(x, 'f', p, 64)\<close> and \<^verbatim>\<open>%.*f\<close>: the exact value rounded to \<open>p\<close> decimals, ties to
  even.\<close>

fun fixed_digits :: "nat \<Rightarrow> nat \<Rightarrow> string" where
  "fixed_digits 0 n = []"
| "fixed_digits (Suc p) n = fixed_digits p (n div 10) @ [digit_char (n mod 10)]"

definition fmt_fixed :: "nat \<Rightarrow> f64 \<Rightarrow> string" where
  "fmt_fixed p x =
     (case x of
        NaN \<Rightarrow> ''NaN''
      | Inf neg \<Rightarrow> if neg then ''-Inf'' else ''+Inf''
      | Fin r \<Rightarrow>
          let n = nat (round_even (\<bar>r\<bar> * 10 ^ p)) in
          (if r < 0 then ''-'' else '''') @ show_nat (n div 10 ^ p)
            @ (if p = 0 then '''' else CHR ''.'' # fixed_digits p n))"

section \<open>geocoding.go\<close>

definition geo_cacheTTL :: duration where "geo_cacheTTL = 30 * 24 * 3600 * second"

definition cachePrecision :: nat where "cachePrecision = 4"

record nominatim =
  no_DisplayName :: string
  no_Address :: "string \<Rightarrow> string"
  no_Error :: string

definition firstNonEmpty :: "string list \<Rightarrow> string" where
  "firstNonEmpty vs = (case find (\<lambda>v. v \<noteq> '''') vs of None \<Rightarrow> '''' | Some v \<Rightarrow> v)"

definition formatAddress :: "nominatim \<Rightarrow> string" where
  "formatAddress body =
     (let addr = no_Address body;
          street = addr ''road'';
          street = (if street \<noteq> '''' \<and> addr ''house_number'' \<noteq> '''' then street @ '', '' @ addr ''house_number'' else street);
          area = firstNonEmpty [addr ''suburb'', addr ''neighbourhood'', addr ''quarter''];
          city = firstNonEmpty [addr ''city'', addr ''town'', addr ''village'', addr ''municipality''];
          parts = filter (\<lambda>p. p \<noteq> '''') [street, area, city] in
      if parts = [] then no_DisplayName body else join_with '', '' parts)"

definition geo_cacheKey :: "f64 \<Rightarrow> f64 \<Rightarrow> string" where
  "geo_cacheKey lat lon = fmt_fixed cachePrecision lat @ '','' @ fmt_fixed cachePrecision lon"

record cache_entry =
  ge_address :: string
  ge_expiresAt :: time

type_synonym geo_cache = "string \<rightharpoonup> cache_entry"

datatype geo_error = WaitCancelled | RequestFailed | BadStatus nat | BadAnswer | ServiceError string

type_synonym geo_service = "(string \<times> string) list \<Rightarrow> (nat \<times> nominatim option) option"

text \<open>The query, in the order of \<^verbatim>\<open>url.Values.Encode\<close>.\<close>

definition geo_query :: "f64 \<Rightarrow> f64 \<Rightarrow> (string \<times> string) list" where
  "geo_query lat lon = [(''addressdetails'', ''1''), (''format'', ''jsonv2''),
     (''lat'', fmt_fixed 6 lat), (''lon'', fmt_fixed 6 lon), (''zoom'', ''18'')]"

definition geo_fetch :: "geo_service \<Rightarrow> f64 \<Rightarrow> f64 \<Rightarrow> geo_error + string" where
  "geo_fetch service lat lon =
     (case service (geo_query lat lon) of
        None \<Rightarrow> Inl RequestFailed
      | Some (status, body) \<Rightarrow>
          if status \<noteq> 200 then Inl (BadStatus status)
          else case body of
            None \<Rightarrow> Inl BadAnswer
          | Some b \<Rightarrow> if no_Error b \<noteq> '''' then Inl (ServiceError (no_Error b)) else Inr (formatAddress b))"

text \<open>The answer of the cache: an entry that has not expired.\<close>

definition geo_hit :: "time \<Rightarrow> string \<Rightarrow> geo_cache \<Rightarrow> string option" where
  "geo_hit now key cache =
     (case cache key of
        Some e \<Rightarrow> if now < ge_expiresAt e then Some (ge_address e) else None
      | None \<Rightarrow> None)"

definition geo_Reverse :: "geo_service \<Rightarrow> bool \<Rightarrow> time \<Rightarrow> time \<Rightarrow> f64 \<Rightarrow> f64 \<Rightarrow> geo_cache \<Rightarrow> (geo_error + string) \<times> geo_cache" where
  "geo_Reverse service waited now later lat lon cache =
     (let key = geo_cacheKey lat lon in
      case geo_hit now key cache of
        Some a \<Rightarrow> (Inr a, cache)
      | None \<Rightarrow>
          if \<not> waited then (Inl WaitCancelled, cache)
          else case geo_fetch service lat lon of
            Inl e \<Rightarrow> (Inl e, cache)
          | Inr a \<Rightarrow> (Inr a, cache(key \<mapsto> \<lparr> ge_address = a, ge_expiresAt = later + geo_cacheTTL \<rparr>)))"

definition PurgeExpired :: "time \<Rightarrow> geo_cache \<Rightarrow> geo_cache" where
  "PurgeExpired now cache = (\<lambda>k. case cache k of None \<Rightarrow> None
     | Some e \<Rightarrow> if now > ge_expiresAt e then None else Some e)"

definition geo_userAgent :: "string \<Rightarrow> string" where
  "geo_userAgent contactEmail =
     (let contactEmail = trim_space contactEmail in
      if contactEmail \<noteq> '''' then ''tracker-platform/1.0 (self-hosted vehicle tracker; contact: '' @ contactEmail @ '')''
      else ''tracker-platform/1.0 (self-hosted vehicle tracker)'')"

section \<open>handlers\_geocoding.go\<close>

definition handleReverseGeocode :: "geo_service \<Rightarrow> bool \<Rightarrow> time \<Rightarrow> time \<Rightarrow> string \<Rightarrow> string \<Rightarrow> geo_cache \<Rightarrow> string reply \<times> geo_cache" where
  "handleReverseGeocode service waited now later rawLat rawLon cache =
     (case (parse_float rawLat, parse_float rawLon) of
        (Some lat, Some lon) \<Rightarrow>
          if lat < Fin (- 90) \<or> lat > Fin 90 \<or> lon < Fin (- 180) \<or> lon > Fin 180 then (Fail 400 CoordinatesOutOfRange, cache)
          else (case geo_Reverse service waited now later lat lon cache of
                  (Inl e, cache) \<Rightarrow> (Fail 502 AddressUnavailable, cache)
                | (Inr a, cache) \<Rightarrow> (Reply 200 a, cache))
      | _ \<Rightarrow> (Fail 400 CoordinatesInvalid, cache))"

section \<open>The key keeps the coordinate\<close>

lemma fixed_digits_digits: "list_all is_digit (fixed_digits p n)"
  by (induction p arbitrary: n) auto

lemma length_fixed_digits [simp]: "length (fixed_digits p n) = p"
  by (induction p arbitrary: n) auto

lemma fixed_digits_inj: "fixed_digits p n = fixed_digits p m \<Longrightarrow> n mod 10 ^ p = m mod 10 ^ p"
proof (induction p arbitrary: n m)
  case (Suc p)
  from Suc.prems have d: "digit_char (n mod 10) = digit_char (m mod 10)" and "fixed_digits p (n div 10) = fixed_digits p (m div 10)"
    by simp_all
  then have h: "n div 10 mod 10 ^ p = m div 10 mod 10 ^ p" by (intro Suc.IH)
  have "n mod 10 < 10" "m mod 10 < 10" by simp_all
  then have l: "n mod 10 = m mod 10" using d by (metis digit_val_digit_char)
  show ?case unfolding power_Suc mod_mult2_eq h l by (rule refl)
qed simp

lemma digits_not: "list_all is_digit s \<Longrightarrow> \<not> is_digit c \<Longrightarrow> c \<notin> set s"
  by (auto simp: list_all_iff)

lemma append_sep_eq:
  assumes "xs @ c # ys = xs' @ c # ys'" and "c \<notin> set xs" and "c \<notin> set xs'"
  shows "xs = xs' \<and> ys = ys'"
  using assms by (induction xs arbitrary: xs') (auto simp: Cons_eq_append_conv split: list.splits)

lemma fmt_fixed_Fin:
  "0 < p \<Longrightarrow> fmt_fixed p (Fin r) = (if r < 0 then ''-'' else '''') @
     show_nat (nat (round_even (\<bar>r\<bar> * 10 ^ p)) div 10 ^ p) @ CHR ''.'' # fixed_digits p (nat (round_even (\<bar>r\<bar> * 10 ^ p)))"
  by (simp add: fmt_fixed_def Let_def)

lemma magnitude_inj:
  assumes "show_nat (n div 10 ^ p) @ CHR ''.'' # fixed_digits p n = show_nat (m div 10 ^ p) @ CHR ''.'' # fixed_digits p m"
  shows "n = m"
proof -
  have "CHR ''.'' \<notin> set (show_nat k)" for k by (intro digits_not show_nat_digits) (simp add: is_digit_def)
  then have "show_nat (n div 10 ^ p) = show_nat (m div 10 ^ p)" and "fixed_digits p n = fixed_digits p m"
    using append_sep_eq[OF assms] by auto
  then have "n div 10 ^ p = m div 10 ^ p" and "n mod 10 ^ p = m mod 10 ^ p"
    using nat_of_digits_show_nat fixed_digits_inj by metis+
  then show ?thesis by (metis div_mult_mod_eq)
qed

lemma show_nat_hd_digit: "is_digit (hd (show_nat n @ s))"
  using show_nat_digits[of n] by (cases "show_nat n") auto

lemma fmt_fixed_near:
  assumes "fmt_fixed p x = fmt_fixed p (Fin r)" and "0 < p"
  obtains q where "x = Fin q" and "\<bar>q - r\<bar> \<le> 1 / 10 ^ p"
proof -
  let ?n = "\<lambda>r :: rat. nat (round_even (\<bar>r\<bar> * 10 ^ p))"
  let ?b = "\<lambda>n. show_nat (n div 10 ^ p) @ CHR ''.'' # fixed_digits p n"
  have "CHR ''.'' \<in> set (fmt_fixed p x)" unfolding assms(1) using assms(2) by (simp add: fmt_fixed_Fin)
  then obtain q where x: "x = Fin q" by (cases x) (auto simp: fmt_fixed_def split: if_splits)
  have hd: "hd (?b n) \<noteq> CHR ''-''" "?b n \<noteq> []" for n
    using show_nat_hd_digit[of "n div 10 ^ p"] by (auto simp: is_digit_def)
  have eq: "(if q < 0 then ''-'' else '''') @ ?b (?n q) = (if r < 0 then ''-'' else '''') @ ?b (?n r)"
    using assms unfolding x by (simp add: fmt_fixed_Fin)
  have s: "(q < 0) = (r < 0)"
  proof (rule ccontr)
    assume "(q < 0) \<noteq> (r < 0)"
    then have "?b (?n q) = CHR ''-'' # ?b (?n r) \<or> CHR ''-'' # ?b (?n q) = ?b (?n r)" using eq by auto
    then show False using hd by (metis list.sel(1))
  qed
  then have "?b (?n q) = ?b (?n r)" using eq by (auto split: if_splits)
  then have "?n q = ?n r" by (rule magnitude_inj)
  moreover have "0 \<le> round_even (\<bar>y\<bar> * 10 ^ p)" for y :: rat
  proof -
    have "0 \<le> \<bar>y\<bar> * 10 ^ p" by simp
    then have "- (1 :: rat) < of_int (round_even (\<bar>y\<bar> * 10 ^ p))"
      using round_even_error[of "\<bar>y\<bar> * 10 ^ p"] by linarith
    then show ?thesis by linarith
  qed
  ultimately have "round_even (\<bar>q\<bar> * 10 ^ p) = round_even (\<bar>r\<bar> * 10 ^ p)" by (metis eq_nat_nat_iff)
  then have "\<bar>\<bar>q\<bar> * 10 ^ p - \<bar>r\<bar> * 10 ^ p\<bar> \<le> 1"
    using round_even_error[of "\<bar>q\<bar> * 10 ^ p"] round_even_error[of "\<bar>r\<bar> * 10 ^ p"] by linarith
  moreover have "\<bar>\<bar>q\<bar> * 10 ^ p - \<bar>r\<bar> * 10 ^ p\<bar> = \<bar>q - r\<bar> * 10 ^ p"
  proof -
    have "\<bar>q\<bar> * 10 ^ p - \<bar>r\<bar> * 10 ^ p = (\<bar>q\<bar> - \<bar>r\<bar>) * 10 ^ p" by (simp add: algebra_simps)
    moreover have "\<bar>\<bar>q\<bar> - \<bar>r\<bar>\<bar> = \<bar>q - r\<bar>" using s by linarith
    ultimately show ?thesis by (simp add: abs_mult)
  qed
  ultimately have "\<bar>q - r\<bar> \<le> 1 / 10 ^ p" by (simp add: le_divide_eq)
  then show ?thesis using that x by blast
qed

lemma comma_not_in_fmt: "CHR '','' \<notin> set (fmt_fixed p x)"
proof (cases x)
  case (Fin r)
  have "CHR '','' \<notin> set (show_nat k)" "CHR '','' \<notin> set (fixed_digits p k)" for k
    by (intro digits_not show_nat_digits fixed_digits_digits; simp add: is_digit_def)+
  then show ?thesis unfolding Fin by (auto simp: fmt_fixed_def Let_def)
qed (auto simp: fmt_fixed_def)

lemma geo_key_near:
  assumes "geo_cacheKey lat lon = geo_cacheKey (Fin x) (Fin y)"
  obtains x' y' where "lat = Fin x'" and "lon = Fin y'" and "\<bar>x' - x\<bar> \<le> 1 / 10000" and "\<bar>y' - y\<bar> \<le> 1 / 10000"
proof -
  have "fmt_fixed cachePrecision lat = fmt_fixed cachePrecision (Fin x)" "fmt_fixed cachePrecision lon = fmt_fixed cachePrecision (Fin y)"
    using append_sep_eq[OF assms[unfolded geo_cacheKey_def append_Cons append_Nil] comma_not_in_fmt comma_not_in_fmt] by auto
  from fmt_fixed_near[OF this(1)] fmt_fixed_near[OF this(2)] show ?thesis
    using that by (simp add: cachePrecision_def) metis
qed

section \<open>Runs of the service\<close>

text \<open>A run is a sequence of requests and purges, each at its own instants.  The second component
  collects, for the statement of the property, the coordinate, the instant and the address of every
  question that the service answered.\<close>

datatype geo_op = AskReverse geo_service bool time time f64 f64 | Purge time

fun geo_step :: "geo_op \<Rightarrow> geo_cache \<times> (f64 \<times> f64 \<times> time \<times> string) list \<Rightarrow> geo_cache \<times> (f64 \<times> f64 \<times> time \<times> string) list" where
  "geo_step (AskReverse service waited now later lat lon) (cache, asked) =
     (case geo_Reverse service waited now later lat lon cache of
        (Inr a, cache') \<Rightarrow> (cache', if geo_hit now (geo_cacheKey lat lon) cache = None then (lat, lon, later, a) # asked else asked)
      | (Inl e, cache') \<Rightarrow> (cache', asked))"
| "geo_step (Purge now) (cache, asked) = (PurgeExpired now cache, asked)"

definition geo_run :: "geo_op list \<Rightarrow> geo_cache \<times> (f64 \<times> f64 \<times> time \<times> string) list" where
  "geo_run ops = foldl (\<lambda>st op. geo_step op st) (Map.empty, []) ops"

definition geo_sound :: "geo_cache \<times> (f64 \<times> f64 \<times> time \<times> string) list \<Rightarrow> bool" where
  "geo_sound st \<longleftrightarrow> (\<forall>key e. fst st key = Some e \<longrightarrow>
     (\<exists>lat lon t. (lat, lon, t, ge_address e) \<in> set (snd st) \<and> geo_cacheKey lat lon = key \<and> ge_expiresAt e = t + geo_cacheTTL))"

lemma geo_soundI:
  assumes "\<And>key e. cache key = Some e \<Longrightarrow> \<exists>lat lon t. (lat, lon, t, ge_address e) \<in> set asked \<and> geo_cacheKey lat lon = key
    \<and> ge_expiresAt e = t + geo_cacheTTL"
  shows "geo_sound (cache, asked)"
  using assms by (simp add: geo_sound_def)

lemma geo_soundD:
  assumes "geo_sound (cache, asked)" and "cache key = Some e"
  obtains lat lon t where "(lat, lon, t, ge_address e) \<in> set asked" and "geo_cacheKey lat lon = key"
    and "ge_expiresAt e = t + geo_cacheTTL"
proof -
  from assms have "\<exists>lat lon t. (lat, lon, t, ge_address e) \<in> set asked \<and> geo_cacheKey lat lon = key \<and> ge_expiresAt e = t + geo_cacheTTL"
    unfolding geo_sound_def fst_conv snd_conv by blast
  then show ?thesis using that by blast
qed

lemma geo_Reverse_cases:
  obtains (hit) a where "geo_hit now (geo_cacheKey lat lon) cache = Some a"
      and "geo_Reverse service waited now later lat lon cache = (Inr a, cache)"
  | (failed) e where "geo_hit now (geo_cacheKey lat lon) cache = None"
      and "geo_Reverse service waited now later lat lon cache = (Inl e, cache)"
  | (fetched) a where "geo_hit now (geo_cacheKey lat lon) cache = None" and "waited" and "geo_fetch service lat lon = Inr a"
      and "geo_Reverse service waited now later lat lon cache =
        (Inr a, cache(geo_cacheKey lat lon \<mapsto> \<lparr> ge_address = a, ge_expiresAt = later + geo_cacheTTL \<rparr>))"
  by (cases "geo_hit now (geo_cacheKey lat lon) cache"; cases waited; cases "geo_fetch service lat lon")
    (auto simp: geo_Reverse_def)

lemma geo_step_sound: "geo_sound st \<Longrightarrow> geo_sound (geo_step op st)"
proof (cases st)
  case st: (Pair cache asked)
  assume "geo_sound st"
  then have old: "geo_sound (cache, asked)" by (simp add: st)
  show ?thesis
  proof (cases op)
    case (AskReverse service waited now later lat lon)
    show ?thesis
    proof (cases rule: geo_Reverse_cases[of now lat lon cache service waited later])
      case (fetched a)
      have "geo_sound (cache(geo_cacheKey lat lon \<mapsto> \<lparr> ge_address = a, ge_expiresAt = later + geo_cacheTTL \<rparr>), (lat, lon, later, a) # asked)"
      proof (rule geo_soundI)
        fix key e
        assume e: "(cache(geo_cacheKey lat lon \<mapsto> \<lparr> ge_address = a, ge_expiresAt = later + geo_cacheTTL \<rparr>)) key = Some e"
        show "\<exists>la lo t. (la, lo, t, ge_address e) \<in> set ((lat, lon, later, a) # asked) \<and> geo_cacheKey la lo = key
            \<and> ge_expiresAt e = t + geo_cacheTTL"
        proof (cases "key = geo_cacheKey lat lon")
          case True
          then have "e = \<lparr> ge_address = a, ge_expiresAt = later + geo_cacheTTL \<rparr>" using e by simp
          then show ?thesis using True by (intro exI[of _ lat] exI[of _ lon] exI[of _ later]) simp
        next
          case False
          then have "cache key = Some e" using e by simp
          then show ?thesis by (rule geo_soundD[OF old]) (metis list.set_intros(2))
        qed
      qed
      then show ?thesis using fetched(1,4) by (simp add: st AskReverse)
    qed (use old in \<open>simp_all add: st AskReverse\<close>)
  next
    case (Purge now)
    have "geo_sound (PurgeExpired now cache, asked)"
      by (rule geo_soundI) (rule geo_soundD[OF old], auto simp: PurgeExpired_def split: option.splits if_splits)
    then show ?thesis by (simp add: st Purge)
  qed
qed

lemma geo_run_sound: "geo_sound (geo_run ops)"
proof -
  have "geo_sound st \<Longrightarrow> geo_sound (foldl (\<lambda>st op. geo_step op st) st ops)" for st
    by (induction ops arbitrary: st) (simp_all add: geo_step_sound)
  then show ?thesis unfolding geo_run_def by (simp add: geo_sound_def)
qed

text \<open>Property C34: after any run of requests and purges, an address given for a coordinate is the one
  the service has just answered for it, or one that the service answered earlier in the run for a
  coordinate that differs by at most a ten-thousandth of a degree in each direction, less than thirty
  days before.\<close>

theorem address_is_near:
  assumes "geo_run ops = (cache, asked)"
    and "geo_Reverse service waited now later (Fin x) (Fin y) cache = (Inr a, cache')"
  shows "geo_fetch service (Fin x) (Fin y) = Inr a \<or>
    (\<exists>x' y' t. (Fin x', Fin y', t, a) \<in> set asked \<and> \<bar>x' - x\<bar> \<le> 1 / 10000 \<and> \<bar>y' - y\<bar> \<le> 1 / 10000
       \<and> now < t + 30 * 24 * 3600 * second)"
proof (cases rule: geo_Reverse_cases[of now "Fin x" "Fin y" cache service waited later])
  case (hit b)
  then have b: "b = a" using assms(2) by simp
  obtain e where e: "cache (geo_cacheKey (Fin x) (Fin y)) = Some e" and "now < ge_expiresAt e" and "ge_address e = a"
    using hit(1) unfolding b by (auto simp: geo_hit_def split: option.splits if_splits)
  have "geo_sound (cache, asked)" using geo_run_sound[of ops] assms(1) by simp
  then obtain lat lon t where asked: "(lat, lon, t, ge_address e) \<in> set asked"
    and key: "geo_cacheKey lat lon = geo_cacheKey (Fin x) (Fin y)" and t: "ge_expiresAt e = t + geo_cacheTTL"
    using e by (rule geo_soundD)
  obtain x' y' where "lat = Fin x'" "lon = Fin y'" "\<bar>x' - x\<bar> \<le> 1 / 10000" "\<bar>y' - y\<bar> \<le> 1 / 10000"
    using key by (rule geo_key_near)
  then show ?thesis using asked t \<open>now < ge_expiresAt e\<close> \<open>ge_address e = a\<close>
    by (auto simp: geo_cacheTTL_def)
qed (use assms(2) in auto)

definition sample_service :: geo_service where
  "sample_service q = Some (200, Some \<lparr> no_DisplayName = ''X'', no_Address = (\<lambda>_. []), no_Error = [] \<rparr>)"

lemma sample_keys:
  "geo_cacheKey (Fin 0) (Fin 0) = ''0.0000,0.0000''" "geo_cacheKey (Fin (1 / 100000)) (Fin 0) = ''0.0000,0.0000''"
  by code_simp+

lemma sample_fetch: "geo_fetch sample_service lat lon = Inr ''X''"
  by (simp add: geo_fetch_def sample_service_def formatAddress_def firstNonEmpty_def Let_def)

lemma sample_run: "geo_run [AskReverse sample_service True 0 0 (Fin 0) (Fin 0)] =
  ([''0.0000,0.0000'' \<mapsto> \<lparr> ge_address = ''X'', ge_expiresAt = geo_cacheTTL \<rparr>], [(Fin 0, Fin 0, 0, ''X'')])"
  by (simp add: geo_run_def geo_Reverse_def geo_hit_def sample_fetch sample_keys)

theorem address_is_near_witness:
  "geo_fetch (\<lambda>_. None) (Fin (1 / 100000)) (Fin 0) = Inr ''X'' \<or>
    (\<exists>x' y' t. (Fin x', Fin y', t, ''X'') \<in> set [(Fin 0, Fin 0, 0, ''X'')] \<and> \<bar>x' - 1 / 100000\<bar> \<le> 1 / 10000 \<and> \<bar>y' - 0\<bar> \<le> 1 / 10000
       \<and> 1 < t + 30 * 24 * 3600 * second)"
  by (rule address_is_near[OF sample_run, of "\<lambda>_. None" False 1 1])
    (simp add: geo_Reverse_def geo_hit_def sample_keys geo_cacheTTL_def second_def)

text \<open>The range check of the handler does not refuse NaN, which \<^verbatim>\<open>strconv.ParseFloat\<close> accepts: the service
  is asked for it.\<close>

theorem nan_coordinate_asked:
  "handleReverseGeocode service True now later ''NaN'' ''NaN'' Map.empty =
     (case geo_fetch service NaN NaN of
        Inl e \<Rightarrow> (Fail 502 AddressUnavailable, Map.empty)
      | Inr a \<Rightarrow> (Reply 200 a, [''NaN,NaN'' \<mapsto> \<lparr> ge_address = a, ge_expiresAt = later + geo_cacheTTL \<rparr>]))"
proof -
  have "parse_float ''NaN'' = Some NaN" by code_simp
  moreover have "geo_cacheKey NaN NaN = ''NaN,NaN''" by (simp add: geo_cacheKey_def fmt_fixed_def)
  ultimately show ?thesis
    by (simp add: handleReverseGeocode_def geo_Reverse_def geo_hit_def split: sum.splits)
qed

end
