(* ===== verification/Simulator.thy ===== *)
theory Simulator
  imports GT06_Position Geocoding
begin

text \<open>
  The program \<^verbatim>\<open>cmd/tksim\<close>, which plays a GT06 tracker against the server: it logs in, sends
  positions, heartbeats and alarms, applies the commands of the server to a virtual relay and replies.

  The state is the record \<open>simulator\<close>, with the frames that were written (\<open>sm_sent\<close>).  What the program
  takes from outside is the record \<open>sim_env\<close>: the clock and the random numbers, by the number of the
  snapshot that reads them, the outcome of each write, the trigonometric functions, and the platform's
  conversions of numbers out of range.  The three goroutines share the state under a mutex; an
  operation here is what one of them does for one event.  What is printed on the terminal and the
  pauses are left out; the arithmetic is that of separate operations, without fused ones.
\<close>

section \<open>math.Mod, Duration.Seconds and strings.Fields\<close>

fun f64_Mod :: "f64 \<Rightarrow> f64 \<Rightarrow> f64" where
  "f64_Mod (Fin a) (Fin b) =
     (if b = 0 then NaN
      else let q = \<bar>a\<bar> / \<bar>b\<bar>; r = \<bar>a\<bar> - of_int \<lfloor>q\<rfloor> * \<bar>b\<bar> in Fin (if a < 0 then - r else r))"
| "f64_Mod (Fin a) (Inf s) = Fin a"
| "f64_Mod _ _ = NaN"

definition duration_Seconds :: "duration \<Rightarrow> f64" where
  "duration_Seconds d =
     (let sec = sgn d * (\<bar>d\<bar> div second); nsec = sgn d * (\<bar>d\<bar> mod second)
      in f64_of_int sec + f64_of_int nsec / Fin 1000000000)"

function fields_from :: "string \<Rightarrow> string \<Rightarrow> string list" where
  "fields_from w s =
     (if s = [] then (if w = [] then [] else [w])
      else case space_prefix s of
        Some p \<Rightarrow> (if w = [] then [] else [w]) @ fields_from [] (drop (length p) s)
      | None \<Rightarrow> fields_from (w @ [hd s]) (tl s))"
  by pat_completeness auto
termination
  by (relation "measure (length \<circ> snd)") (auto dest: space_prefix_Some intro: diff_length_less)

declare fields_from.simps [simp del]

definition str_fields :: "string \<Rightarrow> string list" where
  "str_fields s = fields_from [] s"

section \<open>Options and state\<close>

record options =
  so_imei :: string
  so_host :: string
  so_port :: int
  so_interval :: duration
  so_heartbeat :: duration
  so_lat :: f64
  so_lng :: f64
  so_speed :: f64
  so_acc :: bool
  so_moving :: bool
  so_protocol :: string

definition default_options :: options where
  "default_options = \<lparr> so_imei = ''869247061234567'', so_host = ''localhost'', so_port = 5000, so_interval = 10 * second,
     so_heartbeat = 60 * second, so_lat = f64_round (- 235505 / 10000), so_lng = f64_round (- 466333 / 10000), so_speed = Fin 0,
     so_acc = False, so_moving = False, so_protocol = ''gt06'' \<rparr>"

datatype flag_error = BadIMEI perr | ProtocolNotSimulated string

text \<open>The end of \<^verbatim>\<open>parseFlags\<close>: the program exits with the error.\<close>

definition check_options :: "options \<Rightarrow> flag_error option" where
  "check_options opts =
     (case ValidateIMEI (so_imei opts) of
        Some e \<Rightarrow> Some (BadIMEI e)
      | None \<Rightarrow> if so_protocol opts \<noteq> ''gt06'' then Some (ProtocolNotSimulated (so_protocol opts)) else None)"

record simulator =
  sm_opts :: options
  sm_lat :: f64
  sm_lng :: f64
  sm_speed :: f64
  sm_course :: f64
  sm_acc :: bool
  sm_relayOn :: bool
  sm_battery :: byte
  sm_gsm :: byte
  sm_serial :: "16 word"
  sm_alarms :: "byte list"
  sm_open :: bool
  sm_sent :: "bytes list"
  sm_writes :: nat
  sm_snaps :: nat

record sim_env =
  se_math :: go_math
  se_now :: "nat \<Rightarrow> time"
  se_rand :: "nat \<Rightarrow> f64"
  se_write :: "nat \<Rightarrow> bool"
  se_oor :: "f64 \<Rightarrow> int"

definition alarms_cap :: nat where "alarms_cap = 8"

definition newSimulator :: "options \<Rightarrow> simulator" where
  "newSimulator opts = \<lparr> sm_opts = opts, sm_lat = so_lat opts, sm_lng = so_lng opts, sm_speed = so_speed opts,
     sm_course = Fin 90, sm_acc = so_acc opts, sm_relayOn = False, sm_battery = 5, sm_gsm = 4, sm_serial = 0,
     sm_alarms = [], sm_open = False, sm_sent = [], sm_writes = 0, sm_snaps = 0 \<rparr>"

section \<open>Writing\<close>

definition sim_nextSerial :: "simulator \<Rightarrow> 16 word \<times> simulator" where
  "sim_nextSerial s =
     (let k = sm_serial s + 1; k = (if k = 0 then 1 else k) in (k, s\<lparr>sm_serial := k\<rparr>))"

definition sim_write :: "sim_env \<Rightarrow> bytes \<Rightarrow> simulator \<Rightarrow> bool \<times> simulator" where
  "sim_write env payload s =
     (let ok = (sm_open s \<and> se_write env (sm_writes s)); s = s\<lparr>sm_writes := Suc (sm_writes s)\<rparr>
      in if ok then (True, s\<lparr>sm_sent := sm_sent s @ [payload]\<rparr>) else (False, s))"

definition sim_snapshot :: "sim_env \<Rightarrow> simulator \<Rightarrow> gps_fix \<times> device_status \<times> simulator" where
  "sim_snapshot env s =
     (let k = sm_snaps s; s = s\<lparr>sm_snaps := Suc k\<rparr>;
          s = (if so_moving (sm_opts s) \<and> sm_speed s > Fin 0 then
                 let meters = sm_speed s / f64_round (36 / 10) * duration_Seconds (so_interval (sm_opts s));
                     radians = sm_course s * go_pi / Fin 180;
                     s = s\<lparr>sm_lat := sm_lat s + (meters * gm_Cos (se_math env) radians) / Fin 111132\<rparr>;
                     s = s\<lparr>sm_lng := sm_lng s + (meters * gm_Sin (se_math env) radians)
                       / (Fin 111320 * gm_Cos (se_math env) (sm_lat s * go_pi / Fin 180))\<rparr>
                 in s\<lparr>sm_course := f64_Mod (sm_course s + se_rand env k * Fin 10 - Fin 5 + Fin 360) (Fin 360)\<rparr>
               else s)
      in (\<lparr> fx_Time = se_now env k, fx_Latitude = sm_lat s, fx_Longitude = sm_lng s, fx_SpeedKmh = sm_speed s,
            fx_CourseDeg = sm_course s, fx_Satellites = 9, fx_Valid = True \<rparr>,
          \<lparr> dst_ACC = sm_acc s, dst_RelayOn = sm_relayOn s, dst_Charging = sm_acc s, dst_BatteryLevel = sm_battery s,
            dst_GSMLevel = sm_gsm s \<rparr>, s))"

definition sendPosition :: "sim_env \<Rightarrow> simulator \<Rightarrow> simulator" where
  "sendPosition env s =
     (let (fx, status, s) = sim_snapshot env s; (serial, s) = sim_nextSerial s
      in snd (sim_write env (BuildPositionFrame (se_oor env) fx status serial) s))"

definition sendHeartbeat :: "sim_env \<Rightarrow> simulator \<Rightarrow> simulator" where
  "sendHeartbeat env s =
     (let (_, status, s) = sim_snapshot env s; (serial, s) = sim_nextSerial s
      in snd (sim_write env (BuildHeartbeatFrame status serial) s))"

definition sendAlarm :: "sim_env \<Rightarrow> byte \<Rightarrow> simulator \<Rightarrow> simulator" where
  "sendAlarm env code s =
     (let (fx, status, s) = sim_snapshot env s; (serial, s) = sim_nextSerial s
      in snd (sim_write env (BuildAlarmFrame (se_oor env) fx status code serial) s))"

section \<open>Commands of the server\<close>

definition onOff :: "bool \<Rightarrow> string" where
  "onOff v = (if v then ''ON'' else ''OFF'')"

definition applyCommand :: "sim_env \<Rightarrow> string \<Rightarrow> simulator \<Rightarrow> string \<times> simulator" where
  "applyCommand env ctext s =
     (let upper = to_upper ctext in
      if has_prefix upper ''DYD'' \<or> has_prefix upper ''RELAY,1'' then
        (let moving = (sm_speed s > Fin 20); s = (if \<not> moving then s\<lparr>sm_relayOn := True\<rparr> else s)
         in (if moving then ''DYD=Fail! Speed too high'' else ''DYD=Success! Oil and Power OFF'', s))
      else if has_prefix upper ''HFYD'' \<or> has_prefix upper ''RELAY,0'' then
        (''HFYD=Success! Oil and Power ON'', s\<lparr>sm_relayOn := False\<rparr>)
      else if has_prefix upper ''WHERE'' then
        (''Lat:'' @ fmt_fixed 6 (sm_lat s) @ '' Lon:'' @ fmt_fixed 6 (sm_lng s), sendPosition env s)
      else if has_prefix upper ''STATUS'' then
        (''Battery:'' @ show_int (int (unat (sm_battery s)) * 100 div 6) @ ''% GSM:'' @ show_int (int (unat (sm_gsm s)))
           @ '' ACC:'' @ onOff (sm_acc s) @ '' Relay:'' @ onOff (sm_relayOn s), s)
      else if has_prefix upper ''RESET'' then (''RESET=Success!'', s)
      else if has_prefix upper ''TIMER'' \<or> has_prefix upper ''HBT'' \<or> has_prefix upper ''SERVER'' then
        (takeWhile (\<lambda>c. c \<noteq> CHR '','') upper @ ''=Success!'', s)
      else (''Command not support'', s))"

definition handleServerFrame :: "sim_env \<Rightarrow> bytes \<Rightarrow> simulator \<Rightarrow> simulator" where
  "handleServerFrame env fr s =
     (case DecodeServerCommand fr of
        Inl _ \<Rightarrow> s
      | Inr (serverFlag, ctext) \<Rightarrow>
          let (reply, s) = applyCommand env ctext s;
              (serial, s) = sim_nextSerial s;
              (ok, s) = sim_write env (BuildCommandReply serverFlag reply serial) s
          in if \<not> ok then s
             else if has_prefix ctext ''DYD'' \<or> has_prefix ctext ''HFYD'' \<or> has_prefix ctext ''RELAY'' then sendPosition env s
             else s)"

lemma gt06_NextFrame_progress:
  assumes "gt06_NextFrame buf = (fr, n, None)"
  shows "0 < n"
  using assms gt06.frame_prefix[of buf] gt06.skip_progress[of buf n] by (cases fr) auto

text \<open>\<^verbatim>\<open>consume\<close> returns what is left of the buffer.\<close>

function sim_consume :: "sim_env \<Rightarrow> bytes \<Rightarrow> simulator \<Rightarrow> bytes \<times> simulator" where
  "sim_consume env buf s =
     (if buf = [] then ([], s)
      else case gt06_NextFrame buf of
        (fr, consumed, Some e) \<Rightarrow>
          if is_incomplete e then (buf, s)
          else if consumed = 0 then ([], s)
          else sim_consume env (drop consumed buf) s
      | (fr, consumed, None) \<Rightarrow>
          sim_consume env (drop consumed buf) (case fr of None \<Rightarrow> s | Some f \<Rightarrow> handleServerFrame env f s))"
  by pat_completeness auto

termination
  by (relation "measure (\<lambda>(env, buf, s). length buf)") (auto dest!: gt06_NextFrame_progress[OF sym])

declare sim_consume.simps [simp del]

text \<open>\<^verbatim>\<open>readLoop\<close>, for what the reads of the connection return: some bytes, at most 512, and whether there was an
  error.  The list ends when the context does.\<close>

fun sim_readLoop :: "sim_env \<Rightarrow> (bytes \<times> bool) list \<Rightarrow> bytes \<Rightarrow> simulator \<Rightarrow> bytes \<times> simulator" where
  "sim_readLoop env [] buf s = (buf, s)"
| "sim_readLoop env ((chunk, failed) # reads) buf s =
     (let (buf, s) = (if chunk \<noteq> [] then sim_consume env (buf @ chunk) s else (buf, s))
      in if failed then (buf, s) else sim_readLoop env reads buf s)"

section \<open>The console\<close>

datatype console_result = Continue | Ended | Waiting byte

text \<open>\<^verbatim>\<open>s.alarms <- code\<close>: the channel holds eight, and a full one blocks the console.\<close>

definition push_alarm :: "byte \<Rightarrow> simulator \<Rightarrow> console_result \<times> simulator" where
  "push_alarm code s =
     (if length (sm_alarms s) < alarms_cap then (Continue, s\<lparr>sm_alarms := sm_alarms s @ [code]\<rparr>) else (Waiting code, s))"

text \<open>One line of \<^verbatim>\<open>consoleLoop\<close>.\<close>

definition console_line :: "sim_env \<Rightarrow> string \<Rightarrow> simulator \<Rightarrow> console_result \<times> simulator" where
  "console_line env line s =
     (case str_fields (trim_space (to_lower line)) of
        [] \<Rightarrow> (Continue, s)
      | f # args \<Rightarrow>
          if f = ''acc'' then
            (case args of [] \<Rightarrow> (Continue, s) | a # _ \<Rightarrow> (Continue, sendPosition env (s\<lparr>sm_acc := (a = ''on'')\<rparr>)))
          else if f = ''speed'' then
            (case args of
               [] \<Rightarrow> (Continue, s)
             | a # _ \<Rightarrow> (case parse_float a of None \<Rightarrow> (Continue, s) | Some v \<Rightarrow> (Continue, sendPosition env (s\<lparr>sm_speed := v\<rparr>))))
          else if f = ''move'' then (Continue, s\<lparr>sm_opts := (sm_opts s)\<lparr>so_moving := True\<rparr>\<rparr>)
          else if f = ''stop'' then
            (Continue, sendPosition env (s\<lparr>sm_opts := (sm_opts s)\<lparr>so_moving := False\<rparr>, sm_speed := Fin 0\<rparr>))
          else if f = ''sos'' then push_alarm 0x01 s
          else if f = ''power'' then push_alarm 0x02 s
          else if f = ''quit'' \<or> f = ''exit'' then (Ended, s\<lparr>sm_open := False\<rparr>)
          else (Continue, s))"

section \<open>run\<close>

text \<open>The beginning of \<^verbatim>\<open>run\<close>, once the connection is open: the login, and the first position.\<close>

definition sim_login :: "sim_env \<Rightarrow> options \<Rightarrow> perr + bool \<times> simulator" where
  "sim_login env opts =
     (let s = (newSimulator opts)\<lparr>sm_open := True\<rparr>; (serial, s) = sim_nextSerial s in
      case BuildLoginFrame (so_imei opts) serial of
        Inl e \<Rightarrow> Inl e
      | Inr login \<Rightarrow>
          let (ok, s) = sim_write env login s
          in Inr (if ok then (True, sendPosition env s) else (False, s)))"

text \<open>Then the events of the three goroutines: the timers and the queue of alarms, what is read from
  the connection, the lines of the console.  The second component is the buffer of \<^verbatim>\<open>readLoop\<close>.\<close>

inductive sim_step :: "sim_env \<Rightarrow> simulator \<times> bytes \<Rightarrow> simulator \<times> bytes \<Rightarrow> bool" for env where
  position_tick: "sim_step env (s, buf) (sendPosition env s, buf)"
| heartbeat_tick: "sim_step env (s, buf) (sendHeartbeat env s, buf)"
| alarm_ready: "sm_alarms s = code # rest \<Longrightarrow> sim_step env (s, buf) (sendAlarm env code (s\<lparr>sm_alarms := rest\<rparr>), buf)"
| server_bytes: "sim_consume env (buf @ chunk) s = (buf', s') \<Longrightarrow> sim_step env (s, buf) (s', buf')"
| console: "console_line env line s = (r, s') \<Longrightarrow> sim_step env (s, buf) (s', buf)"

section \<open>What an operation keeps\<close>

text \<open>Nothing but a command of the server touches the relay, and every number of a frame is
  positive.\<close>

lemma sim_nextSerial_simps:
  "snd (sim_nextSerial s) = s\<lparr>sm_serial := fst (sim_nextSerial s)\<rparr>" "fst (sim_nextSerial s) \<noteq> 0"
  by (simp_all add: sim_nextSerial_def Let_def)

lemma sim_write_ok:
  assumes "sm_open s" and "se_write env (sm_writes s)"
  shows "sim_write env payload s = (True, s\<lparr>sm_writes := Suc (sm_writes s), sm_sent := sm_sent s @ [payload]\<rparr>)"
  using assms by (simp add: sim_write_def)

definition same_vehicle :: "simulator \<Rightarrow> simulator \<Rightarrow> bool" where
  "same_vehicle s t \<longleftrightarrow> sm_relayOn t = sm_relayOn s \<and> sm_speed t = sm_speed s \<and> sm_acc t = sm_acc s
     \<and> sm_battery t = sm_battery s \<and> sm_gsm t = sm_gsm s \<and> sm_opts t = sm_opts s \<and> sm_open t = sm_open s"

lemma sim_write_same: "same_vehicle s (snd (sim_write env payload s))"
  by (simp add: sim_write_def same_vehicle_def Let_def)

lemma sim_nextSerial_same: "same_vehicle s (snd (sim_nextSerial s))"
  by (simp add: sim_nextSerial_def same_vehicle_def Let_def)

lemma sim_snapshot_same: "same_vehicle s (snd (snd (sim_snapshot env s)))"
  by (simp add: sim_snapshot_def same_vehicle_def Let_def)

lemma same_vehicle_trans: "same_vehicle s t \<Longrightarrow> same_vehicle t u \<Longrightarrow> same_vehicle s u"
  by (simp add: same_vehicle_def)

lemma send_frame_same:
  assumes "sim_snapshot env s = (fx, st, t)" and "sim_nextSerial t = (k, u)"
  shows "same_vehicle s (snd (sim_write env payload u))"
  using sim_snapshot_same[of s env] sim_nextSerial_same[of t] sim_write_same[of u env payload] assms
  by (auto intro: same_vehicle_trans)

lemma send_same:
  "same_vehicle s (sendPosition env s)" "same_vehicle s (sendHeartbeat env s)" "same_vehicle s (sendAlarm env code s)"
  by (auto simp: sendPosition_def sendHeartbeat_def sendAlarm_def send_frame_same split: prod.splits)

lemmas send_relay = send_same[unfolded same_vehicle_def]

lemma applyCommand_relay:
  assumes "applyCommand env ctext s = (reply, t)"
  shows "sm_speed t = sm_speed s \<and> (sm_relayOn t \<longrightarrow> sm_relayOn s \<or> \<not> sm_speed s > Fin 20)"
  using assms send_relay(1)[of env s] by (auto simp: applyCommand_def Let_def split: if_splits)

lemma handleServerFrame_relay:
  "sm_speed (handleServerFrame env fr s) = sm_speed s
   \<and> (sm_relayOn (handleServerFrame env fr s) \<longrightarrow> sm_relayOn s \<or> \<not> sm_speed s > Fin 20)"
proof (cases "DecodeServerCommand fr")
  case (Inr d)
  obtain k ctext where d: "d = (k, ctext)" by (cases d)
  obtain reply t where t: "applyCommand env ctext s = (reply, t)" by (cases "applyCommand env ctext s")
  obtain n u where u: "sim_nextSerial t = (n, u)" by (cases "sim_nextSerial t")
  obtain ok w where w: "sim_write env (BuildCommandReply k reply n) u = (ok, w)" by (metis prod.collapse)
  have "same_vehicle t w"
    using sim_nextSerial_same[of t] sim_write_same[of u env "BuildCommandReply k reply n"] u w by (auto intro: same_vehicle_trans)
  then have "same_vehicle t (handleServerFrame env fr s)"
    using send_same(1)[of w env] by (auto simp: handleServerFrame_def Inr d t u w intro: same_vehicle_trans)
  then show ?thesis using applyCommand_relay[OF t] by (simp add: same_vehicle_def)
qed (simp add: handleServerFrame_def)

lemma sim_consume_relay:
  "sim_consume env buf s = (buf', t) \<Longrightarrow> sm_speed t = sm_speed s \<and> (sm_relayOn t \<longrightarrow> sm_relayOn s \<or> \<not> sm_speed s > Fin 20)"
proof (induction env buf s arbitrary: buf' t rule: sim_consume.induct)
  case (1 env buf s)
  show ?case
  proof (cases "buf = []")
    case True
    then show ?thesis using "1.prems" by (simp add: sim_consume.simps)
  next
    case False
    obtain fr n e where f: "gt06_NextFrame buf = (fr, n, e)" by (metis prod_cases3)
    show ?thesis
    proof (cases e)
      case None
      let ?s = "case fr of None \<Rightarrow> s | Some f \<Rightarrow> handleServerFrame env f s"
      have "sim_consume env (drop n buf) ?s = (buf', t)"
        using "1.prems" False f None by (simp add: sim_consume.simps[of env buf])
      then have "sm_speed t = sm_speed ?s \<and> (sm_relayOn t \<longrightarrow> sm_relayOn ?s \<or> \<not> sm_speed ?s > Fin 20)"
        using "1.IH"(1)[OF False f[symmetric] refl None] by blast
      then show ?thesis using handleServerFrame_relay[of env _ s] by (cases fr) auto
    next
      case (Some err)
      note step = sim_consume.simps[of env buf s, unfolded f Some prod.case option.case if_not_P[OF False]]
      show ?thesis
      proof (cases "is_incomplete err \<or> n = 0")
        case True
        then have "t = s" using "1.prems" unfolding step by (auto split: if_splits)
        then show ?thesis by simp
      next
        case go: False
        then have "sim_consume env (drop n buf) s = (buf', t)" using "1.prems" unfolding step by simp
        then show ?thesis using "1.IH"(2)[OF False f[symmetric] refl Some] go by blast
      qed
    qed
  qed
qed

lemma sim_readLoop_relay:
  "sim_readLoop env reads buf s = (buf', t) \<Longrightarrow> sm_speed t = sm_speed s \<and> (sm_relayOn t \<longrightarrow> sm_relayOn s \<or> \<not> sm_speed s > Fin 20)"
proof (induction reads arbitrary: buf s)
  case (Cons r reads)
  obtain chunk failed where r: "r = (chunk, failed)" by (cases r)
  obtain b u where u: "(if chunk \<noteq> [] then sim_consume env (buf @ chunk) s else (buf, s)) = (b, u)" by (metis prod.collapse)
  have step: "sm_speed u = sm_speed s \<and> (sm_relayOn u \<longrightarrow> sm_relayOn s \<or> \<not> sm_speed s > Fin 20)"
  proof (cases "chunk = []")
    case True
    then show ?thesis using u by simp
  next
    case False
    then show ?thesis using u by (intro sim_consume_relay[of env "buf @ chunk" s b u]) simp
  qed
  have "(if failed then (b, u) else sim_readLoop env reads b u) = (buf', t)"
    using Cons.prems unfolding r sim_readLoop.simps u by simp
  then show ?case using step Cons.IH[of b u] by (cases failed) auto
qed simp

lemma console_line_relay: "sm_relayOn (snd (console_line env line s)) = sm_relayOn s"
proof (cases "str_fields (trim_space (to_lower line))")
  case (Cons f args)
  then show ?thesis
    unfolding console_line_def Cons list.case
    by (simp only: if_distrib[of snd] if_distrib[of sm_relayOn] push_alarm_def snd_conv)
      (simp add: send_relay split: list.split option.split)
qed (simp add: console_line_def)

text \<open>The virtual relay never cuts at speed: whatever the server sends and whatever is typed, a step
  that turns the relay on is the arrival of bytes of the server at a speed of at most 20 km/h.\<close>

theorem simulator_cuts_slowly:
  assumes "sim_step env (s, buf) (s', buf')" and "sm_relayOn s'" and "\<not> sm_relayOn s"
  shows "\<not> sm_speed s > Fin 20 \<and> sm_speed s' = sm_speed s \<and> (\<exists>chunk. sim_consume env (buf @ chunk) s = (buf', s'))"
  using assms(1)
proof cases
  case (server_bytes chunk)
  then show ?thesis using sim_consume_relay assms(2,3) by blast
next
  case (console line r)
  then show ?thesis using console_line_relay[of env line s] assms(2,3) by simp
qed (use assms(2,3) send_relay in auto)

section \<open>A command from the server to the device and back\<close>

lemma engine_text:
  assumes "gt06_commandText cmd = Inr ctext" and "trim_space (cmd_Raw cmd) = []"
  shows "cmd_Type cmd = CommandEngineCut \<Longrightarrow> \<exists>ch r. ctext = ''DYD'' @ ch # r"
    and "cmd_Type cmd = CommandEngineResume \<Longrightarrow> \<exists>ch r. ctext = ''HFYD'' @ ch # r"
  using assms by (auto simp: gt06_commandText_def Let_def withPwd_def split: if_splits)

lemma applyCommand_cut:
  "applyCommand env (''DYD'' @ ch # r) s =
     (if sm_speed s > Fin 20 then (''DYD=Fail! Speed too high'', s)
      else (''DYD=Success! Oil and Power OFF'', s\<lparr>sm_relayOn := True\<rparr>))"
  by (simp add: applyCommand_def has_prefix_def upper_char_def Let_def)

lemma applyCommand_resume:
  "applyCommand env (''HFYD'' @ ch # r) s = (''HFYD=Success! Oil and Power ON'', s\<lparr>sm_relayOn := False\<rparr>)"
  by (simp add: applyCommand_def has_prefix_def upper_char_def Let_def)

lemma engine_replies:
  "trim_space ''DYD=Fail! Speed too high'' = ''DYD=Fail! Speed too high''" 
  "trim_space ''DYD=Success! Oil and Power OFF'' = ''DYD=Success! Oil and Power OFF''"
  "trim_space ''HFYD=Success! Oil and Power ON'' = ''HFYD=Success! Oil and Power ON''"
  "failedResponse ''DYD=Fail! Speed too high''"
  "\<not> failedResponse ''DYD=Success! Oil and Power OFF''"
  "\<not> failedResponse ''HFYD=Success! Oil and Power ON''"
  by (simp_all add: failedResponse_def lower_char_def has_prefix_def trim_space_plain plain_def Let_def char_of_eq_iff)

lemma sim_consume_frame:
  assumes "gt06_NextFrame f = (Some f, length f, None)"
  shows "sim_consume env f s = ([], handleServerFrame env f s)"
proof -
  have "f \<noteq> []" using gt06_NextFrame_progress[OF assms] by auto
  then show ?thesis using assms by (simp add: sim_consume.simps[of env f] sim_consume.simps[of env "[]"])
qed

lemma sim_snapshot_parts:
  "fst (sim_snapshot env (s\<lparr>sm_relayOn := b, sm_serial := k, sm_writes := n, sm_sent := fs\<rparr>)) = fst (sim_snapshot env s)"
  "dst_RelayOn (fst (snd (sim_snapshot env s))) = sm_relayOn s"
  "sm_open (snd (snd (sim_snapshot env s))) = sm_open s" "sm_writes (snd (snd (sim_snapshot env s))) = sm_writes s"
  "sm_sent (snd (snd (sim_snapshot env s))) = sm_sent s"
  by (simp_all add: sim_snapshot_def Let_def)

text \<open>A position that is written is read by the server with the relay of the simulator.\<close>

lemma sendPosition_read:
  assumes "sm_open s" and "se_write env (sm_writes s)" and "readable_fix (fst (sim_snapshot env s)) x y v c"
  shows "\<exists>fr p. sm_sent (sendPosition env s) = sm_sent s @ [fr] \<and> gt06_Parse ackGPS now fr = Inr [p]
    \<and> tm_Kind p = KindPosition \<and> tm_RelayOn p = Some (sm_relayOn s) \<and> fix_told (fst (sim_snapshot env s)) x y v c p"
proof -
  obtain fx st t where snap: "sim_snapshot env s = (fx, st, t)" by (metis prod_cases3)
  obtain k u where ser: "sim_nextSerial t = (k, u)" by (cases "sim_nextSerial t")
  let ?fr = "BuildPositionFrame (se_oor env) fx st k"
  have t: "sm_open t = sm_open s" "sm_writes t = sm_writes s" "sm_sent t = sm_sent s"
    using sim_snapshot_parts(3-5)[of env s] snap by simp_all
  have "sm_open u" "se_write env (sm_writes u)" "sm_sent u = sm_sent s"
    using ser t assms(1,2) by (auto simp: sim_nextSerial_def Let_def)
  then have "sm_sent (sendPosition env s) = sm_sent s @ [?fr]"
    by (simp add: sendPosition_def snap ser sim_write_ok)
  moreover have "dst_RelayOn st = sm_relayOn s" using sim_snapshot_parts(2)[of env s] snap by simp
  moreover have "\<exists>p. gt06_Parse ackGPS now ?fr = Inr [p] \<and> tm_Kind p = KindPosition \<and> fix_told fx x y v c p \<and> status_read st p"
    using gt06_Parse_blocks[of fx x y v c, where t = msgGPSLBSStatus and rest = "[]" and oor = "se_oor env" and st = st
        and serial = k and ackGPS = ackGPS and now = now] assms(3) snap
    by (auto simp: BuildPositionFrame_def Let_def hasGPS_def isAlarm_def)
  ultimately show ?thesis using snap by (auto simp: status_read_def)
qed

definition relay_after :: "command_type \<Rightarrow> simulator \<Rightarrow> bool" where
  "relay_after t s = (if t = CommandEngineCut then (if sm_speed s > Fin 20 then sm_relayOn s else True) else False)"

lemma handle_engine_command:
  assumes "DecodeServerCommand f = Inr (key, ctext)" and "applyCommand env ctext s = (reply, s\<lparr>sm_relayOn := b\<rparr>)"
    and "has_prefix ctext ''DYD'' \<or> has_prefix ctext ''HFYD''" and "sm_open s" and "se_write env (sm_writes s)"
  obtains k where "handleServerFrame env f s = sendPosition env (s\<lparr>sm_relayOn := b, sm_serial := k,
    sm_writes := Suc (sm_writes s), sm_sent := sm_sent s @ [BuildCommandReply key reply k]\<rparr>)"
  using that[of "fst (sim_nextSerial s)"] assms
  by (auto simp: handleServerFrame_def sim_nextSerial_def sim_write_ok Let_def split: if_splits)

text \<open>Property C31: an engine command goes to the device and comes back.  A cut or a resume that the
  server encodes, read by the simulator over an open connection, is answered by two frames.  The
  server reads the first as the acknowledgement of that very command, by its key, a failure if and
  only if it was a cut above 20 km/h; and the second as a position that tells the relay the
  simulator now has: on after a cut, as before after a refused one, off after a resume.\<close>

theorem engine_command_answered:
  assumes "gt06_EncodeCommand counter cmd = (Inr f, counter')" and "trim_space (cmd_Raw cmd) = ''''"
    and "cmd_Type cmd = CommandEngineCut \<or> cmd_Type cmd = CommandEngineResume"
    and "sm_open s" and "se_write env (sm_writes s)" and "se_write env (Suc (sm_writes s))"
    and "readable_fix (fst (sim_snapshot env s)) x y v c"
  shows "\<exists>s' reply position m p. sim_consume env f s = ([], s') \<and> sm_sent s' = sm_sent s @ [reply, position]
    \<and> gt06_Parse ackGPS now reply = Inr [m] \<and> tm_Kind m = KindCommandAck
    \<and> tm_CorrelationKey m = cmd_CorrelationKey cmd
    \<and> failedResponse (tm_Response m) = (cmd_Type cmd = CommandEngineCut \<and> sm_speed s > Fin 20)
    \<and> gt06_Parse ackGPS now position = Inr [p] \<and> tm_Kind p = KindPosition
    \<and> sm_relayOn s' = relay_after (cmd_Type cmd) s \<and> tm_RelayOn p = Some (sm_relayOn s')"
proof -
  obtain ctext where t: "gt06_commandText cmd = Inr ctext" "re_safe_text ctext"
    "f = buildFrame msgCommand (command_content (cmd_CorrelationKey cmd) ctext) (ucast (counter + 1))"
    by (rule gt06_EncodeCommand_Inr[OF assms(1)])
  then have len: "length ctext \<le> 200" by (simp add: re_safe_text_def)
  have fr: "gt06_NextFrame f = (Some f, length f, None)"
    using NextFrame_buildFrame[of "command_content (cmd_CorrelationKey cmd) ctext"] t(3) len by simp
  have dec: "DecodeServerCommand f = Inr (cmd_CorrelationKey cmd, ctext)" unfolding t(3) by (rule command_content_decode[OF len])
  let ?b = "relay_after (cmd_Type cmd) s"
  let ?cut = "cmd_Type cmd = CommandEngineCut"
  define reply where "reply = (if ?cut then if sm_speed s > Fin 20 then ''DYD=Fail! Speed too high''
    else ''DYD=Success! Oil and Power OFF'' else ''HFYD=Success! Oil and Power ON'')"
  have app: "applyCommand env ctext s = (reply, s\<lparr>sm_relayOn := ?b\<rparr>) \<and> (has_prefix ctext ''DYD'' \<or> has_prefix ctext ''HFYD'')"
  proof (cases ?cut)
    case True
    then obtain ch r where "ctext = ''DYD'' @ ch # r" using engine_text(1)[OF t(1) assms(2)] by blast
    then show ?thesis
      using True by (simp only: applyCommand_cut reply_def relay_after_def) (simp add: has_prefix_def)
  next
    case False
    then obtain ch r where "ctext = ''HFYD'' @ ch # r" using engine_text(2)[OF t(1) assms(2)] assms(3) by blast
    then show ?thesis
      using False by (simp only: applyCommand_resume reply_def relay_after_def) (simp add: has_prefix_def)
  qed
  obtain k where h: "handleServerFrame env f s = sendPosition env (s\<lparr>sm_relayOn := ?b, sm_serial := k,
    sm_writes := Suc (sm_writes s), sm_sent := sm_sent s @ [BuildCommandReply (cmd_CorrelationKey cmd) reply k]\<rparr>)" (is "_ = sendPosition env ?s")
    by (rule handle_engine_command[OF dec conjunct1[OF app] conjunct2[OF app] assms(4,5)])
  have "length reply \<le> 200" "list_all printable_char reply" and fail: "failedResponse (trim_space reply) = (?cut \<and> sm_speed s > Fin 20)"
    unfolding reply_def by (simp_all add: printable_char_def engine_replies)
  then obtain m where m: "gt06_Parse ackGPS now (BuildCommandReply (cmd_CorrelationKey cmd) reply k) = Inr [m]"
    "tm_Kind m = KindCommandAck" "tm_CorrelationKey m = cmd_CorrelationKey cmd" "tm_Response m = trim_space reply"
    using gt06_reply_roundtrip[of reply ackGPS now "cmd_CorrelationKey cmd" k] by blast
  obtain fr' p where p: "sm_sent (sendPosition env ?s) = sm_sent ?s @ [fr']" "gt06_Parse ackGPS now fr' = Inr [p]"
    "tm_Kind p = KindPosition" "tm_RelayOn p = Some ?b"
    using sendPosition_read[of ?s env x y v c ackGPS now] assms(4,6,7) by (auto simp: sim_snapshot_parts)
  have "sm_relayOn (sendPosition env ?s) = ?b" by (simp add: send_relay)
  then show ?thesis
    using sim_consume_frame[OF fr, of env s] h m p fail by (intro exI[of _ "sendPosition env ?s"] exI[of _ fr'] exI[of _ m] exI[of _ p]
      exI[of _ "BuildCommandReply (cmd_CorrelationKey cmd) reply k"]) simp
qed

definition sample_env :: sim_env where
  "sample_env = \<lparr> se_math = \<lparr> gm_Sin = (\<lambda>_. Fin 0), gm_Cos = (\<lambda>_. Fin 1), gm_Atan2 = (\<lambda>_ _. Fin 0), gm_Sqrt = (\<lambda>_. Fin 0),
       gm_Hypot = (\<lambda>_ _. Fin 0) \<rparr>,
     se_now = (\<lambda>_. 1700000000 * second), se_rand = (\<lambda>_. Fin 0), se_write = (\<lambda>_. True), se_oor = (\<lambda>_. 0) \<rparr>"

definition sample_sim :: simulator where
  "sample_sim = (newSimulator (default_options\<lparr>so_lat := Fin (- 47 / 2), so_lng := Fin (- 93 / 2)\<rparr>))\<lparr>sm_open := True\<rparr>"

lemma sample_sim_readable: "readable_fix (fst (sim_snapshot sample_env sample_sim)) (- 47 / 2) (- 93 / 2) 0 90"
proof -
  have "time_civil (1700000000 * second) = (2023, 11, 14)" by code_simp
  then show ?thesis
    by (simp add: readable_fix_def sim_snapshot_def sample_env_def sample_sim_def newSimulator_def default_options_def)
qed

theorem engine_command_answered_witness:
  "\<exists>s' reply position m p. sim_consume sample_env (buildFrame msgCommand (command_content 0xCAFE ''DYD#'') 1) sample_sim = ([], s')
    \<and> sm_sent s' = sm_sent sample_sim @ [reply, position]
    \<and> gt06_Parse False 0 reply = Inr [m] \<and> tm_Kind m = KindCommandAck
    \<and> tm_CorrelationKey m = cmd_CorrelationKey sample_command
    \<and> failedResponse (tm_Response m) = (cmd_Type sample_command = CommandEngineCut \<and> sm_speed sample_sim > Fin 20)
    \<and> gt06_Parse False 0 position = Inr [p] \<and> tm_Kind p = KindPosition
    \<and> sm_relayOn s' = relay_after (cmd_Type sample_command) sample_sim \<and> tm_RelayOn p = Some (sm_relayOn s')"
  by (rule engine_command_answered[OF sample_command_encodes _ _ _ _ _ sample_sim_readable])
    (simp_all add: sample_command_def sample_sim_def sample_env_def)

text \<open>A heartbeat takes the same snapshot as a position: it moves the vehicle by a whole interval.\<close>

theorem heartbeat_moves_vehicle:
  "sm_lat (sendHeartbeat env s) = sm_lat (sendPosition env s) \<and> sm_lng (sendHeartbeat env s) = sm_lng (sendPosition env s)
   \<and> sm_course (sendHeartbeat env s) = sm_course (sendPosition env s)"
  by (simp add: sendHeartbeat_def sendPosition_def sim_nextSerial_def sim_write_def Let_def split: prod.splits)

end
