(* ===== verification/Server_Process.thy ===== *)
theory Server_Process
  imports Settings Geocoding Registry "HOL-Library.List_Lexorder" "HOL-Library.Char_ord"
begin

text \<open>
  What the server does around the services: the errors of the driver and the migrations of the
  database (\<^verbatim>\<open>internal/database/database.go\<close>), the periodic tasks, the protocols it registers and how it
  announces them (\<^verbatim>\<open>cmd/server/main.go\<close>).

  A migration is a text of SQL; what it does to the data is the parameter \<open>exec\<close>, \<open>None\<close> for a text that
  PostgreSQL refuses.  Every call to the database may fail: \<open>out\<close> is the outcome of the n-th call, and
  \<open>LostReply\<close> that of a call that took effect although the program sees an error.
\<close>

section \<open>database.go\<close>

text \<open>The errors of the driver: no row, an error of PostgreSQL with its code, any other.\<close>

datatype driver_error = NoRows | PgError string | OtherError

definition MapError :: "driver_error option \<Rightarrow> db_error option" where
  "MapError err =
     (case err of
        None \<Rightarrow> None
      | Some NoRows \<Rightarrow> Some ErrNotFound
      | Some (PgError code) \<Rightarrow>
          Some (if code = ''23505'' then ErrConflict else if code = ''23503'' then ErrForeignKey else ErrDB)
      | Some OtherError \<Rightarrow> Some ErrDB)"

datatype call_outcome = Done | Failed | LostReply

record 'd schema =
  sc_table :: bool
  sc_versions :: "string list"
  sc_data :: 'd
  sc_calls :: nat

datatype migrate_error = CreateFailed | QueryFailed string | ReadFailed string | BeginFailed string | BodyFailed string
  | InsertFailed string | CommitFailed string

text \<open>The number of the next call.\<close>

definition sc_call :: "(nat \<Rightarrow> call_outcome) \<Rightarrow> 'd schema \<Rightarrow> call_outcome \<times> 'd schema" where
  "sc_call out s = (out (sc_calls s), s\<lparr>sc_calls := Suc (sc_calls s)\<rparr>)"

text \<open>The body of the loop, for one file.  A transaction works on a copy that the commit installs.\<close>

definition migrate_one :: "(string \<Rightarrow> 'd \<Rightarrow> 'd option) \<Rightarrow> (string \<rightharpoonup> string) \<Rightarrow> (nat \<Rightarrow> call_outcome) \<Rightarrow> string \<Rightarrow>
   'd schema \<Rightarrow> migrate_error option \<times> 'd schema" where
  "migrate_one exec files out name s =
     (let (o1, s) = sc_call out s in
      if o1 \<noteq> Done then (Some (QueryFailed name), s)
      else if name \<in> set (sc_versions s) then (None, s)
      else case files name of
        None \<Rightarrow> (Some (ReadFailed name), s)
      | Some body \<Rightarrow>
          let (o2, s) = sc_call out s in
          if o2 \<noteq> Done then (Some (BeginFailed name), s)
          else
            let (o3, s) = sc_call out s in
            (case (o3, exec body (sc_data s)) of
               (Done, Some d) \<Rightarrow>
                 let (o4, s) = sc_call out s in
                 if o4 \<noteq> Done then (Some (InsertFailed name), s)
                 else
                   let (o5, s) = sc_call out s;
                       committed = s\<lparr>sc_data := d, sc_versions := sc_versions s @ [name]\<rparr> in
                   (case o5 of Done \<Rightarrow> (None, committed) | Failed \<Rightarrow> (Some (CommitFailed name), s)
                    | LostReply \<Rightarrow> (Some (CommitFailed name), committed))
             | _ \<Rightarrow> (Some (BodyFailed name), s)))"

fun migrate_all :: "(string \<Rightarrow> 'd \<Rightarrow> 'd option) \<Rightarrow> (string \<rightharpoonup> string) \<Rightarrow> (nat \<Rightarrow> call_outcome) \<Rightarrow> string list \<Rightarrow>
   'd schema \<Rightarrow> migrate_error option \<times> 'd schema" where
  "migrate_all exec files out [] s = (None, s)"
| "migrate_all exec files out (name # names) s =
     (case migrate_one exec files out name s of
        (Some e, s) \<Rightarrow> (Some e, s)
      | (None, s) \<Rightarrow> migrate_all exec files out names s)"

text \<open>The entries of the embedded directory: a name, and whether it is a directory.\<close>

definition migration_names :: "(string \<times> bool) list \<Rightarrow> string list" where
  "migration_names entries = sort (map fst (filter (\<lambda>(_, isDir). \<not> isDir) entries))"

definition Migrate :: "(string \<Rightarrow> 'd \<Rightarrow> 'd option) \<Rightarrow> (string \<times> bool) list \<Rightarrow> (string \<rightharpoonup> string) \<Rightarrow> (nat \<Rightarrow> call_outcome) \<Rightarrow>
   'd schema \<Rightarrow> migrate_error option \<times> 'd schema" where
  "Migrate exec entries files out s =
     (let (o1, s) = sc_call out s; s = (if o1 = Failed then s else s\<lparr>sc_table := True\<rparr>) in
      if o1 \<noteq> Done then (Some CreateFailed, s)
      else migrate_all exec files out (migration_names entries) s)"

section \<open>main.go\<close>

text \<open>\<^verbatim>\<open>envInt\<close> and \<^verbatim>\<open>envBool\<close>, which do not trim, and the registry that is built from them.\<close>

definition main_envInt :: "env \<Rightarrow> string \<Rightarrow> int \<Rightarrow> int" where
  "main_envInt env key def = (case atoi (env key) of None \<Rightarrow> def | Some v \<Rightarrow> v)"

definition main_envBool :: "env \<Rightarrow> string \<Rightarrow> bool \<Rightarrow> bool" where
  "main_envBool env key def =
     (if env key \<in> {''true'', ''1'', ''yes''} then True
      else if env key \<in> {''false'', ''0'', ''no''} then False
      else def)"

definition main_registry :: "env \<Rightarrow> registry" where
  "main_registry env = server_registry (main_envBool env ''GT06_ACK_GPS'' False)
     (main_envInt env ''H02_BINARY_FRAME_LENGTH'' 0) (main_envBool env ''TKSTAR_V4_CAPTURE'' False)"

definition logProtocols :: "registry \<Rightarrow> (log_level \<times> string \<times> confidence \<times> nat) list" where
  "logProtocols reg =
     map (\<lambda>d. (if ds_Confidence d \<noteq> Documented then LevelWarn else LevelInfo, ds_Name d, ds_Confidence d, length (ds_Commands d)))
       (reg_Descriptors reg)"

text \<open>\<^verbatim>\<open>runWorkers\<close>: a sweep at the start, then one task for each tick.  The cache of the addresses is beside
  the database.\<close>

datatype worker_tick = StatusTick time | CommandTick time | CleanupTick time

definition worker_step :: "config \<Rightarrow> worker_tick \<Rightarrow> 'x auth_world_scheme \<times> geo_cache \<Rightarrow> 'x auth_world_scheme \<times> geo_cache" where
  "worker_step cfg tick = (\<lambda>(w, cache).
     case tick of
       StatusTick now \<Rightarrow> (ingest_SweepStatuses (track_config.truncate (cf_Tracking cfg)) now w, cache)
     | CommandTick now \<Rightarrow> (SweepTimeouts now w, cache)
     | CleanupTick now \<Rightarrow>
         (snd (raw_DeleteOlderThan (now - 30 * 24 * 3600 * second) (CleanupExpiredTokens now w)), PurgeExpired now cache))"

definition runWorkers :: "config \<Rightarrow> time \<Rightarrow> worker_tick list \<Rightarrow> 'x auth_world_scheme \<times> geo_cache \<Rightarrow> 'x auth_world_scheme \<times> geo_cache" where
  "runWorkers cfg now ticks = (\<lambda>(w, cache).
     fold (worker_step cfg) ticks (ingest_SweepStatuses (track_config.truncate (cf_Tracking cfg)) now w, cache))"

section \<open>Migrations are applied once, in order\<close>

text \<open>The data after the migrations of a list of names, one after the other.\<close>

fun apply_migrations :: "(string \<Rightarrow> 'd \<Rightarrow> 'd option) \<Rightarrow> (string \<rightharpoonup> string) \<Rightarrow> string list \<Rightarrow> 'd \<Rightarrow> 'd option" where
  "apply_migrations exec files [] d = Some d"
| "apply_migrations exec files (n # ns) d =
     (case files n of None \<Rightarrow> None | Some body \<Rightarrow>
        (case exec body d of None \<Rightarrow> None | Some d' \<Rightarrow> apply_migrations exec files ns d'))"

lemma apply_migrations_append:
  "apply_migrations exec files (xs @ ys) d =
     (case apply_migrations exec files xs d of None \<Rightarrow> None | Some d' \<Rightarrow> apply_migrations exec files ys d')"
  by (induction xs arbitrary: d) (auto split: option.splits)

definition migrated :: "(string \<Rightarrow> 'd \<Rightarrow> 'd option) \<Rightarrow> (string \<rightharpoonup> string) \<Rightarrow> string list \<Rightarrow> 'd \<Rightarrow> nat \<Rightarrow> 'd schema \<Rightarrow> bool" where
  "migrated exec files names d0 k s \<longleftrightarrow> k \<le> length names \<and> sc_versions s = take k names
     \<and> apply_migrations exec files (take k names) d0 = Some (sc_data s)"

lemma migrate_one_cases:
  obtains (same) e s' where "migrate_one exec files out name s = (Some e, s')" "sc_versions s' = sc_versions s" "sc_data s' = sc_data s"
  | (skip) s' where "migrate_one exec files out name s = (None, s')" "name \<in> set (sc_versions s)" "sc_versions s' = sc_versions s"
      "sc_data s' = sc_data s"
  | (applied) r s' body d where "migrate_one exec files out name s = (r, s')" "name \<notin> set (sc_versions s)" "files name = Some body"
      "exec body (sc_data s) = Some d" "sc_data s' = d" "sc_versions s' = sc_versions s @ [name]"
  by (cases "migrate_one exec files out name s")
    (auto simp: migrate_one_def sc_call_def Let_def split: if_splits option.splits call_outcome.splits)

lemma migrate_one_migrated:
  assumes "distinct names" and "migrated exec files names d0 k s" and "i \<le> k" and "i < length names"
    and "migrate_one exec files out (names ! i) s = (r, s')"
  shows "\<exists>k'. migrated exec files names d0 k' s' \<and> k \<le> k' \<and> (r = None \<longrightarrow> i < k')"
proof (cases rule: migrate_one_cases[of exec files out "names ! i" s])
  case (same e t)
  then show ?thesis using assms(2,5) by (auto simp: migrated_def)
next
  case (skip t)
  then have "names ! i \<in> set (take k names)" using assms(2) by (simp add: migrated_def)
  then have "i < k" using assms(1,4) by (auto simp: in_set_conv_nth nth_eq_iff_index_eq)
  then show ?thesis using skip assms(2,5) by (auto simp: migrated_def)
next
  case (applied q t body d)
  have "\<not> i < k" using applied(2) assms(2,4) by (auto simp: migrated_def in_set_conv_nth)
  then have k: "k = i" using assms(3) by simp
  then have "take (Suc k) names = take k names @ [names ! i]" using assms(4) by (simp add: take_Suc_conv_app_nth)
  then have "migrated exec files names d0 (Suc k) s'"
    using applied assms(2,4,5) k by (simp add: migrated_def apply_migrations_append)
  then show ?thesis using k by (intro exI[of _ "Suc k"]) simp
qed

lemma migrate_all_migrated:
  assumes "distinct names" and "migrated exec files names d0 k s" and "i \<le> k" and "i \<le> length names"
    and "migrate_all exec files out (drop i names) s = (r, s')"
  shows "\<exists>k'. migrated exec files names d0 k' s' \<and> k \<le> k' \<and> (r = None \<longrightarrow> k' = length names)"
  using assms
proof (induction "drop i names" arbitrary: i k s)
  case Nil
  then show ?case by (auto simp: migrated_def)
next
  case (Cons n ns)
  then have i: "i < length names" by (metis drop_all list.distinct(1) not_le_imp_less)
  then have d: "drop i names = names ! i # drop (Suc i) names" by (simp add: Cons_nth_drop_Suc)
  obtain q t where one: "migrate_one exec files out (names ! i) s = (q, t)" by (cases "migrate_one exec files out (names ! i) s")
  obtain k' where k': "migrated exec files names d0 k' t" "k \<le> k'" "q = None \<Longrightarrow> i < k'"
    using migrate_one_migrated[OF Cons.prems(1,2,3) i one] by blast
  show ?case
  proof (cases q)
    case None
    then have "migrate_all exec files out (drop (Suc i) names) t = (r, s')" using Cons.prems(5) d one by simp
    then show ?thesis
      using Cons.hyps(1)[of "Suc i" k' t] Cons.hyps(2) d Cons.prems(1) k' None i by (auto intro: order_trans)
  next
    case (Some e)
    then show ?thesis using Cons.prems(5) d one k' by auto
  qed
qed

lemma Migrate_migrated:
  assumes "distinct (migration_names entries)" and "migrated exec files (migration_names entries) d0 k s"
    and "Migrate exec entries files out s = (r, s')"
  shows "\<exists>k'. migrated exec files (migration_names entries) d0 k' s' \<and> k \<le> k' \<and> (r = None \<longrightarrow> k' = length (migration_names entries))"
proof -
  define t where "t = (let t = s\<lparr>sc_calls := Suc (sc_calls s)\<rparr> in if out (sc_calls s) = Failed then t else t\<lparr>sc_table := True\<rparr>)"
  have t: "migrated exec files (migration_names entries) d0 k t" using assms(2) by (simp add: t_def migrated_def Let_def)
  show ?thesis
  proof (cases "out (sc_calls s) = Done")
    case True
    then have "migrate_all exec files out (drop 0 (migration_names entries)) t = (r, s')"
      using assms(3) by (simp add: Migrate_def sc_call_def t_def Let_def)
    from migrate_all_migrated[OF assms(1) t _ _ this] show ?thesis by simp
  next
    case False
    then show ?thesis using assms(3) t by (auto simp: Migrate_def sc_call_def t_def Let_def)
  qed
qed

lemma migrate_all_succeeds:
  assumes "migrated exec files names d0 k s" and "distinct names" and "apply_migrations exec files names d0 \<noteq> None"
    and "i \<le> k" and "i \<le> length names"
  shows "fst (migrate_all exec files (\<lambda>_. Done) (drop i names) s) = None"
  using assms
proof (induction "drop i names" arbitrary: i k s)
  case Nil
  then show ?case by simp
next
  case (Cons n ns)
  then have i: "i < length names" by (metis drop_all list.distinct(1) not_le_imp_less)
  then have d: "drop i names = names ! i # drop (Suc i) names" by (simp add: Cons_nth_drop_Suc)
  obtain q t where one: "migrate_one exec files (\<lambda>_. Done) (names ! i) s = (q, t)"
    by (cases "migrate_one exec files (\<lambda>_. Done) (names ! i) s")
  have q: "q = None"
  proof (cases "names ! i \<in> set (sc_versions s)")
    case True
    then show ?thesis using one by (auto simp: migrate_one_def sc_call_def)
  next
    case False
    then have "\<not> i < k" using Cons.prems(1) i by (auto simp: migrated_def in_set_conv_nth)
    then have "k = i" using Cons.prems(4) by simp
    then have "apply_migrations exec files (take i names @ drop i names) d0 = apply_migrations exec files (drop i names) (sc_data s)"
      using Cons.prems(1) unfolding apply_migrations_append by (simp add: migrated_def)
    then have "apply_migrations exec files (names ! i # drop (Suc i) names) (sc_data s) \<noteq> None"
      using Cons.prems(3) unfolding append_take_drop_id unfolding d by metis
    then show ?thesis using one False by (auto simp: migrate_one_def sc_call_def Let_def split: option.splits)
  qed
  obtain k' where "migrated exec files names d0 k' t" "i < k'"
    using migrate_one_migrated[OF Cons.prems(2,1,4) i one] q by blast
  then show ?case
    using Cons.hyps(1)[of "Suc i" k' t] Cons.hyps(2) d Cons.prems(2,3) i one q by simp
qed

text \<open>The state after a number of starts of the server, each with its own failures.\<close>

definition starts :: "(string \<Rightarrow> 'd \<Rightarrow> 'd option) \<Rightarrow> (string \<times> bool) list \<Rightarrow> (string \<rightharpoonup> string) \<Rightarrow> (nat \<Rightarrow> call_outcome) list \<Rightarrow>
   'd \<Rightarrow> 'd schema" where
  "starts exec entries files outs d0 =
     foldl (\<lambda>s out. snd (Migrate exec entries files out s)) \<lparr> sc_table = False, sc_versions = [], sc_data = d0, sc_calls = 0 \<rparr> outs"

lemma starts_migrated:
  assumes "distinct (migration_names entries)"
  shows "\<exists>k. migrated exec files (migration_names entries) d0 k (starts exec entries files outs d0)"
proof (induction outs rule: rev_induct)
  case Nil
  have "migrated exec files (migration_names entries) d0 0 (starts exec entries files [] d0)"
    by (simp add: starts_def migrated_def)
  then show ?case by blast
next
  case (snoc out outs)
  then obtain k where "migrated exec files (migration_names entries) d0 k (starts exec entries files outs d0)" by blast
  then obtain k' where "migrated exec files (migration_names entries) d0 k' (snd (Migrate exec entries files out (starts exec entries files outs d0)))"
    using Migrate_migrated[OF assms, of exec files d0 k _ out] by (metis prod.collapse)
  then show ?case by (auto simp: starts_def)
qed

lemma distinct_migration_names: "distinct (map fst entries) \<Longrightarrow> distinct (migration_names entries)"
  unfolding migration_names_def by (simp add: distinct_map inj_on_def)

text \<open>Property C33: the migrations are applied once and in order.  After any number of starts on an
  empty database, with any calls failing in each, also with commits whose answer is lost, the
  versions recorded are the first ones of the sorted names and the data is what exactly these
  migrations give, one after the other; a start that reports success has applied all of them, and
  one in which nothing fails reports success if PostgreSQL accepts every migration.\<close>

theorem migrations_once:
  assumes "distinct (map fst entries)"
    and "Migrate exec entries files out (starts exec entries files outs d0) = (r, s)"
  shows "\<exists>k. migrated exec files (migration_names entries) d0 k s
      \<and> (r = None \<longrightarrow> k = length (migration_names entries))
      \<and> (out = (\<lambda>_. Done) \<and> apply_migrations exec files (migration_names entries) d0 \<noteq> None \<longrightarrow> r = None)"
proof -
  note dist = distinct_migration_names[OF assms(1)]
  obtain k where k: "migrated exec files (migration_names entries) d0 k (starts exec entries files outs d0)"
    using starts_migrated[OF dist, of exec files d0 outs] by blast
  obtain k' where "migrated exec files (migration_names entries) d0 k' s" "r = None \<longrightarrow> k' = length (migration_names entries)"
    using Migrate_migrated[OF dist k assms(2)] by blast
  moreover have "r = None" if "out = (\<lambda>_. Done)" "apply_migrations exec files (migration_names entries) d0 \<noteq> None"
  proof -
    define t where "t = (starts exec entries files outs d0)\<lparr>sc_calls := Suc (sc_calls (starts exec entries files outs d0)), sc_table := True\<rparr>"
    have "migrated exec files (migration_names entries) d0 k t" using k by (simp add: t_def migrated_def)
    from migrate_all_succeeds[OF this dist that(2), of 0]
    have "fst (migrate_all exec files (\<lambda>_. Done) (migration_names entries) t) = None" by simp
    then show ?thesis using assms(2) that(1) by (simp add: Migrate_def sc_call_def t_def Let_def)
  qed
  ultimately show ?thesis by blast
qed

definition sample_exec :: "string \<Rightarrow> string \<Rightarrow> string option" where
  "sample_exec body d = Some (d @ body)"

definition sample_entries :: "(string \<times> bool) list" where
  "sample_entries = [(''0002.sql'', False), (''old'', True), (''0001.sql'', False)]"

definition sample_files :: "string \<rightharpoonup> string" where
  "sample_files n = Some n"

text \<open>The first start loses the answer of its first commit, the second one succeeds.\<close>

definition sample_lost :: "nat \<Rightarrow> call_outcome" where
  "sample_lost n = (if n = 5 then LostReply else Done)"

lemma sample_second_start:
  "Migrate sample_exec sample_entries sample_files (\<lambda>_. Done) (starts sample_exec sample_entries sample_files [sample_lost] []) =
     (None, \<lparr> sc_table = True, sc_versions = [''0001.sql'', ''0002.sql''], sc_data = ''0001.sql0002.sql'', sc_calls = 13 \<rparr>)"
  by code_simp

theorem migrations_once_witness:
  "\<exists>k. migrated sample_exec sample_files (migration_names sample_entries) [] k
      \<lparr> sc_table = True, sc_versions = [''0001.sql'', ''0002.sql''], sc_data = ''0001.sql0002.sql'', sc_calls = 13 \<rparr>
    \<and> k = length (migration_names sample_entries)"
  using migrations_once[OF _ sample_second_start] by (auto simp: sample_entries_def)

end
