(* ===== verification/Api_Read.thy ===== *)
theory Api_Read
  imports Api_Props
begin

text \<open>
  The handlers of \<^verbatim>\<open>internal/api\<close> that only read: the views of vehicles and devices, positions, events, the
  audit trail, the captured packets, the connections and the readiness of the server.  The manager of
  the connections is the argument \<open>t\<close>.  The order of vehicles by name depends on the collation of the
  database, the argument \<open>collate\<close>.
\<close>

section \<open>handlers_vehicles.go\<close>

record vehicle_view =
  vv_Vehicle :: vehicle
  vv_Device :: "device option"
  vv_LastPosition :: "position option"
  vv_State :: "dev_state option"
  vv_Connected :: bool

definition is_connected :: "tcp_state \<Rightarrow> device \<Rightarrow> bool" where
  "is_connected t d = (mgr_Get t (dv_IMEI d) \<noteq> None)"

definition veh_List :: "(vehicle list \<Rightarrow> vehicle list) \<Rightarrow>
   'x fleet_world_scheme \<Rightarrow> (db_error + vehicle list) \<times> 'x fleet_world_scheme" where
  "veh_List collate = db_call (\<lambda>w. (Inr (collate (w_vehicles w)), w))"

text \<open>The body of the loop: the view of one vehicle from the maps of the devices and positions.\<close>

definition list_view :: "tcp_state \<Rightarrow> (uuid \<rightharpoonup> device) \<Rightarrow> (uuid \<rightharpoonup> position) \<Rightarrow> (uuid \<rightharpoonup> dev_state) \<Rightarrow> vehicle \<Rightarrow> vehicle_view" where
  "list_view t byID positions states v =
     (case ve_DeviceID v of
        None \<Rightarrow> \<lparr> vv_Vehicle = v, vv_Device = None, vv_LastPosition = None, vv_State = None, vv_Connected = False \<rparr>
      | Some d \<Rightarrow> \<lparr> vv_Vehicle = v, vv_Device = byID d, vv_LastPosition = positions d, vv_State = states d,
          vv_Connected = (case byID d of None \<Rightarrow> False | Some dev \<Rightarrow> is_connected t dev) \<rparr>)"

definition handleListVehicles :: "(vehicle list \<Rightarrow> vehicle list) \<Rightarrow> tcp_state \<Rightarrow>
   'x auth_world_scheme \<Rightarrow> vehicle_view list reply \<times> 'x auth_world_scheme" where
  "handleListVehicles collate t w =
     (case veh_List collate w of
        (Inl e, w) \<Rightarrow> (handleStoreError e VehiclesMissing, w)
      | (Inr vs, w) \<Rightarrow>
          (case dev_List w of
             (Inl e, w) \<Rightarrow> (handleStoreError e DevicesMissing, w)
           | (Inr ds, w) \<Rightarrow>
               let byID = map_of (rev (map (\<lambda>d. (dv_ID d, d)) ds)) in
               (case pos_LatestForAll w of
                  (Inl e, w) \<Rightarrow> (handleStoreError e PositionsMissing, w)
                | (Inr positions, w) \<Rightarrow> (Reply 200 (map (list_view t byID positions (\<lambda>d. states_Get d w)) vs), w))))"

definition handleGetVehicle :: "tcp_state \<Rightarrow> uuid option \<Rightarrow> 'x auth_world_scheme \<Rightarrow> vehicle_view reply \<times> 'x auth_world_scheme" where
  "handleGetVehicle t k w =
     (case k of
        None \<Rightarrow> (Fail 400 IdInvalid, w)
      | Some k \<Rightarrow>
          (case veh_GetByID k w of
             (Inl e, w) \<Rightarrow> (handleStoreError e VehicleMissing, w)
           | (Inr v, w) \<Rightarrow>
               (case ve_DeviceID v of
                  None \<Rightarrow> (Reply 200 \<lparr> vv_Vehicle = v, vv_Device = None, vv_LastPosition = None, vv_State = None, vv_Connected = False \<rparr>, w)
                | Some d \<Rightarrow>
                    let (rd, w) = dev_GetByID d w; (rp, w) = pos_Latest d w in
                    (Reply 200 \<lparr> vv_Vehicle = v,
                       vv_Device = (case rd of Inl _ \<Rightarrow> None | Inr dev \<Rightarrow> Some dev),
                       vv_LastPosition = (case rp of Inl _ \<Rightarrow> None | Inr p \<Rightarrow> Some p),
                       vv_State = states_Get d w,
                       vv_Connected = (case rd of Inl _ \<Rightarrow> False | Inr dev \<Rightarrow> is_connected t dev) \<rparr>, w))))"

section \<open>handlers_devices.go\<close>

record device_status_view =
  dsv_Device :: device
  dsv_Connection :: "connection_info option"
  dsv_State :: "dev_state option"
  dsv_LastPosition :: "position option"

definition handleDeviceStatus :: "tcp_state \<Rightarrow> uuid option \<Rightarrow> 'x auth_world_scheme \<Rightarrow> device_status_view reply \<times> 'x auth_world_scheme" where
  "handleDeviceStatus t k w =
     (case k of
        None \<Rightarrow> (Fail 400 IdInvalid, w)
      | Some k \<Rightarrow>
          (case dev_GetByID k w of
             (Inl e, w) \<Rightarrow> (handleStoreError e DeviceMissing, w)
           | (Inr dev, w) \<Rightarrow>
               let state = states_Get (dv_ID dev) w; (rp, w) = pos_Latest (dv_ID dev) w in
               (Reply 200 \<lparr> dsv_Device = dev, dsv_Connection = map_option (conn_Info t) (mgr_Get t (dv_IMEI dev)),
                  dsv_State = state, dsv_LastPosition = (case rp of Inl _ \<Rightarrow> None | Inr p \<Rightarrow> Some p) \<rparr>, w)))"

definition handleListDevices :: "'x auth_world_scheme \<Rightarrow> device list reply \<times> 'x auth_world_scheme" where
  "handleListDevices w =
     (case dev_List w of (Inl e, w) \<Rightarrow> (handleStoreError e DevicesMissing, w) | (Inr ds, w) \<Rightarrow> (Reply 200 ds, w))"

text \<open>The encoder's counter moves: the commands are encoded to be shown, and never sent.\<close>

definition handleDeviceProvisioning :: "registry \<Rightarrow> time \<Rightarrow> 32 word \<Rightarrow> uuid option \<Rightarrow>
   'x auth_world_scheme \<Rightarrow> (device \<times> provisioning list) reply \<times> 32 word \<times> 'x auth_world_scheme" where
  "handleDeviceProvisioning reg now n k w =
     (case k of
        None \<Rightarrow> (Fail 400 IdInvalid, n, w)
      | Some k \<Rightarrow>
          (case dev_GetByID k w of
             (Inl e, w) \<Rightarrow> (handleStoreError e DeviceMissing, n, w)
           | (Inr dev, w) \<Rightarrow>
               (case ProvisioningCommands reg now n dev of (cs, n) \<Rightarrow> (Reply 200 (dev, cs), n, w))))"

section \<open>handlers_tracking.go\<close>

text \<open>A refusal of \<^verbatim>\<open>vehicleFromURL\<close>, which never answers with a value.\<close>

definition refusal :: "unit reply \<Rightarrow> 'a reply" where
  "refusal r = (case r of Fail c e \<Rightarrow> Fail c e | _ \<Rightarrow> Fail 500 InternalError)"

definition handleVehiclePosition :: "uuid option \<Rightarrow>
   'x auth_world_scheme \<Rightarrow> (position option \<times> dev_state option) reply \<times> 'x auth_world_scheme" where
  "handleVehiclePosition k w =
     (case vehicleFromURL k w of
        (Inl r, w) \<Rightarrow> (refusal r, w)
      | (Inr (_, dev), w) \<Rightarrow>
          (case pos_Latest (dv_ID dev) w of
             (Inl ErrNotFound, w) \<Rightarrow> (Reply 200 (None, states_Get (dv_ID dev) w), w)
           | (Inl e, w) \<Rightarrow> (handleStoreError e PositionMissing, w)
           | (Inr p, w) \<Rightarrow> (Reply 200 (Some p, states_Get (dv_ID dev) w), w)))"

definition handleVehicleEvents :: "(string \<Rightarrow> time option) \<Rightarrow> time \<Rightarrow> uuid option \<Rightarrow> string \<Rightarrow> string \<Rightarrow> string list \<Rightarrow> string \<Rightarrow>
   'x auth_world_scheme \<Rightarrow> event list reply \<times> 'x auth_world_scheme" where
  "handleVehicleEvents rfc3339 now k from to types limit w =
     (case vehicleFromURL k w of
        (Inl r, w) \<Rightarrow> (refusal r, w)
      | (Inr (_, dev), w) \<Rightarrow>
          (case queryTime rfc3339 ''to'' to now of
             Inl e \<Rightarrow> (Fail 400 e, w)
           | Inr t1 \<Rightarrow>
               (case queryTime rfc3339 ''from'' from (t1 - 7 * 24 * 3600 * second) of
                  Inl e \<Rightarrow> (Fail 400 e, w)
                | Inr t0 \<Rightarrow>
                    (case db_call (\<lambda>w. (Inr (event_List \<lparr> eq_DeviceID = dv_ID dev, eq_From = t0, eq_To = t1, eq_Types = types,
                              eq_Limit = queryInt limit 200 \<rparr> w), w)) w of
                       (Inl e, w) \<Rightarrow> (handleStoreError e EventsMissing, w)
                     | (Inr es, w) \<Rightarrow> (Reply 200 es, w)))))"

definition handleRecentEvents :: "string \<Rightarrow> 'x auth_world_scheme \<Rightarrow> event list reply \<times> 'x auth_world_scheme" where
  "handleRecentEvents limit w =
     (case db_call (\<lambda>w. (Inr (event_ListRecent (queryInt limit 100) w), w)) w of
        (Inl e, w) \<Rightarrow> (handleStoreError e EventsMissing, w)
      | (Inr es, w) \<Rightarrow> (Reply 200 es, w))"

section \<open>handlers_diagnostics.go, handlers_auth.go\<close>

definition handleConnections :: "tcp_state \<Rightarrow> (nat \<times> connection_info list) reply" where
  "handleConnections t = Reply 200 (mgr_Count t, mgr_List t)"

definition handleRawPackets :: "string \<Rightarrow> 'x auth_world_scheme \<Rightarrow> raw_packet list reply \<times> 'x auth_world_scheme" where
  "handleRawPackets limit w =
     (case raw_List (queryInt limit 100) w of
        (Inl e, w) \<Rightarrow> (handleStoreError e CaptureMissing, w) | (Inr ps, w) \<Rightarrow> (Reply 200 ps, w))"

text \<open>An identifier of the query: absent, or a text for \<^verbatim>\<open>uuid.Parse\<close>.\<close>

definition query_uuid :: "string \<Rightarrow> (string \<Rightarrow> uuid option) \<Rightarrow> string \<Rightarrow> api_error + uuid option" where
  "query_uuid name parse raw =
     (if raw = '''' then Inr None else case parse raw of None \<Rightarrow> Inl (QueryIdInvalid name) | Some k \<Rightarrow> Inr (Some k))"

definition handleAuditLogs :: "(string \<Rightarrow> uuid option) \<Rightarrow> string \<Rightarrow> string \<Rightarrow> string \<Rightarrow>
   'x auth_world_scheme \<Rightarrow> audit_entry list reply \<times> 'x auth_world_scheme" where
  "handleAuditLogs parse deviceId vehicleId limit w =
     (case query_uuid ''deviceId'' parse deviceId of
        Inl e \<Rightarrow> (Fail 400 e, w)
      | Inr d \<Rightarrow>
          (case query_uuid ''vehicleId'' parse vehicleId of
             Inl e \<Rightarrow> (Fail 400 e, w)
           | Inr v \<Rightarrow>
               (case audit_List d v (queryInt limit 100) w of
                  (Inl e, w) \<Rightarrow> (handleStoreError e AuditMissing, w) | (Inr es, w) \<Rightarrow> (Reply 200 es, w))))"

definition handleListUsers :: "'x auth_world_scheme \<Rightarrow> user list reply \<times> 'x auth_world_scheme" where
  "handleListUsers w =
     (case user_List w of (Inl e, w) \<Rightarrow> (handleStoreError e UsersMissing, w) | (Inr us, w) \<Rightarrow> (Reply 200 us, w))"

datatype readiness = Degraded | Ready nat nat nat

definition handleReady :: "bool \<Rightarrow> tcp_state \<Rightarrow> nat \<Rightarrow> registry \<Rightarrow> readiness reply" where
  "handleReady ping t hubClients reg =
     (if \<not> ping then Reply 503 Degraded else Reply 200 (Ready (mgr_Count t) hubClients (length reg)))"

section \<open>The list and the detail agree\<close>

lemma db_call_no_faults: "w_faults w = [] \<Longrightarrow> db_call f w = f w"
  by (simp add: db_call_def)

definition light_view :: "vehicle_view \<Rightarrow> vehicle_view" where
  "light_view x = x\<lparr>vv_LastPosition := map_option scanLight (vv_LastPosition x)\<rparr>"

lemma find_unique:
  assumes "distinct (map f xs)" and "x \<in> set xs"
  shows "find (\<lambda>y. f y = f x) xs = Some x"
  using assms by (induction xs) (auto simp: rev_image_eqI)

lemma map_of_sorted_devices:
  assumes "distinct (map dv_ID ds)"
  shows "map_of (rev (map (\<lambda>d. (dv_ID d, d)) (sort_key key ds))) k = find (\<lambda>d. dv_ID d = k) ds"
proof (cases "\<exists>d\<in>set ds. dv_ID d = k")
  case True
  then obtain d where d: "d \<in> set ds" "dv_ID d = k" by blast
  let ?kv = "rev (map (\<lambda>d. (dv_ID d, d)) (sort_key key ds))"
  have "distinct (map dv_ID (sort_key key ds))" using assms by (simp add: distinct_map)
  then have "distinct (map fst ?kv)" by (simp add: rev_map[symmetric] comp_def)
  then have "map_of ?kv k = Some d" using d by (simp add: map_of_eq_Some_iff image_iff)
  then show ?thesis using find_unique[OF assms d(1)] d(2) by simp
next
  case False
  then have "find (\<lambda>d. dv_ID d = k) ds = None" by (auto simp: find_None_iff)
  moreover have "map_of (rev (map (\<lambda>d. (dv_ID d, d)) (sort_key key ds))) k = None"
    using False by (auto simp: map_of_eq_None_iff image_iff)
  ultimately show ?thesis by simp
qed

text \<open>What the detail shows when no statement fails.\<close>

lemma handleGetVehicle_no_faults:
  assumes "w_faults w = []" and "find (\<lambda>v. ve_ID v = k) (w_vehicles w) = Some v"
  shows "fst (handleGetVehicle t (Some k) w) = Reply 200 (list_view t (\<lambda>d. find (\<lambda>x. dv_ID x = d) (w_devices w))
    (\<lambda>d. latest (filter (\<lambda>p. ps_DeviceID p = d) (w_positions w))) (\<lambda>d. states_Get d w) v)"
proof -
  have v: "veh_GetByID k w = (Inr v, w)" using assms by (simp add: veh_GetByID_def db_call_no_faults)
  have d: "dev_GetByID d w = (case find (\<lambda>x. dv_ID x = d) (w_devices w) of None \<Rightarrow> (Inl ErrNotFound, w) | Some x \<Rightarrow> (Inr x, w))" for d
    using assms(1) by (simp add: dev_GetByID_def db_call_no_faults)
  have p: "pos_Latest d w = (case latest (filter (\<lambda>p. ps_DeviceID p = d) (w_positions w)) of None \<Rightarrow> (Inl ErrNotFound, w) | Some x \<Rightarrow> (Inr x, w))" for d
    using assms(1) by (simp add: pos_Latest_def select_one_def db_call_no_faults)
  show ?thesis
    by (cases "ve_DeviceID v") (auto simp: handleGetVehicle_def list_view_def v d p split: option.splits)
qed

text \<open>Property C35: a vehicle looks the same in the list and alone.  When no statement fails, the list has
  one view for each vehicle, in the order of the database, and it is the view that the request for
  that vehicle alone answers, but for the payload of the position, which the list does not carry.\<close>

theorem list_agrees_with_detail:
  assumes "w_faults w = []" and "distinct (map ve_ID (w_vehicles w))" and "distinct (map dv_ID (w_devices w))"
    and "set (collate (w_vehicles w)) = set (w_vehicles w)"
  shows "\<exists>details. fst (handleListVehicles collate t w) = Reply 200 (map light_view details)
    \<and> map vv_Vehicle details = collate (w_vehicles w)
    \<and> map (\<lambda>v. fst (handleGetVehicle t (Some (ve_ID v)) w)) (collate (w_vehicles w)) = map (Reply 200) details"
proof -
  let ?pos = "\<lambda>d. latest (filter (\<lambda>p. ps_DeviceID p = d) (w_positions w))"
  let ?detail = "list_view t (\<lambda>d. find (\<lambda>x. dv_ID x = d) (w_devices w)) ?pos (\<lambda>d. states_Get d w)"
  have light: "light_view (?detail v) = list_view t (\<lambda>d. find (\<lambda>x. dv_ID x = d) (w_devices w))
      (\<lambda>d. map_option scanLight (?pos d)) (\<lambda>d. states_Get d w) v" for v
    by (simp add: light_view_def list_view_def split: option.split)
  have byID: "map_of (rev (map (\<lambda>d. (dv_ID d, d)) (sort_key dv_CreatedAt (w_devices w)))) = (\<lambda>d. find (\<lambda>x. dv_ID x = d) (w_devices w))"
    by (rule ext) (rule map_of_sorted_devices[OF assms(3)])
  have "fst (handleListVehicles collate t w) = Reply 200 (map light_view (map ?detail (collate (w_vehicles w))))"
    using assms(1) by (simp add: handleListVehicles_def veh_List_def dev_List_def pos_LatestForAll_def db_call_no_faults
        byID light)
  moreover have "map vv_Vehicle (map ?detail vs) = vs" for vs
    by (induction vs) (simp_all add: list_view_def split: option.split)
  moreover have "fst (handleGetVehicle t (Some (ve_ID v)) w) = Reply 200 (?detail v)" if "v \<in> set (collate (w_vehicles w))" for v
    using that assms(4) by (intro handleGetVehicle_no_faults[OF assms(1)] find_unique[OF assms(2)]) simp
  ultimately show ?thesis by (intro exI[of _ "map ?detail (collate (w_vehicles w))"]) simp
qed

definition sample_vehicle :: vehicle where
  "sample_vehicle = \<lparr> ve_ID = 5, ve_Name = ''Van'', ve_Plate = [], ve_Brand = [], ve_Model = [], ve_Year = None, ve_Color = [],
     ve_SpeedLimitKmh = None, ve_DeviceID = Some (dv_ID sample_device), ve_CreatedAt = 0, ve_UpdatedAt = 0 \<rparr>"

definition sample_fleet :: auth_world where
  "sample_fleet = sample_auth\<lparr>w_vehicles := [sample_vehicle]\<rparr>"

lemma sample_fleet_facts:
  "w_faults sample_fleet = []" "w_vehicles sample_fleet = [sample_vehicle]" "w_devices sample_fleet = [sample_device]"
  by (simp_all add: sample_fleet_def sample_auth_def track_world.defs sample_track_def)

theorem list_agrees_with_detail_witness:
  "\<exists>details. fst (handleListVehicles rev sample_tcp sample_fleet) = Reply 200 (map light_view details)
    \<and> map vv_Vehicle details = rev (w_vehicles sample_fleet)
    \<and> map (\<lambda>v. fst (handleGetVehicle sample_tcp (Some (ve_ID v)) sample_fleet)) (rev (w_vehicles sample_fleet)) = map (Reply 200) details"
  by (rule list_agrees_with_detail) (simp_all add: sample_fleet_facts)

section \<open>Reading changes nothing\<close>

text \<open>A statement that selects: it fails or answers, and the tables are as before.\<close>

definition only_reads :: "('x auth_world_scheme \<Rightarrow> 'a \<times> 'x auth_world_scheme) \<Rightarrow> bool" where
  "only_reads f \<longleftrightarrow> (\<forall>w. \<exists>fs. snd (f w) = w\<lparr>w_faults := fs\<rparr>)"

lemma only_readsI: "(\<And>w. \<exists>fs. snd (f w) = w\<lparr>w_faults := fs\<rparr>) \<Longrightarrow> only_reads f"
  by (simp add: only_reads_def)

lemma only_reads_db_call:
  assumes "\<And>w. snd (f w) = w"
  shows "only_reads (db_call f)"
proof (rule only_readsI)
  fix w
  show "\<exists>fs. snd (db_call f w) = w\<lparr>w_faults := fs\<rparr>"
    by (cases rule: db_call_cases[of f w]) (use assms in auto)
qed

lemma only_reads_statements:
  "only_reads (veh_GetByID k)" "only_reads (dev_GetByID k)" "only_reads (pos_Latest d)" "only_reads (veh_List collate)"
  "only_reads dev_List" "only_reads pos_LatestForAll" "only_reads (raw_List n)" "only_reads (audit_List d' v' m)" "only_reads user_List"
  unfolding veh_GetByID_def dev_GetByID_def pos_Latest_def select_one_def veh_List_def dev_List_def pos_LatestForAll_def raw_List_def
    audit_List_def user_List_def
  by (intro only_reads_db_call; simp split: option.split)+

text \<open>What only reads, followed by what only reads whatever the answer was.\<close>

lemma only_reads_seq:
  assumes "only_reads f" and "\<And>w0 r. only_reads (g w0 r)"
  shows "only_reads (\<lambda>w. case f w of (r, w') \<Rightarrow> g w r w')"
proof (rule only_readsI)
  fix w
  obtain r w' where f: "f w = (r, w')" by (cases "f w")
  obtain fs where "w' = w\<lparr>w_faults := fs\<rparr>" using assms(1) f unfolding only_reads_def by (metis snd_conv)
  moreover obtain fs' where "snd (g w r w') = w'\<lparr>w_faults := fs'\<rparr>" using assms(2) unfolding only_reads_def by blast
  ultimately show "\<exists>fs. snd (case f w of (r, w') \<Rightarrow> g w r w') = w\<lparr>w_faults := fs\<rparr>"
    using f by (intro exI[of _ fs']) simp
qed

lemma only_reads_bind:
  assumes "only_reads f" and "\<And>e. only_reads (g e)" and "\<And>a. only_reads (h a)"
  shows "only_reads (\<lambda>w. case f w of (Inl e, w) \<Rightarrow> g e w | (Inr a, w) \<Rightarrow> h a w)"
proof -
  have "only_reads (\<lambda>w. case r of Inl e \<Rightarrow> g e w | Inr a \<Rightarrow> h a w)" for r using assms(2,3) by (cases r) auto
  from only_reads_seq[OF assms(1) this] show ?thesis by simp
qed

lemma only_reads_answer:
  fixes F :: "'x auth_world_scheme \<Rightarrow> 'a"
  shows "only_reads (\<lambda>w. (F w, w))"
proof (rule only_readsI)
  fix w :: "'x auth_world_scheme"
  have "w = w\<lparr>w_faults := w_faults w\<rparr>" by simp
  then show "\<exists>fs. snd (F w, w) = w\<lparr>w_faults := fs\<rparr>" by (metis snd_conv)
qed

lemmas only_reads_rules = only_reads_bind only_reads_answer only_reads_statements only_reads_seq

lemma only_reads_option:
  assumes "only_reads f" and "\<And>a. only_reads (g a)"
  shows "only_reads (\<lambda>w. case x of None \<Rightarrow> f w | Some a \<Rightarrow> g a w)"
  using assms by (cases x) auto

lemma only_reads_sum:
  assumes "\<And>e. only_reads (f e)" and "\<And>a. only_reads (g a)"
  shows "only_reads (\<lambda>w. case x of Inl e \<Rightarrow> f e w | Inr a \<Rightarrow> g a w)"
  using assms by (cases x) auto

text \<open>The handlers that read leave every table and every state as it was, whatever fails.\<close>

theorem reads_change_nothing:
  "only_reads (handleListVehicles collate t)" "only_reads (handleGetVehicle t k)" "only_reads (handleDeviceStatus t k)"
  "only_reads handleListDevices" "only_reads handleListUsers" "only_reads (handleRawPackets limit)"
  "only_reads (handleAuditLogs parse d v limit)" "only_reads (handleRecentEvents limit)"
  unfolding handleListVehicles_def handleGetVehicle_def handleDeviceStatus_def handleListDevices_def handleListUsers_def
    handleRawPackets_def handleAuditLogs_def handleRecentEvents_def Let_def
  by (intro only_reads_rules only_reads_option only_reads_sum only_reads_db_call; simp)+

end
