(* ===== verification/Spec2Isabelle.thy ===== *)
theory Spec2Isabelle
  imports GT06_Props H02_Props TKStar_Props Registry TCP_Props Devices_Props Commands_Props Tracking_Props Api_Props Hub
    GT06_Position Settings Geocoding Simulator Server_Process Api_Read
begin

text \<open>
  A verification library for the backend of a vehicle tracking platform, \<^verbatim>\<open>src/backend\<close>, a server
  written in Go.  Trackers in vehicles connect over TCP and speak one of three families of protocols;
  the server decodes what they send, stores positions and events, tells browsers about them over
  WebSockets, and sends commands back, the dangerous one being the cut of the engine.  Operators use
  an HTTP interface with roles.

  \<^bold>\<open>How the parts fit together.\<close>  A session (\<^verbatim>\<open>internal/tcp/session.go\<close>) collects the bytes of a
  connection, asks the registry which protocol they are, cuts frames with \<^verbatim>\<open>NextFrame\<close> and hands each
  parsed message to the ingestor (\<^verbatim>\<open>internal/tracking/ingestor.go\<close>).  The ingestor finds the device,
  keeps its state, inserts a position, records events and publishes messages; an answer to a command
  goes to the command service (\<^verbatim>\<open>internal/commands/service.go\<close>), which keeps the life cycle of each
  command in a table and writes to the connection that the manager (\<^verbatim>\<open>internal/tcp/connection.go\<close>)
  holds for the device.  The handlers (\<^verbatim>\<open>internal/api\<close>) call the services for a principal that
  \<^verbatim>\<open>internal/auth\<close> has authenticated, and the hub (\<^verbatim>\<open>internal/websocket\<close>) distributes what is published.

  \<^bold>\<open>The theories.\<close>
  \<^item> \<open>Go_Base\<close>, \<open>Go_Float\<close>, \<open>Go_Time\<close>, \<open>Go_Calendar\<close>, \<open>Go_Crypto\<close>: what the program uses of Go and its standard library:
    bytes and strings, integers at their width, hexadecimal and decimal texts, \<^verbatim>\<open>float64\<close> as NaN,
    infinities and rounded rationals, instants as nanoseconds with their calendar and its inverse,
    SHA-256 and base64.
  \<^item> \<open>Tracker\<close>: the messages, commands, validation and the interface of a protocol
    (\<^verbatim>\<open>protocols/tracker.go\<close>, \<^verbatim>\<open>coordinates.go\<close>).  \<open>GT06\<close>, \<open>H02\<close>, \<open>TKStar\<close>: the three families, with the frames,
    the parser, the encoder of commands, and for GT06 the device side (\<open>GT06_Position\<close>: the frames of
    positions and alarms).  \<open>Registry\<close>: the choice of a protocol, by name and by detection, as \<^verbatim>\<open>main.go\<close> registers them.
  \<^item> \<open>TCP_Conn\<close>, \<open>TCP_Session\<close>: connections, the manager, a session and the server.
  \<^item> \<open>Store\<close>: the database as a record of tables that the components extend, its errors, audit
    and events.  \<open>Devices\<close>, \<open>Commands\<close>, \<open>Fleet\<close> (vehicles and geofences), \<open>Tracking\<close> (positions, history,
    simplification, states, captured packets, the telemetry of the engine cut), \<open>Ingest\<close> (the
    pipeline), \<open>Auth\<close>, \<open>Api\<close>, \<open>Hub\<close>: one theory per package or half of one.
  \<^item> \<open>Settings\<close>: the settings from the environment (\<^verbatim>\<open>internal/config\<close>) and the masking of identifiers in
    the logs.  \<open>Geocoding\<close>: addresses behind a cache (\<^verbatim>\<open>internal/geocoding\<close>) and their handler.
    \<open>Api_Read\<close>: the handlers that only read.  \<open>Server_Process\<close>: the migrations and errors of \<^verbatim>\<open>internal/database\<close>, the registry, the announcements
    and the periodic tasks of \<^verbatim>\<open>cmd/server\<close>.  \<open>Simulator\<close>: the tracker that \<^verbatim>\<open>cmd/tksim\<close> plays.
  \<^item> The theories ending in \<open>_Props\<close> hold the properties; those of the registry, the hub and
    the theories of the last two lines stand beside their definitions.

  \<^bold>\<open>How state and operations correspond.\<close>  A struct is a record whose fields keep their names behind a
  short prefix (\<open>dv_IMEI\<close> is \<^verbatim>\<open>Device.IMEI\<close>), a method is a definition with the name of the method, with
  a prefix where several packages use the name (\<open>dev_Create\<close>, \<open>veh_Create\<close>), from the state to the result
  and the new state.  An error is the left side of a sum.  A panic is a value (\<open>Panic\<close> of a session,
  \<open>panic\<close> of the hub), so that its absence can be proved.  The clock, the bytes of \<^verbatim>\<open>crypto/rand\<close> and the
  success of a write are arguments.  A statement of the database is a function on the list of rows;
  the list \<open>w_faults\<close> says which of the next statements fail, so every theorem that does not fix it
  holds under every pattern of failures.  Code outside the repository is a parameter: the record
  \<open>auth_lib\<close> for bcrypt, jwt and uuid, \<open>limiter_lib\<close> for the rate limiter, a function from queries to
  answers for the geocoding service, one from texts to changes of the data for the SQL of a
  migration, and \<open>go_math\<close> for the trigonometric functions, whose last bits Go leaves to the platform,
  as it does the conversion of a number that an integer type cannot hold (\<open>oor\<close>).

  \<^bold>\<open>What is shown.\<close>
  \<^item> Protocols: built frames are framed and decoded to what was put in, and a position to within
    \<open>3 / 10 ^ 7\<close> degrees, with its instant to the second; a damaged GT06 frame is refused;
    an accepted location is on the globe; commands and their answers keep their key and text; the
    binary H02 decoder reads the documented columns; an encoder only encodes what it announces.
  \<^item> TCP: however the network cuts the stream, the frames are the same; no stream makes a session slice
    out of range; the read loop implements framing followed by dispatch; a reconnection wins over the
    clean-up of the old session.  The locale of the protocol interface is interpreted for each
    family, the one of the manager for the association list.
  \<^item> Devices: identity is unique under every sequence of statements; a sweep gives each device the
    status its last packet implies; an accepted override can be encoded.
  \<^item> Commands: the life cycle is a step relation of the statements; under every interleaving a closed
    command stays as it is and the rows stay consistent, and whole requests, answers and sweeps are
    sequences of these steps; an answer closes the command it is for; a sweep closes what is overdue;
    an engine cut is written only with a recent, slow position, first for the service with any
    telemetry, then for the telemetry of the tracking package.
  \<^item> Tracking: the speed detector alternates and is justified; the fence events replay to the stored
    state; the simplification of a track returns and keeps its shape; the history is answered and
    bounded; following the cursors exports every position once.
  \<^item> Composition: an engine command that the server encodes, the device reads, applies and answers is
    read by the server as the acknowledgement of that command, with the truth about the relay.
  \<^item> Surroundings: migrations are applied once and in order whatever fails; an address comes from the
    service, for a coordinate nearby and of the last thirty days; the simulator never cuts at speed; a
    vehicle looks the same in the list and alone.
  \<^item> Access: a refresh token is exchanged at most once; a login's token is that user's session; writing
    needs a role; only an administrator chooses bytes for a tracker.  The hub never panics.
  \<^item> Errors of the program, proved as such: a session that changes identity leaves a ghost entry, an
    answer with an unknown key closes another command, a command can stay open for ever, a buffered
    position passes for a fresh one, deletions are never audited, the limit by address is evaded.

  \<^bold>\<open>Bounds and fuel.\<close>  The loops of the framing and of the sessions are total functions, with the length of
  the buffer as the measure.  The simplification is a \<^theory_text>\<open>partial_function\<close> because it does not return for
  a tolerance that is not a number; that it returns otherwise is a theorem.  The client that follows
  cursors has fuel, and one more than the number of rows is enough.  The bound of the history assumes
  less than \<open>2 ^ 53\<close> rows, below which the quotient of the source is exact enough.

  \<^bold>\<open>Not modelled.\<close>  The handlers of the logs, metrics and traces (\<^verbatim>\<open>internal/telemetry\<close>), the text of the
  address of the database, the construction of the services, listeners and shutdown in \<^verbatim>\<open>cmd/server\<close>,
  the sockets and the output of the simulator, the pumps of the WebSocket handler, the encoding of
  JSON, the normal form of an address for the audit trail, the SQL of the migrations beyond the constraints named above,
  and the frontend: they are calls into libraries whose code is not here.  The order of a listing by a
  text column depends on the collation of the database and is left out.  The sign of a zero is not
  represented, so a coordinate of minus zero has the cache key of zero.  Concurrency is modelled where
  the program relies on it (commands, tokens, hub, saved states) as interleavings of atomic
  statements; elsewhere an operation runs alone, also in the goroutines of the simulator.
\<close>

end
